(* ===== verification/Prelude.thy ===== *)
theory Prelude
  imports Main "HOL-Library.Word" "HOL-Library.Char_ord" "HOL-Library.Sublist"
begin

text \<open>
  Shared vocabulary of the development: the C integer widths, character arrays and the
  string functions of the C library that the firmware calls, the error codes of
  \<^verbatim>\<open>esp_err.h\<close> that the sources mention, and three interfaces used by several
  components: systems whose steps keep an invariant, systems in which some states are
  never left, and codecs between values and byte strings.
\<close>

unbundle bit_operations_syntax

section \<open>Machine integers, bytes and error codes\<close>

type_synonym u8 = "8 word"
type_synonym u16 = "16 word"
type_synonym u32 = "32 word"
type_synonym u64 = "64 word"
type_synonym byte = "8 word"
type_synonym carray = "char list"

text \<open>
  \<open>ESP_ERR_OTHER\<close> stands for every code of the SDK that no source of the firmware names:
  the code only passes such a value on.
\<close>

datatype esp_err =
    ESP_OK
  | ESP_FAIL
  | ESP_ERR_NO_MEM
  | ESP_ERR_INVALID_ARG
  | ESP_ERR_INVALID_STATE
  | ESP_ERR_INVALID_SIZE
  | ESP_ERR_NOT_SUPPORTED
  | ESP_ERR_TIMEOUT
  | ESP_ERR_INVALID_RESPONSE
  | ESP_ERR_NVS_NOT_FOUND
  | ESP_ERR_NVS_NO_FREE_PAGES
  | ESP_ERR_NVS_NEW_VERSION_FOUND
  | ESP_ERR_OTHER int

section \<open>Collections of rewrite rules\<close>

named_theorems cstr_simps \<open>facts about C strings held in character arrays\<close>
named_theorems codec_simps \<open>evaluation of the byte readers and writers\<close>
named_theorems layout_simps \<open>lengths of the character arrays of a structure\<close>

section \<open>C strings in character arrays\<close>

abbreviation NUL :: char where
  "NUL \<equiv> CHR 0x00"

text \<open>The characters of an array before its first NUL, what \<^verbatim>\<open>strlen\<close> and \<^verbatim>\<open>strcmp\<close> see.\<close>

definition cstr :: "carray \<Rightarrow> string" where
  "cstr a = takeWhile (\<lambda>c. c \<noteq> NUL) a"

definition strnlen :: "carray \<Rightarrow> nat \<Rightarrow> nat" where
  "strnlen a n = length (cstr (take n a))"

definition zeros :: "nat \<Rightarrow> carray" where
  "zeros n = replicate n NUL"

text \<open>
  \<^verbatim>\<open>snprintf(dst, size, "%s", s)\<close>: at most \<open>size - 1\<close> characters and a NUL are stored, the
  rest of the destination keeps its old content, and the length of the whole output is
  returned.
\<close>

definition snprintf_s :: "carray \<Rightarrow> nat \<Rightarrow> string \<Rightarrow> carray \<times> nat" where
  "snprintf_s dst cap s =
     (if cap = 0 then (dst, length s)
      else (let t = take (cap - 1) s in (t @ NUL # drop (Suc (length t)) dst, length s)))"

abbreviation store_s :: "carray \<Rightarrow> nat \<Rightarrow> string \<Rightarrow> carray" where
  "store_s dst cap s \<equiv> fst (snprintf_s dst cap s)"

text \<open>The index of the first occurrence of a string in another, as \<^verbatim>\<open>strstr\<close> finds it.\<close>

fun strstr :: "string \<Rightarrow> string \<Rightarrow> nat option" where
  "strstr [] needle = (if needle = [] then Some 0 else None)"
| "strstr (c # cs) needle =
     (if prefix needle (c # cs) then Some 0 else map_option Suc (strstr cs needle))"

text \<open>The index of the first and of the last occurrence of a character.\<close>

fun strchr :: "string \<Rightarrow> char \<Rightarrow> nat option" where
  "strchr [] x = None"
| "strchr (c # cs) x = (if c = x then Some 0 else map_option Suc (strchr cs x))"

fun strrchr :: "string \<Rightarrow> char \<Rightarrow> nat option" where
  "strrchr [] x = None"
| "strrchr (c # cs) x =
     (case strrchr cs x of Some i \<Rightarrow> Some (Suc i) | None \<Rightarrow> if c = x then Some 0 else None)"

definition is_digit :: "char \<Rightarrow> bool" where
  "is_digit c \<longleftrightarrow> CHR ''0'' \<le> c \<and> c \<le> CHR ''9''"

definition digit_val :: "char \<Rightarrow> nat" where
  "digit_val c = of_char c - 48"

text \<open>The number a digit string denotes.\<close>

definition dec_value :: "string \<Rightarrow> nat" where
  "dec_value s = foldl (\<lambda>n c. 10 * n + digit_val c) 0 s"

lemma cstr_Nil [cstr_simps, simp]: "cstr [] = []"
  by (simp add: cstr_def)

lemma cstr_Cons [cstr_simps]: "cstr (c # cs) = (if c = NUL then [] else c # cstr cs)"
  by (simp add: cstr_def)

lemma cstr_no_nul [simp]: "NUL \<notin> set (cstr a)"
  by (auto simp: cstr_def dest: set_takeWhileD)

lemma cstr_id: "NUL \<notin> set s \<Longrightarrow> cstr s = s"
  by (auto simp: cstr_def takeWhile_eq_all_conv)

lemma cstr_cstr [simp]: "cstr (cstr a) = cstr a"
  by (simp add: cstr_id)

lemma cstr_append_nul [cstr_simps]: "cstr (s @ NUL # rest) = cstr s"
  by (induction s) (auto simp: cstr_def)

lemma cstr_zeros [simp]: "cstr (zeros n) = []"
  by (cases n) (simp_all add: zeros_def cstr_def)

lemma length_zeros [layout_simps, simp]: "length (zeros n) = n"
  by (simp add: zeros_def)

lemma length_cstr_le: "length (cstr a) \<le> length a"
  by (simp add: cstr_def length_takeWhile_le)

lemma length_cstr_less: "NUL \<in> set a \<Longrightarrow> length (cstr a) < length a"
proof (induction a)
  case (Cons c cs)
  then show ?case by (cases "c = NUL") (auto simp: cstr_Cons)
qed simp

lemma cstr_terminated_iff: "NUL \<in> set a \<longleftrightarrow> length (cstr a) < length a"
proof
  assume less: "length (cstr a) < length a"
  show "NUL \<in> set a"
  proof (rule ccontr)
    assume "NUL \<notin> set a"
    then have "cstr a = a" by (rule cstr_id)
    with less show False by simp
  qed
qed (rule length_cstr_less)

lemma cstr_empty_iff: "NUL \<in> set a \<Longrightarrow> cstr a = [] \<longleftrightarrow> hd a = NUL"
  by (cases a) (auto simp: cstr_Cons)

lemma length_store_s [layout_simps, simp]:
  "cap = length dst \<Longrightarrow> length (store_s dst cap s) = length dst"
  by (cases dst) (auto simp: snprintf_s_def Let_def min_def)

lemma cstr_store_s [cstr_simps]:
  "0 < cap \<Longrightarrow> cstr (store_s dst cap s) = cstr (take (cap - 1) s)"
  by (simp add: snprintf_s_def Let_def cstr_append_nul)

lemma nul_in_store_s: "0 < cap \<Longrightarrow> NUL \<in> set (store_s dst cap s)"
  by (simp add: snprintf_s_def Let_def)

lemma snd_snprintf_s [simp]: "snd (snprintf_s dst cap s) = length s"
  by (simp add: snprintf_s_def Let_def)

lemma store_s_fits:
  "length (cstr s) < cap \<Longrightarrow> cstr (store_s dst cap (cstr s)) = cstr s"
  by (simp add: cstr_store_s)

lemma strchr_None: "strchr s x = None \<longleftrightarrow> x \<notin> set s"
  by (induction s) auto

lemma strrchr_None: "strrchr s x = None \<longleftrightarrow> x \<notin> set s"
  by (induction s) (auto split: option.splits)

lemma strchr_Some:
  "strchr s x = Some i \<longleftrightarrow> i < length s \<and> s ! i = x \<and> x \<notin> set (take i s)"
proof (induction s arbitrary: i)
  case (Cons c cs)
  then show ?case by (cases i) auto
qed simp

lemma strchr_append_Some: "x \<notin> set s \<Longrightarrow> strchr (s @ x # t) x = Some (length s)"
  by (induction s) auto

lemma strrchr_append_Some: "x \<notin> set t \<Longrightarrow> strrchr (s @ x # t) x = Some (length s)"
  by (induction s) (auto simp: strrchr_None split: option.splits)

lemma strrchr_Some:
  "strrchr s x = Some i \<longleftrightarrow> i < length s \<and> s ! i = x \<and> x \<notin> set (drop (Suc i) s)"
proof (induction s arbitrary: i)
  case (Cons c cs)
  show ?case
  proof (cases "strrchr cs x")
    case None
    then have "x \<notin> set cs" by (simp add: strrchr_None)
    then show ?thesis using None by (cases i) (auto simp: nth_mem dest: in_set_dropD)
  next
    case (Some j)
    then have "x \<in> set cs" by (metis option.distinct(1) strrchr_None)
    show ?thesis
    proof (cases i)
      case 0
      then show ?thesis using Some \<open>x \<in> set cs\<close> by simp
    next
      case (Suc k)
      then show ?thesis using Some Cons.IH [of k] by simp
    qed
  qed
qed simp

lemma strstr_Some_bound: "strstr s n = Some i \<Longrightarrow> i + length n \<le> length s"
proof (induction s arbitrary: i)
  case (Cons c cs)
  then show ?case by (auto split: if_splits dest: prefix_length_le)
qed (auto split: if_splits)

lemma strstr_Some_prefix: "strstr s n = Some i \<Longrightarrow> prefix n (drop i s)"
proof (induction s arbitrary: i)
  case (Cons c cs)
  then show ?case by (auto split: if_splits)
qed (auto split: if_splits)

lemma strstr_found_iff: "strstr s n \<noteq> None \<longleftrightarrow> sublist n s"
proof (induction s)
  case (Cons c cs)
  then show ?case by (auto simp: sublist_Cons_right)
qed auto

lemma dec_value_snoc: "dec_value (s @ [c]) = 10 * dec_value s + digit_val c"
  by (simp add: dec_value_def)

lemma dec_value_Nil [simp]: "dec_value [] = 0"
  by (simp add: dec_value_def)

lemma digit_val_less: "is_digit c \<Longrightarrow> digit_val c < 10"
  by (auto simp: is_digit_def digit_val_def less_eq_char_def)

section \<open>Bytes of characters and words\<close>

definition byte_of_char :: "char \<Rightarrow> byte" where
  "byte_of_char c = of_char c"

definition char_of_byte :: "byte \<Rightarrow> char" where
  "char_of_byte b = char_of (unat b)"

lemma unat_byte_of_char: "unat (byte_of_char c) = of_char c"
proof -
  have "unat (of_nat (of_char c) :: byte) = of_char c"
    by (simp add: unat_of_nat)
  then show ?thesis by (simp add: byte_of_char_def of_nat_of_char)
qed

lemma char_of_byte_of_char [simp]: "char_of_byte (byte_of_char c) = c"
  by (simp add: char_of_byte_def unat_byte_of_char)

lemma byte_of_char_of_byte [simp]: "byte_of_char (char_of_byte b) = b"
proof -
  have "unat b < 256" using unsigned_less [of b] by simp
  then have "unat (byte_of_char (char_of_byte b)) = unat b"
    by (simp add: char_of_byte_def unat_byte_of_char)
  then show ?thesis by (rule word_unat_eq_iff [THEN iffD2])
qed

lemma char_bytes_inverse [simp]:
  "map char_of_byte (map byte_of_char cs) = cs" "map byte_of_char (map char_of_byte bs) = bs"
  by (simp_all add: comp_def)

text \<open>Little-endian byte strings of the fixed-width integers.\<close>

definition le16 :: "u16 \<Rightarrow> byte list" where
  "le16 w = [ucast w, ucast (drop_bit 8 w)]"

definition le32 :: "u32 \<Rightarrow> byte list" where
  "le32 w = [ucast w, ucast (drop_bit 8 w), ucast (drop_bit 16 w), ucast (drop_bit 24 w)]"

fun of_le16 :: "byte list \<Rightarrow> u16" where
  "of_le16 (b0 # b1 # _) = ucast b0 OR push_bit 8 (ucast b1)"
| "of_le16 _ = 0"

fun of_le32 :: "byte list \<Rightarrow> u32" where
  "of_le32 (b0 # b1 # b2 # b3 # _) =
     ucast b0 OR push_bit 8 (ucast b1) OR push_bit 16 (ucast b2) OR push_bit 24 (ucast b3)"
| "of_le32 _ = 0"

lemma length_le16 [simp]: "length (le16 w) = 2"
  by (simp add: le16_def)

lemma length_le32 [simp]: "length (le32 w) = 4"
  by (simp add: le32_def)

lemma of_le16_le16 [codec_simps, simp]: "of_le16 (le16 w @ rest) = w"
  unfolding le16_def by (auto intro!: bit_word_eqI simp: bit_simps)

lemma bit_byte_high: "8 \<le> n \<Longrightarrow> \<not> bit (b :: byte) n"
  by (auto dest: bit_imp_le_length)

lemma of_le32_le32 [codec_simps, simp]: "of_le32 (le32 w @ rest) = w"
proof (rule bit_word_eqI)
  fix n :: nat
  assume "n < LENGTH(32)"
  then have "n = 8 * (n div 8) + n mod 8" and "n mod 8 < 8" and "n div 8 < 4" by simp_all
  then obtain q k where n: "n = 8 * q + k" and "k < 8" and "q < 4" by blast
  from \<open>q < 4\<close> consider "q = 0" | "q = 1" | "q = 2" | "q = 3" by linarith
  then show "bit (of_le32 (le32 w @ rest)) n = bit w n"
    using n \<open>k < 8\<close> by cases (simp_all add: le32_def bit_simps bit_byte_high)
qed

lemma le16_bytes: "le16 (of_le16 [a, b]) = [a, b]"
  by (auto simp: le16_def bit_simps bit_byte_high intro!: bit_word_eqI)

lemma le32_bytes: "le32 (of_le32 [a, b, c, d]) = [a, b, c, d]"
  by (auto simp: le32_def bit_simps bit_byte_high intro!: bit_word_eqI)

lemma le16_of_le16 [codec_simps]: "length bs = 2 \<Longrightarrow> le16 (of_le16 bs) = bs"
  using le16_bytes by (auto simp: numeral_eq_Suc length_Suc_conv)

lemma le32_of_le32 [codec_simps]: "length bs = 4 \<Longrightarrow> le32 (of_le32 bs) = bs"
  using le32_bytes by (auto simp: numeral_eq_Suc length_Suc_conv)

section \<open>Interfaces shared by the components\<close>

text \<open>
  A system whose every step keeps an invariant keeps it over any sequence of steps,
  whatever their order; \<open>legal\<close> are the events whose arguments are well-formed.
\<close>

locale invariant_system =
  fixes step :: "'e \<Rightarrow> 's \<Rightarrow> 's"
    and legal :: "'e \<Rightarrow> bool"
    and inv :: "'s \<Rightarrow> bool"
  assumes step_inv: "legal e \<Longrightarrow> inv s \<Longrightarrow> inv (step e s)"
begin

lemma run_inv: "list_all legal es \<Longrightarrow> inv s \<Longrightarrow> inv (fold step es s)"
  by (induction es arbitrary: s) (auto intro: step_inv)

lemma run_prefix_inv: "list_all legal es \<Longrightarrow> inv s \<Longrightarrow> inv (fold step (take n es) s)"
  by (rule run_inv) (auto simp: list_all_iff dest: in_set_takeD)

end

text \<open>A system with a set of states that no step leaves once the invariant holds.\<close>

locale absorbing_system = invariant_system +
  fixes final :: "'b \<Rightarrow> bool"
  assumes step_final: "legal e \<Longrightarrow> inv s \<Longrightarrow> final s \<Longrightarrow> final (step e s)"
begin

lemma run_final: "list_all legal es \<Longrightarrow> inv s \<Longrightarrow> final s \<Longrightarrow> final (fold step es s)"
proof (induction es arbitrary: s)
  case (Cons e es)
  then show ?case by (simp add: step_inv step_final)
qed simp

lemma run_final_later:
  assumes "list_all legal es" and "inv s" and "final (fold step (take m es) s)" and "m \<le> n"
  shows "final (fold step (take n es) s)"
proof -
  have "take n es = take m es @ take (n - m) (drop m es)"
    using assms(4) by (metis take_add le_add_diff_inverse)
  moreover have "list_all legal (take (n - m) (drop m es))"
    using assms(1) by (auto simp: list_all_iff dest: in_set_takeD in_set_dropD)
  ultimately show ?thesis
    using run_final run_prefix_inv [OF assms(1,2), of m] assms(3) by simp
qed

end

text \<open>
  A codec: what \<open>enc\<close> writes for a valid value \<open>dec\<close> reads back, and \<open>dec\<close> accepts nothing
  but what \<open>enc\<close> writes.
\<close>

locale codec =
  fixes enc :: "'a \<Rightarrow> byte list"
    and dec :: "byte list \<Rightarrow> 'a option"
    and valid :: "'a \<Rightarrow> bool"
  assumes dec_enc: "valid x \<Longrightarrow> dec (enc x) = Some x"
    and dec_valid: "dec bs = Some x \<Longrightarrow> valid x"
    and dec_canonical: "dec bs = Some x \<Longrightarrow> enc x = bs"
begin

lemma dec_iff: "dec bs = Some x \<longleftrightarrow> valid x \<and> bs = enc x"
  using dec_enc dec_valid dec_canonical by blast

lemma enc_inj: "valid x \<Longrightarrow> valid y \<Longrightarrow> enc x = enc y \<Longrightarrow> x = y"
  by (metis dec_enc option.inject)

lemma dec_inj: "dec bs = Some x \<Longrightarrow> dec cs = Some x \<Longrightarrow> bs = cs"
  by (metis dec_canonical)

end

end
