(* ===== verification/Config_Model.thy ===== *)
theory Config_Model
  imports Prelude
begin

text \<open>
  The configuration, its metadata and its redacted snapshot
  (\<^verbatim>\<open>device_config.h\<close>), and the validation that every stored or staged configuration
  passes (\<^verbatim>\<open>device_config_validate\<close> and its helpers in \<^verbatim>\<open>device_config.c\<close>).
  Fixed-size character arrays are lists whose length is the capacity of the array, kept by
  \<open>config_layout\<close>. The X.509 parser of mbedTLS is the parameter \<open>x509\<close>: it maps the
  bytes handed to it, the terminating NUL included, to the parser's return code.
  The second half states the validation declaratively, over the strings the arrays hold,
  and proves the code equal to that specification, the broker URI grammar included.
\<close>

section \<open>Types of \<^verbatim>\<open>device_config.h\<close>\<close>

definition DEVICE_CONFIG_SCHEMA_VERSION :: u32 where [simp]: "DEVICE_CONFIG_SCHEMA_VERSION = 1"
definition DEVICE_CONFIG_DEVICE_ID_MAX :: nat where [simp]: "DEVICE_CONFIG_DEVICE_ID_MAX = 63"
definition DEVICE_CONFIG_WIFI_SSID_MAX :: nat where [simp]: "DEVICE_CONFIG_WIFI_SSID_MAX = 32"
definition DEVICE_CONFIG_WIFI_PASSWORD_MAX :: nat where [simp]: "DEVICE_CONFIG_WIFI_PASSWORD_MAX = 63"
definition DEVICE_CONFIG_MQTT_URI_MAX :: nat where [simp]: "DEVICE_CONFIG_MQTT_URI_MAX = 255"
definition DEVICE_CONFIG_MQTT_CA_MAX :: nat where [simp]: "DEVICE_CONFIG_MQTT_CA_MAX = 4095"
definition DEVICE_CONFIG_MQTT_USERNAME_MAX :: nat where [simp]: "DEVICE_CONFIG_MQTT_USERNAME_MAX = 63"
definition DEVICE_CONFIG_MQTT_PASSWORD_MAX :: nat where [simp]: "DEVICE_CONFIG_MQTT_PASSWORD_MAX = 127"
definition DEVICE_CONFIG_MQTT_CLIENT_ID_MAX :: nat where [simp]: "DEVICE_CONFIG_MQTT_CLIENT_ID_MAX = 127"
definition DEVICE_CONFIG_ROLLBACK_REASON_MAX :: nat where [simp]: "DEVICE_CONFIG_ROLLBACK_REASON_MAX = 95"
definition DEVICE_CONFIG_SETUP_SECRET_LENGTH :: nat where [simp]: "DEVICE_CONFIG_SETUP_SECRET_LENGTH = 32"

text \<open>
  A C enum variable can hold values outside its named constants (the decoder stores any
  byte of a blob in it, and validation rejects the others), so the provider and the pull
  are integers with named values.
\<close>

type_synonym device_config_machine_provider = u32
type_synonym device_config_pull = u32
type_synonym i32 = "32 word"

definition DEVICE_CONFIG_MACHINE_DISABLED :: device_config_machine_provider where [simp]: "DEVICE_CONFIG_MACHINE_DISABLED = 0"
definition DEVICE_CONFIG_MACHINE_GPIO :: device_config_machine_provider where [simp]: "DEVICE_CONFIG_MACHINE_GPIO = 1"
definition DEVICE_CONFIG_PULL_NONE :: device_config_pull where [simp]: "DEVICE_CONFIG_PULL_NONE = 0"
definition DEVICE_CONFIG_PULL_UP :: device_config_pull where [simp]: "DEVICE_CONFIG_PULL_UP = 1"
definition DEVICE_CONFIG_PULL_DOWN :: device_config_pull where [simp]: "DEVICE_CONFIG_PULL_DOWN = 2"

datatype device_config_state =
    DEVICE_CONFIG_STATE_NONE
  | DEVICE_CONFIG_STATE_ACTIVE
  | DEVICE_CONFIG_STATE_PENDING
  | DEVICE_CONFIG_STATE_ROLLBACK

record device_config =
  schema_version :: u32
  revision :: u32
  device_id :: carray
  wifi_ssid :: carray
  wifi_password :: carray
  mqtt_broker_uri :: carray
  mqtt_ca_certificate :: carray
  mqtt_username :: carray
  mqtt_password :: carray
  mqtt_client_id :: carray
  telemetry_interval_seconds :: u32
  machine_status_provider :: device_config_machine_provider
  machine_status_gpio :: i32
  machine_status_active_high :: bool
  machine_status_pull :: device_config_pull
  maintenance_on_boot :: bool
  maintenance_window_seconds :: u32
  maintenance_max_session_seconds :: u32

record device_config_redacted =
  red_schema_version :: u32
  red_revision :: u32
  red_device_id :: carray
  red_wifi_ssid :: carray
  red_wifi_password_configured :: bool
  red_mqtt_broker_uri :: carray
  red_mqtt_username :: carray
  red_mqtt_password_configured :: bool
  red_mqtt_client_id :: carray
  red_mqtt_ca_certificate_configured :: bool
  red_telemetry_interval_seconds :: u32
  red_machine_status_provider :: device_config_machine_provider
  red_machine_status_gpio :: i32
  red_machine_status_active_high :: bool
  red_machine_status_pull :: device_config_pull
  red_maintenance_on_boot :: bool
  red_maintenance_window_seconds :: u32
  red_maintenance_max_session_seconds :: u32

record device_config_metadata =
  md_state :: device_config_state
  candidate_revision :: u32
  boot_attempts :: u32
  boot_count :: u32
  last_rollback_reason :: carray

text \<open>A structure filled with zero bytes, as \<^verbatim>\<open>memset(p, 0, sizeof *p)\<close> leaves it.\<close>

definition zero_config :: device_config where
  "zero_config =
     \<lparr>schema_version = 0, revision = 0, device_id = zeros 64, wifi_ssid = zeros 33,
      wifi_password = zeros 64, mqtt_broker_uri = zeros 256, mqtt_ca_certificate = zeros 4096,
      mqtt_username = zeros 64, mqtt_password = zeros 128, mqtt_client_id = zeros 128,
      telemetry_interval_seconds = 0, machine_status_provider = 0, machine_status_gpio = 0,
      machine_status_active_high = False, machine_status_pull = 0, maintenance_on_boot = False,
      maintenance_window_seconds = 0, maintenance_max_session_seconds = 0\<rparr>"

definition zero_metadata :: device_config_metadata where
  "zero_metadata = \<lparr>md_state = DEVICE_CONFIG_STATE_NONE, candidate_revision = 0,
     boot_attempts = 0, boot_count = 0, last_rollback_reason = zeros 96\<rparr>"

text \<open>The capacities of the arrays.\<close>

definition config_layout :: "device_config \<Rightarrow> bool" where
  "config_layout c \<longleftrightarrow>
     length (device_id c) = DEVICE_CONFIG_DEVICE_ID_MAX + 1
   \<and> length (wifi_ssid c) = DEVICE_CONFIG_WIFI_SSID_MAX + 1
   \<and> length (wifi_password c) = DEVICE_CONFIG_WIFI_PASSWORD_MAX + 1
   \<and> length (mqtt_broker_uri c) = DEVICE_CONFIG_MQTT_URI_MAX + 1
   \<and> length (mqtt_ca_certificate c) = DEVICE_CONFIG_MQTT_CA_MAX + 1
   \<and> length (mqtt_username c) = DEVICE_CONFIG_MQTT_USERNAME_MAX + 1
   \<and> length (mqtt_password c) = DEVICE_CONFIG_MQTT_PASSWORD_MAX + 1
   \<and> length (mqtt_client_id c) = DEVICE_CONFIG_MQTT_CLIENT_ID_MAX + 1"

definition metadata_layout :: "device_config_metadata \<Rightarrow> bool" where
  "metadata_layout m \<longleftrightarrow> length (last_rollback_reason m) = DEVICE_CONFIG_ROLLBACK_REASON_MAX + 1"

lemma zero_config_layout [simp]: "config_layout zero_config"
  by (simp add: config_layout_def zero_config_def)

lemma zero_metadata_layout [simp]: "metadata_layout zero_metadata"
  by (simp add: metadata_layout_def zero_metadata_def)

section \<open>Validation\<close>

definition ascii_alphanumeric :: "char \<Rightarrow> bool" where
  "ascii_alphanumeric c \<longleftrightarrow>
     (CHR ''A'' \<le> c \<and> c \<le> CHR ''Z'') \<or> (CHR ''a'' \<le> c \<and> c \<le> CHR ''z'')
     \<or> (CHR ''0'' \<le> c \<and> c \<le> CHR ''9'')"

definition device_id_character :: "char \<Rightarrow> bool" where
  "device_id_character c \<longleftrightarrow>
     ascii_alphanumeric c \<or> c = CHR ''.'' \<or> c = CHR ''_'' \<or> c = CHR ''-''"

definition reserved_device_ids :: "string list" where
  "reserved_device_ids =
     [''collector'', ''healthcheck'', ''simulator'', ''legacy-test'', ''legacy-device'']"

definition valid_device_id :: "carray \<Rightarrow> bool" where
  "valid_device_id v =
     (let len = strnlen v (DEVICE_CONFIG_DEVICE_ID_MAX + 1) in
      if len = 0 \<or> len > DEVICE_CONFIG_DEVICE_ID_MAX then False
      else if \<not> ascii_alphanumeric (v ! 0) then False
      else if \<not> list_all device_id_character (take len v) then False
      else \<not> list_ex (\<lambda>r. cstr v = r) reserved_device_ids)"

definition validation_error :: "carray \<Rightarrow> nat \<Rightarrow> string \<Rightarrow> carray" where
  "validation_error err error_size message =
     (if 0 < error_size then store_s err error_size message else err)"

definition terminated :: "carray \<Rightarrow> nat \<Rightarrow> bool" where
  "terminated v capacity \<longleftrightarrow> NUL \<in> set (take capacity v)"

definition reserved_gpios :: "int list" where
  "reserved_gpios = [0, 1, 2, 3, 5, 6, 7, 8, 9, 10, 11, 12, 15, 21, 22]"

definition gpio_allowed :: "i32 \<Rightarrow> bool" where
  "gpio_allowed gpio =
     (if sint gpio < 0 \<or> sint gpio > 39 then False
      else \<not> list_ex (\<lambda>r. sint gpio = r) reserved_gpios)"

text \<open>The character at a position of a C string; the terminator right behind its end.\<close>

definition char_at :: "string \<Rightarrow> nat \<Rightarrow> char" where
  "char_at s i = (if i < length s then s ! i else NUL)"

text \<open>The loop over the port digits, with the 32-bit accumulator of the code.\<close>

fun port_loop :: "u32 \<Rightarrow> string \<Rightarrow> u32 option" where
  "port_loop port [] = Some port"
| "port_loop port (c # cs) =
     (if c < CHR ''0'' \<or> c > CHR ''9'' then None
      else if port > 6553 then None
      else let port' = port * 10 + (of_char c - 48) in
        if port' > 65535 then None else port_loop port' cs)"

definition uri_whitespace :: "string" where
  "uri_whitespace = [CHR '' '', CHR 0x09, CHR 0x0D, CHR 0x0A]"

definition port_separator :: "string \<Rightarrow> nat option" where
  "port_separator authority =
     (if char_at authority 0 = CHR ''['' then
        (case strchr authority CHR '']'' of
           None \<Rightarrow> None
         | Some closing \<Rightarrow>
             if closing = 1 \<or> char_at authority (closing + 1) \<noteq> CHR '':'' then None
             else Some (closing + 1))
      else
        (case strrchr authority CHR '':'' of
           None \<Rightarrow> None
         | Some separator \<Rightarrow> if separator = 0 then None else Some separator))"

definition valid_mqtts_uri :: "carray \<Rightarrow> bool" where
  "valid_mqtts_uri v =
     (let s = cstr v; authority = drop 8 s in
      if take 8 s \<noteq> ''mqtts://'' \<or> char_at s 8 = NUL
         \<or> CHR ''@'' \<in> set authority \<or> list_ex (\<lambda>w. w \<in> set s) uri_whitespace then False
      else case port_separator authority of
          None \<Rightarrow> False
        | Some separator \<Rightarrow>
            (let port_text = drop (separator + 1) authority in
             if port_text = [] then False
             else case port_loop 0 port_text of None \<Rightarrow> False | Some port \<Rightarrow> port > 0))"

text \<open>
  The checks of \<^verbatim>\<open>device_config_validate\<close> in their order: the message of the first one
  that fails, \<open>None\<close> when all pass. A null configuration pointer is \<open>None\<close>.
\<close>

definition validate_message :: "(string \<Rightarrow> int) \<Rightarrow> device_config option \<Rightarrow> string option" where
  "validate_message x509 cfg =
     (case cfg of None \<Rightarrow> Some ''configuration is required'' | Some c \<Rightarrow>
      if schema_version c \<noteq> DEVICE_CONFIG_SCHEMA_VERSION then Some ''unsupported schema_version''
      else if revision c = 0 then Some ''revision must be greater than zero''
      else if \<not> terminated (device_id c) 64 \<or> \<not> valid_device_id (device_id c)
        then Some ''device_id is invalid or reserved''
      else if \<not> terminated (wifi_ssid c) 33 \<or> wifi_ssid c ! 0 = NUL
        then Some ''wifi_ssid is required''
      else if strnlen (wifi_password c) 64 < 8
          \<or> strnlen (wifi_password c) 64 > DEVICE_CONFIG_WIFI_PASSWORD_MAX
        then Some ''wifi_password must be 8-63 characters''
      else if \<not> terminated (mqtt_broker_uri c) 256 \<or> \<not> valid_mqtts_uri (mqtt_broker_uri c)
        then Some ''mqtt_broker_uri must be mqtts://host:port without credentials or path''
      else if \<not> terminated (mqtt_username c) 64 \<or> cstr (mqtt_username c) \<noteq> cstr (device_id c)
        then Some ''mqtt_username must equal device_id for broker ACL isolation''
      else if \<not> terminated (mqtt_password c) 128 \<or> mqtt_password c ! 0 = NUL
        then Some ''mqtt_password is required''
      else if \<not> terminated (mqtt_client_id c) 128 \<or> mqtt_client_id c ! 0 = NUL
          \<or> cstr (mqtt_client_id c) = cstr (mqtt_username c)
          \<or> CHR ''/'' \<in> set (cstr (mqtt_client_id c))
          \<or> CHR ''+'' \<in> set (cstr (mqtt_client_id c))
          \<or> CHR ''#'' \<in> set (cstr (mqtt_client_id c))
        then Some ''mqtt_client_id is invalid or not distinct''
      else if \<not> terminated (mqtt_ca_certificate c) 4096
          \<or> strstr (cstr (mqtt_ca_certificate c)) ''-----BEGIN CERTIFICATE-----'' = None
        then Some ''mqtt_ca_certificate must contain a PEM certificate''
      else if x509 (cstr (mqtt_ca_certificate c) @ [NUL]) \<noteq> 0
        then Some ''mqtt_ca_certificate is not valid PEM''
      else if telemetry_interval_seconds c < 1 \<or> telemetry_interval_seconds c > 3600
        then Some ''telemetry_interval_seconds must be 1-3600''
      else if machine_status_provider c \<noteq> DEVICE_CONFIG_MACHINE_DISABLED
          \<and> machine_status_provider c \<noteq> DEVICE_CONFIG_MACHINE_GPIO
        then Some ''machine_status_provider is unsupported''
      else if machine_status_provider c = DEVICE_CONFIG_MACHINE_GPIO
          \<and> \<not> gpio_allowed (machine_status_gpio c)
        then Some ''machine_status_gpio is reserved or unsupported''
      else if machine_status_provider c = DEVICE_CONFIG_MACHINE_GPIO
          \<and> sint (machine_status_gpio c) \<ge> 34 \<and> machine_status_pull c \<noteq> DEVICE_CONFIG_PULL_NONE
        then Some ''GPIO 34-39 do not support internal pulls''
      else if machine_status_pull c < DEVICE_CONFIG_PULL_NONE
          \<or> machine_status_pull c > DEVICE_CONFIG_PULL_DOWN
        then Some ''machine_status_pull is invalid''
      else if maintenance_window_seconds c < 60 \<or> maintenance_window_seconds c > 1800
        then Some ''maintenance_window_seconds must be 60-1800''
      else if maintenance_max_session_seconds c < maintenance_window_seconds c
          \<or> maintenance_max_session_seconds c > 3600
        then Some ''maintenance_max_session_seconds must cover the window and be <=3600''
      else None)"

text \<open>The function itself: its return code and the error buffer (size 0 for a null buffer).\<close>

definition device_config_validate ::
  "(string \<Rightarrow> int) \<Rightarrow> device_config option \<Rightarrow> carray \<Rightarrow> nat \<Rightarrow> esp_err \<times> carray" where
  "device_config_validate x509 cfg err error_size =
     (case validate_message x509 cfg of
        Some message \<Rightarrow> (ESP_ERR_INVALID_ARG, validation_error err error_size message)
      | None \<Rightarrow> (ESP_OK, if 0 < error_size then err[0 := NUL] else err))"

text \<open>The calls \<^verbatim>\<open>device_config_validate(c, NULL, 0)\<close>: only the verdict matters.\<close>

definition validate_quiet :: "(string \<Rightarrow> int) \<Rightarrow> device_config \<Rightarrow> esp_err" where
  "validate_quiet x509 c = fst (device_config_validate x509 (Some c) [] 0)"

section \<open>The validation as a specification\<close>

definition device_id_spec :: "string \<Rightarrow> bool" where
  "device_id_spec s \<longleftrightarrow> s \<noteq> [] \<and> length s \<le> 63 \<and> ascii_alphanumeric (hd s)
     \<and> (\<forall>c \<in> set s. device_id_character c) \<and> s \<notin> set reserved_device_ids"

text \<open>The host part: not empty, and in brackets when it starts with one.\<close>

definition uri_host_spec :: "string \<Rightarrow> bool" where
  "uri_host_spec host \<longleftrightarrow> host \<noteq> []
     \<and> (hd host = CHR ''['' \<longrightarrow>
          (\<exists>inner. inner \<noteq> [] \<and> CHR '']'' \<notin> set inner \<and> host = CHR ''['' # inner @ '']''))"

definition mqtts_uri_spec :: "string \<Rightarrow> bool" where
  "mqtts_uri_spec s \<longleftrightarrow>
     (\<exists>host port. s = ''mqtts://'' @ host @ CHR '':'' # port \<and> uri_host_spec host
        \<and> CHR ''@'' \<notin> set host \<and> set host \<inter> set uri_whitespace = {}
        \<and> port \<noteq> [] \<and> list_all is_digit port \<and> 1 \<le> dec_value port \<and> dec_value port \<le> 65535)"

definition client_id_spec :: "string \<Rightarrow> string \<Rightarrow> bool" where
  "client_id_spec client_id username \<longleftrightarrow> client_id \<noteq> [] \<and> client_id \<noteq> username
     \<and> set client_id \<inter> {CHR ''/'', CHR ''+'', CHR ''#''} = {}"

definition gpio_spec :: "device_config \<Rightarrow> bool" where
  "gpio_spec c \<longleftrightarrow>
     machine_status_provider c = DEVICE_CONFIG_MACHINE_DISABLED
     \<or> (machine_status_provider c = DEVICE_CONFIG_MACHINE_GPIO
        \<and> 0 \<le> sint (machine_status_gpio c) \<and> sint (machine_status_gpio c) \<le> 39
        \<and> sint (machine_status_gpio c) \<notin> set reserved_gpios
        \<and> (34 \<le> sint (machine_status_gpio c) \<longrightarrow> machine_status_pull c = DEVICE_CONFIG_PULL_NONE))"

definition config_strings_terminated :: "device_config \<Rightarrow> bool" where
  "config_strings_terminated c \<longleftrightarrow>
     (\<forall>a \<in> {device_id c, wifi_ssid c, wifi_password c, mqtt_broker_uri c, mqtt_ca_certificate c,
       mqtt_username c, mqtt_password c, mqtt_client_id c}. NUL \<in> set a)"

definition config_spec :: "(string \<Rightarrow> int) \<Rightarrow> device_config \<Rightarrow> bool" where
  "config_spec x509 c \<longleftrightarrow>
     schema_version c = 1 \<and> revision c \<noteq> 0 \<and> config_strings_terminated c
   \<and> device_id_spec (cstr (device_id c))
   \<and> cstr (wifi_ssid c) \<noteq> []
   \<and> 8 \<le> length (cstr (wifi_password c))
   \<and> mqtts_uri_spec (cstr (mqtt_broker_uri c))
   \<and> cstr (mqtt_username c) = cstr (device_id c)
   \<and> cstr (mqtt_password c) \<noteq> []
   \<and> client_id_spec (cstr (mqtt_client_id c)) (cstr (mqtt_username c))
   \<and> sublist ''-----BEGIN CERTIFICATE-----'' (cstr (mqtt_ca_certificate c))
   \<and> x509 (cstr (mqtt_ca_certificate c) @ [NUL]) = 0
   \<and> 1 \<le> telemetry_interval_seconds c \<and> telemetry_interval_seconds c \<le> 3600
   \<and> gpio_spec c \<and> machine_status_pull c \<le> DEVICE_CONFIG_PULL_DOWN
   \<and> 60 \<le> maintenance_window_seconds c \<and> maintenance_window_seconds c \<le> 1800
   \<and> maintenance_window_seconds c \<le> maintenance_max_session_seconds c
   \<and> maintenance_max_session_seconds c \<le> 3600"

lemma terminated_full [simp]: "n = length v \<Longrightarrow> terminated v n \<longleftrightarrow> NUL \<in> set v"
  by (simp add: terminated_def)

lemma strnlen_full: "n = length v \<Longrightarrow> strnlen v n = length (cstr v)"
  by (simp add: strnlen_def)

lemma first_char_nul: "v \<noteq> [] \<Longrightarrow> v ! 0 = NUL \<longleftrightarrow> cstr v = []"
  by (cases v) (auto simp: cstr_Cons)

lemma cstr_prefix: "prefix (cstr v) v"
  unfolding cstr_def by (rule takeWhile_is_prefix)

lemma take_length_cstr [simp]: "take (length (cstr v)) v = cstr v"
  using cstr_prefix by (metis prefix_def append_eq_conv_conj)

lemma valid_device_id_iff:
  assumes "length v = 64"
  shows "NUL \<in> set v \<and> valid_device_id v \<longleftrightarrow> NUL \<in> set v \<and> device_id_spec (cstr v)"
proof (cases "cstr v = []")
  case True
  then show ?thesis
    using assms by (simp add: valid_device_id_def device_id_spec_def strnlen_full Let_def)
next
  case False
  then have hd: "v ! 0 = hd (cstr v)"
    by (cases v) (auto simp: cstr_Cons split: if_splits)
  have "NUL \<in> set v \<longleftrightarrow> length (cstr v) \<le> 63"
    using assms cstr_terminated_iff [of v] by auto
  then show ?thesis
    using False assms hd
    by (auto simp: valid_device_id_def device_id_spec_def strnlen_full Let_def list_all_iff
        list_ex_iff)
qed

subsection \<open>The port loop reads a decimal number of at most 65535\<close>

abbreviation dec_from :: "nat \<Rightarrow> string \<Rightarrow> nat" where
  "dec_from n s \<equiv> foldl (\<lambda>n c. 10 * n + digit_val c) n s"

lemma dec_from_ge: "n \<le> dec_from n s"
proof (induction s arbitrary: n)
  case (Cons c cs)
  have "n \<le> 10 * n + digit_val c" by simp
  also have "\<dots> \<le> dec_from (10 * n + digit_val c) cs" by (rule Cons.IH)
  finally show ?case by simp
qed simp

lemma unat_of_char32: "unat (of_char c :: u32) = of_char c"
proof -
  have "(of_char c :: nat) < 4294967296" using nat_of_char_less_256 [of c] by linarith
  then have "unat (of_nat (of_char c) :: u32) = of_char c" by (simp add: unat_of_nat)
  then show ?thesis by (simp add: of_nat_of_char)
qed

lemma digit_word: "is_digit c \<Longrightarrow> unat (of_char c - 48 :: u32) = digit_val c"
  by (subst unat_sub)
     (auto simp: word_le_nat_alt unat_of_char32 is_digit_def less_eq_char_def digit_val_def)

lemma is_digit_not: "\<not> is_digit c \<longleftrightarrow> c < CHR ''0'' \<or> c > CHR ''9''"
  by (auto simp: is_digit_def)

lemma port_loop_step:
  fixes port :: u32
  assumes "unat port \<le> 6553" and "is_digit c"
  shows "unat (port * 10 + (of_char c - 48)) = 10 * unat port + digit_val c"
proof -
  have d: "unat (of_char c - 48 :: u32) = digit_val c" and "digit_val c < 10"
    using assms(2) digit_word digit_val_less by auto
  have m: "unat (port * 10) = 10 * unat port"
    using assms(1) by (simp add: unat_word_ariths)
  show ?thesis using m d \<open>digit_val c < 10\<close> assms(1)
    by (simp add: unat_word_ariths(1) m d)
qed

lemma port_loop_eq:
  "unat port \<le> 65535 \<Longrightarrow> port_loop port s =
     (if list_all is_digit s \<and> dec_from (unat port) s \<le> 65535
      then Some (of_nat (dec_from (unat port) s)) else None)"
proof (induction s arbitrary: port)
  case Nil
  then show ?case by simp
next
  case (Cons c cs)
  show ?case
  proof (cases "is_digit c")
    case False
    then show ?thesis by (simp add: is_digit_not)
  next
    case True
    then have nd: "\<not> (c < CHR ''0'' \<or> c > CHR ''9'')" by (simp add: is_digit_not [symmetric])
    let ?n = "10 * unat port + digit_val c"
    have big: "?n > 65535 \<Longrightarrow> \<not> dec_from ?n cs \<le> 65535"
      using dec_from_ge [of ?n cs] by simp
    show ?thesis
    proof (cases "port > 6553")
      case True
      then have "?n > 65535" by (simp add: word_less_nat_alt)
      then show ?thesis using nd True big by simp
    next
      case small: False
      then have u: "unat (port * 10 + (of_char c - 48)) = ?n"
        using port_loop_step [of port c] True by (simp add: word_less_nat_alt)
      show ?thesis
      proof (cases "?n \<le> 65535")
        case True
        then have "\<not> port * 10 + (of_char c - 48) > (65535 :: u32)"
          using u by (simp add: word_less_nat_alt)
        then show ?thesis
          using Cons.IH [of "port * 10 + (of_char c - 48)"] u True nd small \<open>is_digit c\<close>
          by (simp add: Let_def)
      next
        case False
        then have "port * 10 + (of_char c - 48) > (65535 :: u32)"
          using u by (simp add: word_less_nat_alt)
        then show ?thesis using big False nd small by (simp add: Let_def)
      qed
    qed
  qed
qed

lemma port_loop_positive:
  "(case port_loop 0 s of None \<Rightarrow> False | Some port \<Rightarrow> port > 0)
     \<longleftrightarrow> list_all is_digit s \<and> 1 \<le> dec_value s \<and> dec_value s \<le> 65535"
proof -
  have "unat (of_nat n :: u32) = n" if "n \<le> 65535" for n :: nat
    using that by (simp add: unat_of_nat)
  then show ?thesis
    by (auto simp: port_loop_eq dec_value_def word_less_nat_alt)
qed

subsection \<open>The broker URI grammar\<close>

lemma colon_not_digit: "list_all is_digit s \<Longrightarrow> CHR '':'' \<notin> set s"
  by (auto simp: list_all_iff is_digit_def less_eq_char_def)

lemma special_not_digit [simp]:
  "\<not> is_digit CHR ''@''" "\<not> is_digit CHR '' ''" "\<not> is_digit CHR 0x09"
  "\<not> is_digit CHR 0x0D" "\<not> is_digit CHR 0x0A" "\<not> is_digit CHR '':''" "\<not> is_digit NUL"
  by (simp_all add: is_digit_def less_eq_char_def)

lemma digit_not_whitespace: "is_digit c \<Longrightarrow> c \<notin> set uri_whitespace"
  by (auto simp: uri_whitespace_def)

lemma digits_no_at: "list_all is_digit s \<Longrightarrow> CHR ''@'' \<notin> set s"
  by (auto simp: list_all_iff)

lemma digits_no_whitespace: "list_all is_digit s \<Longrightarrow> set s \<inter> set uri_whitespace = {}"
  using digit_not_whitespace by (auto simp: list_all_iff)

lemma port_separator_host:
  assumes "uri_host_spec host" and "CHR '':'' \<notin> set port"
  shows "port_separator (host @ CHR '':'' # port) = Some (length host)"
proof (cases "hd host = CHR ''[''")
  case True
  with assms(1) obtain inner where inner: "inner \<noteq> []" "CHR '']'' \<notin> set inner"
      "host = CHR ''['' # inner @ '']''"
    by (auto simp: uri_host_spec_def)
  have "strchr ((CHR ''['' # inner) @ CHR '']'' # CHR '':'' # port) CHR '']''
      = Some (length (CHR ''['' # inner))"
    by (rule strchr_append_Some) (use inner in auto)
  then show ?thesis using inner
    by (simp add: port_separator_def char_at_def nth_append)
next
  case False
  have "strrchr (host @ CHR '':'' # port) CHR '':'' = Some (length host)"
    by (rule strrchr_append_Some) (rule assms(2))
  moreover have "host \<noteq> []" using assms(1) by (simp add: uri_host_spec_def)
  ultimately show ?thesis using False
    by (simp add: port_separator_def char_at_def nth_append hd_conv_nth)
qed

lemma port_separator_Some:
  assumes "port_separator a = Some n"
  shows "n < length a \<and> a ! n = CHR '':'' \<and> uri_host_spec (take n a)"
proof (cases "char_at a 0 = CHR ''[''")
  case True
  with assms obtain closing where "strchr a CHR '']'' = Some closing"
    by (cases "strchr a CHR '']''") (simp_all add: port_separator_def)
  with True assms have c: "strchr a CHR '']'' = Some closing" "closing \<noteq> 1"
      "char_at a (closing + 1) = CHR '':''" "n = closing + 1"
    by (simp_all add: port_separator_def split: if_splits)
  have a0: "a ! 0 = CHR ''[''" "a \<noteq> []" using True by (auto simp: char_at_def split: if_splits)
  have cl: "closing < length a" "a ! closing = CHR '']''" "CHR '']'' \<notin> set (take closing a)"
    using c(1) by (simp_all add: strchr_Some)
  have n: "n < length a" "a ! n = CHR '':''"
    using c(3,4) by (auto simp: char_at_def split: if_splits)
  have pos: "2 \<le> closing" using cl(2) a0(1) c(2) by (cases closing) auto
  let ?inner = "drop 1 (take closing a)"
  have "take n a = take closing a @ [CHR '']'']"
    using cl c(4) by (simp add: take_Suc_conv_app_nth)
  moreover have "take closing a = CHR ''['' # ?inner"
    using a0 pos by (cases a) (auto simp: take_Cons')
  moreover have "CHR '']'' \<notin> set ?inner" using cl(3) by (meson in_set_dropD)
  moreover have "?inner \<noteq> []" using pos cl(1) by simp
  ultimately have "take n a = CHR ''['' # ?inner @ '']'' \<and> ?inner \<noteq> []
      \<and> CHR '']'' \<notin> set ?inner" by (metis append_Cons)
  moreover from this have "take n a \<noteq> []" by (metis list.distinct(1))
  ultimately have "uri_host_spec (take n a)" unfolding uri_host_spec_def by blast
  with n show ?thesis by simp
next
  case False
  with assms obtain m where "strrchr a CHR '':'' = Some m"
    by (cases "strrchr a CHR '':''") (simp_all add: port_separator_def)
  with False assms have s: "strrchr a CHR '':'' = Some n" "n \<noteq> 0"
    by (simp_all add: port_separator_def split: if_splits)
  then have "n < length a" "a ! n = CHR '':''" by (simp_all add: strrchr_Some)
  moreover from this s(2) False have "uri_host_spec (take n a)"
    by (auto simp: uri_host_spec_def char_at_def hd_conv_nth split: if_splits)
  ultimately show ?thesis by simp
qed

lemma valid_mqtts_uri_iff: "valid_mqtts_uri v \<longleftrightarrow> mqtts_uri_spec (cstr v)"
proof
  assume L: "valid_mqtts_uri v"
  let ?s = "cstr v" and ?a = "drop 8 (cstr v)"
  from L obtain n where n: "port_separator ?a = Some n"
    by (cases "port_separator ?a") (auto simp: valid_mqtts_uri_def Let_def split: if_splits)
  with L have pre: "take 8 ?s = ''mqtts://''" and "CHR ''@'' \<notin> set ?a"
      and ws: "set ?s \<inter> set uri_whitespace = {}"
      and port: "drop (n + 1) ?a \<noteq> []"
        "(case port_loop 0 (drop (n + 1) ?a) of None \<Rightarrow> False | Some port \<Rightarrow> port > 0)"
    by (auto simp: valid_mqtts_uri_def Let_def list_ex_iff split: if_splits)
  have s: "?s = ''mqtts://'' @ ?a" using pre by (metis append_take_drop_id)
  have nn: "n < length ?a" "?a ! n = CHR '':''" "uri_host_spec (take n ?a)"
    using port_separator_Some [OF n] by auto
  then have a: "?a = take n ?a @ CHR '':'' # drop (n + 1) ?a"
    by (metis Suc_eq_plus1 id_take_nth_drop)
  have "set (take n ?a) \<subseteq> set ?a" "set ?a \<subseteq> set ?s"
    by (auto dest: in_set_takeD in_set_dropD)
  then have "CHR ''@'' \<notin> set (take n ?a)" "set (take n ?a) \<inter> set uri_whitespace = {}"
    using \<open>CHR ''@'' \<notin> set ?a\<close> ws by auto
  then show "mqtts_uri_spec ?s"
    unfolding mqtts_uri_spec_def using s a nn(3) port port_loop_positive
    by (intro exI [of _ "take n ?a"] exI [of _ "drop (n + 1) ?a"]) auto
next
  assume "mqtts_uri_spec (cstr v)"
  then obtain host port where s: "cstr v = ''mqtts://'' @ host @ CHR '':'' # port"
      and host: "uri_host_spec host" "CHR ''@'' \<notin> set host" "set host \<inter> set uri_whitespace = {}"
      and port: "port \<noteq> []" "list_all is_digit port" "1 \<le> dec_value port" "dec_value port \<le> 65535"
    by (auto simp: mqtts_uri_spec_def)
  have "port_separator (host @ CHR '':'' # port) = Some (length host)"
    using host(1) colon_not_digit [OF port(2)] by (rule port_separator_host)
  moreover have "host \<noteq> []" using host(1) by (simp add: uri_host_spec_def)
  then have "char_at (cstr v) 8 \<noteq> NUL"
    using cstr_no_nul [of v] s by (cases host) (auto simp: char_at_def)
  moreover have "\<not> list_ex (\<lambda>w. w \<in> set (cstr v)) uri_whitespace"
    using host(3) digits_no_whitespace [OF port(2)] s
    by (auto simp: list_ex_iff uri_whitespace_def)
  moreover have "CHR ''@'' \<notin> set (host @ CHR '':'' # port)"
    using host(2) digits_no_at [OF port(2)] by simp
  ultimately show "valid_mqtts_uri v"
    using s port port_loop_positive [of port] by (simp add: valid_mqtts_uri_def Let_def)
qed

subsection \<open>The whole validation\<close>

lemma gpio_allowed_iff:
  "gpio_allowed g \<longleftrightarrow> 0 \<le> sint g \<and> sint g \<le> 39 \<and> sint g \<notin> set reserved_gpios"
  by (auto simp: gpio_allowed_def list_ex_iff)

lemma client_id_iff:
  "client_id_spec i u \<longleftrightarrow> \<not> (i = [] \<or> i = u \<or> CHR ''/'' \<in> set i \<or> CHR ''+'' \<in> set i \<or> CHR ''#'' \<in> set i)"
  by (auto simp: client_id_spec_def)

lemma pem_iff: "strstr s n \<noteq> None \<longleftrightarrow> sublist n s"
  by (rule strstr_found_iff)

lemma check_None: "(if bad then Some message else rest) = None \<longleftrightarrow> \<not> bad \<and> rest = None"
  by simp

lemma validate_message_iff:
  assumes "config_layout c"
  shows "validate_message x509 (Some c) = None \<longleftrightarrow> config_spec x509 c"
proof -
  have len: "64 = length (device_id c)" "33 = length (wifi_ssid c)" "64 = length (wifi_password c)"
      "256 = length (mqtt_broker_uri c)" "4096 = length (mqtt_ca_certificate c)"
      "64 = length (mqtt_username c)" "128 = length (mqtt_password c)"
      "128 = length (mqtt_client_id c)"
    using assms by (simp_all add: config_layout_def)
  have ends: "terminated (device_id c) 64 \<longleftrightarrow> NUL \<in> set (device_id c)"
      "terminated (wifi_ssid c) 33 \<longleftrightarrow> NUL \<in> set (wifi_ssid c)"
      "terminated (mqtt_broker_uri c) 256 \<longleftrightarrow> NUL \<in> set (mqtt_broker_uri c)"
      "terminated (mqtt_ca_certificate c) 4096 \<longleftrightarrow> NUL \<in> set (mqtt_ca_certificate c)"
      "terminated (mqtt_username c) 64 \<longleftrightarrow> NUL \<in> set (mqtt_username c)"
      "terminated (mqtt_password c) 128 \<longleftrightarrow> NUL \<in> set (mqtt_password c)"
      "terminated (mqtt_client_id c) 128 \<longleftrightarrow> NUL \<in> set (mqtt_client_id c)"
    by (intro terminated_full; rule len)+
  have pw: "\<not> (strnlen (wifi_password c) 64 < 8
        \<or> strnlen (wifi_password c) 64 > DEVICE_CONFIG_WIFI_PASSWORD_MAX)
      \<longleftrightarrow> NUL \<in> set (wifi_password c) \<and> 8 \<le> length (cstr (wifi_password c))"
    using len(3) cstr_terminated_iff [of "wifi_password c"] strnlen_full [OF len(3)] by auto
  have nz: "wifi_ssid c ! 0 = NUL \<longleftrightarrow> cstr (wifi_ssid c) = []"
      "mqtt_password c ! 0 = NUL \<longleftrightarrow> cstr (mqtt_password c) = []"
      "mqtt_client_id c ! 0 = NUL \<longleftrightarrow> cstr (mqtt_client_id c) = []"
    using len by (auto intro!: first_char_nul)
  have id: "\<not> (\<not> NUL \<in> set (device_id c) \<or> \<not> valid_device_id (device_id c))
      \<longleftrightarrow> NUL \<in> set (device_id c) \<and> device_id_spec (cstr (device_id c))"
    using valid_device_id_iff [OF len(1) [symmetric]] by blast
  have pull: "\<not> (machine_status_pull c < DEVICE_CONFIG_PULL_NONE
        \<or> machine_status_pull c > DEVICE_CONFIG_PULL_DOWN)
      \<longleftrightarrow> machine_status_pull c \<le> DEVICE_CONFIG_PULL_DOWN"
    by (simp add: not_less)
  have provider: "DEVICE_CONFIG_MACHINE_DISABLED \<noteq> DEVICE_CONFIG_MACHINE_GPIO" by simp
  show ?thesis
    unfolding validate_message_def option.case check_None ends nz id pw pull valid_mqtts_uri_iff
      gpio_allowed_iff config_spec_def config_strings_terminated_def ball_simps client_id_iff
      gpio_spec_def pem_iff [symmetric] DEVICE_CONFIG_SCHEMA_VERSION_def
    using provider by (auto simp only: not_less de_Morgan_disj de_Morgan_conj not_not)
qed

lemma validate_quiet_ok [simp]:
  "validate_quiet x509 c = ESP_OK \<longleftrightarrow> validate_message x509 (Some c) = None"
  by (simp add: validate_quiet_def device_config_validate_def split: option.splits)

lemma validate_quiet_cases: "validate_quiet x509 c \<in> {ESP_OK, ESP_ERR_INVALID_ARG}"
  by (simp add: validate_quiet_def device_config_validate_def split: option.splits)

end
