(* ===== verification/Config_Storage.thy ===== *)
theory Config_Storage
  imports Config_Model "HOL-Library.Monad_Syntax"
begin

text \<open>
  The stable binary format in which configuration and metadata are kept in flash
  (\<^verbatim>\<open>device_config_storage.c\<close>): a bounded writer and a bounded reader over a byte
  buffer, the header, and the two encoders and decoders. A chain of C writes joined by
  \<^verbatim>\<open>&&\<close> is \<open>write_seq\<close>; a chain of reads is a sequence in the option monad, \<open>None\<close>
  being the chain's failure, upon which the code zeroes its result.

  The lemmas show that the encoders never run out of space, give the exact bytes, and
  that encoder and decoder form a codec (interpretations of \<open>codec\<close>): what is encoded
  decodes to itself and every accepted blob is the encoding of what it decodes to.
\<close>

section \<open>Sizes and magic numbers\<close>

definition DEVICE_CONFIG_STORAGE_FORMAT_VERSION :: u16 where
  [simp]: "DEVICE_CONFIG_STORAGE_FORMAT_VERSION = 1"

definition DEVICE_CONFIG_STORAGE_HEADER_SIZE :: nat where
  [simp]: "DEVICE_CONFIG_STORAGE_HEADER_SIZE = 12"

definition CONFIGURATION_PAYLOAD_SIZE :: nat where
  "CONFIGURATION_PAYLOAD_SIZE =
     4 + 4 + (DEVICE_CONFIG_DEVICE_ID_MAX + 1) + (DEVICE_CONFIG_WIFI_SSID_MAX + 1)
     + (DEVICE_CONFIG_WIFI_PASSWORD_MAX + 1) + (DEVICE_CONFIG_MQTT_URI_MAX + 1)
     + (DEVICE_CONFIG_MQTT_CA_MAX + 1) + (DEVICE_CONFIG_MQTT_USERNAME_MAX + 1)
     + (DEVICE_CONFIG_MQTT_PASSWORD_MAX + 1) + (DEVICE_CONFIG_MQTT_CLIENT_ID_MAX + 1)
     + 4 + 1 + 4 + 1 + 1 + 1 + 4 + 4"

definition METADATA_PAYLOAD_SIZE :: nat where
  "METADATA_PAYLOAD_SIZE = 1 + 4 + 4 + 4 + (DEVICE_CONFIG_ROLLBACK_REASON_MAX + 1)"

definition CONFIGURATION_MAGIC :: "byte list" where
  "CONFIGURATION_MAGIC = map byte_of_char ''IEMC''"

definition METADATA_MAGIC :: "byte list" where
  "METADATA_MAGIC = map byte_of_char ''IEMM''"

definition device_config_storage_configuration_size :: nat where
  "device_config_storage_configuration_size
     = DEVICE_CONFIG_STORAGE_HEADER_SIZE + CONFIGURATION_PAYLOAD_SIZE"

definition device_config_storage_metadata_size :: nat where
  "device_config_storage_metadata_size
     = DEVICE_CONFIG_STORAGE_HEADER_SIZE + METADATA_PAYLOAD_SIZE"

lemma storage_sizes [simp]:
  "CONFIGURATION_PAYLOAD_SIZE = 4861" "METADATA_PAYLOAD_SIZE = 109"
  "device_config_storage_configuration_size = 4873" "device_config_storage_metadata_size = 121"
  by (simp_all add: CONFIGURATION_PAYLOAD_SIZE_def METADATA_PAYLOAD_SIZE_def
      device_config_storage_configuration_size_def device_config_storage_metadata_size_def)

lemma length_magic [simp]: "length CONFIGURATION_MAGIC = 4" "length METADATA_MAGIC = 4"
  by (simp_all add: CONFIGURATION_MAGIC_def METADATA_MAGIC_def)

section \<open>The bounded writer\<close>

record writer =
  w_data :: "byte list"
  w_size :: nat
  w_offset :: nat

definition write_bytes :: "byte list \<Rightarrow> writer \<Rightarrow> bool \<times> writer" where
  "write_bytes v w =
     (if w_offset w > w_size w \<or> length v > w_size w - w_offset w then (False, w)
      else (True, w\<lparr>w_data := take (w_offset w) (w_data w) @ v
                        @ drop (w_offset w + length v) (w_data w),
                   w_offset := w_offset w + length v\<rparr>))"

definition write_u8 :: "byte \<Rightarrow> writer \<Rightarrow> bool \<times> writer" where
  "write_u8 v = write_bytes [v]"

definition write_u16 :: "u16 \<Rightarrow> writer \<Rightarrow> bool \<times> writer" where
  "write_u16 v = write_bytes [ucast v, ucast (drop_bit 8 v)]"

definition write_u32 :: "u32 \<Rightarrow> writer \<Rightarrow> bool \<times> writer" where
  "write_u32 v = write_bytes
     [ucast v, ucast (drop_bit 8 v), ucast (drop_bit 16 v), ucast (drop_bit 24 v)]"

definition write_chars :: "carray \<Rightarrow> writer \<Rightarrow> bool \<times> writer" where
  "write_chars a = write_bytes (map byte_of_char a)"

text \<open>Writes joined by \<^verbatim>\<open>&&\<close>: the first failure ends the chain.\<close>

fun write_seq :: "(writer \<Rightarrow> bool \<times> writer) list \<Rightarrow> writer \<Rightarrow> bool \<times> writer" where
  "write_seq [] w = (True, w)"
| "write_seq (f # fs) w = (case f w of (ok, w') \<Rightarrow> if ok then write_seq fs w' else (False, w'))"

definition write_header :: "byte list \<Rightarrow> u32 \<Rightarrow> writer \<Rightarrow> bool \<times> writer" where
  "write_header magic payload_size =
     write_seq [write_bytes (take 4 magic), write_u16 DEVICE_CONFIG_STORAGE_FORMAT_VERSION,
       write_u16 (of_nat DEVICE_CONFIG_STORAGE_HEADER_SIZE), write_u32 payload_size]"

section \<open>The bounded reader\<close>

record reader =
  r_data :: "byte list"
  r_size :: nat
  r_offset :: nat

definition read_bytes :: "nat \<Rightarrow> reader \<Rightarrow> (byte list \<times> reader) option" where
  "read_bytes n r =
     (if r_offset r > r_size r \<or> n > r_size r - r_offset r then None
      else Some (take n (drop (r_offset r) (r_data r)), r\<lparr>r_offset := r_offset r + n\<rparr>))"

definition read_u8 :: "reader \<Rightarrow> (byte \<times> reader) option" where
  "read_u8 r = do { (b, r) \<leftarrow> read_bytes 1 r; Some (b ! 0, r) }"

definition read_u32 :: "reader \<Rightarrow> (u32 \<times> reader) option" where
  "read_u32 r = do { (e, r) \<leftarrow> read_bytes 4 r;
     Some (ucast (e ! 0) OR push_bit 8 (ucast (e ! 1)) OR push_bit 16 (ucast (e ! 2))
             OR push_bit 24 (ucast (e ! 3)), r) }"

definition read_chars :: "nat \<Rightarrow> reader \<Rightarrow> (carray \<times> reader) option" where
  "read_chars n r = do { (b, r) \<leftarrow> read_bytes n r; Some (map char_of_byte b, r) }"

definition decode_u16 :: "byte list \<Rightarrow> u16" where
  "decode_u16 v = ucast (v ! 0) OR push_bit 8 (ucast (v ! 1))"

definition decode_u32 :: "byte list \<Rightarrow> u32" where
  "decode_u32 v = ucast (v ! 0) OR push_bit 8 (ucast (v ! 1)) OR push_bit 16 (ucast (v ! 2))
     OR push_bit 24 (ucast (v ! 3))"

section \<open>Header\<close>

record device_config_storage_header =
  format_version :: u16
  header_size :: u16
  payload_size :: u32

definition device_config_storage_peek_header ::
  "byte list option \<Rightarrow> byte list \<Rightarrow> device_config_storage_header
     \<Rightarrow> esp_err \<times> device_config_storage_header" where
  "device_config_storage_peek_header encoded expected_magic h0 =
     (case encoded of None \<Rightarrow> (ESP_ERR_INVALID_ARG, h0) | Some e \<Rightarrow>
      if length e < DEVICE_CONFIG_STORAGE_HEADER_SIZE then (ESP_ERR_INVALID_SIZE, h0)
      else if take 4 e \<noteq> expected_magic then (ESP_ERR_INVALID_ARG, h0)
      else let h = \<lparr>format_version = decode_u16 (drop 4 e), header_size = decode_u16 (drop 6 e),
                    payload_size = decode_u32 (drop 8 e)\<rparr> in
        if format_version h \<noteq> DEVICE_CONFIG_STORAGE_FORMAT_VERSION
          then (ESP_ERR_NOT_SUPPORTED, h)
        else if unat (header_size h) \<noteq> DEVICE_CONFIG_STORAGE_HEADER_SIZE
            \<or> unat (payload_size h) \<noteq> length e - unat (header_size h)
          then (ESP_ERR_INVALID_SIZE, h)
        else (ESP_OK, h))"

section \<open>Configuration\<close>

definition device_config_storage_encode_configuration ::
  "device_config option \<Rightarrow> byte list option \<Rightarrow> esp_err \<times> byte list option" where
  "device_config_storage_encode_configuration configuration encoded =
     (case (configuration, encoded) of
        (Some c, Some buffer) \<Rightarrow>
          if length buffer \<noteq> device_config_storage_configuration_size
            then (ESP_ERR_INVALID_SIZE, encoded)
          else let (ok, w) =
              write_seq
               [write_header CONFIGURATION_MAGIC (of_nat CONFIGURATION_PAYLOAD_SIZE),
                write_u32 (schema_version c),
                write_u32 (revision c),
                write_chars (device_id c),
                write_chars (wifi_ssid c),
                write_chars (wifi_password c),
                write_chars (mqtt_broker_uri c),
                write_chars (mqtt_ca_certificate c),
                write_chars (mqtt_username c),
                write_chars (mqtt_password c),
                write_chars (mqtt_client_id c),
                write_u32 (telemetry_interval_seconds c),
                write_u8 (ucast (machine_status_provider c)),
                write_u32 (machine_status_gpio c),
                write_u8 (if machine_status_active_high c then 1 else 0),
                write_u8 (ucast (machine_status_pull c)),
                write_u8 (if maintenance_on_boot c then 1 else 0),
                write_u32 (maintenance_window_seconds c),
                write_u32 (maintenance_max_session_seconds c)]
               \<lparr>w_data = buffer, w_size = length buffer, w_offset = 0\<rparr>
            in (if ok \<and> w_offset w = length buffer then ESP_OK else ESP_ERR_INVALID_SIZE,
                Some (w_data w))
      | _ \<Rightarrow> (ESP_ERR_INVALID_ARG, encoded))"

text \<open>The reads of the decoder: the configuration read so far, and the two checked flags.\<close>

definition read_configuration_fields ::
  "reader \<Rightarrow> (device_config \<times> byte \<times> byte \<times> reader) option" where
  "read_configuration_fields r = do {
     (v_schema, r) \<leftarrow> read_u32 r;
     (v_revision, r) \<leftarrow> read_u32 r;
     (v_device_id, r) \<leftarrow> read_chars 64 r;
     (v_ssid, r) \<leftarrow> read_chars 33 r;
     (v_wifi_password, r) \<leftarrow> read_chars 64 r;
     (v_uri, r) \<leftarrow> read_chars 256 r;
     (v_ca, r) \<leftarrow> read_chars 4096 r;
     (v_username, r) \<leftarrow> read_chars 64 r;
     (v_password, r) \<leftarrow> read_chars 128 r;
     (v_client_id, r) \<leftarrow> read_chars 128 r;
     (v_telemetry, r) \<leftarrow> read_u32 r;
     (provider, r) \<leftarrow> read_u8 r;
     (gpio, r) \<leftarrow> read_u32 r;
     (active_high, r) \<leftarrow> read_u8 r;
     (pull, r) \<leftarrow> read_u8 r;
     (maintenance, r) \<leftarrow> read_u8 r;
     (v_window, r) \<leftarrow> read_u32 r;
     (v_max_session, r) \<leftarrow> read_u32 r;
     Some (\<lparr>schema_version = v_schema, revision = v_revision, device_id = v_device_id,
            wifi_ssid = v_ssid, wifi_password = v_wifi_password, mqtt_broker_uri = v_uri,
            mqtt_ca_certificate = v_ca, mqtt_username = v_username, mqtt_password = v_password,
            mqtt_client_id = v_client_id, telemetry_interval_seconds = v_telemetry,
            machine_status_provider = ucast provider, machine_status_gpio = gpio,
            machine_status_active_high = (active_high = 1), machine_status_pull = ucast pull,
            maintenance_on_boot = (maintenance = 1), maintenance_window_seconds = v_window,
            maintenance_max_session_seconds = v_max_session\<rparr>, active_high, maintenance, r) }"

definition empty_header :: device_config_storage_header where
  "empty_header = \<lparr>format_version = 0, header_size = 0, payload_size = 0\<rparr>"

definition device_config_storage_decode_configuration ::
  "byte list option \<Rightarrow> device_config option \<Rightarrow> esp_err \<times> device_config option" where
  "device_config_storage_decode_configuration encoded configuration =
     (case configuration of None \<Rightarrow> (ESP_ERR_INVALID_ARG, None) | Some c0 \<Rightarrow>
      case device_config_storage_peek_header encoded CONFIGURATION_MAGIC empty_header of
        (result, h) \<Rightarrow>
          if result \<noteq> ESP_OK then (result, Some c0)
          else if unat (payload_size h) \<noteq> CONFIGURATION_PAYLOAD_SIZE
            then (ESP_ERR_INVALID_SIZE, Some c0)
          else (case encoded of None \<Rightarrow> (ESP_ERR_INVALID_ARG, Some c0) | Some e \<Rightarrow>
            (case read_configuration_fields
                \<lparr>r_data = e, r_size = length e, r_offset = DEVICE_CONFIG_STORAGE_HEADER_SIZE\<rparr> of
               None \<Rightarrow> (ESP_ERR_INVALID_SIZE, Some zero_config)
             | Some (c, active_high, maintenance, r) \<Rightarrow>
                 if r_offset r \<noteq> length e \<or> active_high > 1 \<or> maintenance > 1
                   then (ESP_ERR_INVALID_SIZE, Some zero_config)
                 else (ESP_OK, Some c))))"

section \<open>Metadata\<close>

fun state_code :: "device_config_state \<Rightarrow> byte" where
  "state_code DEVICE_CONFIG_STATE_NONE = 0"
| "state_code DEVICE_CONFIG_STATE_ACTIVE = 1"
| "state_code DEVICE_CONFIG_STATE_PENDING = 2"
| "state_code DEVICE_CONFIG_STATE_ROLLBACK = 3"

definition state_of_code :: "byte \<Rightarrow> device_config_state" where
  "state_of_code b =
     (if b = 0 then DEVICE_CONFIG_STATE_NONE else if b = 1 then DEVICE_CONFIG_STATE_ACTIVE
      else if b = 2 then DEVICE_CONFIG_STATE_PENDING else DEVICE_CONFIG_STATE_ROLLBACK)"

definition device_config_storage_encode_metadata ::
  "device_config_metadata option \<Rightarrow> byte list option \<Rightarrow> esp_err \<times> byte list option" where
  "device_config_storage_encode_metadata metadata encoded =
     (case (metadata, encoded) of
        (Some m, Some buffer) \<Rightarrow>
          if length buffer \<noteq> device_config_storage_metadata_size
            then (ESP_ERR_INVALID_SIZE, encoded)
          else let (ok, w) =
              write_seq
               [write_header METADATA_MAGIC (of_nat METADATA_PAYLOAD_SIZE),
                write_u8 (state_code (md_state m)),
                write_u32 (candidate_revision m),
                write_u32 (boot_attempts m),
                write_u32 (boot_count m),
                write_chars (last_rollback_reason m)]
               \<lparr>w_data = buffer, w_size = length buffer, w_offset = 0\<rparr>
            in (if ok \<and> w_offset w = length buffer then ESP_OK else ESP_ERR_INVALID_SIZE,
                Some (w_data w))
      | _ \<Rightarrow> (ESP_ERR_INVALID_ARG, encoded))"

definition read_metadata_fields ::
  "reader \<Rightarrow> (byte \<times> device_config_metadata \<times> reader) option" where
  "read_metadata_fields r = do {
     (state, r) \<leftarrow> read_u8 r;
     (v_revision, r) \<leftarrow> read_u32 r;
     (v_attempts, r) \<leftarrow> read_u32 r;
     (v_count, r) \<leftarrow> read_u32 r;
     (v_reason, r) \<leftarrow> read_chars 96 r;
     Some (state, \<lparr>md_state = state_of_code state, candidate_revision = v_revision,
       boot_attempts = v_attempts, boot_count = v_count, last_rollback_reason = v_reason\<rparr>, r) }"

definition device_config_storage_decode_metadata ::
  "byte list option \<Rightarrow> device_config_metadata option \<Rightarrow> esp_err \<times> device_config_metadata option"
where
  "device_config_storage_decode_metadata encoded metadata =
     (case metadata of None \<Rightarrow> (ESP_ERR_INVALID_ARG, None) | Some m0 \<Rightarrow>
      case device_config_storage_peek_header encoded METADATA_MAGIC empty_header of
        (result, h) \<Rightarrow>
          if result \<noteq> ESP_OK then (result, Some m0)
          else if unat (payload_size h) \<noteq> METADATA_PAYLOAD_SIZE
            then (ESP_ERR_INVALID_SIZE, Some m0)
          else (case encoded of None \<Rightarrow> (ESP_ERR_INVALID_ARG, Some m0) | Some e \<Rightarrow>
            (case read_metadata_fields
                \<lparr>r_data = e, r_size = length e, r_offset = DEVICE_CONFIG_STORAGE_HEADER_SIZE\<rparr> of
               None \<Rightarrow> (ESP_ERR_INVALID_SIZE, Some zero_metadata)
             | Some (state, m, r) \<Rightarrow>
                 if r_offset r \<noteq> length e \<or> state > state_code DEVICE_CONFIG_STATE_ROLLBACK
                     \<or> last_rollback_reason m ! DEVICE_CONFIG_ROLLBACK_REASON_MAX \<noteq> NUL
                   then (ESP_ERR_INVALID_SIZE, Some zero_metadata)
                 else (ESP_OK, Some m))))"

section \<open>Writing behind a prefix, reading behind a prefix\<close>

definition writer_at :: "byte list \<Rightarrow> byte list \<Rightarrow> writer" where
  "writer_at front rest = \<lparr>w_data = front @ rest, w_size = length (front @ rest), w_offset = length front\<rparr>"

definition reader_at :: "byte list \<Rightarrow> byte list \<Rightarrow> reader" where
  "reader_at front rest = \<lparr>r_data = front @ rest, r_size = length (front @ rest), r_offset = length front\<rparr>"

lemma write_bytes_at [codec_simps]:
  "length v \<le> length rest \<Longrightarrow>
   write_bytes v (writer_at front rest) = (True, writer_at (front @ v) (drop (length v) rest))"
  by (simp add: write_bytes_def writer_at_def)

lemma write_ints [codec_simps]:
  "write_u8 b = write_bytes [b]" "write_u16 h = write_bytes (le16 h)"
  "write_u32 x = write_bytes (le32 x)"
  by (simp_all add: write_u8_def write_u16_def write_u32_def le16_def le32_def)

lemma write_seq_bytes:
  "length (concat vs) \<le> length rest \<Longrightarrow>
   write_seq (map write_bytes vs) (writer_at front rest)
     = (True, writer_at (front @ concat vs) (drop (length (concat vs)) rest))"
proof (induction vs arbitrary: front rest)
  case Nil
  then show ?case by (simp add: writer_at_def)
next
  case (Cons v vs)
  then show ?case by (simp add: write_bytes_at add.commute)
qed

lemma write_seq_append:
  "write_seq (fs @ gs) w = (case write_seq fs w of (ok, w') \<Rightarrow> if ok then write_seq gs w' else (False, w'))"
  by (induction fs arbitrary: w) (auto split: prod.splits)

lemma write_seq_header:
  "write_seq (write_header magic n # fs) w
     = write_seq (map write_bytes [take 4 magic, le16 1, le16 12, le32 n] @ fs) w"
  by (simp add: write_header_def write_ints split: prod.splits)

lemma read_bytes_at [codec_simps]:
  "n = length v \<Longrightarrow> read_bytes n (reader_at front (v @ rest)) = Some (v, reader_at (front @ v) rest)"
  by (simp add: read_bytes_def reader_at_def)

lemma read_bytes_short: "length rest < n \<Longrightarrow> read_bytes n (reader_at front rest) = None"
  by (simp add: read_bytes_def reader_at_def)

lemma read_u8_at [codec_simps]:
  "read_u8 (reader_at front (b # rest)) = Some (b, reader_at (front @ [b]) rest)"
  using read_bytes_at [of 1 "[b]"] by (simp add: read_u8_def)

lemma of_le32_nth: "length v = 4 \<Longrightarrow> of_le32 v = ucast (v ! 0) OR push_bit 8 (ucast (v ! 1))
    OR push_bit 16 (ucast (v ! 2)) OR push_bit 24 (ucast (v ! 3))"
  by (auto simp: numeral_eq_Suc length_Suc_conv)

lemma read_u32_at [codec_simps]:
  "length v = 4 \<Longrightarrow> read_u32 (reader_at front (v @ rest)) = Some (of_le32 v, reader_at (front @ v) rest)"
  using read_bytes_at [of 4 v] by (simp add: read_u32_def of_le32_nth)

lemma read_chars_at [codec_simps]:
  "n = length v \<Longrightarrow> read_chars n (reader_at front (v @ rest))
     = Some (map char_of_byte v, reader_at (front @ v) rest)"
  by (simp add: read_chars_def read_bytes_at)

lemma decode_u16_le16 [simp]: "decode_u16 (le16 w @ rest) = w"
  using of_le16_le16 [of w rest] by (simp add: le16_def decode_u16_def)

lemma decode_u32_le32 [simp]: "decode_u32 (le32 w @ rest) = w"
  using of_le32_le32 [of w rest] by (simp add: le32_def decode_u32_def)

section \<open>Headers\<close>

definition storage_header :: "byte list \<Rightarrow> nat \<Rightarrow> byte list" where
  "storage_header magic n = magic @ le16 1 @ le16 12 @ le32 (of_nat n)"

lemma length_storage_header [simp]: "length magic = 4 \<Longrightarrow> length (storage_header magic n) = 12"
  by (simp add: storage_header_def)

lemma le16_decode: "length v = 2 \<Longrightarrow> le16 (decode_u16 v) = v"
  using le16_of_le16 [of v] by (auto simp: decode_u16_def numeral_eq_Suc length_Suc_conv)

lemma le32_decode: "length v = 4 \<Longrightarrow> le32 (decode_u32 v) = v"
  using le32_of_le32 [of v] by (auto simp: decode_u32_def numeral_eq_Suc length_Suc_conv)

lemma peek_header_ok_iff:
  assumes "length magic = 4"
  shows "fst (device_config_storage_peek_header (Some e) magic h0) = ESP_OK
      \<longleftrightarrow> (\<exists>payload. e = storage_header magic (length payload) @ payload \<and> length payload < 2 ^ 32)"
proof
  assume L: "fst (device_config_storage_peek_header (Some e) magic h0) = ESP_OK"
  let ?p = "drop 12 e"
  have len: "12 \<le> length e" and m: "take 4 e = magic" and v: "decode_u16 (drop 4 e) = 1"
      and hs: "unat (decode_u16 (drop 6 e)) = 12" and ps: "unat (decode_u32 (drop 8 e)) = length e - 12"
    using L by (auto simp: device_config_storage_peek_header_def Let_def split: if_splits)
  have f: "decode_u16 v = decode_u16 (take 2 v)" "decode_u32 v = decode_u32 (take 4 v)" for v
    by (simp_all add: decode_u16_def decode_u32_def)
  have "take 2 (drop 4 e) = le16 (decode_u16 (drop 4 e))"
    using len by (subst f(1)) (simp add: le16_decode)
  moreover have "take 2 (drop 6 e) = le16 (decode_u16 (drop 6 e))"
    using len by (subst f(1)) (simp add: le16_decode)
  moreover have "take 4 (drop 8 e) = le32 (decode_u32 (drop 8 e))"
    using len by (subst f(2)) (simp add: le32_decode)
  moreover have "decode_u16 (drop 6 e) = 12"
    using hs by (simp add: word_unat_eq_iff)
  moreover have "decode_u32 (drop 8 e) = of_nat (length ?p)"
    using ps by (metis length_drop of_nat_unat ucast_id)
  moreover have "take 12 e = take 4 e @ take 2 (drop 4 e) @ take 2 (drop 6 e) @ take 4 (drop 8 e)"
    using take_add [of 4 2 e] take_add [of 6 2 e] take_add [of 8 4 e] by simp
  then have "e = take 4 e @ take 2 (drop 4 e) @ take 2 (drop 6 e) @ take 4 (drop 8 e) @ ?p"
    using append_take_drop_id [of 12 e] by simp
  ultimately have "e = storage_header magic (length ?p) @ ?p"
    using m v by (simp add: storage_header_def)
  moreover have "unat (decode_u32 (drop 8 e)) < 2 ^ LENGTH(32)" by (rule unsigned_less)
  then have "length ?p < 2 ^ 32" using ps by simp
  ultimately show "\<exists>payload. e = storage_header magic (length payload) @ payload
      \<and> length payload < 2 ^ 32" by blast
next
  assume "\<exists>payload. e = storage_header magic (length payload) @ payload \<and> length payload < 2 ^ 32"
  then obtain p where e: "e = storage_header magic (length p) @ p" and b: "length p < 2 ^ 32" by blast
  have "unat (of_nat (length p) :: u32) = length p" using b by (simp add: unat_of_nat)
  then show "fst (device_config_storage_peek_header (Some e) magic h0) = ESP_OK"
    using assms by (simp add: e device_config_storage_peek_header_def storage_header_def Let_def)
qed
section \<open>Configuration and metadata as codecs\<close>

definition config_payload :: "device_config \<Rightarrow> byte list" where
  "config_payload c = concat
     [le32 (schema_version c), le32 (revision c), map byte_of_char (device_id c),
      map byte_of_char (wifi_ssid c), map byte_of_char (wifi_password c),
      map byte_of_char (mqtt_broker_uri c), map byte_of_char (mqtt_ca_certificate c),
      map byte_of_char (mqtt_username c), map byte_of_char (mqtt_password c),
      map byte_of_char (mqtt_client_id c), le32 (telemetry_interval_seconds c),
      [ucast (machine_status_provider c)], le32 (machine_status_gpio c),
      [if machine_status_active_high c then 1 else 0], [ucast (machine_status_pull c)],
      [if maintenance_on_boot c then 1 else 0], le32 (maintenance_window_seconds c),
      le32 (maintenance_max_session_seconds c)]"

definition metadata_payload :: "device_config_metadata \<Rightarrow> byte list" where
  "metadata_payload m = concat
     [[state_code (md_state m)], le32 (candidate_revision m), le32 (boot_attempts m),
      le32 (boot_count m), map byte_of_char (last_rollback_reason m)]"

text \<open>
  What survives encoding: the arrays at their capacity, the two enum values in one byte;
  for metadata, a rollback reason whose last character is the terminator.
\<close>

definition config_storable :: "device_config \<Rightarrow> bool" where
  "config_storable c \<longleftrightarrow>
     config_layout c \<and> machine_status_provider c < 256 \<and> machine_status_pull c < 256"

definition metadata_storable :: "device_config_metadata \<Rightarrow> bool" where
  "metadata_storable m \<longleftrightarrow> metadata_layout m \<and> last_rollback_reason m ! 95 = NUL"

lemma length_config_payload [layout_simps]: "config_layout c \<Longrightarrow> length (config_payload c) = 4861"
  by (simp add: config_payload_def config_layout_def)

lemma length_metadata_payload [layout_simps]:
  "metadata_layout m \<Longrightarrow> length (metadata_payload m) = 109"
  by (simp add: metadata_payload_def metadata_layout_def)

lemma writer_start: "\<lparr>w_data = b, w_size = length b, w_offset = 0\<rparr> = writer_at [] b"
  by (simp add: writer_at_def)

lemma take_magic [simp]:
  "take 4 CONFIGURATION_MAGIC = CONFIGURATION_MAGIC" "take 4 METADATA_MAGIC = METADATA_MAGIC"
  by simp_all

lemma write_seq_blob:
  assumes "length magic = 4" and "length buffer = 12 + length (concat vs)"
  shows "write_seq (write_header magic (of_nat n) # map write_bytes vs) (writer_at [] buffer)
     = (True, writer_at (storage_header magic n @ concat vs) [])"
proof -
  let ?h = "[take 4 magic, le16 1, le16 12, le32 (of_nat n)]"
  have "write_seq (map write_bytes (?h @ vs)) (writer_at [] buffer)
      = (True, writer_at ([] @ concat (?h @ vs)) (drop (length (concat (?h @ vs))) buffer))"
    by (rule write_seq_bytes) (use assms in simp)
  then show ?thesis
    unfolding write_seq_header map_append using assms by (simp add: storage_header_def)
qed

lemma encode_configuration_eq:
  assumes "config_layout c" and "length buffer = 4873"
  shows "device_config_storage_encode_configuration (Some c) (Some buffer)
     = (ESP_OK, Some (storage_header CONFIGURATION_MAGIC 4861 @ config_payload c))"
proof -
  let ?vs = "[le32 (schema_version c), le32 (revision c), map byte_of_char (device_id c),
      map byte_of_char (wifi_ssid c), map byte_of_char (wifi_password c),
      map byte_of_char (mqtt_broker_uri c), map byte_of_char (mqtt_ca_certificate c),
      map byte_of_char (mqtt_username c), map byte_of_char (mqtt_password c),
      map byte_of_char (mqtt_client_id c), le32 (telemetry_interval_seconds c),
      [ucast (machine_status_provider c)], le32 (machine_status_gpio c),
      [if machine_status_active_high c then 1 else 0], [ucast (machine_status_pull c)],
      [if maintenance_on_boot c then 1 else 0], le32 (maintenance_window_seconds c),
      le32 (maintenance_max_session_seconds c)]"
  have "length (concat ?vs) = 4861"
    using length_config_payload [OF assms(1)] by (simp add: config_payload_def)
  then have "write_seq (write_header CONFIGURATION_MAGIC (of_nat 4861) # map write_bytes ?vs)
      (writer_at [] buffer)
      = (True, writer_at (storage_header CONFIGURATION_MAGIC 4861 @ concat ?vs) [])"
    by (intro write_seq_blob) (use assms in simp_all)
  then show ?thesis
    using assms \<open>length (concat ?vs) = 4861\<close>
    by (simp add: device_config_storage_encode_configuration_def writer_start write_ints
        write_chars_def config_payload_def Let_def writer_at_def)
qed

lemma encode_metadata_eq:
  assumes "metadata_layout m" and "length buffer = 121"
  shows "device_config_storage_encode_metadata (Some m) (Some buffer)
     = (ESP_OK, Some (storage_header METADATA_MAGIC 109 @ metadata_payload m))"
proof -
  let ?vs = "[[state_code (md_state m)], le32 (candidate_revision m), le32 (boot_attempts m),
      le32 (boot_count m), map byte_of_char (last_rollback_reason m)]"
  have "length (concat ?vs) = 109"
    using length_metadata_payload [OF assms(1)] by (simp add: metadata_payload_def)
  then have "write_seq (write_header METADATA_MAGIC (of_nat 109) # map write_bytes ?vs)
      (writer_at [] buffer)
      = (True, writer_at (storage_header METADATA_MAGIC 109 @ concat ?vs) [])"
    by (intro write_seq_blob) (use assms in simp_all)
  then show ?thesis
    using assms \<open>length (concat ?vs) = 109\<close>
    by (simp add: device_config_storage_encode_metadata_def writer_start write_ints
        write_chars_def metadata_payload_def Let_def writer_at_def)
qed

subsection \<open>Decoding\<close>

lemma chunks_exist: "length bs = sum_list ns \<Longrightarrow> \<exists>vs. map length vs = ns \<and> concat vs = bs"
proof (induction ns arbitrary: bs)
  case Nil
  then show ?case by simp
next
  case (Cons n ns)
  then have "length (drop n bs) = sum_list ns" by simp
  then obtain vs where "map length vs = ns" "concat vs = drop n bs" using Cons.IH by blast
  then have "map length (take n bs # vs) = n # ns \<and> concat (take n bs # vs) = bs"
    using Cons.prems by simp
  then show ?case by (rule exI)
qed

definition config_of_fields where
  "config_of_fields s1 s2 a1 a2 a3 a4 a5 a6 a7 a8 s3 p g ah pu ma s4 s5 =
     \<lparr>schema_version = of_le32 s1, revision = of_le32 s2, device_id = map char_of_byte a1,
      wifi_ssid = map char_of_byte a2, wifi_password = map char_of_byte a3,
      mqtt_broker_uri = map char_of_byte a4, mqtt_ca_certificate = map char_of_byte a5,
      mqtt_username = map char_of_byte a6, mqtt_password = map char_of_byte a7,
      mqtt_client_id = map char_of_byte a8, telemetry_interval_seconds = of_le32 s3,
      machine_status_provider = ucast (p :: byte), machine_status_gpio = of_le32 g,
      machine_status_active_high = ((ah :: byte) = 1), machine_status_pull = ucast (pu :: byte),
      maintenance_on_boot = ((ma :: byte) = 1), maintenance_window_seconds = of_le32 s4,
      maintenance_max_session_seconds = of_le32 s5\<rparr>"

lemma read_configuration_fields_at:
  assumes "length s1 = 4" "length s2 = 4" "length a1 = 64" "length a2 = 33" "length a3 = 64"
    "length a4 = 256" "length a5 = 4096" "length a6 = 64" "length a7 = 128" "length a8 = 128"
    "length s3 = 4" "length g = 4" "length s4 = 4" "length s5 = 4"
  shows "read_configuration_fields (reader_at front (s1 @ s2 @ a1 @ a2 @ a3 @ a4 @ a5 @ a6 @ a7
      @ a8 @ s3 @ p # g @ ah # pu # ma # s4 @ s5 @ rest))
    = Some (config_of_fields s1 s2 a1 a2 a3 a4 a5 a6 a7 a8 s3 p g ah pu ma s4 s5, ah, ma,
        reader_at (front @ s1 @ s2 @ a1 @ a2 @ a3 @ a4 @ a5 @ a6 @ a7 @ a8 @ s3 @ p # g
          @ ah # pu # ma # s4 @ s5) rest)"
  using assms
  by (simp add: read_configuration_fields_def config_of_fields_def codec_simps del: append_assoc)
     (simp add: append_assoc)

lemma reader_start:
  "length h = 12 \<Longrightarrow> \<lparr>r_data = h @ p, r_size = length (h @ p), r_offset = 12\<rparr> = reader_at h p"
  by (simp add: reader_at_def)

lemma unat_u32_of_nat: "n < 2 ^ 32 \<Longrightarrow> unat (of_nat n :: u32) = n"
  by (simp add: unat_of_nat)

lemma peek_header_ok:
  assumes "length magic = 4" and "length p < 2 ^ 32"
  shows "device_config_storage_peek_header (Some (storage_header magic (length p) @ p)) magic h0
     = (ESP_OK, \<lparr>format_version = 1, header_size = 12, payload_size = of_nat (length p)\<rparr>)"
  using assms unat_u32_of_nat [OF assms(2)]
  by (simp add: device_config_storage_peek_header_def storage_header_def Let_def)

text \<open>The decoders on a blob with the right header and payload length, and on every other.\<close>

lemma decode_configuration_ok:
  assumes "length p = 4861"
  shows "device_config_storage_decode_configuration
      (Some (storage_header CONFIGURATION_MAGIC 4861 @ p)) (Some c0)
     = (case read_configuration_fields (reader_at (storage_header CONFIGURATION_MAGIC 4861) p) of
          None \<Rightarrow> (ESP_ERR_INVALID_SIZE, Some zero_config)
        | Some (c, active_high, maintenance, r) \<Rightarrow>
            if r_offset r \<noteq> 4873 \<or> active_high > 1 \<or> maintenance > 1
              then (ESP_ERR_INVALID_SIZE, Some zero_config)
            else (ESP_OK, Some c))"
  using assms peek_header_ok [of CONFIGURATION_MAGIC p empty_header]
    reader_start [of "storage_header CONFIGURATION_MAGIC 4861" p]
  by (simp add: device_config_storage_decode_configuration_def split: option.splits)

lemma decode_metadata_ok:
  assumes "length p = 109"
  shows "device_config_storage_decode_metadata
      (Some (storage_header METADATA_MAGIC 109 @ p)) (Some m0)
     = (case read_metadata_fields (reader_at (storage_header METADATA_MAGIC 109) p) of
          None \<Rightarrow> (ESP_ERR_INVALID_SIZE, Some zero_metadata)
        | Some (state, m, r) \<Rightarrow>
            if r_offset r \<noteq> 121 \<or> state > 3 \<or> last_rollback_reason m ! 95 \<noteq> NUL
              then (ESP_ERR_INVALID_SIZE, Some zero_metadata)
            else (ESP_OK, Some m))"
  using assms peek_header_ok [of METADATA_MAGIC p empty_header]
    reader_start [of "storage_header METADATA_MAGIC 109" p]
  by (simp add: device_config_storage_decode_metadata_def split: option.splits)

lemma decode_configuration_shape:
  assumes "device_config_storage_decode_configuration (Some e) (Some c0) = (ESP_OK, r)"
  obtains p where "e = storage_header CONFIGURATION_MAGIC 4861 @ p" and "length p = 4861"
proof -
  obtain h where h: "device_config_storage_peek_header (Some e) CONFIGURATION_MAGIC empty_header
      = (ESP_OK, h)" and n: "unat (payload_size h) = 4861"
    using assms
    by (auto simp: device_config_storage_decode_configuration_def split: prod.splits if_splits)
  then obtain p where p: "e = storage_header CONFIGURATION_MAGIC (length p) @ p" "length p < 2 ^ 32"
    using peek_header_ok_iff [of CONFIGURATION_MAGIC e empty_header] by auto
  then have "h = \<lparr>format_version = 1, header_size = 12, payload_size = of_nat (length p)\<rparr>"
    using h peek_header_ok [of CONFIGURATION_MAGIC p empty_header] by simp
  then have "length p = 4861" using n unat_u32_of_nat [OF p(2)] by simp
  with p that show thesis by simp
qed

lemma decode_metadata_shape:
  assumes "device_config_storage_decode_metadata (Some e) (Some m0) = (ESP_OK, r)"
  obtains p where "e = storage_header METADATA_MAGIC 109 @ p" and "length p = 109"
proof -
  obtain h where h: "device_config_storage_peek_header (Some e) METADATA_MAGIC empty_header
      = (ESP_OK, h)" and n: "unat (payload_size h) = 109"
    using assms
    by (auto simp: device_config_storage_decode_metadata_def split: prod.splits if_splits)
  then obtain p where p: "e = storage_header METADATA_MAGIC (length p) @ p" "length p < 2 ^ 32"
    using peek_header_ok_iff [of METADATA_MAGIC e empty_header] by auto
  then have "h = \<lparr>format_version = 1, header_size = 12, payload_size = of_nat (length p)\<rparr>"
    using h peek_header_ok [of METADATA_MAGIC p empty_header] by simp
  then have "length p = 109" using n unat_u32_of_nat [OF p(2)] by simp
  with p that show thesis by simp
qed

text \<open>The fields of a payload of the right length, and the payload they came from.\<close>

lemma configuration_chunks:
  assumes "length p = 4861"
  obtains s1 s2 a1 a2 a3 a4 a5 a6 a7 a8 s3 b g ah pu ma s4 s5 where
    "p = s1 @ s2 @ a1 @ a2 @ a3 @ a4 @ a5 @ a6 @ a7 @ a8 @ s3 @ b # g @ ah # pu # ma # s4 @ s5"
    "length s1 = 4" "length s2 = 4" "length a1 = 64" "length a2 = 33" "length a3 = 64"
    "length a4 = 256" "length a5 = 4096" "length a6 = 64" "length a7 = 128" "length a8 = 128"
    "length s3 = 4" "length g = 4" "length s4 = 4" "length s5 = 4"
proof -
  have "length p = sum_list [4, 4, 64, 33, 64, 256, 4096, 64, 128, 128, 4, 1, 4, 1, 1, 1, 4, 4]"
    using assms by simp
  from chunks_exist [OF this] obtain vs where vs: "map length vs = [4, 4, 64, 33, 64, 256, 4096, 64, 128, 128, 4, 1, 4, 1, 1, 1, 4, 4]" "concat vs = p"
    by (elim exE conjE)
  then show thesis
    by (clarsimp simp: map_eq_Cons_conv length_Suc_conv) (rule that, (rule refl | assumption)+)
qed

lemma metadata_chunks:
  assumes "length p = 109"
  obtains b s1 s2 s3 a where "p = b # s1 @ s2 @ s3 @ a"
    "length s1 = 4" "length s2 = 4" "length s3 = 4" "length a = 96"
proof -
  have "length p = sum_list [1, 4, 4, 4, 96]"
    using assms by simp
  from chunks_exist [OF this] obtain vs where vs: "map length vs = [1, 4, 4, 4, 96]" "concat vs = p"
    by (elim exE conjE)
  then show thesis
    by (clarsimp simp: map_eq_Cons_conv length_Suc_conv) (rule that, (rule refl | assumption)+)
qed

lemma byte_below: "unat (b :: byte) < 256"
proof -
  have "unat b < 2 ^ LENGTH(8)" by (rule unsigned_less)
  then show ?thesis by simp
qed

lemma unat_ucast_byte: "unat (ucast (b :: byte) :: u32) = unat b"
proof -
  have "unat b < 2 ^ 32" using byte_below [of b] by simp
  then show ?thesis by (simp add: unsigned_ucast_eq take_bit_nat_eq_self)
qed

lemma unat_ucast_u32: "w < 256 \<Longrightarrow> unat (ucast (w :: u32) :: byte) = unat w"
proof -
  assume "w < 256"
  then have "unat w < 2 ^ 8" by (simp add: word_less_nat_alt)
  then show ?thesis by (simp add: unsigned_ucast_eq take_bit_nat_eq_self)
qed

lemma ucast_byte_u32: "ucast (ucast b :: u32) = (b :: byte)"
proof -
  have "(ucast b :: u32) < 256" by (simp add: word_less_nat_alt unat_ucast_byte byte_below)
  then have "unat (ucast (ucast b :: u32) :: byte) = unat b"
    by (simp only: unat_ucast_u32 unat_ucast_byte)
  then show ?thesis by (rule word_unat_eq_iff [THEN iffD2])
qed

lemma ucast_u32_byte: "w < 256 \<Longrightarrow> ucast (ucast w :: byte) = (w :: u32)"
  by (rule word_unat_eq_iff [THEN iffD2]) (simp only: unat_ucast_u32 unat_ucast_byte)

lemma flag_byte: "\<not> (1 :: byte) < b \<Longrightarrow> (if b = 1 then 1 else 0) = b"
  by (auto simp: word_less_nat_alt word_unat_eq_iff)

lemma le32_of_le32' [simp]: "length v = 4 \<Longrightarrow> le32 (of_le32 v) = v"
  by (rule le32_of_le32)

lemma of_le32_le32' [simp]: "of_le32 (le32 w) = w"
  using of_le32_le32 [of w "[]"] by simp

lemma config_payload_of_fields:
  assumes "length s1 = 4" "length s2 = 4" "length s3 = 4" "length g = 4" "length s4 = 4" "length s5 = 4"
    and "\<not> 1 < ah" and "\<not> 1 < ma"
  shows "config_payload (config_of_fields s1 s2 a1 a2 a3 a4 a5 a6 a7 a8 s3 b g ah pu ma s4 s5)
    = s1 @ s2 @ a1 @ a2 @ a3 @ a4 @ a5 @ a6 @ a7 @ a8 @ s3 @ b # g @ ah # pu # ma # s4 @ s5"
  using assms flag_byte [of ah] flag_byte [of ma]
  by (simp add: config_payload_def config_of_fields_def ucast_byte_u32 comp_def)

lemma config_fields_of_payload:
  assumes "config_storable c"
  shows "config_of_fields (le32 (schema_version c)) (le32 (revision c)) (map byte_of_char (device_id c))
      (map byte_of_char (wifi_ssid c)) (map byte_of_char (wifi_password c))
      (map byte_of_char (mqtt_broker_uri c)) (map byte_of_char (mqtt_ca_certificate c))
      (map byte_of_char (mqtt_username c)) (map byte_of_char (mqtt_password c))
      (map byte_of_char (mqtt_client_id c)) (le32 (telemetry_interval_seconds c))
      (ucast (machine_status_provider c)) (le32 (machine_status_gpio c))
      (if machine_status_active_high c then 1 else 0) (ucast (machine_status_pull c))
      (if maintenance_on_boot c then 1 else 0) (le32 (maintenance_window_seconds c))
      (le32 (maintenance_max_session_seconds c)) = c"
  using assms
  by (simp add: config_of_fields_def config_storable_def ucast_u32_byte comp_def)

lemma decode_encoded_configuration:
  assumes "config_storable c"
  shows "device_config_storage_decode_configuration
      (Some (storage_header CONFIGURATION_MAGIC 4861 @ config_payload c)) (Some c0) = (ESP_OK, Some c)"
proof -
  have layout: "config_layout c" using assms by (simp add: config_storable_def)
  have p: "config_payload c = le32 (schema_version c) @ le32 (revision c) @ map byte_of_char (device_id c)
      @ map byte_of_char (wifi_ssid c) @ map byte_of_char (wifi_password c)
      @ map byte_of_char (mqtt_broker_uri c) @ map byte_of_char (mqtt_ca_certificate c)
      @ map byte_of_char (mqtt_username c) @ map byte_of_char (mqtt_password c)
      @ map byte_of_char (mqtt_client_id c) @ le32 (telemetry_interval_seconds c)
      @ ucast (machine_status_provider c) # le32 (machine_status_gpio c)
      @ (if machine_status_active_high c then 1 else 0) # ucast (machine_status_pull c)
      # (if maintenance_on_boot c then 1 else 0) # le32 (maintenance_window_seconds c)
      @ le32 (maintenance_max_session_seconds c) @ []"
    by (simp add: config_payload_def)
  have "read_configuration_fields (reader_at (storage_header CONFIGURATION_MAGIC 4861) (config_payload c))
     = Some (c, if machine_status_active_high c then 1 else 0, if maintenance_on_boot c then 1 else 0,
         reader_at (storage_header CONFIGURATION_MAGIC 4861 @ config_payload c) [])"
    unfolding p
    by (subst read_configuration_fields_at)
       (use layout in \<open>simp_all add: config_layout_def config_fields_of_payload [OF assms]\<close>)
  then show ?thesis
    using decode_configuration_ok [OF length_config_payload [OF layout]] length_config_payload [OF layout]
    by (simp add: reader_at_def)
qed

lemma decoded_configuration:
  assumes "device_config_storage_decode_configuration (Some e) (Some c0) = (ESP_OK, Some c)"
  shows "config_storable c \<and> e = storage_header CONFIGURATION_MAGIC 4861 @ config_payload c"
proof -
  obtain p where p: "e = storage_header CONFIGURATION_MAGIC 4861 @ p" "length p = 4861"
    using decode_configuration_shape [OF assms] .
  obtain s1 s2 a1 a2 a3 a4 a5 a6 a7 a8 s3 b g ah pu ma s4 s5 where
    f: "p = s1 @ s2 @ a1 @ a2 @ a3 @ a4 @ a5 @ a6 @ a7 @ a8 @ s3 @ b # g @ ah # pu # ma # s4 @ s5"
    and len: "length s1 = 4" "length s2 = 4" "length a1 = 64" "length a2 = 33" "length a3 = 64"
    "length a4 = 256" "length a5 = 4096" "length a6 = 64" "length a7 = 128" "length a8 = 128"
    "length s3 = 4" "length g = 4" "length s4 = 4" "length s5 = 4"
    using configuration_chunks [OF p(2)] by blast
  let ?c = "config_of_fields s1 s2 a1 a2 a3 a4 a5 a6 a7 a8 s3 b g ah pu ma s4 s5"
  have read: "read_configuration_fields (reader_at (storage_header CONFIGURATION_MAGIC 4861) p)
      = Some (?c, ah, ma, reader_at (storage_header CONFIGURATION_MAGIC 4861 @ p) [])"
    using read_configuration_fields_at [OF len, where rest = "[]"] by (simp add: f)
  have c: "c = ?c" "\<not> 1 < ah" "\<not> 1 < ma"
    using assms decode_configuration_ok [OF p(2), of c0] p read
    by (auto split: if_splits)
  have "config_storable c"
    using len by (simp add: c(1) config_storable_def config_layout_def config_of_fields_def
        word_less_nat_alt unat_ucast_byte byte_below)
  moreover have "config_payload c = p"
    unfolding c(1) f by (rule config_payload_of_fields) (use len c in simp_all)
  ultimately show ?thesis using p(1) by simp
qed

lemma state_of_state_code [simp]: "state_of_code (state_code st) = st"
  by (cases st) (simp_all add: state_of_code_def)

lemma state_code_of_code: "\<not> 3 < b \<Longrightarrow> state_code (state_of_code b) = b"
proof -
  assume "\<not> 3 < b"
  then have "unat b = 0 \<or> unat b = 1 \<or> unat b = 2 \<or> unat b = 3"
    by (auto simp: word_less_nat_alt)
  then have "b = 0 \<or> b = 1 \<or> b = 2 \<or> b = 3" by (simp add: word_unat_eq_iff)
  then show ?thesis by (auto simp: state_of_code_def)
qed

lemma state_code_bound: "\<not> 3 < state_code st"
  by (cases st) simp_all

lemma read_metadata_fields_at:
  assumes "length s1 = 4" "length s2 = 4" "length s3 = 4" "length a = 96"
  shows "read_metadata_fields (reader_at front (b # s1 @ s2 @ s3 @ a @ rest))
    = Some (b, \<lparr>md_state = state_of_code b, candidate_revision = of_le32 s1,
        boot_attempts = of_le32 s2, boot_count = of_le32 s3,
        last_rollback_reason = map char_of_byte a\<rparr>,
        reader_at (front @ b # s1 @ s2 @ s3 @ a) rest)"
  using assms
  by (simp add: read_metadata_fields_def codec_simps del: append_assoc) (simp add: append_assoc)

lemma decode_encoded_metadata:
  assumes "metadata_storable m"
  shows "device_config_storage_decode_metadata
      (Some (storage_header METADATA_MAGIC 109 @ metadata_payload m)) (Some m0) = (ESP_OK, Some m)"
proof -
  have layout: "metadata_layout m" and nul: "last_rollback_reason m ! 95 = NUL"
    using assms by (simp_all add: metadata_storable_def)
  have p: "metadata_payload m = state_code (md_state m) # le32 (candidate_revision m)
      @ le32 (boot_attempts m) @ le32 (boot_count m) @ map byte_of_char (last_rollback_reason m) @ []"
    by (simp add: metadata_payload_def)
  have "read_metadata_fields (reader_at (storage_header METADATA_MAGIC 109) (metadata_payload m))
     = Some (state_code (md_state m), m,
         reader_at (storage_header METADATA_MAGIC 109 @ metadata_payload m) [])"
    unfolding p by (subst read_metadata_fields_at)
       (use layout in \<open>simp_all add: metadata_layout_def comp_def\<close>)
  then show ?thesis
    using decode_metadata_ok [OF length_metadata_payload [OF layout]] length_metadata_payload [OF layout]
      nul state_code_bound by (simp add: reader_at_def)
qed

lemma decoded_metadata:
  assumes "device_config_storage_decode_metadata (Some e) (Some m0) = (ESP_OK, Some m)"
  shows "metadata_storable m \<and> e = storage_header METADATA_MAGIC 109 @ metadata_payload m"
proof -
  obtain p where p: "e = storage_header METADATA_MAGIC 109 @ p" "length p = 109"
    using decode_metadata_shape [OF assms] .
  obtain b s1 s2 s3 a where f: "p = b # s1 @ s2 @ s3 @ a"
    and len: "length s1 = 4" "length s2 = 4" "length s3 = 4" "length a = 96"
    using metadata_chunks [OF p(2)] by blast
  let ?m = "\<lparr>md_state = state_of_code b, candidate_revision = of_le32 s1,
      boot_attempts = of_le32 s2, boot_count = of_le32 s3, last_rollback_reason = map char_of_byte a\<rparr>"
  have "read_metadata_fields (reader_at (storage_header METADATA_MAGIC 109) p)
      = Some (b, ?m, reader_at (storage_header METADATA_MAGIC 109 @ p) [])"
    using read_metadata_fields_at [OF len, where rest = "[]"] by (simp add: f)
  then have m: "m = ?m" "\<not> 3 < b" "last_rollback_reason m ! 95 = NUL"
    using assms decode_metadata_ok [OF p(2), of m0] p by (auto split: if_splits)
  have "metadata_storable m"
    using len m by (simp add: metadata_storable_def metadata_layout_def)
  moreover have "metadata_payload m = p"
    using len m(2) by (simp add: m(1) f metadata_payload_def state_code_of_code comp_def)
  ultimately show ?thesis using p(1) by simp
qed

subsection \<open>The two formats as codecs\<close>

definition blob_of_config :: "device_config \<Rightarrow> byte list" where
  "blob_of_config c = the (snd (device_config_storage_encode_configuration (Some c)
     (Some (replicate device_config_storage_configuration_size 0))))"

definition config_of_blob :: "byte list \<Rightarrow> device_config option" where
  "config_of_blob bs =
     (case device_config_storage_decode_configuration (Some bs) (Some zero_config) of
        (ESP_OK, c) \<Rightarrow> c | _ \<Rightarrow> None)"

definition blob_of_metadata :: "device_config_metadata \<Rightarrow> byte list" where
  "blob_of_metadata m = the (snd (device_config_storage_encode_metadata (Some m)
     (Some (replicate device_config_storage_metadata_size 0))))"

definition metadata_of_blob :: "byte list \<Rightarrow> device_config_metadata option" where
  "metadata_of_blob bs =
     (case device_config_storage_decode_metadata (Some bs) (Some zero_metadata) of
        (ESP_OK, m) \<Rightarrow> m | _ \<Rightarrow> None)"

lemma blob_of_config_eq:
  "config_layout c \<Longrightarrow> blob_of_config c = storage_header CONFIGURATION_MAGIC 4861 @ config_payload c"
  by (simp add: blob_of_config_def encode_configuration_eq)

lemma blob_of_metadata_eq:
  "metadata_layout m \<Longrightarrow> blob_of_metadata m = storage_header METADATA_MAGIC 109 @ metadata_payload m"
  by (simp add: blob_of_metadata_def encode_metadata_eq)

lemma config_of_blob_Some:
  "config_of_blob bs = Some c \<longleftrightarrow>
     device_config_storage_decode_configuration (Some bs) (Some zero_config) = (ESP_OK, Some c)"
  by (auto simp: config_of_blob_def split: prod.splits esp_err.splits)

lemma metadata_of_blob_Some:
  "metadata_of_blob bs = Some m \<longleftrightarrow>
     device_config_storage_decode_metadata (Some bs) (Some zero_metadata) = (ESP_OK, Some m)"
  by (auto simp: metadata_of_blob_def split: prod.splits esp_err.splits)

interpretation config_codec: codec blob_of_config config_of_blob config_storable
proof
  fix c assume c: "config_storable c"
  then show "config_of_blob (blob_of_config c) = Some c"
    by (simp add: config_of_blob_Some blob_of_config_eq decode_encoded_configuration config_storable_def)
next
  fix bs c assume "config_of_blob bs = Some c"
  then have "config_storable c \<and> bs = storage_header CONFIGURATION_MAGIC 4861 @ config_payload c"
    using decoded_configuration by (simp add: config_of_blob_Some)
  then show "config_storable c" and "blob_of_config c = bs"
    by (simp_all add: config_storable_def blob_of_config_eq)
qed

interpretation metadata_codec: codec blob_of_metadata metadata_of_blob metadata_storable
proof
  fix m assume "metadata_storable m"
  then show "metadata_of_blob (blob_of_metadata m) = Some m"
    by (simp add: metadata_of_blob_Some blob_of_metadata_eq decode_encoded_metadata metadata_storable_def)
next
  fix bs m assume "metadata_of_blob bs = Some m"
  then have "metadata_storable m \<and> bs = storage_header METADATA_MAGIC 109 @ metadata_payload m"
    using decoded_metadata by (simp add: metadata_of_blob_Some)
  then show "metadata_storable m" and "blob_of_metadata m = bs"
    by (simp_all add: metadata_storable_def blob_of_metadata_eq)
qed

end
