(* ===== verification/Config_Store.thy ===== *)
theory Config_Store
  imports Config_Storage
begin

text \<open>
  The operations of \<^verbatim>\<open>device_config.c\<close>: the active configuration, the staged candidate,
  the metadata and the setup secret in the NVS namespace, the boot-time choice between
  active and candidate, activation and rollback.

  The services the code calls (NVS, heap, mutex, random numbers, X.509 parser) are the
  fields of a record \<open>platform\<close> over an abstract environment \<open>'s\<close>, so every call can
  fail; so is \<^verbatim>\<open>CONFIG_PROVISIONING_CANDIDATE_MAX_ATTEMPTS\<close>, a build option. The environment is threaded through the operations as the code calls them. A pointer
  argument is an \<open>option\<close>, \<open>None\<close> being null; an output parameter is a component of the
  result, with its content on every error path.
\<close>

section \<open>The services called\<close>

datatype nvs_value = Blob "byte list" | Str string

datatype nvs_open_mode = NVS_READONLY | NVS_READWRITE

record 's platform =
  p_open :: "nvs_open_mode \<Rightarrow> 's \<Rightarrow> esp_err \<times> 's"
  p_close :: "'s \<Rightarrow> 's"
  p_blob_size :: "string \<Rightarrow> 's \<Rightarrow> esp_err \<times> nat \<times> 's"
  p_get_blob :: "string \<Rightarrow> nat \<Rightarrow> 's \<Rightarrow> esp_err \<times> byte list \<times> 's"
  p_set_blob :: "string \<Rightarrow> byte list \<Rightarrow> 's \<Rightarrow> esp_err \<times> 's"
  p_str_size :: "string \<Rightarrow> 's \<Rightarrow> esp_err \<times> nat \<times> 's"
  p_get_str :: "string \<Rightarrow> nat \<Rightarrow> 's \<Rightarrow> esp_err \<times> carray \<times> 's"
  p_set_str :: "string \<Rightarrow> string \<Rightarrow> 's \<Rightarrow> esp_err \<times> 's"
  p_erase_key :: "string \<Rightarrow> 's \<Rightarrow> esp_err \<times> 's"
  p_erase_all :: "'s \<Rightarrow> esp_err \<times> 's"
  p_commit :: "'s \<Rightarrow> esp_err \<times> 's"
  p_flash_init :: "'s \<Rightarrow> esp_err \<times> 's"
  p_flash_erase :: "'s \<Rightarrow> esp_err \<times> 's"
  p_calloc :: "nat \<Rightarrow> 's \<Rightarrow> bool \<times> 's"
  p_create_mutex :: "'s \<Rightarrow> bool \<times> 's"
  p_take_mutex :: "'s \<Rightarrow> bool \<times> 's"
  p_give_mutex :: "'s \<Rightarrow> 's"
  p_random :: "nat \<Rightarrow> 's \<Rightarrow> byte list \<times> 's"
  p_restart :: "'s \<Rightarrow> 's"
  p_x509 :: "string \<Rightarrow> int"
  candidate_max_attempts :: u32

text \<open>The static variables of \<^verbatim>\<open>device_config.c\<close>, and the environment.\<close>

record 's device =
  configuration_mutex :: bool
  candidate_validation_in_progress :: bool
  candidate_validation_revision :: u32
  env :: 's

definition KEY_ACTIVE :: string where "KEY_ACTIVE = ''active''"
definition KEY_CANDIDATE :: string where "KEY_CANDIDATE = ''candidate''"
definition KEY_METADATA :: string where "KEY_METADATA = ''metadata''"
definition KEY_SETUP :: string where "KEY_SETUP = ''setup_secret''"

lemmas key_defs = KEY_ACTIVE_def KEY_CANDIDATE_def KEY_METADATA_def KEY_SETUP_def

lemma keys_distinct [simp]:
  "KEY_ACTIVE \<noteq> KEY_CANDIDATE" "KEY_ACTIVE \<noteq> KEY_METADATA" "KEY_ACTIVE \<noteq> KEY_SETUP"
  "KEY_CANDIDATE \<noteq> KEY_ACTIVE" "KEY_CANDIDATE \<noteq> KEY_METADATA" "KEY_CANDIDATE \<noteq> KEY_SETUP"
  "KEY_METADATA \<noteq> KEY_ACTIVE" "KEY_METADATA \<noteq> KEY_CANDIDATE" "KEY_METADATA \<noteq> KEY_SETUP"
  "KEY_SETUP \<noteq> KEY_ACTIVE" "KEY_SETUP \<noteq> KEY_CANDIDATE" "KEY_SETUP \<noteq> KEY_METADATA"
  by (simp_all add: key_defs)

section \<open>Blobs\<close>

definition open_namespace :: "'s platform \<Rightarrow> nvs_open_mode \<Rightarrow> 's \<Rightarrow> esp_err \<times> 's" where
  "open_namespace P mode s = p_open P mode s"

text \<open>The size is known before the blob is read: both reads use the same handle.\<close>

definition read_encoded_blob ::
  "'s platform \<Rightarrow> string \<Rightarrow> nat \<Rightarrow> 's \<Rightarrow> esp_err \<times> byte list option \<times> 's" where
  "read_encoded_blob P key maximum_size s =
     (let (result, s) = open_namespace P NVS_READONLY s in
      if result \<noteq> ESP_OK then (result, None, s)
      else let (result, n, s) = p_blob_size P key s in
      if result \<noteq> ESP_OK then (result, None, p_close P s)
      else if n < DEVICE_CONFIG_STORAGE_HEADER_SIZE \<or> n > maximum_size
        then (ESP_ERR_INVALID_SIZE, None, p_close P s)
      else let (allocated, s) = p_calloc P n s in
      if \<not> allocated then (ESP_ERR_NO_MEM, None, p_close P s)
      else let (result, encoded, s) = p_get_blob P key n s; s = p_close P s in
      if result \<noteq> ESP_OK then (result, None, s) else (result, Some encoded, s))"

definition write_encoded_blob ::
  "'s platform \<Rightarrow> string \<Rightarrow> byte list \<Rightarrow> 's \<Rightarrow> esp_err \<times> 's" where
  "write_encoded_blob P key encoded s =
     (let (result, s) = open_namespace P NVS_READWRITE s in
      if result \<noteq> ESP_OK then (result, s)
      else let (result, s) = p_set_blob P key encoded s in
      let (result, s) = (if result = ESP_OK then p_commit P s else (result, s)) in
      (result, p_close P s))"

text \<open>What the caller's structure holds afterwards is the second component.\<close>

definition read_configuration ::
  "'s platform \<Rightarrow> string \<Rightarrow> device_config \<Rightarrow> 's \<Rightarrow> esp_err \<times> device_config \<times> 's" where
  "read_configuration P key c0 s =
     (let (result, encoded, s) = read_encoded_blob P key 8192 s;
          (result, configuration) =
            (if result = ESP_OK
             then (case device_config_storage_decode_configuration encoded (Some c0) of
                     (r, c) \<Rightarrow> (r, case c of Some c \<Rightarrow> c | None \<Rightarrow> c0))
             else (result, c0))
      in (if result = ESP_OK then validate_quiet (p_x509 P) configuration else result,
          configuration, s))"

definition write_configuration ::
  "'s platform \<Rightarrow> string \<Rightarrow> device_config \<Rightarrow> 's \<Rightarrow> esp_err \<times> 's" where
  "write_configuration P key configuration s =
     (let n = device_config_storage_configuration_size; (allocated, s) = p_calloc P n s in
      if \<not> allocated then (ESP_ERR_NO_MEM, s)
      else (case device_config_storage_encode_configuration (Some configuration)
                   (Some (replicate n 0)) of
              (result, encoded) \<Rightarrow>
                if result = ESP_OK then write_encoded_blob P key (the encoded) s
                else (result, s)))"

definition read_metadata ::
  "'s platform \<Rightarrow> device_config_metadata \<Rightarrow> 's \<Rightarrow> esp_err \<times> device_config_metadata \<times> 's" where
  "read_metadata P m0 s =
     (let (result, encoded, s) = read_encoded_blob P KEY_METADATA 1024 s in
      if result = ESP_OK
      then (case device_config_storage_decode_metadata encoded (Some m0) of
              (r, m) \<Rightarrow> (r, case m of Some m \<Rightarrow> m | None \<Rightarrow> m0, s))
      else (result, m0, s))"

definition write_metadata ::
  "'s platform \<Rightarrow> device_config_metadata \<Rightarrow> 's \<Rightarrow> esp_err \<times> 's" where
  "write_metadata P metadata s =
     (let n = device_config_storage_metadata_size; (allocated, s) = p_calloc P n s in
      if \<not> allocated then (ESP_ERR_NO_MEM, s)
      else (case device_config_storage_encode_metadata (Some metadata)
                   (Some (replicate n 0)) of
              (result, encoded) \<Rightarrow>
                if result = ESP_OK then write_encoded_blob P KEY_METADATA (the encoded) s
                else (result, s)))"

definition erase_key :: "'s platform \<Rightarrow> string \<Rightarrow> 's \<Rightarrow> esp_err \<times> 's" where
  "erase_key P key s =
     (let (result, s) = open_namespace P NVS_READWRITE s in
      if result \<noteq> ESP_OK then (result, s)
      else let (result, s) = p_erase_key P key s;
        result = (if result = ESP_ERR_NVS_NOT_FOUND then ESP_OK else result) in
      let (result, s) = (if result = ESP_OK then p_commit P s else (result, s)) in
      (result, p_close P s))"

definition get_metadata_locked ::
  "'s platform \<Rightarrow> device_config_metadata \<Rightarrow> 's \<Rightarrow> esp_err \<times> device_config_metadata \<times> 's" where
  "get_metadata_locked P m0 s =
     (let (result, metadata, s) = read_metadata P m0 s in
      if result = ESP_ERR_NVS_NOT_FOUND then (ESP_OK, zero_metadata, s)
      else (result, metadata, s))"

section \<open>Locking\<close>

definition configuration_lock :: "'s platform \<Rightarrow> 's device \<Rightarrow> esp_err \<times> 's device" where
  "configuration_lock P d =
     (if \<not> configuration_mutex d then (ESP_ERR_INVALID_STATE, d)
      else let (taken, s) = p_take_mutex P (env d) in
        (if taken then ESP_OK else ESP_FAIL, d\<lparr>env := s\<rparr>))"

definition configuration_unlock :: "'s platform \<Rightarrow> 's device \<Rightarrow> 's device" where
  "configuration_unlock P d = d\<lparr>env := p_give_mutex P (env d)\<rparr>"

text \<open>
  The body of an operation between lock and unlock; when the lock fails its code is
  returned (\<open>on_error\<close>) and the body is skipped.
\<close>

definition with_lock ::
  "'s platform \<Rightarrow> (esp_err \<Rightarrow> 'r) \<Rightarrow> ('s device \<Rightarrow> 'r \<times> 's device) \<Rightarrow> 's device \<Rightarrow> 'r \<times> 's device"
where
  "with_lock P on_error body d =
     (let (result, d) = configuration_lock P d in
      if result \<noteq> ESP_OK then (on_error result, d)
      else let (r, d) = body d in (r, configuration_unlock P d))"

section \<open>Operations\<close>

definition device_config_storage_init :: "'s platform \<Rightarrow> 's device \<Rightarrow> esp_err \<times> 's device" where
  "device_config_storage_init P d =
     (let (created, d) =
        (if configuration_mutex d then (True, d)
         else let (created, s) = p_create_mutex P (env d) in
           (created, d\<lparr>configuration_mutex := created, env := s\<rparr>)) in
      if \<not> created then (ESP_ERR_NO_MEM, d)
      else let (result, s) = p_flash_init P (env d) in (result, d\<lparr>env := s\<rparr>))"

definition device_config_storage_recover :: "'s platform \<Rightarrow> 's device \<Rightarrow> esp_err \<times> 's device" where
  "device_config_storage_recover P = with_lock P id (\<lambda>d.
     let (result, s) = p_flash_erase P (env d);
         (result, s) = (if result = ESP_OK then p_flash_init P s else (result, s));
         d = d\<lparr>env := s\<rparr>
     in (result, if result = ESP_OK
                 then d\<lparr>candidate_validation_in_progress := False,
                        candidate_validation_revision := 0\<rparr> else d))"

definition device_config_load_active ::
  "'s platform \<Rightarrow> device_config option \<Rightarrow> 's device \<Rightarrow> (esp_err \<times> device_config option) \<times> 's device"
where
  "device_config_load_active P configuration d =
     (case configuration of None \<Rightarrow> ((ESP_ERR_INVALID_ARG, None), d) | Some c0 \<Rightarrow>
      with_lock P (\<lambda>e. (e, configuration)) (\<lambda>d.
        let (result, c, s) = read_configuration P KEY_ACTIVE c0 (env d)
        in ((result, Some c), d\<lparr>env := s\<rparr>)) d)"

definition device_config_get_metadata ::
  "'s platform \<Rightarrow> device_config_metadata option \<Rightarrow> 's device
     \<Rightarrow> (esp_err \<times> device_config_metadata option) \<times> 's device" where
  "device_config_get_metadata P metadata d =
     (case metadata of None \<Rightarrow> ((ESP_ERR_INVALID_ARG, None), d) | Some m0 \<Rightarrow>
      with_lock P (\<lambda>e. (e, metadata)) (\<lambda>d.
        let (result, m, s) = get_metadata_locked P m0 (env d)
        in ((result, Some m), d\<lparr>env := s\<rparr>)) d)"

text \<open>
  A local \<^verbatim>\<open>metadata\<close> variable is uninitialised in the code; every path that reads it has
  filled it before, so its first content is taken to be \<open>zero_metadata\<close>.
\<close>

definition device_config_stage_candidate ::
  "'s platform \<Rightarrow> device_config option \<Rightarrow> 's device \<Rightarrow> esp_err \<times> 's device" where
  "device_config_stage_candidate P configuration d =
     (let result = fst (device_config_validate (p_x509 P) configuration (zeros 128) 128) in
      if result \<noteq> ESP_OK then (result, d)
      else with_lock P id (\<lambda>d.
        if candidate_validation_in_progress d then (ESP_ERR_INVALID_STATE, d)
        else let (result, s) = write_configuration P KEY_CANDIDATE (the configuration) (env d) in
          if result \<noteq> ESP_OK then (result, d\<lparr>env := s\<rparr>)
        else let (result, metadata, s) = get_metadata_locked P zero_metadata s in
          if result \<noteq> ESP_OK then (result, d\<lparr>env := s\<rparr>)
        else let metadata = metadata\<lparr>md_state := DEVICE_CONFIG_STATE_PENDING,
                     candidate_revision := revision (the configuration), boot_attempts := 0\<rparr>;
                 (result, s) = write_metadata P metadata s
          in (result, d\<lparr>env := s\<rparr>)) d)"

definition rollback_candidate_locked ::
  "'s platform \<Rightarrow> string option \<Rightarrow> 's device \<Rightarrow> esp_err \<times> 's device" where
  "rollback_candidate_locked P reason d =
     (let (result, metadata, s) = get_metadata_locked P zero_metadata (env d) in
      if result \<noteq> ESP_OK then (result, d\<lparr>env := s\<rparr>)
      else let metadata = metadata\<lparr>md_state := DEVICE_CONFIG_STATE_ROLLBACK,
                 candidate_revision := 0, boot_attempts := 0,
                 last_rollback_reason := store_s (last_rollback_reason metadata)
                   (DEVICE_CONFIG_ROLLBACK_REASON_MAX + 1)
                   (case reason of Some r \<Rightarrow> cstr r | None \<Rightarrow> ''unspecified'')\<rparr>;
        (result, s) = write_metadata P metadata s;
        (result, s) = (if result = ESP_OK then erase_key P KEY_CANDIDATE s else (result, s));
        d = d\<lparr>env := s\<rparr>
      in (result, if result = ESP_OK
                  then d\<lparr>candidate_validation_in_progress := False,
                         candidate_validation_revision := 0\<rparr> else d))"

text \<open>The result of \<^verbatim>\<open>device_config_load_for_boot\<close> and its three output parameters.\<close>

record boot_result =
  boot_err :: esp_err
  boot_config :: device_config
  using_candidate :: bool
  boot_metadata :: device_config_metadata

definition load_active_for_boot ::
  "'s platform \<Rightarrow> device_config \<Rightarrow> device_config_metadata \<Rightarrow> 's device \<Rightarrow> boot_result \<times> 's device"
where
  "load_active_for_boot P c metadata d =
     (let (result, c, s) = read_configuration P KEY_ACTIVE c (env d) in
      (\<lparr>boot_err = result, boot_config = c, using_candidate = False, boot_metadata = metadata\<rparr>,
       d\<lparr>env := s\<rparr>))"

text \<open>A rollback, the metadata read again, and then the active configuration.\<close>

definition rollback_for_boot ::
  "'s platform \<Rightarrow> string \<Rightarrow> device_config \<Rightarrow> bool \<Rightarrow> device_config_metadata \<Rightarrow> 's device
     \<Rightarrow> boot_result \<times> 's device" where
  "rollback_for_boot P reason c u0 metadata d =
     (let (result, d) = rollback_candidate_locked P (Some reason) d in
      if result \<noteq> ESP_OK
        then (\<lparr>boot_err = result, boot_config = c, using_candidate = u0, boot_metadata = metadata\<rparr>, d)
      else let (result, metadata, s) = get_metadata_locked P metadata (env d); d = d\<lparr>env := s\<rparr> in
      if result \<noteq> ESP_OK
        then (\<lparr>boot_err = result, boot_config = c, using_candidate = u0, boot_metadata = metadata\<rparr>, d)
      else load_active_for_boot P c metadata d)"

definition load_for_boot_locked ::
  "'s platform \<Rightarrow> device_config \<Rightarrow> bool \<Rightarrow> device_config_metadata \<Rightarrow> 's device
     \<Rightarrow> boot_result \<times> 's device" where
  "load_for_boot_locked P c0 u0 m0 d =
     (let d = d\<lparr>candidate_validation_in_progress := False, candidate_validation_revision := 0\<rparr>;
          (result, metadata, s) = get_metadata_locked P m0 (env d); d = d\<lparr>env := s\<rparr> in
      if result \<noteq> ESP_OK
        then (\<lparr>boot_err = result, boot_config = c0, using_candidate = u0, boot_metadata = metadata\<rparr>, d)
      else let metadata = metadata\<lparr>boot_count := boot_count metadata + 1\<rparr>;
               (result, s) = write_metadata P metadata (env d); d = d\<lparr>env := s\<rparr> in
      if result \<noteq> ESP_OK
        then (\<lparr>boot_err = result, boot_config = c0, using_candidate = u0, boot_metadata = metadata\<rparr>, d)
      else if md_state metadata = DEVICE_CONFIG_STATE_PENDING then
        if boot_attempts metadata \<ge> candidate_max_attempts P
          then rollback_for_boot P ''candidate boot attempt limit reached'' c0 u0 metadata d
        else let (candidate_result, c, s) = read_configuration P KEY_CANDIDATE c0 (env d);
                 d = d\<lparr>env := s\<rparr> in
          if candidate_result = ESP_OK \<and> validate_quiet (p_x509 P) c = ESP_OK
              \<and> revision c = candidate_revision metadata
          then let metadata = metadata\<lparr>boot_attempts := boot_attempts metadata + 1\<rparr>;
                   (result, s) = write_metadata P metadata (env d); d = d\<lparr>env := s\<rparr> in
            if result = ESP_OK
            then (\<lparr>boot_err = result, boot_config = c, using_candidate = True,
                    boot_metadata = metadata\<rparr>,
                  d\<lparr>candidate_validation_in_progress := True,
                    candidate_validation_revision := revision c\<rparr>)
            else (\<lparr>boot_err = result, boot_config = c, using_candidate = u0,
                    boot_metadata = metadata\<rparr>, d)
          else rollback_for_boot P
                 ''candidate missing, corrupt, invalid or revision-mismatched'' c u0 metadata d
      else load_active_for_boot P c0 metadata d)"

text \<open>
  The three pointers at once: \<open>None\<close> when one of them is null. Nothing is stored then,
  and nothing but the lock's code is returned when the lock fails.
\<close>

definition device_config_load_for_boot ::
  "'s platform \<Rightarrow> (device_config \<times> bool \<times> device_config_metadata) option \<Rightarrow> 's device
     \<Rightarrow> boot_result option \<times> esp_err \<times> 's device" where
  "device_config_load_for_boot P out d =
     (case out of None \<Rightarrow> (None, ESP_ERR_INVALID_ARG, d) | Some (c0, u0, m0) \<Rightarrow>
        let (b, d) = with_lock P
           (\<lambda>e. \<lparr>boot_err = e, boot_config = c0, using_candidate = u0, boot_metadata = m0\<rparr>)
           (load_for_boot_locked P c0 u0 m0) d
        in (Some b, boot_err b, d))"

definition configurations_match :: "device_config \<Rightarrow> device_config \<Rightarrow> bool" where
  "configurations_match l r \<longleftrightarrow>
     schema_version l = schema_version r \<and> revision l = revision r
   \<and> cstr (device_id l) = cstr (device_id r) \<and> cstr (wifi_ssid l) = cstr (wifi_ssid r)
   \<and> cstr (wifi_password l) = cstr (wifi_password r)
   \<and> cstr (mqtt_broker_uri l) = cstr (mqtt_broker_uri r)
   \<and> cstr (mqtt_username l) = cstr (mqtt_username r)
   \<and> cstr (mqtt_password l) = cstr (mqtt_password r)
   \<and> cstr (mqtt_client_id l) = cstr (mqtt_client_id r)
   \<and> cstr (mqtt_ca_certificate l) = cstr (mqtt_ca_certificate r)
   \<and> telemetry_interval_seconds l = telemetry_interval_seconds r
   \<and> machine_status_provider l = machine_status_provider r
   \<and> machine_status_gpio l = machine_status_gpio r
   \<and> machine_status_active_high l = machine_status_active_high r
   \<and> machine_status_pull l = machine_status_pull r
   \<and> maintenance_on_boot l = maintenance_on_boot r
   \<and> maintenance_window_seconds l = maintenance_window_seconds r
   \<and> maintenance_max_session_seconds l = maintenance_max_session_seconds r"

text \<open>\<^verbatim>\<open>sizeof(device_config_t)\<close> with 4-byte alignment.\<close>

definition sizeof_device_config :: nat where
  "sizeof_device_config = 4876"

definition device_config_activate_candidate ::
  "'s platform \<Rightarrow> device_config option \<Rightarrow> 's device \<Rightarrow> esp_err \<times> 's device" where
  "device_config_activate_candidate P verified_candidate d =
     (case verified_candidate of None \<Rightarrow> (ESP_ERR_INVALID_ARG, d) | Some v \<Rightarrow>
      with_lock P id (\<lambda>d.
        if \<not> candidate_validation_in_progress d \<or> candidate_validation_revision d \<noteq> revision v
          then (ESP_ERR_INVALID_STATE, d)
        else let (allocated, s) = p_calloc P sizeof_device_config (env d) in
          if \<not> allocated then (ESP_ERR_NO_MEM, d\<lparr>env := s\<rparr>)
        else let (result, candidate, s) = read_configuration P KEY_CANDIDATE zero_config s;
          result = (if result = ESP_OK then validate_quiet (p_x509 P) candidate else result);
          (result, metadata, s) =
            (if result = ESP_OK then get_metadata_locked P zero_metadata s
             else (result, zero_metadata, s));
          result = (if result = ESP_OK \<and> (md_state metadata \<noteq> DEVICE_CONFIG_STATE_PENDING
                        \<or> candidate_revision metadata \<noteq> revision v
                        \<or> \<not> configurations_match candidate v)
                    then ESP_ERR_INVALID_STATE else result);
          (result, s) = (if result = ESP_OK then write_configuration P KEY_ACTIVE candidate s
                         else (result, s));
          (result, s) =
            (if result = ESP_OK
             then write_metadata P (metadata\<lparr>md_state := DEVICE_CONFIG_STATE_ACTIVE,
                    candidate_revision := 0, boot_attempts := 0\<rparr>) s
             else (result, s));
          (result, s) = (if result = ESP_OK then erase_key P KEY_CANDIDATE s else (result, s));
          d = d\<lparr>env := s\<rparr>
        in (result, if result = ESP_OK
                    then d\<lparr>candidate_validation_in_progress := False,
                           candidate_validation_revision := 0\<rparr> else d)) d)"

definition device_config_rollback_candidate ::
  "'s platform \<Rightarrow> string option \<Rightarrow> 's device \<Rightarrow> esp_err \<times> 's device" where
  "device_config_rollback_candidate P reason = with_lock P id (rollback_candidate_locked P reason)"

definition device_config_cancel_candidate :: "'s platform \<Rightarrow> 's device \<Rightarrow> esp_err \<times> 's device" where
  "device_config_cancel_candidate P = with_lock P id (\<lambda>d.
     if candidate_validation_in_progress d then (ESP_ERR_INVALID_STATE, d)
     else let (result, metadata, s) = get_metadata_locked P zero_metadata (env d) in
       if result \<noteq> ESP_OK then (result, d\<lparr>env := s\<rparr>)
     else let (result, s) = write_metadata P (metadata\<lparr>md_state := DEVICE_CONFIG_STATE_ACTIVE,
                 candidate_revision := 0, boot_attempts := 0\<rparr>) s;
              (result, s) = (if result = ESP_OK then erase_key P KEY_CANDIDATE s else (result, s))
       in (result, d\<lparr>env := s\<rparr>))"

text \<open>The function itself, beside the field of the static variable of the same name.\<close>

definition device_config_candidate_validation_in_progress ::
  "'s platform \<Rightarrow> 's device \<Rightarrow> bool \<times> 's device" where
  "device_config_candidate_validation_in_progress P =
     with_lock P (\<lambda>_. False) (\<lambda>d. (candidate_validation_in_progress d, d))"

definition device_config_factory_reset :: "'s platform \<Rightarrow> 's device \<Rightarrow> esp_err \<times> 's device" where
  "device_config_factory_reset P = with_lock P id (\<lambda>d.
     let (result, s) = open_namespace P NVS_READWRITE (env d) in
       if result \<noteq> ESP_OK then (result, d\<lparr>env := s\<rparr>)
     else let (result, s) = p_erase_all P s;
       (result, s) = (if result = ESP_OK then p_commit P s else (result, s));
       d = d\<lparr>env := p_close P s\<rparr>
     in (result, if result = ESP_OK
                 then d\<lparr>candidate_validation_in_progress := False,
                        candidate_validation_revision := 0\<rparr> else d))"

section \<open>The redacted snapshot\<close>

definition zero_redacted :: device_config_redacted where
  "zero_redacted =
     \<lparr>red_schema_version = 0, red_revision = 0, red_device_id = zeros 64,
      red_wifi_ssid = zeros 33, red_wifi_password_configured = False,
      red_mqtt_broker_uri = zeros 256, red_mqtt_username = zeros 64,
      red_mqtt_password_configured = False, red_mqtt_client_id = zeros 128,
      red_mqtt_ca_certificate_configured = False, red_telemetry_interval_seconds = 0,
      red_machine_status_provider = 0, red_machine_status_gpio = 0,
      red_machine_status_active_high = False, red_machine_status_pull = 0,
      red_maintenance_on_boot = False, red_maintenance_window_seconds = 0,
      red_maintenance_max_session_seconds = 0\<rparr>"

definition device_config_get_redacted_snapshot ::
  "device_config option \<Rightarrow> device_config_redacted option \<Rightarrow> esp_err \<times> device_config_redacted option"
where
  "device_config_get_redacted_snapshot configuration snapshot =
     (case (configuration, snapshot) of
        (Some c, Some _) \<Rightarrow>
          let z = zero_redacted in
          (ESP_OK, Some (z\<lparr>red_schema_version := schema_version c, red_revision := revision c,
             red_device_id := store_s (red_device_id z) 64 (cstr (device_id c)),
             red_wifi_ssid := store_s (red_wifi_ssid z) 33 (cstr (wifi_ssid c)),
             red_wifi_password_configured := (wifi_password c ! 0 \<noteq> NUL),
             red_mqtt_broker_uri := store_s (red_mqtt_broker_uri z) 256 (cstr (mqtt_broker_uri c)),
             red_mqtt_username := store_s (red_mqtt_username z) 64 (cstr (mqtt_username c)),
             red_mqtt_password_configured := (mqtt_password c ! 0 \<noteq> NUL),
             red_mqtt_client_id := store_s (red_mqtt_client_id z) 128 (cstr (mqtt_client_id c)),
             red_mqtt_ca_certificate_configured := (mqtt_ca_certificate c ! 0 \<noteq> NUL),
             red_telemetry_interval_seconds := telemetry_interval_seconds c,
             red_machine_status_provider := machine_status_provider c,
             red_machine_status_gpio := machine_status_gpio c,
             red_machine_status_active_high := machine_status_active_high c,
             red_machine_status_pull := machine_status_pull c,
             red_maintenance_on_boot := maintenance_on_boot c,
             red_maintenance_window_seconds := maintenance_window_seconds c,
             red_maintenance_max_session_seconds := maintenance_max_session_seconds c\<rparr>))
      | _ \<Rightarrow> (ESP_ERR_INVALID_ARG, snapshot))"

section \<open>The setup secret\<close>

definition hex_digit :: "nat \<Rightarrow> char" where
  "hex_digit n = ''0123456789abcdef'' ! n"

definition hex_byte :: "byte \<Rightarrow> string" where
  "hex_byte b = [hex_digit (unat b div 16), hex_digit (unat b mod 16)]"

definition hexadecimal :: "char \<Rightarrow> bool" where
  "hexadecimal c \<longleftrightarrow>
     (CHR ''0'' \<le> c \<and> c \<le> CHR ''9'') \<or> (CHR ''A'' \<le> c \<and> c \<le> CHR ''F'')
     \<or> (CHR ''a'' \<le> c \<and> c \<le> CHR ''f'')"

definition setup_secret_locked ::
  "'s platform \<Rightarrow> 's device \<Rightarrow> (esp_err \<times> carray \<times> bool) \<times> 's device" where
  "setup_secret_locked P d =
     (let (result, s) = open_namespace P NVS_READWRITE (env d) in
      if result \<noteq> ESP_OK then ((result, zeros 33, False), d\<lparr>env := s\<rparr>)
      else let (result, len, s) = p_str_size P KEY_SETUP s;
        ((result, secret, generated), s) =
          (if result = ESP_ERR_NVS_NOT_FOUND then
             let (random_bytes, s) = p_random P 16 s;
               generated_secret = concat (map hex_byte random_bytes);
               (result, s) = p_set_str P KEY_SETUP generated_secret s;
               (result, s) = (if result = ESP_OK then p_commit P s else (result, s))
             in (if result = ESP_OK then ((result, generated_secret @ [NUL], True), s)
                 else ((result, zeros 33, False), s))
           else if result = ESP_OK then
             if len \<noteq> DEVICE_CONFIG_SETUP_SECRET_LENGTH + 1
               then ((ESP_ERR_INVALID_SIZE, zeros 33, False), s)
             else let (result, stored_secret, s) = p_get_str P KEY_SETUP len s;
               result = (if result = ESP_OK \<and> \<not> list_all hexadecimal (take 32 stored_secret)
                         then ESP_ERR_INVALID_ARG else result)
             in (if result = ESP_OK \<and> stored_secret ! 32 = NUL
                   then ((result, stored_secret, False), s)
                 else if result = ESP_OK then ((ESP_ERR_INVALID_SIZE, zeros 33, False), s)
                 else ((result, zeros 33, False), s))
           else ((result, zeros 33, False), s));
        s = p_close P s
      in ((result, if result \<noteq> ESP_OK then zeros 33 else secret, generated), d\<lparr>env := s\<rparr>))"

definition device_config_get_or_create_setup_secret ::
  "'s platform \<Rightarrow> (carray \<times> bool) option \<Rightarrow> 's device
     \<Rightarrow> (esp_err \<times> (carray \<times> bool) option) \<times> 's device" where
  "device_config_get_or_create_setup_secret P out d =
     (case out of None \<Rightarrow> ((ESP_ERR_INVALID_ARG, None), d) | Some _ \<Rightarrow>
        let ((result, secret, generated), d) =
          with_lock P (\<lambda>e. (e, zeros 33, False)) (setup_secret_locked P) d
        in ((result, Some (secret, generated)), d))"

end
