(* ===== verification/Config_Nvs.thy ===== *)
theory Config_Nvs
  imports Config_Store
begin

text \<open>
  The documented behaviour of the services behind \<^verbatim>\<open>device_config.c\<close> (\<open>nvs_contract\<close>),
  and what the blob readers and writers of that file achieve under it, stated over the
  content of the flash: reads change nothing and return what is stored, a write leaves
  the old or the new value, and the new one when it reports success.
\<close>

section \<open>What the documentation of the services promises\<close>

text \<open>
  \<open>view s\<close> is the content of the namespace in flash, what a restart would find;
  \<open>work s\<close> is what reads of the open handle see. A call may fail at any point. A failing
  write, a commit that fails and a handle closed without commit may leave each key at its
  old or at its new value in flash; every other key is untouched. A power loss in the middle of an
  operation is the special case in which every later call fails and stores nothing.
\<close>

definition between :: "('k \<Rightarrow> 'v) \<Rightarrow> ('k \<Rightarrow> 'v) \<Rightarrow> ('k \<Rightarrow> 'v) \<Rightarrow> bool" where
  "between old new now \<longleftrightarrow> (\<forall>k. now k = old k \<or> now k = new k)"

definition set_contract ::
  "('s \<Rightarrow> string \<rightharpoonup> nvs_value) \<Rightarrow> ('s \<Rightarrow> string \<rightharpoonup> nvs_value) \<Rightarrow> ('s \<Rightarrow> esp_err \<times> 's)
     \<Rightarrow> string \<Rightarrow> nvs_value option \<Rightarrow> bool" where
  "set_contract view work f key v \<longleftrightarrow>
     (\<forall>s r s'. f s = (r, s') \<longrightarrow>
        between (view s) ((work s)(key := v)) (view s')
      \<and> between (work s) ((work s)(key := v)) (work s')
      \<and> (r = ESP_OK \<longrightarrow> work s' = (work s)(key := v))
      \<and> (r = ESP_ERR_NVS_NOT_FOUND \<longrightarrow> v = None \<longrightarrow> work s' = work s \<and> work s key = None))"

definition read_contract ::
  "('s \<Rightarrow> string \<rightharpoonup> nvs_value) \<Rightarrow> ('s \<Rightarrow> string \<rightharpoonup> nvs_value) \<Rightarrow> ('s \<Rightarrow> esp_err \<times> 'x \<times> 's)
     \<Rightarrow> ('s \<Rightarrow> 'x \<Rightarrow> bool) \<Rightarrow> ('s \<Rightarrow> bool) \<Rightarrow> bool" where
  "read_contract view work f found missing \<longleftrightarrow>
     (\<forall>s r x s'. f s = (r, x, s') \<longrightarrow> view s' = view s \<and> work s' = work s
        \<and> (r = ESP_OK \<longrightarrow> found s x) \<and> (r = ESP_ERR_NVS_NOT_FOUND \<longrightarrow> missing s))"

definition clear_contract ::
  "('s \<Rightarrow> string \<rightharpoonup> nvs_value) \<Rightarrow> ('s \<Rightarrow> esp_err \<times> 's) \<Rightarrow> bool" where
  "clear_contract v f \<longleftrightarrow>
     (\<forall>s r s'. f s = (r, s') \<longrightarrow> between (v s) Map.empty (v s')
        \<and> (r = ESP_OK \<longrightarrow> v s' = Map.empty))"

definition nvs_contract ::
  "'s platform \<Rightarrow> ('s \<Rightarrow> string \<rightharpoonup> nvs_value) \<Rightarrow> ('s \<Rightarrow> string \<rightharpoonup> nvs_value) \<Rightarrow> bool" where
  "nvs_contract P view work \<longleftrightarrow>
     (\<forall>mode s r s'. p_open P mode s = (r, s') \<longrightarrow> view s' = view s
        \<and> (r = ESP_OK \<longrightarrow> work s' = view s)
        \<and> (r = ESP_ERR_NVS_NOT_FOUND \<longrightarrow> mode = NVS_READONLY \<and> view s = Map.empty))
   \<and> (\<forall>s. between (view s) (work s) (view (p_close P s)))
   \<and> (\<forall>key. read_contract view work (p_blob_size P key)
        (\<lambda>s n. \<exists>bs. work s key = Some (Blob bs) \<and> n = length bs)
        (\<lambda>s. \<forall>bs. work s key \<noteq> Some (Blob bs)))
   \<and> (\<forall>key n. read_contract view work (p_get_blob P key n)
        (\<lambda>s bs. work s key = Some (Blob bs)) (\<lambda>s. \<forall>bs. work s key \<noteq> Some (Blob bs)))
   \<and> (\<forall>key bs. set_contract view work (p_set_blob P key bs) key (Some (Blob bs)))
   \<and> (\<forall>key. read_contract view work (p_str_size P key)
        (\<lambda>s n. \<exists>t. work s key = Some (Str t) \<and> n = length t + 1)
        (\<lambda>s. \<forall>t. work s key \<noteq> Some (Str t)))
   \<and> (\<forall>key n. read_contract view work (p_get_str P key n)
        (\<lambda>s t. \<exists>u. work s key = Some (Str u) \<and> t = u @ [NUL]) (\<lambda>s. \<forall>t. work s key \<noteq> Some (Str t)))
   \<and> (\<forall>key t. set_contract view work (p_set_str P key t) key (Some (Str t)))
   \<and> (\<forall>key. set_contract view work (p_erase_key P key) key None)
   \<and> clear_contract work (p_erase_all P)
   \<and> (\<forall>s r s'. p_erase_all P s = (r, s') \<longrightarrow> between (view s) Map.empty (view s'))
   \<and> (\<forall>s r s'. p_commit P s = (r, s') \<longrightarrow> work s' = work s \<and> between (view s) (work s) (view s')
        \<and> (r = ESP_OK \<longrightarrow> view s' = work s))
   \<and> (\<forall>s r s'. p_flash_init P s = (r, s') \<longrightarrow> view s' = view s)
   \<and> clear_contract view (p_flash_erase P)
   \<and> (\<forall>n s b s'. p_calloc P n s = (b, s') \<longrightarrow> view s' = view s \<and> work s' = work s)
   \<and> (\<forall>s b s'. p_create_mutex P s = (b, s') \<longrightarrow> view s' = view s)
   \<and> (\<forall>s b s'. p_take_mutex P s = (b, s') \<longrightarrow> view s' = view s)
   \<and> (\<forall>s. view (p_give_mutex P s) = view s)
   \<and> (\<forall>s. view (p_restart P s) = view s)
   \<and> (\<forall>n s bs s'. p_random P n s = (bs, s') \<longrightarrow> view s' = view s \<and> work s' = work s
        \<and> length bs = n)"

lemma between_refl [simp]: "between old new old" "between old new new"
  by (simp_all add: between_def)

lemma between_same: "between old old now \<longleftrightarrow> now = old"
  by (auto simp: between_def)

text \<open>When only one key changes, the result is the old content or the new one.\<close>

lemma between_upd: "between V (V(key := v)) W \<longleftrightarrow> W = V \<or> W = V(key := v)"
proof
  assume L: "between V (V(key := v)) W"
  show "W = V \<or> W = V(key := v)"
  proof (cases "W key = V key")
    case True
    then have "W = V" using L by (intro ext) (auto simp: between_def split: if_splits)
    then show ?thesis ..
  next
    case False
    then have "W = V(key := v)" using L by (intro ext) (auto simp: between_def split: if_splits)
    then show ?thesis ..
  qed
qed (auto simp: between_def)

lemma between_trans:
  "between V U W \<Longrightarrow> between W U X \<Longrightarrow> between V U X"
  unfolding between_def by metis

lemma contract_open: "nvs_contract P view work \<Longrightarrow> p_open P mode s = (r, s') \<Longrightarrow>
   view s' = view s \<and> (r = ESP_OK \<longrightarrow> work s' = view s)
   \<and> (r = ESP_ERR_NVS_NOT_FOUND \<longrightarrow> mode = NVS_READONLY \<and> view s = Map.empty)"
  by (simp add: nvs_contract_def)

lemma contract_close: "nvs_contract P view work \<Longrightarrow> between (view s) (work s) (view (p_close P s))"
  by (simp add: nvs_contract_def)

lemma contract_blob_size: "nvs_contract P view work \<Longrightarrow> p_blob_size P key s = (r, n, s') \<Longrightarrow>
   view s' = view s \<and> work s' = work s
   \<and> (r = ESP_OK \<longrightarrow> (\<exists>bs. work s key = Some (Blob bs) \<and> n = length bs))
   \<and> (r = ESP_ERR_NVS_NOT_FOUND \<longrightarrow> (\<forall>bs. work s key \<noteq> Some (Blob bs)))"
  unfolding nvs_contract_def read_contract_def by (elim conjE) simp

lemma contract_get_blob: "nvs_contract P view work \<Longrightarrow> p_get_blob P key n s = (r, bs, s') \<Longrightarrow>
   view s' = view s \<and> work s' = work s \<and> (r = ESP_OK \<longrightarrow> work s key = Some (Blob bs))
   \<and> (r = ESP_ERR_NVS_NOT_FOUND \<longrightarrow> (\<forall>bs. work s key \<noteq> Some (Blob bs)))"
  unfolding nvs_contract_def read_contract_def by (elim conjE) simp

lemma contract_set_blob: "nvs_contract P view work \<Longrightarrow>
   set_contract view work (p_set_blob P key bs) key (Some (Blob bs))"
  by (simp add: nvs_contract_def)

lemma contract_str_size: "nvs_contract P view work \<Longrightarrow> p_str_size P key s = (r, n, s') \<Longrightarrow>
   view s' = view s \<and> work s' = work s
   \<and> (r = ESP_OK \<longrightarrow> (\<exists>t. work s key = Some (Str t) \<and> n = length t + 1))
   \<and> (r = ESP_ERR_NVS_NOT_FOUND \<longrightarrow> (\<forall>t. work s key \<noteq> Some (Str t)))"
  unfolding nvs_contract_def read_contract_def by (elim conjE) simp

lemma contract_get_str: "nvs_contract P view work \<Longrightarrow> p_get_str P key n s = (r, t, s') \<Longrightarrow>
   view s' = view s \<and> work s' = work s
   \<and> (r = ESP_OK \<longrightarrow> (\<exists>u. work s key = Some (Str u) \<and> t = u @ [NUL]))"
  unfolding nvs_contract_def read_contract_def by (elim conjE) simp

lemma contract_set_str: "nvs_contract P view work \<Longrightarrow>
   set_contract view work (p_set_str P key t) key (Some (Str t))"
  by (simp add: nvs_contract_def)

lemma contract_erase_key: "nvs_contract P view work \<Longrightarrow>
   set_contract view work (p_erase_key P key) key None"
  by (simp add: nvs_contract_def)

lemma contract_erase_all: "nvs_contract P view work \<Longrightarrow> p_erase_all P s = (r, s') \<Longrightarrow>
   between (work s) Map.empty (work s') \<and> between (view s) Map.empty (view s')
   \<and> (r = ESP_OK \<longrightarrow> work s' = Map.empty)"
  by (simp add: nvs_contract_def clear_contract_def)

lemma contract_commit: "nvs_contract P view work \<Longrightarrow> p_commit P s = (r, s') \<Longrightarrow>
   work s' = work s \<and> between (view s) (work s) (view s') \<and> (r = ESP_OK \<longrightarrow> view s' = work s)"
  by (simp add: nvs_contract_def)

lemma contract_flash_init: "nvs_contract P view work \<Longrightarrow> p_flash_init P s = (r, s') \<Longrightarrow> view s' = view s"
  by (simp add: nvs_contract_def)

lemma contract_flash_erase: "nvs_contract P view work \<Longrightarrow> p_flash_erase P s = (r, s') \<Longrightarrow>
   between (view s) Map.empty (view s') \<and> (r = ESP_OK \<longrightarrow> view s' = Map.empty)"
  by (simp add: nvs_contract_def clear_contract_def)

lemma contract_calloc: "nvs_contract P view work \<Longrightarrow> p_calloc P n s = (b, s') \<Longrightarrow>
   view s' = view s \<and> work s' = work s"
  unfolding nvs_contract_def by (elim conjE) simp

lemma contract_mutex:
  "nvs_contract P view work \<Longrightarrow> p_create_mutex P s = (b, s') \<Longrightarrow> view s' = view s"
  "nvs_contract P view work \<Longrightarrow> p_take_mutex P s = (b, s') \<Longrightarrow> view s' = view s"
  "nvs_contract P view work \<Longrightarrow> view (p_give_mutex P s) = view s"
  by (simp_all add: nvs_contract_def)

lemma contract_restart: "nvs_contract P view work \<Longrightarrow> view (p_restart P s) = view s"
  by (simp add: nvs_contract_def)

lemma contract_random: "nvs_contract P view work \<Longrightarrow> p_random P n s = (bs, s') \<Longrightarrow>
   view s' = view s \<and> work s' = work s \<and> length bs = n"
  unfolding nvs_contract_def by (elim conjE) simp

lemma contract_close_same: "nvs_contract P view work \<Longrightarrow> work s = view s \<Longrightarrow> view (p_close P s) = view s"
  using contract_close [of P view work s] by (simp add: between_same)

section \<open>Reading and writing blobs, against the content in flash\<close>

lemma read_encoded_blob_spec:
  assumes C: "nvs_contract P view work" and R: "read_encoded_blob P key mx s = (r, b, s')"
  shows "view s' = view s
    \<and> (r = ESP_OK \<longrightarrow> (\<exists>bs. view s key = Some (Blob bs) \<and> b = Some bs))
    \<and> (r = ESP_ERR_NVS_NOT_FOUND \<longrightarrow> (\<forall>bs. view s key \<noteq> Some (Blob bs)))"
proof -
  obtain r1 s1 where o: "p_open P NVS_READONLY s = (r1, s1)" by force
  obtain r2 n s2 where z: "p_blob_size P key s1 = (r2, n, s2)" by (cases "p_blob_size P key s1")
  obtain ok s3 where a: "p_calloc P n s2 = (ok, s3)" by force
  obtain r4 bs s4 where g: "p_get_blob P key n s3 = (r4, bs, s4)" by (cases "p_get_blob P key n s3")
  note facts = contract_open [OF C o] contract_blob_size [OF C z] contract_calloc [OF C a]
    contract_get_blob [OF C g] contract_close_same [OF C]
  show ?thesis
    using R [unfolded read_encoded_blob_def open_namespace_def Let_def o prod.case z a g] facts
    by (auto split: if_splits)
qed

lemma contract_set:
  assumes "set_contract view work f key v" and "f s = (r, s')"
  shows "between (view s) ((work s)(key := v)) (view s')"
    and "between (work s) ((work s)(key := v)) (work s')"
    and "r = ESP_OK \<Longrightarrow> work s' = (work s)(key := v)"
    and "r = ESP_ERR_NVS_NOT_FOUND \<Longrightarrow> v = None \<Longrightarrow> work s' = work s \<and> work s key = None"
  using assms unfolding set_contract_def by blast+

lemma between_two:
  "U = V \<or> U = V(key := v) \<Longrightarrow> W = V \<or> W = V(key := v) \<Longrightarrow> between U W X
     \<Longrightarrow> X = V \<or> X = V(key := v)"
  unfolding between_upd [symmetric] between_def by metis

text \<open>One write behind an open handle, committed when it succeeded, and the handle closed.\<close>

lemma set_commit_close:
  assumes C: "nvs_contract P view work"
    and "set_contract view work f key v" and "work s = view s" and f: "f s = (r1, s1)"
    and r2: "r2 = r1 \<or> (r1 = ESP_ERR_NVS_NOT_FOUND \<and> v = None \<and> r2 = ESP_OK)"
    and c: "(if r2 = ESP_OK then p_commit P s1 else (r2, s1)) = (r, s2)"
  shows "(view (p_close P s2) = view s \<or> view (p_close P s2) = (view s)(key := v))
    \<and> (r = ESP_OK \<longrightarrow> view (p_close P s2) = (view s)(key := v))"
proof -
  note w = contract_set [OF assms(2) f, unfolded assms(3)]
  have v1: "view s1 = view s \<or> view s1 = (view s)(key := v)" using w(1) by (simp add: between_upd)
  have k1: "work s1 = view s \<or> work s1 = (view s)(key := v)" using w(2) by (simp add: between_upd)
  have new: "r2 = ESP_OK \<Longrightarrow> work s1 = (view s)(key := v)"
    using r2 w(3,4) by (auto simp: fun_upd_idem_iff)
  show ?thesis
  proof (cases "r2 = ESP_OK")
    case False
    then have "s2 = s1" "r \<noteq> ESP_OK" using c by auto
    then show ?thesis using between_two [OF v1 k1 contract_close [OF C]] by simp
  next
    case True
    then have "p_commit P s1 = (r, s2)" using c by simp
    note m = contract_commit [OF C this]
    have "view s2 = view s \<or> view s2 = (view s)(key := v)"
      using between_two [OF v1 k1] m by blast
    moreover have "work s2 = (view s)(key := v)" using m new True by simp
    moreover have "r = ESP_OK \<Longrightarrow> view s2 = (view s)(key := v)" using m new True by simp
    ultimately show ?thesis
      using between_two [OF _ _ contract_close [OF C, of s2], of "view s" key v]
        contract_close_same [OF C, of s2] by simp
  qed
qed

lemma write_encoded_blob_spec:
  assumes C: "nvs_contract P view work" and R: "write_encoded_blob P key bs s = (r, s')"
  shows "(view s' = view s \<or> view s' = (view s)(key \<mapsto> Blob bs))
    \<and> (r = ESP_OK \<longrightarrow> view s' = (view s)(key \<mapsto> Blob bs))"
proof -
  obtain r1 s1 where o: "p_open P NVS_READWRITE s = (r1, s1)" by force
  note v = contract_open [OF C o]
  obtain r2 s2 where f: "p_set_blob P key bs s1 = (r2, s2)" by force
  obtain r3 s3 where c: "(if r2 = ESP_OK then p_commit P s2 else (r2, s2)) = (r3, s3)" by force
  show ?thesis
  proof (cases "r1 = ESP_OK")
    case False
    then show ?thesis using R v by (simp add: write_encoded_blob_def open_namespace_def o)
  next
    case True
    then have "r = r3" "s' = p_close P s3"
      using R c by (auto simp: write_encoded_blob_def open_namespace_def o f)
    then show ?thesis
      using set_commit_close [OF C contract_set_blob [OF C] _ f disjI1 [OF refl] c] v True by simp
  qed
qed

lemma erase_key_spec:
  assumes C: "nvs_contract P view work" and R: "erase_key P key s = (r, s')"
  shows "(view s' = view s \<or> view s' = (view s)(key := None))
    \<and> (r = ESP_OK \<longrightarrow> view s' = (view s)(key := None))"
proof -
  obtain r1 s1 where o: "p_open P NVS_READWRITE s = (r1, s1)" by force
  note v = contract_open [OF C o]
  obtain r2 s2 where f: "p_erase_key P key s1 = (r2, s2)" by force
  let ?r = "if r2 = ESP_ERR_NVS_NOT_FOUND then ESP_OK else r2"
  obtain r3 s3 where c: "(if ?r = ESP_OK then p_commit P s2 else (?r, s2)) = (r3, s3)" by force
  show ?thesis
  proof (cases "r1 = ESP_OK")
    case False
    then show ?thesis using R v by (simp add: erase_key_def open_namespace_def o)
  next
    case True
    then have "r = r3" "s' = p_close P s3"
      using R c by (auto simp: erase_key_def open_namespace_def o f Let_def)
    then show ?thesis
      using set_commit_close [OF C contract_erase_key [OF C] _ f _ c] v True by auto
  qed
qed

section \<open>Configurations and metadata in flash\<close>

definition stored_config :: "(string \<rightharpoonup> nvs_value) \<Rightarrow> string \<Rightarrow> device_config option" where
  "stored_config V key = (case V key of Some (Blob bs) \<Rightarrow> config_of_blob bs | _ \<Rightarrow> None)"

definition stored_metadata :: "(string \<rightharpoonup> nvs_value) \<Rightarrow> device_config_metadata option" where
  "stored_metadata V = (case V KEY_METADATA of
      Some (Blob bs) \<Rightarrow> metadata_of_blob bs | _ \<Rightarrow> Some zero_metadata)"

lemma zero_metadata_storable [simp]: "metadata_storable zero_metadata"
  by (simp add: metadata_storable_def) (simp add: zero_metadata_def zeros_def)

lemma stored_metadata_storable: "stored_metadata V = Some m \<Longrightarrow> metadata_storable m"
  by (auto simp: stored_metadata_def metadata_codec.dec_valid
      split: option.splits nvs_value.splits)

lemma read_configuration_spec:
  assumes C: "nvs_contract P view work" and R: "read_configuration P key c0 s = (r, c, s')"
  shows "view s' = view s
    \<and> (r = ESP_OK \<longrightarrow> stored_config (view s) key = Some c \<and> config_storable c
         \<and> validate_quiet (p_x509 P) c = ESP_OK)"
proof -
  obtain r1 b s1 where o: "read_encoded_blob P key 8192 s = (r1, b, s1)"
    by (cases "read_encoded_blob P key 8192 s")
  note v = read_encoded_blob_spec [OF C o]
  show ?thesis
  proof (cases "r = ESP_OK")
    case False
    then show ?thesis using R v by (auto simp: read_configuration_def o Let_def split: prod.splits)
  next
    case True
    with R have "r1 = ESP_OK" and s: "s' = s1"
      by (auto simp: read_configuration_def o Let_def split: if_splits prod.splits)
    with v obtain bs where bs: "view s key = Some (Blob bs)" "b = Some bs" by auto
    obtain r2 x where d: "device_config_storage_decode_configuration (Some bs) (Some c0) = (r2, x)"
      by force
    with R True \<open>r1 = ESP_OK\<close> bs have "r2 = ESP_OK"
        and c: "c = (case x of Some c \<Rightarrow> c | None \<Rightarrow> c0)" and q: "validate_quiet (p_x509 P) c = ESP_OK"
      by (auto simp: read_configuration_def o Let_def split: if_splits)
    have "x \<noteq> None"
      using d by (auto simp: device_config_storage_decode_configuration_def
          split: prod.splits if_splits option.splits)
    with c have x: "x = Some c" by auto
    then have dec: "device_config_storage_decode_configuration (Some bs) (Some c0) = (ESP_OK, Some c)"
      using d \<open>r2 = ESP_OK\<close> by simp
    note k = decoded_configuration [OF dec]
    then have "config_of_blob bs = Some c"
      by (simp add: config_of_blob_Some decode_encoded_configuration)
    then show ?thesis using v s bs q k by (simp add: stored_config_def)
  qed
qed

lemma write_configuration_spec:
  assumes C: "nvs_contract P view work" and R: "write_configuration P key c s = (r, s')"
    and "config_layout c"
  shows "(view s' = view s \<or> view s' = (view s)(key \<mapsto> Blob (blob_of_config c)))
    \<and> (r = ESP_OK \<longrightarrow> view s' = (view s)(key \<mapsto> Blob (blob_of_config c)))"
proof -
  obtain ok s1 where a: "p_calloc P 4873 s = (ok, s1)" by force
  note v = contract_calloc [OF C a]
  have e: "device_config_storage_encode_configuration (Some c) (Some (replicate 4873 0))
      = (ESP_OK, Some (blob_of_config c))"
    using assms(3) by (simp add: encode_configuration_eq blob_of_config_eq)
  show ?thesis
  proof (cases ok)
    case True
    then have "write_encoded_blob P key (blob_of_config c) s1 = (r, s')"
      using R by (simp add: write_configuration_def a e)
    from write_encoded_blob_spec [OF C this] show ?thesis using v by simp
  qed (use R v in \<open>simp add: write_configuration_def a\<close>)
qed

lemma write_metadata_spec:
  assumes C: "nvs_contract P view work" and R: "write_metadata P m s = (r, s')"
    and "metadata_layout m"
  shows "(view s' = view s \<or> view s' = (view s)(KEY_METADATA \<mapsto> Blob (blob_of_metadata m)))
    \<and> (r = ESP_OK \<longrightarrow> view s' = (view s)(KEY_METADATA \<mapsto> Blob (blob_of_metadata m)))"
proof -
  obtain ok s1 where a: "p_calloc P 121 s = (ok, s1)" by force
  note v = contract_calloc [OF C a]
  have e: "device_config_storage_encode_metadata (Some m) (Some (replicate 121 0))
      = (ESP_OK, Some (blob_of_metadata m))"
    using assms(3) by (simp add: encode_metadata_eq blob_of_metadata_eq)
  show ?thesis
  proof (cases ok)
    case True
    then have "write_encoded_blob P KEY_METADATA (blob_of_metadata m) s1 = (r, s')"
      using R by (simp add: write_metadata_def a e)
    from write_encoded_blob_spec [OF C this] show ?thesis using v by simp
  qed (use R v in \<open>simp add: write_metadata_def a\<close>)
qed

lemma get_metadata_locked_spec:
  assumes C: "nvs_contract P view work" and R: "get_metadata_locked P m0 s = (r, m, s')"
  shows "view s' = view s
    \<and> (r = ESP_OK \<longrightarrow> stored_metadata (view s) = Some m \<and> metadata_storable m)"
proof -
  obtain r1 b s1 where o: "read_encoded_blob P KEY_METADATA 1024 s = (r1, b, s1)"
    by (cases "read_encoded_blob P KEY_METADATA 1024 s")
  note v = read_encoded_blob_spec [OF C o]
  show ?thesis
  proof (cases "r1 = ESP_OK")
    case False
    then show ?thesis using R v
      by (auto simp: get_metadata_locked_def read_metadata_def o stored_metadata_def
          split: if_splits option.splits nvs_value.splits)
  next
    case True
    with v obtain bs where bs: "view s KEY_METADATA = Some (Blob bs)" "b = Some bs" by auto
    obtain r2 x where d: "device_config_storage_decode_metadata (Some bs) (Some m0) = (r2, x)"
      by force
    have nf: "r2 \<noteq> ESP_ERR_NVS_NOT_FOUND" and "x \<noteq> None"
      using d by (auto simp: device_config_storage_decode_metadata_def Let_def
          device_config_storage_peek_header_def split: prod.splits if_splits option.splits)
    then obtain y where y: "x = Some y" by blast
    have r: "r = r2" "m = y" "s' = s1"
      using R d y nf True bs by (auto simp: get_metadata_locked_def read_metadata_def o)
    show ?thesis
    proof (cases "r2 = ESP_OK")
      case True
      then have dec: "device_config_storage_decode_metadata (Some bs) (Some m0) = (ESP_OK, Some m)"
        using d y r by simp
      note k = decoded_metadata [OF dec]
      then have "metadata_of_blob bs = Some m"
        by (simp add: metadata_of_blob_Some decode_encoded_metadata)
      then show ?thesis using v r bs k by (simp add: stored_metadata_def)
    qed (use v r in simp)
  qed
qed

end
