(* ===== verification/Config_Steps.thy ===== *)
theory Config_Steps
  imports Config_Nvs
begin

text \<open>
  The abstract store behind \<^verbatim>\<open>device_config.c\<close>: the flash content and the revision
  under validation, with the atomic steps that any operation may take
  (\<open>store_step\<close>, one rule per kind of write, with the condition under which
  the code makes it). Every operation, whatever calls fail in it, is shown to be a sequence
  of such steps with actions of a fixed set, and its effect when it succeeds is given
  exactly.
\<close>

section \<open>The abstract store\<close>

record store =
  flash :: "string \<rightharpoonup> nvs_value"
  validating :: "u32 option"

definition store_of :: "('s \<Rightarrow> string \<rightharpoonup> nvs_value) \<Rightarrow> 's device \<Rightarrow> store" where
  "store_of view d = \<lparr>flash = view (env d),
     validating = (if candidate_validation_in_progress d
                   then Some (candidate_validation_revision d) else None)\<rparr>"

abbreviation put_config :: "string \<Rightarrow> device_config \<Rightarrow> store \<Rightarrow> store" where
  "put_config key c a \<equiv> a\<lparr>flash := (flash a)(key \<mapsto> Blob (blob_of_config c))\<rparr>"

abbreviation put_metadata :: "device_config_metadata \<Rightarrow> store \<Rightarrow> store" where
  "put_metadata m a \<equiv> a\<lparr>flash := (flash a)(KEY_METADATA \<mapsto> Blob (blob_of_metadata m))\<rparr>"

abbreviation drop_key :: "string \<Rightarrow> store \<Rightarrow> store" where
  "drop_key key a \<equiv> a\<lparr>flash := (flash a)(key := None)\<rparr>"

abbreviation metadata_in :: "store \<Rightarrow> device_config_metadata option" where
  "metadata_in a \<equiv> stored_metadata (flash a)"

abbreviation config_in :: "store \<Rightarrow> string \<Rightarrow> device_config option" where
  "config_in a key \<equiv> stored_config (flash a) key"

definition settled :: "device_config_metadata \<Rightarrow> device_config_metadata" where
  "settled m = m\<lparr>md_state := DEVICE_CONFIG_STATE_ACTIVE, candidate_revision := 0, boot_attempts := 0\<rparr>"

definition valid_config :: "(string \<Rightarrow> int) \<Rightarrow> device_config \<Rightarrow> bool" where
  "valid_config x509 c \<longleftrightarrow> config_storable c \<and> validate_quiet x509 c = ESP_OK"

datatype store_action =
    Restart | Count_boot | Stage_config | Stage_metadata | Count_attempt | Begin_validation
  | Rollback_metadata | Drop_candidate | Install | Settle | Create_secret | Wipe

inductive store_step :: "(string \<Rightarrow> int) \<Rightarrow> u32 \<Rightarrow> store_action \<Rightarrow> store \<Rightarrow> store \<Rightarrow> bool"
  for x509 :: "string \<Rightarrow> int" and limit :: u32 where
  restart: "store_step x509 limit Restart a (a\<lparr>validating := None\<rparr>)"
| count_boot: "metadata_in a = Some m \<Longrightarrow>
    store_step x509 limit Count_boot a (put_metadata (m\<lparr>boot_count := boot_count m + 1\<rparr>) a)"
| stage_config: "validating a = None \<Longrightarrow> valid_config x509 c \<Longrightarrow>
    store_step x509 limit Stage_config a (put_config KEY_CANDIDATE c a)"
| stage_metadata: "validating a = None \<Longrightarrow> metadata_in a = Some m \<Longrightarrow>
    config_in a KEY_CANDIDATE = Some c \<Longrightarrow> valid_config x509 c \<Longrightarrow>
    store_step x509 limit Stage_metadata a (put_metadata (m\<lparr>md_state := DEVICE_CONFIG_STATE_PENDING,
      candidate_revision := revision c, boot_attempts := 0\<rparr>) a)"
| count_attempt: "metadata_in a = Some m \<Longrightarrow> md_state m = DEVICE_CONFIG_STATE_PENDING \<Longrightarrow>
    boot_attempts m < limit \<Longrightarrow>
    store_step x509 limit Count_attempt a (put_metadata (m\<lparr>boot_attempts := boot_attempts m + 1\<rparr>) a)"
| begin_validation: "metadata_in a = Some m \<Longrightarrow> md_state m = DEVICE_CONFIG_STATE_PENDING \<Longrightarrow>
    0 < boot_attempts m \<Longrightarrow> config_in a KEY_CANDIDATE = Some c \<Longrightarrow> valid_config x509 c \<Longrightarrow>
    revision c = candidate_revision m \<Longrightarrow>
    store_step x509 limit Begin_validation a (a\<lparr>validating := Some (revision c)\<rparr>)"
| rollback_metadata: "metadata_in a = Some m \<Longrightarrow> length reason = 96 \<Longrightarrow> reason ! 95 = NUL \<Longrightarrow>
    store_step x509 limit Rollback_metadata a (put_metadata (m\<lparr>md_state := DEVICE_CONFIG_STATE_ROLLBACK,
      candidate_revision := 0, boot_attempts := 0, last_rollback_reason := reason\<rparr>) a)"
| drop_candidate: "metadata_in a = Some m \<Longrightarrow> md_state m \<noteq> DEVICE_CONFIG_STATE_PENDING \<Longrightarrow>
    store_step x509 limit Drop_candidate a (drop_key KEY_CANDIDATE a)"
| install: "validating a = Some (revision c) \<Longrightarrow> metadata_in a = Some m \<Longrightarrow>
    md_state m = DEVICE_CONFIG_STATE_PENDING \<Longrightarrow> candidate_revision m = revision c \<Longrightarrow>
    config_in a KEY_CANDIDATE = Some c \<Longrightarrow> valid_config x509 c \<Longrightarrow>
    store_step x509 limit Install a (put_config KEY_ACTIVE c a)"
| settle_active: "metadata_in a = Some m \<Longrightarrow> config_in a KEY_CANDIDATE = Some c \<Longrightarrow>
    config_in a KEY_ACTIVE = Some c \<Longrightarrow> valid_config x509 c \<Longrightarrow>
    store_step x509 limit Settle a (put_metadata (settled m) a)"
| settle_cancel: "validating a = None \<Longrightarrow> metadata_in a = Some m \<Longrightarrow>
    store_step x509 limit Settle a (put_metadata (settled m) a)"
| create_secret: "(\<forall>t. flash a KEY_SETUP \<noteq> Some (Str t)) \<Longrightarrow> length t = 32 \<Longrightarrow>
    list_all hexadecimal t \<Longrightarrow>
    store_step x509 limit Create_secret a (a\<lparr>flash := (flash a)(KEY_SETUP \<mapsto> Str t)\<rparr>)"
| wipe: "between (flash a) Map.empty V \<Longrightarrow> store_step x509 limit Wipe a (a\<lparr>flash := V\<rparr>)"

text \<open>Any number of steps with actions of a given set.\<close>

definition store_steps :: "'s platform \<Rightarrow> store_action set \<Rightarrow> store \<Rightarrow> store \<Rightarrow> bool" where
  "store_steps P L = (\<lambda>a b. \<exists>l \<in> L. store_step (p_x509 P) (candidate_max_attempts P) l a b)\<^sup>*\<^sup>*"

lemma store_steps_refl [simp, intro]: "store_steps P L a a"
  by (simp add: store_steps_def)

lemma store_steps_one:
  "store_step (p_x509 P) (candidate_max_attempts P) l a b \<Longrightarrow> l \<in> L \<Longrightarrow> store_steps P L a b"
  unfolding store_steps_def by (rule r_into_rtranclp) blast

lemma store_steps_trans [trans]:
  "store_steps P L a b \<Longrightarrow> store_steps P L b c \<Longrightarrow> store_steps P L a c"
  unfolding store_steps_def by (rule rtranclp_trans)

lemma store_steps_mono: "store_steps P K a b \<Longrightarrow> K \<subseteq> L \<Longrightarrow> store_steps P L a b"
  unfolding store_steps_def by (erule rtranclp_mono [THEN predicate2D, rotated]) blast

lemma store_steps_invariant:
  assumes "store_steps P L a b" and "I a"
    and "\<And>l a b. l \<in> L \<Longrightarrow> store_step (p_x509 P) (candidate_max_attempts P) l a b \<Longrightarrow> I a \<Longrightarrow> I b"
  shows "I b"
  using assms(1,2) unfolding store_steps_def
  by (induction rule: rtranclp_induct) (auto intro: assms(3))

text \<open>Only installing and wiping touch the active configuration.\<close>

lemma active_kept:
  assumes "store_steps P L a b" and "Install \<notin> L" and "Wipe \<notin> L"
  shows "flash b KEY_ACTIVE = flash a KEY_ACTIVE"
  using assms(1)
proof (rule store_steps_invariant [where I = "\<lambda>b. flash b KEY_ACTIVE = flash a KEY_ACTIVE"])
  fix l x y
  assume "l \<in> L" and "store_step (p_x509 P) (candidate_max_attempts P) l x y"
    and "flash x KEY_ACTIVE = flash a KEY_ACTIVE"
  from this(2,1,3) assms(2,3) show "flash y KEY_ACTIVE = flash a KEY_ACTIVE" by cases auto
qed simp

text \<open>Nothing but creating and wiping touches the setup secret.\<close>

lemma secret_kept:
  assumes "store_steps P L a b" and "Wipe \<notin> L" and "flash a KEY_SETUP = Some (Str t)"
  shows "flash b KEY_SETUP = Some (Str t)"
  using assms(1)
proof (rule store_steps_invariant [where I = "\<lambda>b. flash b KEY_SETUP = Some (Str t)"])
  fix l x y
  assume "l \<in> L" and "store_step (p_x509 P) (candidate_max_attempts P) l x y"
    and "flash x KEY_SETUP = Some (Str t)"
  from this(2,1,3) assms(2) show "flash y KEY_SETUP = Some (Str t)" by cases auto
qed (rule assms(3))

section \<open>The lock\<close>

lemma with_lock_cases [consumes 2, case_names locked_out ran]:
  assumes C: "nvs_contract P view work" and R: "with_lock P on_error body d = (r, d')"
  obtains (locked_out) e where "e \<noteq> ESP_OK" "r = on_error e" "store_of view d' = store_of view d"
      "e = ESP_ERR_INVALID_STATE \<or> e = ESP_FAIL"
  | (ran) d1 d2 where "body d1 = (r, d2)" "store_of view d1 = store_of view d"
      "store_of view d' = store_of view d2" "view (env d1) = view (env d)"
      "candidate_validation_in_progress d1 = candidate_validation_in_progress d"
      "candidate_validation_revision d1 = candidate_validation_revision d"
proof -
  obtain e d1 where l: "configuration_lock P d = (e, d1)" by force
  have same: "store_of view d1 = store_of view d" "view (env d1) = view (env d)"
      "candidate_validation_in_progress d1 = candidate_validation_in_progress d"
      "candidate_validation_revision d1 = candidate_validation_revision d"
      "e = ESP_OK \<or> e = ESP_ERR_INVALID_STATE \<or> e = ESP_FAIL"
    using l contract_mutex(2) [OF C]
    by (auto simp: configuration_lock_def store_of_def split: if_splits prod.splits)
  obtain r2 d2 where b: "body d1 = (r2, d2)" by force
  show thesis
  proof (cases "e = ESP_OK")
    case False
    then show thesis using R l same by (intro locked_out) (auto simp: with_lock_def)
  next
    case True
    then have "r = r2" "d' = configuration_unlock P d2"
      using R l b by (simp_all add: with_lock_def)
    then show thesis using b same contract_mutex(3) [OF C]
      by (intro ran [of d1 d2]) (simp_all add: configuration_unlock_def store_of_def)
  qed
qed

section \<open>Storing one value\<close>

lemma store_of_env [simp]: "store_of view (d\<lparr>env := s\<rparr>) = (store_of view d)\<lparr>flash := view s\<rparr>"
  by (simp add: store_of_def)

lemma flash_store_of [simp]: "flash (store_of view d) = view (env d)"
  by (simp add: store_of_def)

lemma store_of_flash [simp]: "(store_of view d)\<lparr>flash := view (env d)\<rparr> = store_of view d"
  by (simp add: store_of_def)

lemma stored_metadata_upd [simp]:
  "metadata_storable m \<Longrightarrow> stored_metadata (V(KEY_METADATA \<mapsto> Blob (blob_of_metadata m))) = Some m"
  "key \<noteq> KEY_METADATA \<Longrightarrow> stored_metadata (V(key := v)) = stored_metadata V"
  by (simp_all add: stored_metadata_def metadata_codec.dec_enc)

lemma stored_config_upd [simp]:
  "config_storable c \<Longrightarrow> stored_config (V(key \<mapsto> Blob (blob_of_config c))) key = Some c"
  "key \<noteq> k \<Longrightarrow> stored_config (V(k := v)) key = stored_config V key"
  by (simp_all add: stored_config_def config_codec.dec_enc)

lemma metadata_storable_upd [simp]:
  "metadata_storable (m\<lparr>md_state := st\<rparr>) = metadata_storable m"
  "metadata_storable (m\<lparr>candidate_revision := r\<rparr>) = metadata_storable m"
  "metadata_storable (m\<lparr>boot_attempts := n\<rparr>) = metadata_storable m"
  "metadata_storable (m\<lparr>boot_count := n\<rparr>) = metadata_storable m"
  "metadata_storable (m\<lparr>last_rollback_reason := x\<rparr>) \<longleftrightarrow> length x = 96 \<and> x ! 95 = NUL"
  by (simp_all add: metadata_storable_def metadata_layout_def)

lemma metadata_storable_layout: "metadata_storable m \<Longrightarrow> metadata_layout m"
  by (simp add: metadata_storable_def)

lemma store_s_reason:
  assumes "length old = 96" and "old ! 95 = NUL"
  shows "length (store_s old 96 x) = 96 \<and> store_s old 96 x ! 95 = NUL"
proof -
  let ?t = "take 95 x"
  have "length (store_s old 96 x) = 96" using assms by simp
  moreover have "store_s old 96 x ! 95 = NUL"
  proof (cases "length ?t = 95")
    case True
    then show ?thesis by (simp add: snprintf_s_def Let_def nth_append)
  next
    case False
    then have "length x < 95" by simp
    then have "store_s old 96 x ! 95 = old ! 95"
      using assms by (simp add: snprintf_s_def Let_def nth_append nth_Cons')
    then show ?thesis using assms by simp
  qed
  ultimately show ?thesis ..
qed

section \<open>Each operation takes steps of the store\<close>

text \<open>
  A write that is one step of the store when it takes effect: the store makes that step or
  stays, and makes it when the write reports success.
\<close>

lemma metadata_write_step:
  assumes "nvs_contract P view work" and "write_metadata P m s = (r, s')" and "metadata_storable m"
    and "view s = flash a"
    and "store_step (p_x509 P) (candidate_max_attempts P) l a (put_metadata m a)" and "l \<in> L"
  shows "store_steps P L a (a\<lparr>flash := view s'\<rparr>)"
    and "r = ESP_OK \<Longrightarrow> view s' = (flash a)(KEY_METADATA \<mapsto> Blob (blob_of_metadata m))"
proof -
  note w = write_metadata_spec [OF assms(1,2) metadata_storable_layout [OF assms(3)]]
  from w consider "view s' = flash a" | "a\<lparr>flash := view s'\<rparr> = put_metadata m a"
    unfolding assms(4) by auto
  then show "store_steps P L a (a\<lparr>flash := view s'\<rparr>)"
    using store_steps_one [OF assms(5,6)] by cases simp_all
  show "r = ESP_OK \<Longrightarrow> view s' = (flash a)(KEY_METADATA \<mapsto> Blob (blob_of_metadata m))"
    using w assms(4) by simp
qed

lemma drop_candidate_step:
  assumes "nvs_contract P view work" and "erase_key P KEY_CANDIDATE s = (r, s')"
    and "view s = flash a" and "metadata_in a = Some m" and "md_state m \<noteq> DEVICE_CONFIG_STATE_PENDING"
    and "Drop_candidate \<in> L"
  shows "store_steps P L a (a\<lparr>flash := view s'\<rparr>)"
    and "r = ESP_OK \<Longrightarrow> view s' = (flash a)(KEY_CANDIDATE := None)"
proof -
  note w = erase_key_spec [OF assms(1,2)]
  from w consider "view s' = flash a" | "a\<lparr>flash := view s'\<rparr> = drop_key KEY_CANDIDATE a"
    unfolding assms(3) by auto
  then show "store_steps P L a (a\<lparr>flash := view s'\<rparr>)"
    using store_steps_one [OF drop_candidate [OF assms(4,5)] assms(6)] by cases simp_all
  show "r = ESP_OK \<Longrightarrow> view s' = (flash a)(KEY_CANDIDATE := None)"
    using w assms(3) by simp
qed

definition rolled_back :: "string \<Rightarrow> device_config_metadata \<Rightarrow> device_config_metadata" where
  "rolled_back reason m = m\<lparr>md_state := DEVICE_CONFIG_STATE_ROLLBACK, candidate_revision := 0,
     boot_attempts := 0, last_rollback_reason := store_s (last_rollback_reason m) 96 reason\<rparr>"

lemma rolled_back_storable: "metadata_storable m \<Longrightarrow> metadata_storable (rolled_back reason m)"
  using store_s_reason [of "last_rollback_reason m" reason]
  by (simp add: rolled_back_def) (simp add: metadata_storable_def metadata_layout_def)

lemma settled_storable [simp]: "metadata_storable (settled m) = metadata_storable m"
  by (simp add: settled_def)

abbreviation idle :: "store \<Rightarrow> store" where
  "idle a \<equiv> a\<lparr>validating := None\<rparr>"

lemma restart_step: "Restart \<in> L \<Longrightarrow> store_steps P L a (idle a)"
  by (rule store_steps_one [OF restart])

lemma store_of_idle [simp]:
  "store_of view (d\<lparr>candidate_validation_in_progress := False, candidate_validation_revision := n\<rparr>)
     = idle (store_of view d)"
  by (simp add: store_of_def)

text \<open>
  The end shared by rollback, cancel and activation: the metadata leave the pending state,
  then the candidate is erased.
\<close>

lemma leave_pending:
  assumes C: "nvs_contract P view work" and s: "view s = flash a"
    and w: "write_metadata P m s = (r1, s1)" and m: "metadata_storable m"
      "md_state m \<noteq> DEVICE_CONFIG_STATE_PENDING"
    and step: "store_step (p_x509 P) (candidate_max_attempts P) l a (put_metadata m a)"
    and e: "(if r1 = ESP_OK then erase_key P KEY_CANDIDATE s1 else (r1, s1)) = (r, s')"
    and L: "l \<in> L" "Drop_candidate \<in> L"
  shows "store_steps P L a (a\<lparr>flash := view s'\<rparr>)"
    and "r = ESP_OK \<Longrightarrow> view s' = (flash a)(KEY_METADATA \<mapsto> Blob (blob_of_metadata m), KEY_CANDIDATE := None)"
proof -
  let ?b = "a\<lparr>flash := view s1\<rparr>"
  note ws = metadata_write_step [OF C w m(1) s step L(1)]
  have both: "store_steps P L a (a\<lparr>flash := view s'\<rparr>)
     \<and> (r = ESP_OK \<longrightarrow> view s' = (flash a)(KEY_METADATA \<mapsto> Blob (blob_of_metadata m), KEY_CANDIDATE := None))"
  proof (cases "r1 = ESP_OK")
    case False
    then show ?thesis using e ws(1) by auto
  next
    case True
    then have e': "erase_key P KEY_CANDIDATE s1 = (r, s')" using e by simp
    have v: "view s1 = (flash a)(KEY_METADATA \<mapsto> Blob (blob_of_metadata m))" using ws(2) True by simp
    have "metadata_in ?b = Some m" using v m(1) by simp
    note ds = drop_candidate_step [OF C e' _ this m(2) L(2)]
    have "store_steps P L ?b (a\<lparr>flash := view s'\<rparr>)" using ds(1) by simp
    from store_steps_trans [OF ws(1) this] show ?thesis using ds(2) v by simp
  qed
  then show "store_steps P L a (a\<lparr>flash := view s'\<rparr>)"
    and "r = ESP_OK \<Longrightarrow> view s' = (flash a)(KEY_METADATA \<mapsto> Blob (blob_of_metadata m), KEY_CANDIDATE := None)"
    by simp_all
qed

definition reason_text :: "string option \<Rightarrow> string" where
  "reason_text reason = (case reason of Some r \<Rightarrow> cstr r | None \<Rightarrow> ''unspecified'')"

lemma rollback_locked_spec:
  assumes C: "nvs_contract P view work" and R: "rollback_candidate_locked P reason d = (r, d')"
    and L: "{Rollback_metadata, Drop_candidate, Restart} \<subseteq> L"
  defines "a \<equiv> store_of view d"
  shows "store_steps P L a (store_of view d')
    \<and> (r = ESP_OK \<longrightarrow> (\<exists>m. metadata_in a = Some m \<and> store_of view d' = idle (drop_key KEY_CANDIDATE
         (put_metadata (rolled_back (reason_text reason) m) a))))"
proof -
  obtain r1 m s1 where g: "get_metadata_locked P zero_metadata (env d) = (r1, m, s1)"
    by (cases "get_metadata_locked P zero_metadata (env d)")
  note gs = get_metadata_locked_spec [OF C g]
  let ?m = "rolled_back (reason_text reason) m"
  obtain r2 s2 where w: "write_metadata P ?m s1 = (r2, s2)" by force
  obtain r3 s3 where e: "(if r2 = ESP_OK then erase_key P KEY_CANDIDATE s2 else (r2, s2)) = (r3, s3)"
    by force
  show ?thesis
  proof (cases "r1 = ESP_OK")
    case False
    then show ?thesis using R gs by (auto simp: rollback_candidate_locked_def g a_def store_of_def)
  next
    case True
    then have ms: "metadata_in a = Some m" "metadata_storable m" "view s1 = flash a"
      using gs by (simp_all add: a_def)
    have m: "metadata_storable ?m" "md_state ?m \<noteq> DEVICE_CONFIG_STATE_PENDING"
      using rolled_back_storable [OF ms(2)] by (simp_all add: rolled_back_def)
    have "length (last_rollback_reason ?m) = 96" "last_rollback_reason ?m ! 95 = NUL"
      using m(1) by (simp_all add: metadata_storable_def metadata_layout_def)
    then have step: "store_step (p_x509 P) (candidate_max_attempts P) Rollback_metadata a (put_metadata ?m a)"
      using rollback_metadata [OF ms(1)] by (simp add: rolled_back_def)
    note lp = leave_pending [OF C ms(3) w m step e, of L]
    have d': "r = r3" "d' = (if r3 = ESP_OK then d\<lparr>env := s3, candidate_validation_in_progress := False,
        candidate_validation_revision := 0\<rparr> else d\<lparr>env := s3\<rparr>)"
      using R w e True
      by (auto simp: rollback_candidate_locked_def g Let_def rolled_back_def reason_text_def
          split: prod.splits)
    have s3: "store_steps P L a (a\<lparr>flash := view s3\<rparr>)" using lp(1) L by simp
    also have "store_steps P L (a\<lparr>flash := view s3\<rparr>) (idle (a\<lparr>flash := view s3\<rparr>))"
      by (rule restart_step) (use L in simp)
    finally show ?thesis using s3 lp(2) L ms(1) d' by (auto simp: a_def store_of_def)
  qed
qed

lemma validate_config_storable:
  assumes "config_layout c" and "validate_quiet x509 c = ESP_OK"
  shows "valid_config x509 c"
proof -
  have "config_spec x509 c"
    using assms validate_message_iff [OF assms(1)] by simp
  then have "machine_status_pull c \<le> 2" and
      "machine_status_provider c = 0 \<or> machine_status_provider c = 1"
    by (auto simp: config_spec_def gpio_spec_def)
  then show ?thesis using assms
    by (auto simp: valid_config_def config_storable_def word_le_nat_alt word_less_nat_alt)
qed

lemma config_write_step:
  assumes "nvs_contract P view work" and "write_configuration P key c s = (r, s')"
    and "valid_config x509 c" and "view s = flash a"
    and "store_step (p_x509 P) (candidate_max_attempts P) l a (put_config key c a)" and "l \<in> L"
  shows "store_steps P L a (a\<lparr>flash := view s'\<rparr>)"
    and "r = ESP_OK \<Longrightarrow> view s' = (flash a)(key \<mapsto> Blob (blob_of_config c))"
proof -
  have "config_layout c" using assms(3) by (simp add: valid_config_def config_storable_def)
  note w = write_configuration_spec [OF assms(1,2) this]
  from w consider "view s' = flash a" | "a\<lparr>flash := view s'\<rparr> = put_config key c a"
    unfolding assms(4) by auto
  then show "store_steps P L a (a\<lparr>flash := view s'\<rparr>)"
    using store_steps_one [OF assms(5,6)] by cases simp_all
  show "r = ESP_OK \<Longrightarrow> view s' = (flash a)(key \<mapsto> Blob (blob_of_config c))"
    using w assms(4) by simp
qed

definition staged :: "device_config \<Rightarrow> device_config_metadata \<Rightarrow> device_config_metadata" where
  "staged c m = m\<lparr>md_state := DEVICE_CONFIG_STATE_PENDING, candidate_revision := revision c,
     boot_attempts := 0\<rparr>"

lemma stage_spec:
  assumes C: "nvs_contract P view work"
    and R: "device_config_stage_candidate P (Some c) d = (r, d')" and "config_layout c"
    and L: "{Stage_config, Stage_metadata} \<subseteq> L"
  defines "a \<equiv> store_of view d"
  shows "store_steps P L a (store_of view d')
    \<and> (validating a \<noteq> None \<longrightarrow> r \<noteq> ESP_OK \<and> store_of view d' = a)
    \<and> (r = ESP_OK \<longrightarrow> validate_quiet (p_x509 P) c = ESP_OK \<and> (\<exists>m. metadata_in a = Some m
         \<and> store_of view d' = put_metadata (staged c m) (put_config KEY_CANDIDATE c a)))"
proof (cases "validate_quiet (p_x509 P) c = ESP_OK")
  case False
  then have "fst (device_config_validate (p_x509 P) (Some c) (zeros 128) 128) \<noteq> ESP_OK"
    by (auto simp: validate_quiet_def device_config_validate_def split: option.splits)
  then show ?thesis using R by (simp add: device_config_stage_candidate_def a_def)
next
  case True
  note valid = validate_config_storable [OF assms(3) True]
  let ?body = "\<lambda>d. if candidate_validation_in_progress d then (ESP_ERR_INVALID_STATE, d)
        else let (result, s) = write_configuration P KEY_CANDIDATE c (env d) in
          if result \<noteq> ESP_OK then (result, d\<lparr>env := s\<rparr>)
        else let (result, metadata, s) = get_metadata_locked P zero_metadata s in
          if result \<noteq> ESP_OK then (result, d\<lparr>env := s\<rparr>)
        else let metadata = metadata\<lparr>md_state := DEVICE_CONFIG_STATE_PENDING,
                     candidate_revision := revision c, boot_attempts := 0\<rparr>;
                 (result, s) = write_metadata P metadata s
          in (result, d\<lparr>env := s\<rparr>)"
  have "fst (device_config_validate (p_x509 P) (Some c) (zeros 128) 128) = ESP_OK"
    using True by (auto simp: validate_quiet_def device_config_validate_def split: option.splits)
  then have "with_lock P id ?body d = (r, d')"
    using R unfolding device_config_stage_candidate_def option.sel by simp
  from C this show ?thesis
  proof (cases rule: with_lock_cases)
    case (locked_out e)
    then show ?thesis by (simp add: a_def)
  next
    case (ran d1 d2)
    have a: "store_of view d1 = a" "flash a = view (env d1)" using ran by (simp_all add: a_def)
    show ?thesis
    proof (cases "candidate_validation_in_progress d1")
      case True
      then show ?thesis using ran a by (simp add: a_def)
    next
      case False
      then have v: "validating a = None" using a by (auto simp: store_of_def)
      obtain r1 s1 where w: "write_configuration P KEY_CANDIDATE c (env d1) = (r1, s1)" by force
      note ws = config_write_step [OF C w valid a(2) [symmetric] stage_config [OF v valid], of L]
      obtain r2 m s2 where g: "get_metadata_locked P zero_metadata s1 = (r2, m, s2)"
        by (cases "get_metadata_locked P zero_metadata s1")
      note gs = get_metadata_locked_spec [OF C g]
      obtain r3 s3 where x: "write_metadata P (staged c m) s2 = (r3, s3)" by force
      show ?thesis
      proof (cases "r1 = ESP_OK \<and> r2 = ESP_OK")
        case False
        then show ?thesis using ran(1,3) a w g ws(1) gs L v \<open>\<not> candidate_validation_in_progress d1\<close>
          by (auto split: if_splits)
      next
        case True
        let ?b = "a\<lparr>flash := view s2\<rparr>"
        have v1: "view s2 = (flash a)(KEY_CANDIDATE \<mapsto> Blob (blob_of_config c))"
          using ws(2) L gs True by simp
        have sm: "stored_metadata (view s2) = Some m" "metadata_storable m" using gs True by simp_all
        then have "metadata_in a = Some m" unfolding v1 by simp
        with sm have m: "metadata_in ?b = Some m" "metadata_in a = Some m" "metadata_storable m"
          by simp_all
        have "config_in ?b KEY_CANDIDATE = Some c"
          using v1 valid by (simp add: valid_config_def)
        then have step: "store_step (p_x509 P) (candidate_max_attempts P) Stage_metadata ?b
            (put_metadata (staged c m) ?b)"
          unfolding staged_def by (intro stage_metadata) (use v m(1) valid in simp_all)
        have "metadata_storable (staged c m)" using m(3) by (simp add: staged_def)
        note xs = metadata_write_step [OF C x this _ step, of L]
        have "store_steps P L a ?b" using ws(1) L gs by simp
        also have "store_steps P L ?b (a\<lparr>flash := view s3\<rparr>)" using xs(1) L by simp
        finally have all: "store_steps P L a (a\<lparr>flash := view s3\<rparr>)" .
        have "r = r3" "store_of view d' = a\<lparr>flash := view s3\<rparr>"
          using ran(1,3) a w g x True \<open>\<not> candidate_validation_in_progress d1\<close>
          by (auto simp: staged_def)
        then show ?thesis using all xs(2) L v v1 m \<open>validate_quiet (p_x509 P) c = ESP_OK\<close> by simp
      qed
    qed
  qed
qed

lemma cancel_spec:
  assumes C: "nvs_contract P view work"
    and R: "device_config_cancel_candidate P d = (r, d')" and L: "{Settle, Drop_candidate} \<subseteq> L"
  defines "a \<equiv> store_of view d"
  shows "store_steps P L a (store_of view d')
    \<and> (validating a \<noteq> None \<longrightarrow> r \<noteq> ESP_OK \<and> store_of view d' = a)
    \<and> (r = ESP_OK \<longrightarrow> (\<exists>m. metadata_in a = Some m
         \<and> store_of view d' = drop_key KEY_CANDIDATE (put_metadata (settled m) a)))"
  using C R [unfolded device_config_cancel_candidate_def]
proof (cases rule: with_lock_cases)
  case (locked_out e)
  then show ?thesis by (simp add: a_def)
next
  case (ran d1 d2)
  have a: "store_of view d1 = a" "flash a = view (env d1)" using ran by (simp_all add: a_def)
  show ?thesis
  proof (cases "candidate_validation_in_progress d1")
    case True
    then show ?thesis using ran a by (simp add: a_def)
  next
    case False
    then have v: "validating a = None" using a by (auto simp: store_of_def)
    obtain r1 m s1 where g: "get_metadata_locked P zero_metadata (env d1) = (r1, m, s1)"
      by (cases "get_metadata_locked P zero_metadata (env d1)")
    note gs = get_metadata_locked_spec [OF C g]
    obtain r2 s2 where w: "write_metadata P (settled m) s1 = (r2, s2)" by force
    obtain r3 s3 where e: "(if r2 = ESP_OK then erase_key P KEY_CANDIDATE s2 else (r2, s2)) = (r3, s3)"
      by force
    show ?thesis
    proof (cases "r1 = ESP_OK")
      case False
      then show ?thesis using ran(1,3) a g gs \<open>\<not> candidate_validation_in_progress d1\<close> v by auto
    next
      case True
      then have m: "metadata_in a = Some m" "metadata_storable (settled m)" "view s1 = flash a"
        using gs a by simp_all
      have "md_state (settled m) \<noteq> DEVICE_CONFIG_STATE_PENDING" by (simp add: settled_def)
      note lp = leave_pending [OF C m(3) w m(2) this settle_cancel [OF v m(1)] e, of L]
      have "r = r3" "store_of view d' = a\<lparr>flash := view s3\<rparr>"
        using ran(1,3) a w g e True \<open>\<not> candidate_validation_in_progress d1\<close>
        by (auto simp: settled_def split: prod.splits)
      then show ?thesis using lp L v m by simp
    qed
  qed
qed

end
