(* ===== verification/Config_Ops.thy ===== *)
theory Config_Ops
  imports Config_Steps
begin

text \<open>
  The remaining operations of \<^verbatim>\<open>device_config.c\<close> as steps of the abstract store:
  activation, the boot-time choice, reads, factory reset, recovery and the setup secret. The
  lemmas give each operation's effect on success exactly, and on failure the steps it may
  have made.
\<close>

section \<open>Activation\<close>

lemma activate_spec:
  assumes C: "nvs_contract P view work"
    and R: "device_config_activate_candidate P (Some v) d = (r, d')"
    and L: "{Install, Settle, Drop_candidate, Restart} \<subseteq> L"
  defines "a \<equiv> store_of view d"
  shows "store_steps P L a (store_of view d')
    \<and> (validating a \<noteq> Some (revision v) \<longrightarrow> r \<noteq> ESP_OK \<and> store_of view d' = a)
    \<and> (r = ESP_OK \<longrightarrow> (\<exists>m c. metadata_in a = Some m \<and> config_in a KEY_CANDIDATE = Some c
         \<and> valid_config (p_x509 P) c \<and> configurations_match c v
         \<and> store_of view d' = idle (drop_key KEY_CANDIDATE (put_metadata (settled m)
             (put_config KEY_ACTIVE c a)))))
    \<and> (view (env d') KEY_ACTIVE \<noteq> flash a KEY_ACTIVE \<longrightarrow> validating a = Some (revision v)
         \<and> (\<exists>c. config_in a KEY_CANDIDATE = Some c \<and> valid_config (p_x509 P) c
              \<and> configurations_match c v
              \<and> view (env d') KEY_ACTIVE = Some (Blob (blob_of_config c))))"
  using C R [unfolded device_config_activate_candidate_def option.case]
proof (cases rule: with_lock_cases)
  case (locked_out e)
  then have "view (env d') = flash a" by (metis a_def flash_store_of)
  with locked_out show ?thesis by (simp add: a_def)
next
  case (ran d1 d2)
  have a: "store_of view d1 = a" "flash a = view (env d1)" using ran by (simp_all add: a_def)
  have envd: "view (env d') = view (env d2)" using ran(3) by (metis flash_store_of)
  show ?thesis
  proof (cases "\<not> candidate_validation_in_progress d1 \<or> candidate_validation_revision d1 \<noteq> revision v")
    case True
    then show ?thesis using ran a envd by (auto simp: a_def)
  next
    case False
    then have v: "validating a = Some (revision v)" using a by (auto simp: store_of_def)
    obtain ok s1 where al: "p_calloc P sizeof_device_config (env d1) = (ok, s1)" by force
    note als = contract_calloc [OF C al]
    obtain r2 c s2 where rc: "read_configuration P KEY_CANDIDATE zero_config s1 = (r2, c, s2)"
      by (cases "read_configuration P KEY_CANDIDATE zero_config s1")
    note rcs = read_configuration_spec [OF C rc]
    obtain r3 m s3 where g: "get_metadata_locked P zero_metadata s2 = (r3, m, s3)"
      by (cases "get_metadata_locked P zero_metadata s2")
    note gs = get_metadata_locked_spec [OF C g]
    define go where "go \<longleftrightarrow> ok \<and> r2 = ESP_OK \<and> r3 = ESP_OK \<and> md_state m = DEVICE_CONFIG_STATE_PENDING
        \<and> candidate_revision m = revision v \<and> configurations_match c v"
    show ?thesis
    proof (cases go)
      case False
      then have "r \<noteq> ESP_OK \<and> store_of view d' = a"
        using ran(1,3) a \<open>\<not> (\<not> candidate_validation_in_progress d1 \<or> _)\<close> rcs als gs
        by (auto simp: go_def al rc g Let_def split: if_splits)
      moreover from this have "view (env d') = flash a" by (metis flash_store_of)
      ultimately show ?thesis using v by simp
    next
      case True
      then have pre: "config_in a KEY_CANDIDATE = Some c" "valid_config (p_x509 P) c"
          "metadata_in a = Some m" "metadata_storable m" "view s3 = flash a"
          "md_state m = DEVICE_CONFIG_STATE_PENDING"
          "candidate_revision m = revision v" "configurations_match c v"
          "revision c = revision v"
        using rcs gs als a by (simp_all add: go_def valid_config_def configurations_match_def)
      have step1: "store_step (p_x509 P) (candidate_max_attempts P) Install a (put_config KEY_ACTIVE c a)"
        by (rule install) (use pre v in simp_all)
      obtain r4 s4 where w: "write_configuration P KEY_ACTIVE c s3 = (r4, s4)" by force
      note ws = config_write_step [OF C w pre(2,5) step1, of L]
      obtain r5 s5 where x: "write_metadata P (settled m) s4 = (r5, s5)" by force
      obtain r6 s6 where e: "(if r5 = ESP_OK then erase_key P KEY_CANDIDATE s5 else (r5, s5)) = (r6, s6)"
        by force
      show ?thesis
      proof (cases "r4 = ESP_OK")
        case False
        then have "r = r4" "d2 = d1\<lparr>env := s4\<rparr>"
          using ran(1) \<open>\<not> (\<not> candidate_validation_in_progress d1 \<or> _)\<close> True pre
          by (auto simp: go_def al rc g w Let_def valid_config_def)
        moreover have "view s4 KEY_ACTIVE = flash a KEY_ACTIVE
            \<or> view s4 KEY_ACTIVE = Some (Blob (blob_of_config c))"
          using write_configuration_spec [OF C w] pre(2,5)
          by (auto simp: valid_config_def config_storable_def)
        ultimately show ?thesis using False ws(1) L a ran(3) v envd pre by auto
      next
        case ok4: True
        let ?b = "a\<lparr>flash := view s4\<rparr>"
        have v4: "view s4 = (flash a)(KEY_ACTIVE \<mapsto> Blob (blob_of_config c))" using ws(2) ok4 L by simp
        have st: "config_storable c" using pre(2) by (simp add: valid_config_def)
        have m4: "metadata_in ?b = Some m" "config_in ?b KEY_CANDIDATE = Some c"
            "config_in ?b KEY_ACTIVE = Some c"
          using v4 pre st by simp_all
        note lp = leave_pending [OF C _ x _ _ settle_active [OF m4 pre(2)] e, of L]
        note lp' = leave_pending [OF C _ x _ _ settle_active [OF m4 pre(2)] e,
            of "{Settle, Drop_candidate}"]
        have "store_steps P L a ?b" using ws(1) L by simp
        also have "store_steps P L ?b (a\<lparr>flash := view s6\<rparr>)"
          using lp(1) L pre(4) by (simp add: settled_def)
        finally have all: "store_steps P L a (a\<lparr>flash := view s6\<rparr>)" .
        also have "store_steps P L (a\<lparr>flash := view s6\<rparr>) (idle (a\<lparr>flash := view s6\<rparr>))"
          by (rule restart_step) (use L in simp)
        finally have all': "store_steps P L a (idle (a\<lparr>flash := view s6\<rparr>))" .
        have d: "r = r6" "store_of view d2 = (if r6 = ESP_OK then idle (a\<lparr>flash := view s6\<rparr>)
            else a\<lparr>flash := view s6\<rparr>)"
          using ran(1) \<open>\<not> (\<not> candidate_validation_in_progress d1 \<or> _)\<close> True pre ok4 x e a
          by (auto simp: go_def al rc g w Let_def valid_config_def settled_def
              split: prod.splits if_splits)
        have "r6 = ESP_OK \<Longrightarrow> view s6 = (flash a)(KEY_ACTIVE \<mapsto> Blob (blob_of_config c),
            KEY_METADATA \<mapsto> Blob (blob_of_metadata (settled m)), KEY_CANDIDATE := None)"
          using lp(2) L pre(4) v4 by (simp add: settled_def)
        moreover have "view s6 KEY_ACTIVE = view s4 KEY_ACTIVE"
          using active_kept [OF lp'(1)] pre(4) by (simp add: settled_def)
        moreover have "view (env d') = view s6"
          using arg_cong [OF d(2), of flash] envd by (simp split: if_splits)
        ultimately show ?thesis using d all all' ran(3) v v4 pre by auto
      qed
    qed
  qed
qed

section \<open>Boot\<close>

lemma store_of_idle_flash [simp]:
  "(store_of view d)\<lparr>validating := x, flash := view (env d)\<rparr> = (store_of view d)\<lparr>validating := x\<rparr>"
  by (simp add: store_of_def)

definition boot_actions :: "store_action set" where
  "boot_actions = {Restart, Count_boot, Count_attempt, Begin_validation, Rollback_metadata, Drop_candidate}"

text \<open>What a successful boot promises of the store it leaves and of its result.\<close>

definition booted :: "'s platform \<Rightarrow> store \<Rightarrow> store \<Rightarrow> boot_result \<Rightarrow> bool" where
  "booted P a b res \<longleftrightarrow>
     metadata_in b = Some (boot_metadata res) \<and> valid_config (p_x509 P) (boot_config res)
   \<and> (if using_candidate res then
        config_in b KEY_CANDIDATE = Some (boot_config res)
      \<and> validating b = Some (revision (boot_config res))
      \<and> md_state (boot_metadata res) = DEVICE_CONFIG_STATE_PENDING
      \<and> candidate_revision (boot_metadata res) = revision (boot_config res)
      \<and> 0 < boot_attempts (boot_metadata res)
      \<and> (\<exists>m. metadata_in a = Some m \<and> md_state m = DEVICE_CONFIG_STATE_PENDING
           \<and> boot_attempts m < candidate_max_attempts P
           \<and> boot_attempts (boot_metadata res) = boot_attempts m + 1)
      else
        config_in b KEY_ACTIVE = Some (boot_config res) \<and> validating b = None
      \<and> md_state (boot_metadata res) \<noteq> DEVICE_CONFIG_STATE_PENDING)"

lemma load_active_for_boot_spec:
  assumes C: "nvs_contract P view work" and R: "load_active_for_boot P c m d = (res, d')"
    and v: "validating (store_of view d) = None"
    and m: "metadata_in (store_of view d) = Some m" "md_state m \<noteq> DEVICE_CONFIG_STATE_PENDING"
  shows "store_of view d' = store_of view d \<and> (boot_err res = ESP_OK \<longrightarrow> booted P a (store_of view d') res)"
proof -
  obtain r c' s where rc: "read_configuration P KEY_ACTIVE c (env d) = (r, c', s)"
    by (cases "read_configuration P KEY_ACTIVE c (env d)")
  show ?thesis using R read_configuration_spec [OF C rc] v m
    by (auto simp: load_active_for_boot_def rc booted_def valid_config_def)
qed

lemma rollback_for_boot_spec:
  assumes C: "nvs_contract P view work" and R: "rollback_for_boot P reason c u m0 d = (res, d')"
  shows "store_steps P boot_actions (store_of view d) (store_of view d')
    \<and> (boot_err res = ESP_OK \<longrightarrow> \<not> using_candidate res \<and> booted P a (store_of view d') res)"
proof -
  obtain r1 d1 where rb: "rollback_candidate_locked P (Some reason) d = (r1, d1)" by force
  have L: "{Rollback_metadata, Drop_candidate, Restart} \<subseteq> boot_actions" by (simp add: boot_actions_def)
  note rbs = rollback_locked_spec [OF C rb L]
  obtain r2 m s2 where g: "get_metadata_locked P m0 (env d1) = (r2, m, s2)"
    by (cases "get_metadata_locked P m0 (env d1)")
  note gs = get_metadata_locked_spec [OF C g]
  show ?thesis
  proof (cases "r1 = ESP_OK \<and> r2 = ESP_OK")
    case False
    have "store_of view (d1\<lparr>env := s2\<rparr>) = store_of view d1" using gs by simp
    then have "store_of view d' = store_of view d1 \<and> boot_err res \<noteq> ESP_OK"
      using R False by (auto simp: rollback_for_boot_def rb g Let_def simp del: store_of_env split: if_splits)
    then show ?thesis using rbs by simp
  next
    case True
    let ?d = "d1\<lparr>env := s2\<rparr>"
    from True rbs obtain m1 where m1: "metadata_in (store_of view d) = Some m1"
        "store_of view d1 = idle (drop_key KEY_CANDIDATE
           (put_metadata (rolled_back (reason_text (Some reason)) m1) (store_of view d)))"
      by auto
    have same: "store_of view ?d = store_of view d1" using gs by simp
    have st: "metadata_storable (rolled_back (reason_text (Some reason)) m1)"
      using stored_metadata_storable [OF m1(1)] by (rule rolled_back_storable)
    then have "metadata_in (store_of view d1) = Some (rolled_back (reason_text (Some reason)) m1)"
      unfolding m1(2) by simp
    moreover have "metadata_in (store_of view d1) = Some m" using gs True by simp
    ultimately have meq: "m = rolled_back (reason_text (Some reason)) m1" by simp
    have "md_state m \<noteq> DEVICE_CONFIG_STATE_PENDING" unfolding meq by (simp add: rolled_back_def)
    with \<open>metadata_in (store_of view d1) = Some m\<close>
    have m: "metadata_in (store_of view ?d) = Some m" "md_state m \<noteq> DEVICE_CONFIG_STATE_PENDING"
      unfolding same by simp_all
    have v: "validating (store_of view ?d) = None" unfolding same m1(2) by simp
    have la: "load_active_for_boot P c m ?d = (res, d')"
      using R True by (simp add: rollback_for_boot_def rb g Let_def)
    have "\<not> using_candidate res" using la by (auto simp: load_active_for_boot_def split: prod.splits)
    then show ?thesis using load_active_for_boot_spec [OF C la v m, where a = a] rbs same by auto
  qed
qed

lemma booted_cong: "metadata_in a = metadata_in b \<Longrightarrow> booted P a = booted P b"
  by (simp add: booted_def fun_eq_iff)

lemma booted_rebase:
  "booted P b c res \<Longrightarrow> \<not> using_candidate res \<Longrightarrow> booted P a c res"
  by (simp add: booted_def)

lemma word_less_Suc_positive: "(x :: u32) < y \<Longrightarrow> 0 < x + 1"
proof -
  assume "x < y"
  then have "x \<noteq> - 1" using word_order.extremum_strict [of y] by auto
  then show ?thesis by (simp add: word_gt_0 eq_neg_iff_add_eq_0)
qed

lemma load_for_boot_locked_spec:
  assumes C: "nvs_contract P view work" and R: "load_for_boot_locked P c0 u0 m0 d = (res, d')"
  shows "store_steps P boot_actions (store_of view d) (store_of view d')
    \<and> (boot_err res = ESP_OK \<longrightarrow> booted P (store_of view d) (store_of view d') res)"
proof -
  let ?a = "store_of view d"
  let ?d = "d\<lparr>candidate_validation_in_progress := False, candidate_validation_revision := 0\<rparr>"
  obtain r1 m s1 where g: "get_metadata_locked P m0 (env d) = (r1, m, s1)"
    by (cases "get_metadata_locked P m0 (env d)")
  note gs = get_metadata_locked_spec [OF C g]
  let ?m = "m\<lparr>boot_count := boot_count m + 1\<rparr>"
  obtain r2 s2 where w: "write_metadata P ?m s1 = (r2, s2)" by force
  have idle: "store_steps P boot_actions ?a (idle ?a)"
    by (rule restart_step) (simp add: boot_actions_def)
  show ?thesis
  proof (cases "r1 = ESP_OK")
    case False
    then show ?thesis using R gs idle by (auto simp: load_for_boot_locked_def g Let_def)
  next
    case True
    then have m: "metadata_in ?a = Some m" "metadata_storable m" "view s1 = flash ?a"
      using gs by simp_all
    have step: "store_step (p_x509 P) (candidate_max_attempts P) Count_boot (idle ?a) (put_metadata ?m (idle ?a))"
      by (rule count_boot) (use m in simp)
    have "view s1 = flash (idle ?a)" "metadata_storable ?m" using m by simp_all
    note ws = metadata_write_step [OF C w this(2,1) step, of boot_actions]
    let ?b = "(idle ?a)\<lparr>flash := view s2\<rparr>"
    have to_b: "store_steps P boot_actions ?a ?b"
      using idle ws(1) by (rule store_steps_trans) (simp add: boot_actions_def)
    have d2: "store_of view (?d\<lparr>env := s2\<rparr>) = ?b" by (simp add: store_of_def)
    show ?thesis
    proof (cases "r2 = ESP_OK")
      case False
      then show ?thesis using R True to_b d2
        by (auto simp: load_for_boot_locked_def g w Let_def)
    next
      case ok2: True
      have v2: "view s2 = (flash ?a)(KEY_METADATA \<mapsto> Blob (blob_of_metadata ?m))"
        using ws(2) [OF _ ok2] by (simp add: boot_actions_def)
      have mb: "metadata_in ?b = Some ?m" "metadata_in ?a = Some m" using m v2 by simp_all
      show ?thesis
      proof (cases "md_state m = DEVICE_CONFIG_STATE_PENDING")
        case False
        then have la: "load_active_for_boot P c0 ?m (?d\<lparr>env := s2\<rparr>) = (res, d')"
          using R True ok2 by (simp add: load_for_boot_locked_def g w Let_def)
        have "validating (store_of view (?d\<lparr>env := s2\<rparr>)) = None"
          and "metadata_in (store_of view (?d\<lparr>env := s2\<rparr>)) = Some ?m"
          and "md_state ?m \<noteq> DEVICE_CONFIG_STATE_PENDING"
          using d2 mb False by simp_all
        note las = load_active_for_boot_spec [OF C la this, where a = ?a]
        then show ?thesis using to_b d2 by auto
      next
        case pending: True
        show ?thesis
        proof (cases "boot_attempts m \<ge> candidate_max_attempts P")
          case exhausted: True
          then have rb: "rollback_for_boot P ''candidate boot attempt limit reached'' c0 u0 ?m
              (?d\<lparr>env := s2\<rparr>) = (res, d')"
            using R True ok2 pending by (simp add: load_for_boot_locked_def g w Let_def)
          note rollback_for_boot_spec [OF C rb, unfolded d2]
          then show ?thesis using store_steps_trans [OF to_b] by blast
        next
          case False
          then have less: "boot_attempts m < candidate_max_attempts P" by simp
          obtain r3 c s3 where rc: "read_configuration P KEY_CANDIDATE c0 s2 = (r3, c, s3)"
            by (cases "read_configuration P KEY_CANDIDATE c0 s2")
          note rcs = read_configuration_spec [OF C rc]
          have d3: "store_of view (?d\<lparr>env := s3\<rparr>) = ?b" using d2 rcs by (simp add: store_of_def)
          show ?thesis
          proof (cases "r3 = ESP_OK \<and> revision c = candidate_revision m")
            case bad: False
            then have rb: "rollback_for_boot P
                ''candidate missing, corrupt, invalid or revision-mismatched'' c u0 ?m
                (?d\<lparr>env := s3\<rparr>) = (res, d')"
              using R True ok2 pending False
              by (auto simp: load_for_boot_locked_def g w rc Let_def)
            note rollback_for_boot_spec [OF C rb, unfolded d3]
            then show ?thesis using store_steps_trans [OF to_b] by blast
          next
            case good: True
            let ?n = "?m\<lparr>boot_attempts := boot_attempts m + 1\<rparr>"
            have c: "config_in ?b KEY_CANDIDATE = Some c" "valid_config (p_x509 P) c"
              using rcs good by (simp_all add: valid_config_def)
            obtain r4 s4 where x: "write_metadata P ?n s3 = (r4, s4)" by force
            have step: "store_step (p_x509 P) (candidate_max_attempts P) Count_attempt ?b (put_metadata ?n ?b)"
              using count_attempt [OF mb(1), of "candidate_max_attempts P" "p_x509 P"] pending less by simp
            have "view s3 = flash ?b" "metadata_storable ?n" using rcs m by simp_all
            note xs = metadata_write_step [OF C x this(2,1) step, of boot_actions]
            let ?e = "?b\<lparr>flash := view s4\<rparr>"
            have to_e: "store_steps P boot_actions ?a ?e"
              using to_b xs(1) by (rule store_steps_trans) (simp add: boot_actions_def)
            have call: "res = \<lparr>boot_err = r4, boot_config = c,
                 using_candidate = (if r4 = ESP_OK then True else u0), boot_metadata = ?n\<rparr>"
                "d' = (if r4 = ESP_OK then ?d\<lparr>env := s4, candidate_validation_in_progress := True,
                   candidate_validation_revision := revision c\<rparr> else ?d\<lparr>env := s4\<rparr>)"
              using R True ok2 pending False good rcs x
              by (auto simp: load_for_boot_locked_def g w rc Let_def)
            show ?thesis
            proof (cases "r4 = ESP_OK")
              case False
              then show ?thesis using call to_e by (simp add: store_of_def)
            next
              case ok4: True
              have v4: "view s4 = (view s2)(KEY_METADATA \<mapsto> Blob (blob_of_metadata ?n))"
                using xs(2) [OF _ ok4] by (simp add: boot_actions_def)
              have me: "metadata_in ?e = Some ?n" "config_in ?e KEY_CANDIDATE = Some c"
                using v4 m c by simp_all
              have pos: "0 < boot_attempts m + 1" using less by (rule word_less_Suc_positive)
              have "store_step (p_x509 P) (candidate_max_attempts P) Begin_validation ?e
                  (?e\<lparr>validating := Some (revision c)\<rparr>)"
                by (rule begin_validation [OF me(1) _ _ me(2) c(2)]) (use pending pos good in simp_all)
              then have "store_steps P boot_actions ?e (?e\<lparr>validating := Some (revision c)\<rparr>)"
                by (rule store_steps_one) (simp add: boot_actions_def)
              with to_e have all: "store_steps P boot_actions ?a (?e\<lparr>validating := Some (revision c)\<rparr>)"
                by (rule store_steps_trans)
              have st: "store_of view d' = ?e\<lparr>validating := Some (revision c)\<rparr>"
                using call ok4 by (simp add: store_of_def)
              have "booted P ?a (?e\<lparr>validating := Some (revision c)\<rparr>) res"
                using me mb c pending less good pos by (simp add: booted_def call ok4)
              then show ?thesis using all st by simp
            qed
          qed
        qed
      qed
    qed
  qed
qed

lemma load_for_boot_spec:
  assumes C: "nvs_contract P view work"
    and R: "device_config_load_for_boot P (Some (c0, u0, m0)) d = (b, r, d')"
  shows "store_steps P boot_actions (store_of view d) (store_of view d')
    \<and> (\<exists>res. b = Some res \<and> r = boot_err res
         \<and> (r = ESP_OK \<longrightarrow> booted P (store_of view d) (store_of view d') res))"
proof -
  obtain res d2 where w: "with_lock P
      (\<lambda>e. \<lparr>boot_err = e, boot_config = c0, using_candidate = u0, boot_metadata = m0\<rparr>)
      (load_for_boot_locked P c0 u0 m0) d = (res, d2)" by force
  then have r: "b = Some res" "r = boot_err res" "d' = d2"
    using R by (auto simp: device_config_load_for_boot_def)
  from C w show ?thesis
  proof (cases rule: with_lock_cases)
    case (locked_out e)
    then show ?thesis using r by simp
  next
    case (ran d3 d4)
    show ?thesis using load_for_boot_locked_spec [OF C ran(1)] ran(2,3) r by simp
  qed
qed

section \<open>Reads, rollback and resets\<close>

lemma load_active_spec:
  assumes C: "nvs_contract P view work"
    and R: "device_config_load_active P (Some c0) d = ((r, c), d')"
  shows "store_of view d' = store_of view d
    \<and> (r = ESP_OK \<longrightarrow> (\<exists>x. c = Some x \<and> config_in (store_of view d) KEY_ACTIVE = Some x
         \<and> valid_config (p_x509 P) x))"
  using C R [unfolded device_config_load_active_def option.case]
proof (cases rule: with_lock_cases)
  case (locked_out e)
  then show ?thesis by simp
next
  case (ran d1 d2)
  obtain r1 x s where rc: "read_configuration P KEY_ACTIVE c0 (env d1) = (r1, x, s)"
    by (cases "read_configuration P KEY_ACTIVE c0 (env d1)")
  have "store_of view (d1\<lparr>env := s\<rparr>) = store_of view d1"
    using read_configuration_spec [OF C rc] by simp
  then show ?thesis using ran read_configuration_spec [OF C rc]
    by (auto simp: rc valid_config_def simp del: store_of_env)
qed

lemma get_metadata_spec:
  assumes C: "nvs_contract P view work"
    and R: "device_config_get_metadata P (Some m0) d = ((r, m), d')"
  shows "store_of view d' = store_of view d
    \<and> (r = ESP_OK \<longrightarrow> m = metadata_in (store_of view d) \<and> m \<noteq> None)"
  using C R [unfolded device_config_get_metadata_def option.case]
proof (cases rule: with_lock_cases)
  case (locked_out e)
  then show ?thesis by simp
next
  case (ran d1 d2)
  obtain r1 x s where rc: "get_metadata_locked P m0 (env d1) = (r1, x, s)"
    by (cases "get_metadata_locked P m0 (env d1)")
  have "store_of view (d1\<lparr>env := s\<rparr>) = store_of view d1"
    using get_metadata_locked_spec [OF C rc] by simp
  then show ?thesis using ran get_metadata_locked_spec [OF C rc]
    by (auto simp: rc simp del: store_of_env)
qed

lemma rollback_spec:
  assumes C: "nvs_contract P view work"
    and R: "device_config_rollback_candidate P reason d = (r, d')"
    and L: "{Rollback_metadata, Drop_candidate, Restart} \<subseteq> L"
  defines "a \<equiv> store_of view d"
  shows "store_steps P L a (store_of view d')
    \<and> (r = ESP_OK \<longrightarrow> (\<exists>m. metadata_in a = Some m \<and> store_of view d' = idle (drop_key KEY_CANDIDATE
         (put_metadata (rolled_back (reason_text reason) m) a))))"
  using C R [unfolded device_config_rollback_candidate_def]
proof (cases rule: with_lock_cases)
  case (locked_out e)
  then show ?thesis by (simp add: a_def)
next
  case (ran d1 d2)
  show ?thesis using rollback_locked_spec [OF C ran(1) L] ran(2,3) by (simp add: a_def ran(4))
qed

lemma factory_reset_spec:
  assumes C: "nvs_contract P view work"
    and R: "device_config_factory_reset P d = (r, d')"
  defines "a \<equiv> store_of view d"
  shows "store_steps P {Wipe, Restart} a (store_of view d')
    \<and> between (flash a) Map.empty (view (env d'))
    \<and> (r = ESP_OK \<longrightarrow> store_of view d' = \<lparr>flash = Map.empty, validating = None\<rparr>)"
  using C R [unfolded device_config_factory_reset_def]
proof (cases rule: with_lock_cases)
  case (locked_out e)
  then have "view (env d') = flash a" by (metis a_def flash_store_of)
  with locked_out show ?thesis by (simp add: a_def)
next
  case (ran d1 d2)
  have a: "store_of view d1 = a" "flash a = view (env d1)" using ran by (simp_all add: a_def)
  have "view (env d') = view (env d2)" using ran(3) by (metis flash_store_of)
  obtain r1 s1 where o: "p_open P NVS_READWRITE (env d1) = (r1, s1)" by force
  note os = contract_open [OF C o]
  obtain r2 s2 where e: "p_erase_all P s1 = (r2, s2)" by force
  note es = contract_erase_all [OF C e]
  obtain r3 s3 where c: "(if r2 = ESP_OK then p_commit P s2 else (r2, s2)) = (r3, s3)" by force
  note cl = contract_close [OF C, of s3]
  show ?thesis
  proof (cases "r1 = ESP_OK")
    case False
    have "store_of view (d1\<lparr>env := s1\<rparr>) = a" using os a by simp
    then show ?thesis using False ran(1,3) os a \<open>view (env d') = view (env d2)\<close>
      by (auto simp: open_namespace_def o simp del: store_of_env)
  next
    case True
    have bt: "between (flash a) Map.empty (view (p_close P s3))
        \<and> (r3 = ESP_OK \<longrightarrow> view (p_close P s3) = Map.empty)"
    proof (cases "r2 = ESP_OK")
      case False
      then have "s3 = s2" "r3 \<noteq> ESP_OK" using c by auto
      then show ?thesis using cl es os a True unfolding between_def by metis
    next
      case ok2: True
      then have "p_commit P s2 = (r3, s3)" using c by simp
      note cs = contract_commit [OF C this]
      have w: "work s3 = Map.empty" using cs es ok2 by simp
      have v3: "between (flash a) Map.empty (view s3)" using cs es os a True ok2 unfolding between_def by metis
      then have "between (flash a) Map.empty (view (p_close P s3))"
        using cl w unfolding between_def by metis
      moreover have "r3 = ESP_OK \<Longrightarrow> view (p_close P s3) = Map.empty"
        using contract_close_same [OF C, of s3] cs w by simp
      ultimately show ?thesis by blast
    qed
    let ?b = "a\<lparr>flash := view (p_close P s3)\<rparr>"
    have wipe': "store_steps P {Wipe, Restart} a ?b"
      by (rule store_steps_one [OF wipe]) (use bt in simp_all)
    also have "store_steps P {Wipe, Restart} ?b (idle ?b)" by (rule restart_step) simp
    finally have both: "store_steps P {Wipe, Restart} a (idle ?b)" .
    have d: "r = r3" "store_of view d' = (if r3 = ESP_OK then idle ?b else ?b)"
      using ran(1,3) True c a by (auto simp: open_namespace_def o e store_of_def Let_def split: prod.splits)
    have "view (env d') = view (p_close P s3)"
      using arg_cong [OF d(2), of flash] by (simp split: if_splits)
    then show ?thesis using bt wipe' both d by auto
  qed
qed

lemma recover_spec:
  assumes C: "nvs_contract P view work"
    and R: "device_config_storage_recover P d = (r, d')"
  defines "a \<equiv> store_of view d"
  shows "store_steps P {Wipe, Restart} a (store_of view d')
    \<and> (r = ESP_OK \<longrightarrow> store_of view d' = \<lparr>flash = Map.empty, validating = None\<rparr>)"
  using C R [unfolded device_config_storage_recover_def]
proof (cases rule: with_lock_cases)
  case (locked_out e)
  then show ?thesis by (simp add: a_def)
next
  case (ran d1 d2)
  have a: "store_of view d1 = a" "flash a = view (env d1)" using ran by (simp_all add: a_def)
  obtain r1 s1 where e: "p_flash_erase P (env d1) = (r1, s1)" by force
  note es = contract_flash_erase [OF C e]
  obtain r2 s2 where i: "(if r1 = ESP_OK then p_flash_init P s1 else (r1, s1)) = (r2, s2)" by force
  have v: "view s2 = view s1" "r2 = ESP_OK \<longrightarrow> r1 = ESP_OK"
    using i contract_flash_init [OF C, of s1] by (auto split: if_splits)
  let ?b = "a\<lparr>flash := view s2\<rparr>"
  have "store_steps P {Wipe, Restart} a ?b"
    by (rule store_steps_one [OF wipe]) (use es v a in simp_all)
  moreover from this have "store_steps P {Wipe, Restart} a (idle ?b)"
    by (rule store_steps_trans) (rule restart_step, simp)
  moreover have "r = r2" "store_of view d' = (if r2 = ESP_OK then idle ?b else ?b)"
    using ran(1,3) a i by (auto simp: e Let_def store_of_def split: prod.splits)
  ultimately show ?thesis using es v by auto
qed

lemma init_spec:
  assumes C: "nvs_contract P view work" and R: "device_config_storage_init P d = (r, d')"
  shows "store_of view d' = store_of view d"
proof -
  obtain b s1 where m: "p_create_mutex P (env d) = (b, s1)" by force
  obtain r1 s2 where f: "p_flash_init P (env d) = (r1, s2)" by force
  obtain r2 s3 where f1: "p_flash_init P s1 = (r2, s3)" by force
  show ?thesis using R contract_mutex(1) [OF C m] contract_flash_init [OF C f] contract_flash_init [OF C f1]
    by (auto simp: device_config_storage_init_def m f f1 Let_def store_of_def split: if_splits)
qed

section \<open>The setup secret\<close>

lemma hex_digit_hexadecimal: "n < 16 \<Longrightarrow> hexadecimal (hex_digit n)"
proof -
  assume "n < 16"
  then have "n \<in> set [0..<16]" by simp
  moreover have "list_all (\<lambda>n. hexadecimal (hex_digit n)) [0..<16]"
    by (simp add: hexadecimal_def hex_digit_def upt_rec numeral_eq_Suc less_eq_char_def)
  ultimately show ?thesis by (simp only: list_all_iff)
qed

lemma hex_byte_facts: "list_all hexadecimal (hex_byte b)" "length (hex_byte b) = 2"
  using byte_below [of b] by (simp_all add: hex_byte_def hex_digit_hexadecimal)

lemma hex_bytes_facts:
  "list_all hexadecimal (concat (map hex_byte bs))" "length (concat (map hex_byte bs)) = 2 * length bs"
  by (induction bs) (simp_all add: hex_byte_facts)

lemma hexadecimal_not_nul: "hexadecimal c \<Longrightarrow> c \<noteq> NUL"
  by (auto simp: hexadecimal_def less_eq_char_def)

text \<open>A usable setup secret: 32 hexadecimal digits and the terminator.\<close>

definition secret_array :: "string \<Rightarrow> carray" where
  "secret_array t = t @ [NUL]"

definition usable_secret :: "string \<Rightarrow> bool" where
  "usable_secret t \<longleftrightarrow> length t = 32 \<and> list_all hexadecimal t"

lemma setup_secret_locked_spec:
  assumes C: "nvs_contract P view work"
    and R: "setup_secret_locked P d = ((r, secret, generated), d')"
  defines "a \<equiv> store_of view d" and "b \<equiv> store_of view d'"
  shows "store_steps P {Create_secret} a b
    \<and> (r \<noteq> ESP_OK \<longrightarrow> secret = zeros 33 \<and> \<not> generated)
    \<and> (r = ESP_OK \<longrightarrow> (\<exists>t. usable_secret t \<and> secret = secret_array t \<and> flash b KEY_SETUP = Some (Str t)
         \<and> (if generated then (\<forall>t. flash a KEY_SETUP \<noteq> Some (Str t)) else b = a)))"
proof -
  obtain r1 s1 where o: "p_open P NVS_READWRITE (env d) = (r1, s1)" by force
  note os = contract_open [OF C o]
  obtain r2 n s2 where z: "p_str_size P KEY_SETUP s1 = (r2, n, s2)" by (cases "p_str_size P KEY_SETUP s1")
  note zs = contract_str_size [OF C z]
  have wk: "r1 = ESP_OK \<Longrightarrow> view s2 = flash a \<and> work s2 = flash a" using os zs by (simp add: a_def)
  consider (closed) "r1 \<noteq> ESP_OK" | (missing) "r1 = ESP_OK" "r2 = ESP_ERR_NVS_NOT_FOUND"
    | (failed) "r1 = ESP_OK" "r2 \<noteq> ESP_ERR_NVS_NOT_FOUND" "r2 \<noteq> ESP_OK \<or> n \<noteq> 33"
    | (found) "r1 = ESP_OK" "r2 = ESP_OK" "n = 33" by auto
  then show ?thesis
  proof cases
    case closed
    have "store_of view (d\<lparr>env := s1\<rparr>) = a" using os by (simp add: a_def)
    then show ?thesis using R closed
      by (auto simp: setup_secret_locked_def open_namespace_def o b_def simp del: store_of_env)
  next
    case failed
    have "store_of view (d\<lparr>env := p_close P s2\<rparr>) = a"
      using contract_close_same [OF C, of s2] wk failed(1) by (simp add: a_def)
    then show ?thesis using R failed
      by (auto simp: setup_secret_locked_def open_namespace_def o z b_def Let_def
          simp del: store_of_env split: if_splits)
  next
    case found
    obtain r3 t s3 where g: "p_get_str P KEY_SETUP 33 s2 = (r3, t, s3)" by (cases "p_get_str P KEY_SETUP 33 s2")
    note gs = contract_get_str [OF C g]
    obtain u where u: "flash a KEY_SETUP = Some (Str u)" "length u = 32"
      using zs os found by (auto simp: a_def)
    have t: "r3 = ESP_OK \<Longrightarrow> t = u @ [NUL]" using gs wk found u by auto
    have same: "store_of view (d\<lparr>env := p_close P s3\<rparr>) = a"
      using contract_close_same [OF C, of s3] wk found(1) gs by (simp add: a_def)
    let ?ok = "r3 = ESP_OK \<and> list_all hexadecimal (take 32 t)"
    show ?thesis
    proof (cases ?ok)
      case True
      then have "take 32 t = u" "t ! 32 = NUL" using t u by (simp_all add: nth_append)
      then have "(r, secret, generated) = (ESP_OK, t, False)" "b = a"
        using R found True same by (simp_all add: setup_secret_locked_def open_namespace_def o z g
            b_def Let_def del: store_of_env)
      then show ?thesis using True t u \<open>take 32 t = u\<close>
        by (simp add: usable_secret_def secret_array_def)
    next
      case False
      then have "r \<noteq> ESP_OK" "secret = zeros 33" "\<not> generated" "b = a"
        using R found same by (auto simp: setup_secret_locked_def open_namespace_def o z g
            b_def Let_def simp del: store_of_env split: if_splits)
      then show ?thesis by simp
    qed
  next
    case missing
    obtain bs s3 where rn: "p_random P 16 s2 = (bs, s3)" by force
    note rs = contract_random [OF C rn]
    let ?t = "concat (map hex_byte bs)"
    obtain r4 s4 where f: "p_set_str P KEY_SETUP ?t s3 = (r4, s4)" by force
    obtain r5 s5 where c: "(if r4 = ESP_OK then p_commit P s4 else (r4, s4)) = (r5, s5)" by force
    have t: "usable_secret ?t"
      using hex_bytes_facts rs by (simp add: usable_secret_def del: length_concat)
    have v3: "view s3 = flash a" "work s3 = view s3" using wk missing rs by simp_all
    note sc = set_commit_close [OF C contract_set_str [OF C] v3(2) f disjI1 [OF refl] c, unfolded v3(1)]
    have none: "\<forall>t. flash a KEY_SETUP \<noteq> Some (Str t)" using zs os missing by (simp add: a_def)
    have "store_step (p_x509 P) (candidate_max_attempts P) Create_secret a
        (a\<lparr>flash := (flash a)(KEY_SETUP \<mapsto> Str ?t)\<rparr>)"
      by (rule create_secret [OF none]) (use t in \<open>simp_all add: usable_secret_def\<close>)
    then have step: "store_steps P {Create_secret} a (a\<lparr>flash := (flash a)(KEY_SETUP \<mapsto> Str ?t)\<rparr>)"
      by (rule store_steps_one) simp
    have b: "b = a\<lparr>flash := view (p_close P s5)\<rparr>"
      using R missing c by (auto simp: setup_secret_locked_def open_namespace_def o z rn f a_def b_def
          Let_def split: prod.splits if_splits)
    have res: "r = r5" "secret = (if r5 = ESP_OK then ?t @ [NUL] else zeros 33)" "generated = (r5 = ESP_OK)"
      using R missing c by (auto simp: setup_secret_locked_def open_namespace_def o z rn f
          Let_def split: prod.splits if_splits)
    have "store_steps P {Create_secret} a b"
      using sc step unfolding b by auto
    then show ?thesis using sc t none res b by (auto simp: secret_array_def)
  qed
qed

lemma setup_secret_spec:
  assumes C: "nvs_contract P view work"
    and R: "device_config_get_or_create_setup_secret P (Some out) d = ((r, res), d')"
  defines "a \<equiv> store_of view d" and "b \<equiv> store_of view d'"
  shows "\<exists>secret generated. res = Some (secret, generated) \<and> store_steps P {Create_secret} a b
    \<and> (r \<noteq> ESP_OK \<longrightarrow> secret = zeros 33 \<and> \<not> generated)
    \<and> (r = ESP_OK \<longrightarrow> (\<exists>t. usable_secret t \<and> secret = secret_array t \<and> flash b KEY_SETUP = Some (Str t)
         \<and> (if generated then (\<forall>t. flash a KEY_SETUP \<noteq> Some (Str t)) else b = a)))"
proof -
  obtain secret generated where w: "with_lock P (\<lambda>e. (e, zeros 33, False)) (setup_secret_locked P) d
      = ((r, secret, generated), d')" and res: "res = Some (secret, generated)"
    using R by (auto simp: device_config_get_or_create_setup_secret_def split: prod.splits)
  from C w show ?thesis
  proof (cases rule: with_lock_cases)
    case (locked_out e)
    then show ?thesis by (simp add: res a_def b_def) blast
  next
    case (ran d1 d2)
    show ?thesis using setup_secret_locked_spec [OF C ran(1), unfolded ran(2) ran(3) [symmetric]]
      unfolding res a_def b_def by blast
  qed
qed

end
