(* ===== verification/Config_Safety.thy ===== *)
theory Config_Safety
  imports Config_Ops
begin

text \<open>
  Sequences of operations of \<^verbatim>\<open>device_config.c\<close>, restarts in between, on a platform whose
  calls may fail at any point: what the store keeps whatever happens, when the active
  configuration may change, and how often a candidate is tried.
\<close>

section \<open>Operations and restarts as events\<close>

datatype operation =
    Init
  | Recover
  | Load_active
  | Get_metadata
  | Stage "device_config option"
  | Load_for_boot
  | Activate "device_config option"
  | Rollback "string option"
  | Cancel
  | In_progress
  | Factory_reset
  | Setup_secret
  | Power_cycle

text \<open>A restart: the static variables have their initial values again.\<close>

definition power_cycle :: "'s platform \<Rightarrow> 's device \<Rightarrow> 's device" where
  "power_cycle P d = \<lparr>configuration_mutex = False, candidate_validation_in_progress = False,
     candidate_validation_revision = 0, env = p_restart P (env d)\<rparr>"

definition blank_out :: "device_config \<times> bool \<times> device_config_metadata" where
  "blank_out = (zero_config, False, zero_metadata)"

fun config_step :: "'s platform \<Rightarrow> operation \<Rightarrow> 's device \<Rightarrow> 's device" where
  "config_step P Init d = snd (device_config_storage_init P d)"
| "config_step P Recover d = snd (device_config_storage_recover P d)"
| "config_step P Load_active d = snd (device_config_load_active P (Some zero_config) d)"
| "config_step P Get_metadata d = snd (device_config_get_metadata P (Some zero_metadata) d)"
| "config_step P (Stage c) d = snd (device_config_stage_candidate P c d)"
| "config_step P Load_for_boot d = snd (snd (device_config_load_for_boot P (Some blank_out) d))"
| "config_step P (Activate c) d = snd (device_config_activate_candidate P c d)"
| "config_step P (Rollback reason) d = snd (device_config_rollback_candidate P reason d)"
| "config_step P Cancel d = snd (device_config_cancel_candidate P d)"
| "config_step P In_progress d = snd (device_config_candidate_validation_in_progress P d)"
| "config_step P Factory_reset d = snd (device_config_factory_reset P d)"
| "config_step P Setup_secret d =
     snd (device_config_get_or_create_setup_secret P (Some (zeros 33, False)) d)"
| "config_step P Power_cycle d = power_cycle P d"

text \<open>The arrays of an argument have the capacities of their C types.\<close>

fun legal_operation :: "operation \<Rightarrow> bool" where
  "legal_operation (Stage (Some c)) = config_layout c"
| "legal_operation _ = True"

fun operation_actions :: "operation \<Rightarrow> store_action set" where
  "operation_actions (Stage _) = {Stage_config, Stage_metadata}"
| "operation_actions Load_for_boot = boot_actions"
| "operation_actions (Activate _) = {Install, Settle, Drop_candidate, Restart}"
| "operation_actions (Rollback _) = {Rollback_metadata, Drop_candidate, Restart}"
| "operation_actions Cancel = {Settle, Drop_candidate}"
| "operation_actions Factory_reset = {Wipe, Restart}"
| "operation_actions Recover = {Wipe, Restart}"
| "operation_actions Setup_secret = {Create_secret}"
| "operation_actions Power_cycle = {Restart}"
| "operation_actions _ = {}"

lemma in_progress_spec:
  assumes C: "nvs_contract P view work"
    and R: "device_config_candidate_validation_in_progress P d = (b, d')"
  shows "store_of view d' = store_of view d \<and> (b \<longrightarrow> validating (store_of view d) \<noteq> None)"
  using C R [unfolded device_config_candidate_validation_in_progress_def]
proof (cases rule: with_lock_cases)
  case (locked_out e)
  then show ?thesis by simp
next
  case (ran d1 d2)
  then show ?thesis by (auto simp: store_of_def)
qed

lemma operation_steps:
  assumes C: "nvs_contract P view work" and "legal_operation oper"
  shows "store_steps P (operation_actions oper) (store_of view d) (store_of view (config_step P oper d))"
proof (cases oper)
  case Init
  then show ?thesis using init_spec [OF C surjective_pairing] by simp
next
  case Recover
  then show ?thesis using recover_spec [OF C surjective_pairing] by simp
next
  case Load_active
  have "device_config_load_active P (Some zero_config) d
      = ((fst (fst (device_config_load_active P (Some zero_config) d)),
          snd (fst (device_config_load_active P (Some zero_config) d))),
         snd (device_config_load_active P (Some zero_config) d))" by simp
  from load_active_spec [OF C this] show ?thesis using Load_active by simp
next
  case Get_metadata
  have "device_config_get_metadata P (Some zero_metadata) d
      = ((fst (fst (device_config_get_metadata P (Some zero_metadata) d)),
          snd (fst (device_config_get_metadata P (Some zero_metadata) d))),
         snd (device_config_get_metadata P (Some zero_metadata) d))" by simp
  from get_metadata_spec [OF C this] show ?thesis using Get_metadata by simp
next
  case (Stage c)
  show ?thesis
  proof (cases c)
    case None
    then show ?thesis
      by (simp add: Stage device_config_stage_candidate_def device_config_validate_def
          validate_message_def)
  next
    case (Some x)
    then have "config_layout x" using assms(2) Stage by simp
    from stage_spec [OF C surjective_pairing this order_refl] show ?thesis by (simp add: Stage Some)
  qed
next
  case Load_for_boot
  have "device_config_load_for_boot P (Some blank_out) d
      = (fst (device_config_load_for_boot P (Some blank_out) d),
         fst (snd (device_config_load_for_boot P (Some blank_out) d)),
         snd (snd (device_config_load_for_boot P (Some blank_out) d)))" by simp
  from load_for_boot_spec [OF C this [unfolded blank_out_def]] show ?thesis
    by (simp add: Load_for_boot blank_out_def)
next
  case (Activate c)
  show ?thesis
  proof (cases c)
    case None
    then show ?thesis by (simp add: Activate device_config_activate_candidate_def)
  next
    case (Some x)
    from activate_spec [OF C surjective_pairing order_refl] show ?thesis by (simp add: Activate Some)
  qed
next
  case (Rollback reason)
  from rollback_spec [OF C surjective_pairing order_refl] show ?thesis by (simp add: Rollback)
next
  case Cancel
  from cancel_spec [OF C surjective_pairing order_refl] show ?thesis by (simp add: Cancel)
next
  case In_progress
  from in_progress_spec [OF C surjective_pairing]
  have "store_of view (snd (device_config_candidate_validation_in_progress P d)) = store_of view d" ..
  then show ?thesis by (simp add: In_progress)
next
  case Factory_reset
  from factory_reset_spec [OF C surjective_pairing] show ?thesis by (simp add: Factory_reset)
next
  case Setup_secret
  let ?x = "device_config_get_or_create_setup_secret P (Some (zeros 33, False)) d"
  have "?x = ((fst (fst ?x), snd (fst ?x)), snd ?x)" by simp
  from setup_secret_spec [OF C this] show ?thesis by (auto simp: Setup_secret)
next
  case Power_cycle
  have "store_of view (power_cycle P d) = idle (store_of view d)"
    using contract_restart [OF C] by (simp add: power_cycle_def store_of_def)
  then show ?thesis by (simp add: Power_cycle restart_step)
qed

section \<open>What the store keeps\<close>

definition good_entry :: "(string \<Rightarrow> int) \<Rightarrow> (string \<rightharpoonup> nvs_value) \<Rightarrow> string \<Rightarrow> bool" where
  "good_entry x509 V key \<longleftrightarrow>
     V key = None
   \<or> (case stored_config V key of Some c \<Rightarrow> valid_config x509 c | None \<Rightarrow> False)"

definition good_metadata :: "u32 \<Rightarrow> (string \<rightharpoonup> nvs_value) \<Rightarrow> bool" where
  "good_metadata limit V \<longleftrightarrow>
     (case stored_metadata V of None \<Rightarrow> False
      | Some m \<Rightarrow> md_state m = DEVICE_CONFIG_STATE_PENDING \<longrightarrow> boot_attempts m \<le> limit)"

definition good_secret :: "(string \<rightharpoonup> nvs_value) \<Rightarrow> bool" where
  "good_secret V \<longleftrightarrow>
     (case V KEY_SETUP of None \<Rightarrow> True | Some (Str t) \<Rightarrow> usable_secret t | Some (Blob _) \<Rightarrow> False)"

definition good_flash :: "(string \<Rightarrow> int) \<Rightarrow> u32 \<Rightarrow> (string \<rightharpoonup> nvs_value) \<Rightarrow> bool" where
  "good_flash x509 limit V \<longleftrightarrow>
     good_entry x509 V KEY_ACTIVE \<and> good_entry x509 V KEY_CANDIDATE \<and> good_metadata limit V
   \<and> good_secret V"

abbreviation good_store :: "(string \<Rightarrow> int) \<Rightarrow> u32 \<Rightarrow> store \<Rightarrow> bool" where
  "good_store x509 limit a \<equiv> good_flash x509 limit (flash a)"

lemma good_entry_put: "valid_config x509 c \<Longrightarrow> good_entry x509 (V(key \<mapsto> Blob (blob_of_config c))) key"
  by (simp add: good_entry_def valid_config_def)

lemma good_entry_other: "key \<noteq> k \<Longrightarrow> good_entry x509 (V(k := v)) key = good_entry x509 V key"
  by (simp add: good_entry_def)

lemma good_entry_wipe: "good_entry x509 V key \<Longrightarrow> W key = V key \<or> W key = None
    \<Longrightarrow> good_entry x509 W key"
  by (auto simp: good_entry_def stored_config_def)

lemma good_metadata_other: "KEY_METADATA \<noteq> k \<Longrightarrow> good_metadata limit (V(k := v)) = good_metadata limit V"
  by (simp add: good_metadata_def)

lemma good_metadata_put: "metadata_storable m \<Longrightarrow>
    good_metadata limit (V(KEY_METADATA \<mapsto> Blob (blob_of_metadata m))) \<longleftrightarrow>
      (md_state m = DEVICE_CONFIG_STATE_PENDING \<longrightarrow> boot_attempts m \<le> limit)"
  by (simp add: good_metadata_def)

lemma good_secret_other: "KEY_SETUP \<noteq> k \<Longrightarrow> good_secret (V(k := v)) = good_secret V"
  by (simp add: good_secret_def)

lemmas good_simps = good_flash_def good_entry_put good_entry_other good_metadata_other
  good_metadata_put good_secret_other settled_def

lemma increment_le: "(x :: u32) < y \<Longrightarrow> x + 1 \<le> y"
  by (rule inc_le)

lemma good_store_step:
  assumes "store_step x509 limit l a b" and good: "good_store x509 limit a"
  shows "good_store x509 limit b"
  using assms(1)
proof cases
  case (count_boot m)
  then show ?thesis using good stored_metadata_storable [OF count_boot(3)]
    by (simp add: good_simps) (simp add: good_metadata_def)
next
  case (count_attempt m)
  then show ?thesis using good stored_metadata_storable [OF count_attempt(3)]
    by (simp add: good_simps increment_le)
next
  case (stage_metadata m c)
  then show ?thesis using good stored_metadata_storable [OF stage_metadata(4)]
    by (simp add: good_simps)
next
  case (rollback_metadata m reason)
  then show ?thesis using good by (simp add: good_simps)
next
  case (settle_active m c)
  then show ?thesis using good stored_metadata_storable [OF settle_active(3)] by (simp add: good_simps)
next
  case (settle_cancel m)
  then show ?thesis using good stored_metadata_storable [OF settle_cancel(4)] by (simp add: good_simps)
next
  case (drop_candidate m)
  then show ?thesis using good by (auto simp: good_simps intro: good_entry_wipe)
next
  case (create_secret t)
  then show ?thesis using good by (simp add: good_simps) (simp add: good_secret_def usable_secret_def)
next
  case (wipe V)
  then have e: "V k = flash a k \<or> V k = None" for k by (auto simp: between_def)
  have "good_metadata limit V"
    using good e [of KEY_METADATA]
    by (auto simp: good_flash_def good_metadata_def stored_metadata_def zero_metadata_def)
  moreover have "good_secret V"
    using good e [of KEY_SETUP] by (auto simp: good_flash_def good_secret_def)
  moreover have "good_entry x509 V KEY_ACTIVE" "good_entry x509 V KEY_CANDIDATE"
    using good good_entry_wipe e by (auto simp: good_flash_def)
  ultimately show ?thesis using wipe by (simp add: good_flash_def)
qed (use good in \<open>simp_all add: good_simps\<close>)

lemma good_store_steps:
  "store_steps P L a b \<Longrightarrow> good_store (p_x509 P) (candidate_max_attempts P) a
     \<Longrightarrow> good_store (p_x509 P) (candidate_max_attempts P) b"
  by (erule store_steps_invariant) (auto intro: good_store_step)

text \<open>The invariant of the device, on every platform that keeps the contract.\<close>

definition config_inv ::
  "'s platform \<Rightarrow> ('s \<Rightarrow> string \<rightharpoonup> nvs_value) \<Rightarrow> ('s \<Rightarrow> string \<rightharpoonup> nvs_value) \<Rightarrow> 's device \<Rightarrow> bool" where
  "config_inv P view work d \<longleftrightarrow>
     (nvs_contract P view work \<longrightarrow>
        good_store (p_x509 P) (candidate_max_attempts P) (store_of view d))"

interpretation config_system:
  invariant_system "config_step P" legal_operation "config_inv P view work"
  by unfold_locales (unfold config_inv_def, blast intro: good_store_steps operation_steps)

end
