(* ===== verification/Ram_Platform.thy ===== *)
theory Ram_Platform
  imports Config_Nvs
begin

text \<open>
  A concrete environment that keeps the contract of \<open>Config_Nvs\<close>: the flash is a map, writes
  take effect at commit, and a script decides for each call in turn whether it fails. The
  X.509 parser accepts everything. The examples of the development run on it.
\<close>

record ram =
  durable :: "string \<rightharpoonup> nvs_value"
  working :: "string \<rightharpoonup> nvs_value"
  faults :: "bool list"

definition next_fault :: "ram \<Rightarrow> bool \<times> ram" where
  "next_fault s = (case faults s of [] \<Rightarrow> (False, s) | f # fs \<Rightarrow> (f, s\<lparr>faults := fs\<rparr>))"

definition no_fault :: "ram \<Rightarrow> bool \<times> ram" where
  "no_fault s = (False, s)"

definition ram_call :: "(ram \<Rightarrow> bool \<times> ram) \<Rightarrow> (ram \<Rightarrow> ram) \<Rightarrow> ram \<Rightarrow> esp_err \<times> ram" where
  "ram_call nf f s = (let (bad, s) = nf s in if bad then (ESP_FAIL, s) else (ESP_OK, f s))"

definition ram_read ::
  "(ram \<Rightarrow> bool \<times> ram) \<Rightarrow> (nvs_value option \<Rightarrow> 'x option) \<Rightarrow> 'x \<Rightarrow> string \<Rightarrow> ram \<Rightarrow> esp_err \<times> 'x \<times> ram" where
  "ram_read nf f x0 key s =
     (let (bad, s) = nf s in
      if bad then (ESP_FAIL, x0, s)
      else case f (working s key) of None \<Rightarrow> (ESP_ERR_NVS_NOT_FOUND, x0, s) | Some x \<Rightarrow> (ESP_OK, x, s))"

definition ram_try :: "(ram \<Rightarrow> bool \<times> ram) \<Rightarrow> ram \<Rightarrow> bool \<times> ram" where
  "ram_try nf s = (let (bad, s) = nf s in (\<not> bad, s))"

fun blob_bytes :: "nvs_value option \<Rightarrow> byte list option" where
  "blob_bytes (Some (Blob bs)) = Some bs"
| "blob_bytes _ = None"

fun str_text :: "nvs_value option \<Rightarrow> string option" where
  "str_text (Some (Str t)) = Some t"
| "str_text _ = None"

definition put :: "string \<Rightarrow> nvs_value option \<Rightarrow> ram \<Rightarrow> ram" where
  "put key v s = s\<lparr>working := (working s)(key := v)\<rparr>"

definition ram_services :: "(ram \<Rightarrow> bool \<times> ram) \<Rightarrow> ram platform" where
  "ram_services nf =
     \<lparr>p_open = (\<lambda>mode. ram_call nf (\<lambda>s. s\<lparr>working := durable s\<rparr>)),
      p_close = (\<lambda>s. s\<lparr>working := durable s\<rparr>),
      p_blob_size = ram_read nf (\<lambda>v. map_option length (blob_bytes v)) 0,
      p_get_blob = (\<lambda>key n. ram_read nf blob_bytes [] key),
      p_set_blob = (\<lambda>key bs. ram_call nf (put key (Some (Blob bs)))),
      p_str_size = ram_read nf (\<lambda>v. map_option (\<lambda>t. length t + 1) (str_text v)) 0,
      p_get_str = (\<lambda>key n. ram_read nf (\<lambda>v. map_option (\<lambda>t. t @ [NUL]) (str_text v)) [] key),
      p_set_str = (\<lambda>key t. ram_call nf (put key (Some (Str t)))),
      p_erase_key = (\<lambda>key. ram_call nf (put key None)),
      p_erase_all = ram_call nf (\<lambda>s. s\<lparr>working := Map.empty\<rparr>),
      p_commit = ram_call nf (\<lambda>s. s\<lparr>durable := working s\<rparr>),
      p_flash_init = ram_call nf id,
      p_flash_erase = ram_call nf (\<lambda>s. s\<lparr>durable := Map.empty\<rparr>),
      p_calloc = (\<lambda>n. ram_try nf),
      p_create_mutex = ram_try nf,
      p_take_mutex = ram_try nf,
      p_give_mutex = id,
      p_random = (\<lambda>n s. (map of_nat [0..<n], s)),
      p_restart = (\<lambda>s. s\<lparr>working := durable s\<rparr>),
      p_x509 = (\<lambda>_. 0),
      candidate_max_attempts = 2\<rparr>"

definition ram_platform :: "ram platform" where
  "ram_platform = ram_services next_fault"

definition ideal_platform :: "ram platform" where
  "ideal_platform = ram_services no_fault"

definition keeps_maps :: "(ram \<Rightarrow> bool \<times> ram) \<Rightarrow> bool" where
  "keeps_maps nf \<longleftrightarrow> (\<forall>s b s'. nf s = (b, s') \<longrightarrow> durable s' = durable s \<and> working s' = working s)"

lemma keeps_maps_oracles: "keeps_maps next_fault" "keeps_maps no_fault"
  by (auto simp: keeps_maps_def next_fault_def no_fault_def split: list.splits)

lemma next_fault_keeps:
  "keeps_maps nf \<Longrightarrow> nf s = (b, s') \<Longrightarrow> durable s' = durable s \<and> working s' = working s"
  by (simp add: keeps_maps_def)

lemma ram_call_cases:
  assumes "keeps_maps nf" and "ram_call nf f s = (r, s')"
  obtains (bad) "r = ESP_FAIL" "durable s' = durable s" "working s' = working s"
  | (good) s1 where "r = ESP_OK" "s' = f s1" "durable s1 = durable s" "working s1 = working s"
  using assms next_fault_keeps [OF assms(1)] by (auto simp: ram_call_def split: prod.splits if_splits)

lemma ram_read_contract:
  assumes nf: "keeps_maps nf" and "\<And>s x. f (working s key) = Some x \<Longrightarrow> found s x" and "\<And>s. f (working s key) = None \<Longrightarrow> missing s"
    and "\<And>s s' x. working s = working s' \<Longrightarrow> found s x = found s' x"
    and "\<And>s s'. working s = working s' \<Longrightarrow> missing s = missing s'"
  shows "read_contract durable working (ram_read nf f x0 key) found missing"
  unfolding read_contract_def
proof (intro allI impI)
  fix s r x s'
  assume R: "ram_read nf f x0 key s = (r, x, s')"
  obtain b s1 where n: "nf s = (b, s1)" by force
  note k = next_fault_keeps [OF nf n]
  show "durable s' = durable s \<and> working s' = working s \<and> (r = ESP_OK \<longrightarrow> found s x)
      \<and> (r = ESP_ERR_NVS_NOT_FOUND \<longrightarrow> missing s)"
    using R k assms(2) [of s1 x] assms(3) [of s1] assms(4,5) [of s1 s]
    by (auto simp: ram_read_def n split: if_splits option.splits)
qed

lemma ram_set_contract:
  assumes nf: "keeps_maps nf"
  shows "set_contract durable working (ram_call nf (put key v)) key v"
  unfolding set_contract_def
proof (intro allI impI)
  fix s r s'
  assume "ram_call nf (put key v) s = (r, s')"
  then show "between (durable s) ((working s)(key := v)) (durable s')
      \<and> between (working s) ((working s)(key := v)) (working s')
      \<and> (r = ESP_OK \<longrightarrow> working s' = (working s)(key := v))
      \<and> (r = ESP_ERR_NVS_NOT_FOUND \<longrightarrow> v = None \<longrightarrow> working s' = working s \<and> working s key = None)"
    by (elim ram_call_cases [OF nf]) (simp_all add: put_def)
qed

lemma ram_try_keeps: "keeps_maps nf \<Longrightarrow> ram_try nf s = (b, s') \<Longrightarrow> durable s' = durable s \<and> working s' = working s"
  using next_fault_keeps by (auto simp: ram_try_def split: prod.splits)

lemma blob_bytes_eq: "blob_bytes v = Some bs \<longleftrightarrow> v = Some (Blob bs)" "blob_bytes v = None \<longleftrightarrow> (\<forall>bs. v \<noteq> Some (Blob bs))"
  by (cases v rule: blob_bytes.cases; auto)+

lemma str_text_eq: "str_text v = Some t \<longleftrightarrow> v = Some (Str t)" "str_text v = None \<longleftrightarrow> (\<forall>t. v \<noteq> Some (Str t))"
  by (cases v rule: str_text.cases; auto)+

lemma ram_services_contract:
  assumes nf: "keeps_maps nf"
  shows "nvs_contract (ram_services nf) durable working"
  unfolding nvs_contract_def
proof (intro conjI allI impI)
  fix mode s r s'
  assume "p_open (ram_services nf) mode s = (r, s')"
  then have "ram_call nf (\<lambda>s. s\<lparr>working := durable s\<rparr>) s = (r, s')" by (simp add: ram_services_def)
  then have "durable s' = durable s \<and> (r = ESP_OK \<longrightarrow> working s' = durable s) \<and> r \<noteq> ESP_ERR_NVS_NOT_FOUND"
    by (elim ram_call_cases [OF nf]) simp_all
  then show "durable s' = durable s" "r = ESP_OK \<Longrightarrow> working s' = durable s"
    and "r = ESP_ERR_NVS_NOT_FOUND \<Longrightarrow> mode = NVS_READONLY"
    and "r = ESP_ERR_NVS_NOT_FOUND \<Longrightarrow> durable s = Map.empty" by simp_all
next
  fix key
  show "read_contract durable working (p_blob_size (ram_services nf) key)
      (\<lambda>s n. \<exists>bs. working s key = Some (Blob bs) \<and> n = length bs) (\<lambda>s. \<forall>bs. working s key \<noteq> Some (Blob bs))"
    unfolding ram_services_def platform.simps
    by (rule ram_read_contract [OF nf]) (auto simp: blob_bytes_eq)
  fix n
  show "read_contract durable working (p_get_blob (ram_services nf) key n)
      (\<lambda>s bs. working s key = Some (Blob bs)) (\<lambda>s. \<forall>bs. working s key \<noteq> Some (Blob bs))"
    unfolding ram_services_def platform.simps
    by (rule ram_read_contract [OF nf]) (auto simp: blob_bytes_eq)
  show "read_contract durable working (p_str_size (ram_services nf) key)
      (\<lambda>s n. \<exists>t. working s key = Some (Str t) \<and> n = length t + 1) (\<lambda>s. \<forall>t. working s key \<noteq> Some (Str t))"
    unfolding ram_services_def platform.simps
    by (rule ram_read_contract [OF nf]) (auto simp: str_text_eq)
  show "read_contract durable working (p_get_str (ram_services nf) key n)
      (\<lambda>s t. \<exists>u. working s key = Some (Str u) \<and> t = u @ [NUL]) (\<lambda>s. \<forall>t. working s key \<noteq> Some (Str t))"
    unfolding ram_services_def platform.simps
    by (rule ram_read_contract [OF nf]) (auto simp: str_text_eq)
next
  fix s r s'
  assume "p_erase_all (ram_services nf) s = (r, s')"
  then have "ram_call nf (\<lambda>s. s\<lparr>working := Map.empty\<rparr>) s = (r, s')" by (simp add: ram_services_def)
  then show "between (durable s) Map.empty (durable s')" by (elim ram_call_cases [OF nf]) simp_all
next
  fix s r s'
  assume "p_commit (ram_services nf) s = (r, s')"
  then have "ram_call nf (\<lambda>s. s\<lparr>durable := working s\<rparr>) s = (r, s')" by (simp add: ram_services_def)
  then have "working s' = working s \<and> between (durable s) (working s) (durable s')
      \<and> (r = ESP_OK \<longrightarrow> durable s' = working s)"
    by (elim ram_call_cases [OF nf]) simp_all
  then show "working s' = working s" "between (durable s) (working s) (durable s')"
    "r = ESP_OK \<Longrightarrow> durable s' = working s" by simp_all
next
  fix s r s'
  assume "p_flash_init (ram_services nf) s = (r, s')"
  then have "ram_call nf id s = (r, s')" by (simp add: ram_services_def)
  then show "durable s' = durable s" by (elim ram_call_cases [OF nf]) simp_all
next
  show "clear_contract working (p_erase_all (ram_services nf))"
    unfolding clear_contract_def ram_services_def platform.simps
    by (auto elim!: ram_call_cases [OF nf])
  show "clear_contract durable (p_flash_erase (ram_services nf))"
    unfolding clear_contract_def ram_services_def platform.simps
    by (auto elim!: ram_call_cases [OF nf])
qed (use ram_set_contract [OF nf] ram_try_keeps [OF nf] in \<open>auto simp: ram_services_def between_def\<close>)

lemma ram_platform_contract: "nvs_contract ram_platform durable working"
  by (simp add: ram_platform_def ram_services_contract keeps_maps_oracles)

lemma ideal_platform_contract: "nvs_contract ideal_platform durable working"
  by (simp add: ideal_platform_def ram_services_contract keeps_maps_oracles)

lemma ram_platform_options [simp]:
  "p_x509 ram_platform = (\<lambda>_. 0)" "candidate_max_attempts ram_platform = 2"
  "p_x509 ideal_platform = (\<lambda>_. 0)" "candidate_max_attempts ideal_platform = 2"
  by (simp_all add: ram_platform_def ideal_platform_def ram_services_def)

definition fresh_ram :: "bool list \<Rightarrow> ram" where
  "fresh_ram fs = \<lparr>durable = Map.empty, working = Map.empty, faults = fs\<rparr>"

definition fresh_device :: "bool list \<Rightarrow> ram device" where
  "fresh_device fs = \<lparr>configuration_mutex = True, candidate_validation_in_progress = False,
     candidate_validation_revision = 0, env = fresh_ram fs\<rparr>"

text \<open>A configuration that passes validation.\<close>

definition text_array :: "nat \<Rightarrow> string \<Rightarrow> carray" where
  "text_array n s = s @ zeros (n - length s)"

definition example_config :: device_config where
  "example_config =
     \<lparr>schema_version = 1, revision = 7, device_id = text_array 64 ''press-04'',
      wifi_ssid = text_array 33 ''plant'', wifi_password = text_array 64 ''correct-horse'',
      mqtt_broker_uri = text_array 256 ''mqtts://broker.plant:8883'',
      mqtt_ca_certificate = text_array 4096 ''-----BEGIN CERTIFICATE-----'',
      mqtt_username = text_array 64 ''press-04'', mqtt_password = text_array 128 ''secret'',
      mqtt_client_id = text_array 128 ''press-04-a'', telemetry_interval_seconds = 10,
      machine_status_provider = 1, machine_status_gpio = 27, machine_status_active_high = True,
      machine_status_pull = 1, maintenance_on_boot = True, maintenance_window_seconds = 300,
      maintenance_max_session_seconds = 900\<rparr>"

lemma cstr_text_array [simp]: "cstr (text_array n s) = cstr s"
proof -
  have "cstr (s @ zeros m) = cstr s" for m
    by (induction s) (simp_all add: cstr_Cons)
  then show ?thesis by (simp add: text_array_def)
qed

lemma length_text_array [simp]: "length s \<le> n \<Longrightarrow> length (text_array n s) = n"
  by (simp add: text_array_def)

lemma nul_in_text_array [simp]: "length s < n \<Longrightarrow> NUL \<in> set (text_array n s)"
  by (simp add: text_array_def zeros_def)

lemma example_config_layout: "config_layout example_config"
  by (simp add: example_config_def config_layout_def)

lemma example_config_spec: "config_spec (\<lambda>_. 0) example_config"
proof -
  have uri: "mqtts_uri_spec ''mqtts://broker.plant:8883''"
    unfolding mqtts_uri_spec_def
    by (rule exI [of _ "''broker.plant''"], rule exI [of _ "''8883''"])
       (simp add: uri_host_spec_def is_digit_def dec_value_def digit_val_def uri_whitespace_def
          less_eq_char_def)
  show ?thesis
    using uri
    by (simp add: config_spec_def config_strings_terminated_def example_config_def cstr_Cons
        device_id_spec_def client_id_spec_def gpio_spec_def reserved_gpios_def reserved_device_ids_def
        device_id_character_def ascii_alphanumeric_def less_eq_char_def)
qed

lemma example_config_valid: "validate_quiet (\<lambda>_. 0) example_config = ESP_OK"
  using example_config_spec validate_message_iff [OF example_config_layout] by simp

end
