(* ===== verification/Config_Progress.thy ===== *)
theory Config_Progress
  imports Config_Safety Ram_Platform
begin

text \<open>
  Success of the operations of \<^verbatim>\<open>device_config.c\<close> when no call fails: the readers find
  what is stored, the writers take effect, and a staged configuration becomes, over a restart
  and its activation, the active one.
\<close>

definition reliable ::
  "'s platform \<Rightarrow> ('s \<Rightarrow> string \<rightharpoonup> nvs_value) \<Rightarrow> ('s \<Rightarrow> string \<rightharpoonup> nvs_value) \<Rightarrow> bool" where
  "reliable P view work \<longleftrightarrow> nvs_contract P view work
   \<and> (\<forall>s. fst (p_open P NVS_READWRITE s) = ESP_OK)
   \<and> (\<forall>s. view s \<noteq> Map.empty \<longrightarrow> fst (p_open P NVS_READONLY s) = ESP_OK)
   \<and> (\<forall>s. fst (p_open P NVS_READONLY s) \<in> {ESP_OK, ESP_ERR_NVS_NOT_FOUND})
   \<and> (\<forall>key s. fst (p_blob_size P key s) \<in> {ESP_OK, ESP_ERR_NVS_NOT_FOUND})
   \<and> (\<forall>key s bs n. work s key = Some (Blob bs) \<longrightarrow> length bs \<le> n \<longrightarrow> fst (p_get_blob P key n s) = ESP_OK)
   \<and> (\<forall>key bs s. fst (p_set_blob P key bs s) = ESP_OK)
   \<and> (\<forall>key s. fst (p_erase_key P key s) \<in> {ESP_OK, ESP_ERR_NVS_NOT_FOUND})
   \<and> (\<forall>s. fst (p_commit P s) = ESP_OK) \<and> (\<forall>s. fst (p_flash_init P s) = ESP_OK)
   \<and> (\<forall>n s. fst (p_calloc P n s)) \<and> (\<forall>s. fst (p_create_mutex P s)) \<and> (\<forall>s. fst (p_take_mutex P s))"

lemma reliableD:
  assumes "reliable P view work"
  shows "nvs_contract P view work"
    and "fst (p_open P NVS_READWRITE s) = ESP_OK"
    and "view s \<noteq> Map.empty \<Longrightarrow> fst (p_open P NVS_READONLY s) = ESP_OK"
    and "fst (p_open P NVS_READONLY s) = ESP_OK \<or> fst (p_open P NVS_READONLY s) = ESP_ERR_NVS_NOT_FOUND"
    and "fst (p_blob_size P key s) = ESP_OK \<or> fst (p_blob_size P key s) = ESP_ERR_NVS_NOT_FOUND"
    and "work s key = Some (Blob bs) \<Longrightarrow> length bs \<le> n \<Longrightarrow> fst (p_get_blob P key n s) = ESP_OK"
    and "fst (p_set_blob P key bs s) = ESP_OK"
    and "fst (p_erase_key P key s) = ESP_OK \<or> fst (p_erase_key P key s) = ESP_ERR_NVS_NOT_FOUND"
    and "fst (p_commit P s) = ESP_OK" and "fst (p_flash_init P s) = ESP_OK"
    and "fst (p_calloc P n s)" and "fst (p_create_mutex P s)" and "fst (p_take_mutex P s)"
  using assms unfolding reliable_def by auto

lemma ideal_platform_reliable: "reliable ideal_platform durable working"
  unfolding reliable_def using ideal_platform_contract
  by (auto simp: ideal_platform_def ram_services_def ram_call_def ram_read_def ram_try_def
      no_fault_def blob_bytes_eq split: option.splits)

section \<open>Reading and writing succeed\<close>

lemma read_blob_found:
  assumes R: "reliable P view work" and v: "view s key = Some (Blob bs)"
    and "12 \<le> length bs" and "length bs \<le> mx"
  shows "\<exists>s'. read_encoded_blob P key mx s = (ESP_OK, Some bs, s') \<and> view s' = view s"
proof -
  note C = reliableD(1) [OF R]
  obtain r1 s1 where o: "p_open P NVS_READONLY s = (r1, s1)" by force
  have "view s \<noteq> Map.empty" using v by auto
  then have r1: "r1 = ESP_OK" using reliableD(3) [OF R, of s] o by simp
  then have w1: "work s1 key = Some (Blob bs)" using contract_open [OF C o] v by simp
  obtain r2 n s2 where z: "p_blob_size P key s1 = (r2, n, s2)" by (cases "p_blob_size P key s1")
  have r2: "r2 = ESP_OK" using reliableD(5) [OF R, of key s1] contract_blob_size [OF C z] w1 z by auto
  then have n: "n = length bs" "work s2 key = Some (Blob bs)" using contract_blob_size [OF C z] w1 by auto
  obtain ok s3 where a: "p_calloc P n s2 = (ok, s3)" by force
  have ok: ok and w3: "work s3 key = Some (Blob bs)"
    using reliableD(11) [OF R, of n s2] a contract_calloc [OF C a] n by simp_all
  obtain r4 bs4 s4 where g: "p_get_blob P key n s3 = (r4, bs4, s4)" by (cases "p_get_blob P key n s3")
  have r4: "r4 = ESP_OK" using reliableD(6) [OF R w3, of n] n g by simp
  then have "bs4 = bs" using contract_get_blob [OF C g] w3 by simp
  then have "read_encoded_blob P key mx s = (ESP_OK, Some bs, p_close P s4)"
    unfolding read_encoded_blob_def open_namespace_def Let_def o prod.case z a g
    using r1 r2 ok r4 n assms(3,4) by simp
  moreover from this have "view (p_close P s4) = view s" using read_encoded_blob_spec [OF C] by blast
  ultimately show ?thesis by blast
qed

lemma read_blob_missing:
  assumes R: "reliable P view work" and v: "view s key = None"
  shows "\<exists>b s'. read_encoded_blob P key mx s = (ESP_ERR_NVS_NOT_FOUND, b, s') \<and> view s' = view s"
proof -
  note C = reliableD(1) [OF R]
  obtain r1 s1 where o: "p_open P NVS_READONLY s = (r1, s1)" by force
  obtain r2 n s2 where z: "p_blob_size P key s1 = (r2, n, s2)" by (cases "p_blob_size P key s1")
  have "r1 = ESP_ERR_NVS_NOT_FOUND \<or> r1 = ESP_OK \<and> r2 = ESP_ERR_NVS_NOT_FOUND"
    using reliableD(4) [OF R, of s] o contract_open [OF C o] reliableD(5) [OF R, of key s1] z
      contract_blob_size [OF C z] v by auto
  then have "\<exists>b s'. read_encoded_blob P key mx s = (ESP_ERR_NVS_NOT_FOUND, b, s')"
    unfolding read_encoded_blob_def open_namespace_def Let_def o prod.case z by auto
  then show ?thesis using read_encoded_blob_spec [OF C] by blast
qed

lemma write_blob_ok:
  assumes R: "reliable P view work"
  shows "\<exists>s'. write_encoded_blob P key bs s = (ESP_OK, s') \<and> view s' = (view s)(key \<mapsto> Blob bs)"
proof -
  have "fst (write_encoded_blob P key bs s) = ESP_OK"
    using reliableD(2,7,9) [OF R] by (auto simp: write_encoded_blob_def open_namespace_def split: prod.splits)
       (metis fst_conv)+
  then obtain s' where "write_encoded_blob P key bs s = (ESP_OK, s')" by (metis prod.collapse)
  then show ?thesis using write_encoded_blob_spec [OF reliableD(1) [OF R]] by blast
qed

lemma erase_ok:
  assumes R: "reliable P view work"
  shows "\<exists>s'. erase_key P key s = (ESP_OK, s') \<and> view s' = (view s)(key := None)"
proof -
  obtain r1 s1 where o: "p_open P NVS_READWRITE s = (r1, s1)" by force
  obtain r2 s2 where e: "p_erase_key P key s1 = (r2, s2)" by force
  obtain r3 s3 where c: "p_commit P s2 = (r3, s3)" by force
  have "r1 = ESP_OK" "r2 = ESP_OK \<or> r2 = ESP_ERR_NVS_NOT_FOUND" "r3 = ESP_OK"
    using reliableD(2) [OF R, of s] reliableD(8) [OF R, of key s1] reliableD(9) [OF R, of s2] o e c by auto
  then have "erase_key P key s = (ESP_OK, p_close P s3)"
    by (auto simp: erase_key_def open_namespace_def o e c Let_def)
  then show ?thesis using erase_key_spec [OF reliableD(1) [OF R]] by blast
qed

lemma length_blob_of_config: "config_layout c \<Longrightarrow> length (blob_of_config c) = 4873"
  by (simp add: blob_of_config_eq length_config_payload)

lemma length_blob_of_metadata: "metadata_layout m \<Longrightarrow> length (blob_of_metadata m) = 121"
  by (simp add: blob_of_metadata_eq length_metadata_payload)

lemma valid_configD:
  "valid_config x c \<Longrightarrow> config_layout c \<and> config_storable c \<and> validate_quiet x c = ESP_OK"
  by (simp add: valid_config_def config_storable_def)

lemma read_configuration_ok:
  assumes R: "reliable P view work" and v: "view s key = Some (Blob (blob_of_config c))"
    and c: "valid_config (p_x509 P) c"
  shows "\<exists>s'. read_configuration P key c0 s = (ESP_OK, c, s') \<and> view s' = view s"
proof -
  note c' = valid_configD [OF c]
  obtain s1 where b: "read_encoded_blob P key 8192 s = (ESP_OK, Some (blob_of_config c), s1)"
      and s1: "view s1 = view s"
    using read_blob_found [OF R v, of 8192] c' by (auto simp: length_blob_of_config)
  have "device_config_storage_decode_configuration (Some (blob_of_config c)) (Some c0) = (ESP_OK, Some c)"
    using c' by (simp add: blob_of_config_eq decode_encoded_configuration)
  then have "read_configuration P key c0 s = (ESP_OK, c, s1)"
    using c' by (simp add: read_configuration_def b Let_def)
  with s1 show ?thesis by blast
qed

lemma write_configuration_ok:
  assumes R: "reliable P view work" and "config_layout c"
  shows "\<exists>s'. write_configuration P key c s = (ESP_OK, s') \<and> view s' = (view s)(key \<mapsto> Blob (blob_of_config c))"
proof -
  obtain ok s1 where a: "p_calloc P 4873 s = (ok, s1)" by force
  then have ok and "view s1 = view s"
    using reliableD(11) [OF R, of 4873 s] contract_calloc [OF reliableD(1) [OF R] a] by auto
  then show ?thesis using write_blob_ok [OF R, of key "blob_of_config c" s1] assms(2)
    by (simp add: write_configuration_def a encode_configuration_eq blob_of_config_eq)
qed

lemma write_metadata_ok:
  assumes R: "reliable P view work" and "metadata_storable m"
  shows "\<exists>s'. write_metadata P m s = (ESP_OK, s')
     \<and> view s' = (view s)(KEY_METADATA \<mapsto> Blob (blob_of_metadata m))"
proof -
  note l = metadata_storable_layout [OF assms(2)]
  obtain ok s1 where a: "p_calloc P 121 s = (ok, s1)" by force
  then have ok and "view s1 = view s"
    using reliableD(11) [OF R, of 121 s] contract_calloc [OF reliableD(1) [OF R] a] by auto
  then show ?thesis using write_blob_ok [OF R, of KEY_METADATA "blob_of_metadata m" s1] l
    by (simp add: write_metadata_def a encode_metadata_eq blob_of_metadata_eq)
qed

text \<open>Metadata that the code can read: none, or the encoding of some.\<close>

definition readable_metadata :: "(string \<rightharpoonup> nvs_value) \<Rightarrow> device_config_metadata \<Rightarrow> bool" where
  "readable_metadata V m \<longleftrightarrow>
     (V KEY_METADATA = None \<and> m = zero_metadata)
   \<or> (V KEY_METADATA = Some (Blob (blob_of_metadata m)) \<and> metadata_storable m)"

lemma readable_stored: "readable_metadata V m \<Longrightarrow> stored_metadata V = Some m \<and> metadata_storable m"
  by (auto simp: readable_metadata_def stored_metadata_def metadata_codec.dec_enc)

lemma get_metadata_locked_ok:
  assumes R: "reliable P view work" and v: "readable_metadata (view s) m"
  shows "\<exists>s'. get_metadata_locked P m0 s = (ESP_OK, m, s') \<and> view s' = view s"
  using v unfolding readable_metadata_def
proof (elim disjE conjE)
  assume "view s KEY_METADATA = None" and "m = zero_metadata"
  then obtain b s1 where "read_encoded_blob P KEY_METADATA 1024 s = (ESP_ERR_NVS_NOT_FOUND, b, s1)"
      "view s1 = view s"
    using read_blob_missing [OF R, of s KEY_METADATA] by blast
  then show ?thesis using \<open>m = zero_metadata\<close> by (simp add: get_metadata_locked_def read_metadata_def)
next
  assume v: "view s KEY_METADATA = Some (Blob (blob_of_metadata m))" and m: "metadata_storable m"
  note l = metadata_storable_layout [OF m]
  obtain s1 where b: "read_encoded_blob P KEY_METADATA 1024 s = (ESP_OK, Some (blob_of_metadata m), s1)"
      and s1: "view s1 = view s"
    using read_blob_found [OF R v, of 1024] l by (auto simp: length_blob_of_metadata)
  have "device_config_storage_decode_metadata (Some (blob_of_metadata m)) (Some m0) = (ESP_OK, Some m)"
    using l m by (simp add: blob_of_metadata_eq decode_encoded_metadata)
  then show ?thesis using s1 by (simp add: get_metadata_locked_def read_metadata_def b)
qed

lemma with_lock_runs:
  assumes R: "reliable P view work" and "configuration_mutex d"
  shows "\<exists>s. view s = view (env d) \<and> with_lock P on_error body d
     = (fst (body (d\<lparr>env := s\<rparr>)), configuration_unlock P (snd (body (d\<lparr>env := s\<rparr>))))"
proof -
  obtain b s where t: "p_take_mutex P (env d) = (b, s)" by force
  have b using reliableD(13) [OF R, of "env d"] t by simp
  then have "configuration_lock P d = (ESP_OK, d\<lparr>env := s\<rparr>)"
    using assms(2) by (simp add: configuration_lock_def t)
  then show ?thesis using contract_mutex(2) [OF reliableD(1) [OF R] t]
    by (intro exI [of _ s]) (simp add: with_lock_def split: prod.split)
qed

lemma unlock_fields [simp]:
  "configuration_mutex (configuration_unlock P d) = configuration_mutex d"
  "candidate_validation_in_progress (configuration_unlock P d) = candidate_validation_in_progress d"
  "candidate_validation_revision (configuration_unlock P d) = candidate_validation_revision d"
  by (simp_all add: configuration_unlock_def)

lemma unlock_view: "reliable P view work \<Longrightarrow> view (env (configuration_unlock P d)) = view (env d)"
  using contract_mutex(3) reliableD(1) by (fastforce simp: configuration_unlock_def)

section \<open>The operations succeed\<close>

definition restart_device :: "'s platform \<Rightarrow> 's device \<Rightarrow> 's device" where
  "restart_device P d = snd (device_config_storage_init P (power_cycle P d))"

lemma restart_ok:
  assumes R: "reliable P view work"
  shows "configuration_mutex (restart_device P d)"
    "\<not> candidate_validation_in_progress (restart_device P d)"
    "view (env (restart_device P d)) = view (env d)"
proof -
  note C = reliableD(1) [OF R]
  obtain b s1 where m: "p_create_mutex P (p_restart P (env d)) = (b, s1)" by force
  have b using reliableD(12) [OF R, of "p_restart P (env d)"] m by simp
  obtain r s2 where f: "p_flash_init P s1 = (r, s2)" by force
  have "restart_device P d = \<lparr>configuration_mutex = True, candidate_validation_in_progress = False,
      candidate_validation_revision = 0, env = s2\<rparr>"
    using \<open>b\<close> by (simp add: restart_device_def power_cycle_def device_config_storage_init_def m f)
  then show "configuration_mutex (restart_device P d)"
    "\<not> candidate_validation_in_progress (restart_device P d)"
    "view (env (restart_device P d)) = view (env d)"
    using contract_mutex(1) [OF C m] contract_flash_init [OF C f] contract_restart [OF C]
    by simp_all
qed

lemma with_lock_ok:
  assumes R: "reliable P view work" and mx: "configuration_mutex d"
    and body: "\<And>s. view s = view (env d) \<Longrightarrow> \<exists>d2. body (d\<lparr>env := s\<rparr>) = (r, d2) \<and> Q d2"
    and Q: "\<And>d2. Q d2 \<Longrightarrow> Q (configuration_unlock P d2)"
  shows "\<exists>d'. with_lock P on_error body d = (r, d') \<and> Q d'"
proof -
  obtain s where s: "view s = view (env d)" and
    w: "with_lock P on_error body d
       = (fst (body (d\<lparr>env := s\<rparr>)), configuration_unlock P (snd (body (d\<lparr>env := s\<rparr>))))"
    using with_lock_runs [OF R mx] by blast
  from body [OF s] obtain d2 where "body (d\<lparr>env := s\<rparr>) = (r, d2)" and "Q d2" by blast
  with w Q show ?thesis by simp
qed

text \<open>The fields that a later operation depends on.\<close>

definition runs_on :: "('s \<Rightarrow> string \<rightharpoonup> nvs_value) \<Rightarrow> (string \<rightharpoonup> nvs_value) \<Rightarrow> u32 option \<Rightarrow> 's device \<Rightarrow> bool" where
  "runs_on view V v d \<longleftrightarrow> configuration_mutex d \<and> view (env d) = V
     \<and> (case v of None \<Rightarrow> \<not> candidate_validation_in_progress d
        | Some r \<Rightarrow> candidate_validation_in_progress d \<and> candidate_validation_revision d = r)"

lemma runs_on_unlock: "reliable P view work \<Longrightarrow> runs_on view V v d \<Longrightarrow> runs_on view V v (configuration_unlock P d)"
  by (auto simp: runs_on_def unlock_view split: option.splits)

lemma stage_ok:
  assumes R: "reliable P view work" and d: "runs_on view V None d"
    and c: "valid_config (p_x509 P) c" and m: "readable_metadata V m"
  shows "\<exists>d'. device_config_stage_candidate P (Some c) d = (ESP_OK, d')
    \<and> runs_on view (V(KEY_CANDIDATE \<mapsto> Blob (blob_of_config c),
        KEY_METADATA \<mapsto> Blob (blob_of_metadata (staged c m)))) None d'"
proof -
  note c' = valid_configD [OF c] and m' = readable_stored [OF m]
  have val: "fst (device_config_validate (p_x509 P) (Some c) (zeros 128) 128) = ESP_OK"
    using c' by (auto simp: validate_quiet_def device_config_validate_def split: option.splits)
  have d': "configuration_mutex d" "\<not> candidate_validation_in_progress d" "view (env d) = V"
    using d by (simp_all add: runs_on_def)
  show ?thesis
    unfolding device_config_stage_candidate_def val Let_def [of ESP_OK] option.sel simp_thms if_False
  proof (rule with_lock_ok [OF R d'(1)], goal_cases)
    case (1 s)
    note s = 1
    obtain s1 where w: "write_configuration P KEY_CANDIDATE c s = (ESP_OK, s1)"
        and v1: "view s1 = V(KEY_CANDIDATE \<mapsto> Blob (blob_of_config c))"
      using write_configuration_ok [OF R, of c KEY_CANDIDATE s] c' s d' by auto
    have "readable_metadata (view s1) m" using m by (simp add: v1 readable_metadata_def)
    then obtain s2 where g: "get_metadata_locked P zero_metadata s1 = (ESP_OK, m, s2)" and v2: "view s2 = view s1"
      using get_metadata_locked_ok [OF R] by blast
    have "metadata_storable (staged c m)" using m' by (simp add: staged_def)
    then obtain s3 where x: "write_metadata P (staged c m) s2 = (ESP_OK, s3)"
        and "view s3 = (view s2)(KEY_METADATA \<mapsto> Blob (blob_of_metadata (staged c m)))"
      using write_metadata_ok [OF R] by blast
    then show ?case
      using d' v1 v2 x by (simp add: w g runs_on_def flip: staged_def)
  qed (rule runs_on_unlock [OF R])
qed

definition tried :: "device_config_metadata \<Rightarrow> device_config_metadata" where
  "tried m = m\<lparr>boot_count := boot_count m + 1, boot_attempts := boot_attempts m + 1\<rparr>"

definition counted :: "device_config_metadata \<Rightarrow> device_config_metadata" where
  "counted m = m\<lparr>boot_count := boot_count m + 1\<rparr>"

lemma storable_bookkeeping [simp]:
  "metadata_storable (tried m) = metadata_storable m"
  "metadata_storable (counted m) = metadata_storable m"
  "metadata_storable (staged c m) = metadata_storable m"
  by (simp_all add: tried_def counted_def staged_def)

text \<open>The beginning of every boot: the metadata are read, counted and written back.\<close>

lemma boot_counts:
  assumes R: "reliable P view work" and "readable_metadata (view s) m"
  obtains s1 s2 where "get_metadata_locked P m0 s = (ESP_OK, m, s1)"
    "write_metadata P (m\<lparr>boot_count := boot_count m + 1\<rparr>) s1 = (ESP_OK, s2)"
    "view s2 = (view s)(KEY_METADATA \<mapsto> Blob (blob_of_metadata (counted m)))"
proof -
  obtain s1 where g: "get_metadata_locked P m0 s = (ESP_OK, m, s1)" and v: "view s1 = view s"
    using get_metadata_locked_ok [OF R assms(2)] by blast
  have "metadata_storable (counted m)" using readable_stored [OF assms(2)] by simp
  then obtain s2 where "write_metadata P (counted m) s1 = (ESP_OK, s2)"
      "view s2 = (view s1)(KEY_METADATA \<mapsto> Blob (blob_of_metadata (counted m)))"
    using write_metadata_ok [OF R] by blast
  with g v that show thesis by (simp add: counted_def)
qed

lemma boot_candidate_ok:
  assumes R: "reliable P view work" and d: "configuration_mutex d" "view (env d) = V"
    and m: "readable_metadata V m" "md_state m = DEVICE_CONFIG_STATE_PENDING"
      "boot_attempts m < candidate_max_attempts P" "candidate_revision m = revision c"
    and c: "V KEY_CANDIDATE = Some (Blob (blob_of_config c))" "valid_config (p_x509 P) c"
  shows "\<exists>d'. device_config_load_for_boot P (Some (c0, u0, m0)) d
      = (Some \<lparr>boot_err = ESP_OK, boot_config = c, using_candidate = True, boot_metadata = tried m\<rparr>, ESP_OK, d')
    \<and> runs_on view (V(KEY_METADATA \<mapsto> Blob (blob_of_metadata (tried m)))) (Some (revision c)) d'"
proof -
  note c' = valid_configD [OF c(2)] and m' = readable_stored [OF m(1)]
  let ?res = "\<lparr>boot_err = ESP_OK, boot_config = c, using_candidate = True, boot_metadata = tried m\<rparr>"
  have "\<exists>d'. with_lock P (\<lambda>e. \<lparr>boot_err = e, boot_config = c0, using_candidate = u0, boot_metadata = m0\<rparr>)
        (load_for_boot_locked P c0 u0 m0) d = (?res, d')
      \<and> runs_on view (V(KEY_METADATA \<mapsto> Blob (blob_of_metadata (tried m)))) (Some (revision c)) d'"
  proof (rule with_lock_ok [OF R d(1)], goal_cases)
    case (1 s)
    have "readable_metadata (view s) m" using 1 d m by simp
    then obtain s1 s2 where g: "get_metadata_locked P m0 s = (ESP_OK, m, s1)"
      and w: "write_metadata P (m\<lparr>boot_count := boot_count m + 1\<rparr>) s1 = (ESP_OK, s2)"
      and v2: "view s2 = (view s)(KEY_METADATA \<mapsto> Blob (blob_of_metadata (counted m)))"
      using boot_counts [OF R] by blast
    have "view s2 KEY_CANDIDATE = Some (Blob (blob_of_config c))" using v2 1 d c by simp
    then obtain s3 where rc: "read_configuration P KEY_CANDIDATE c0 s2 = (ESP_OK, c, s3)" and v3: "view s3 = view s2"
      using read_configuration_ok [OF R _ c(2)] by blast
    have "metadata_storable (tried m)" using m' by simp
    then obtain s4 where x: "write_metadata P (tried m) s3 = (ESP_OK, s4)"
        and v4: "view s4 = (view s3)(KEY_METADATA \<mapsto> Blob (blob_of_metadata (tried m)))"
      using write_metadata_ok [OF R] by blast
    have le: "(candidate_max_attempts P \<le> boot_attempts m) = False" using m by simp
    show ?case
      using m c' d 1 v2 v3 v4 x
      by (simp add: load_for_boot_locked_def g w rc Let_def le tried_def runs_on_def)
  qed (rule runs_on_unlock [OF R])
  then show ?thesis by (auto simp: device_config_load_for_boot_def)
qed

lemma boot_active_ok:
  assumes R: "reliable P view work" and d: "configuration_mutex d" "view (env d) = V"
    and m: "readable_metadata V m" "md_state m \<noteq> DEVICE_CONFIG_STATE_PENDING"
    and c: "V KEY_ACTIVE = Some (Blob (blob_of_config c))" "valid_config (p_x509 P) c"
  shows "\<exists>d'. device_config_load_for_boot P (Some (c0, u0, m0)) d
      = (Some \<lparr>boot_err = ESP_OK, boot_config = c, using_candidate = False, boot_metadata = counted m\<rparr>, ESP_OK, d')
    \<and> runs_on view (V(KEY_METADATA \<mapsto> Blob (blob_of_metadata (counted m)))) None d'"
proof -
  note c' = valid_configD [OF c(2)] and m' = readable_stored [OF m(1)]
  let ?res = "\<lparr>boot_err = ESP_OK, boot_config = c, using_candidate = False, boot_metadata = counted m\<rparr>"
  have "\<exists>d'. with_lock P (\<lambda>e. \<lparr>boot_err = e, boot_config = c0, using_candidate = u0, boot_metadata = m0\<rparr>)
        (load_for_boot_locked P c0 u0 m0) d = (?res, d')
      \<and> runs_on view (V(KEY_METADATA \<mapsto> Blob (blob_of_metadata (counted m)))) None d'"
  proof (rule with_lock_ok [OF R d(1)], goal_cases)
    case (1 s)
    have "readable_metadata (view s) m" using 1 d m by simp
    then obtain s1 s2 where g: "get_metadata_locked P m0 s = (ESP_OK, m, s1)"
      and w: "write_metadata P (m\<lparr>boot_count := boot_count m + 1\<rparr>) s1 = (ESP_OK, s2)"
      and v2: "view s2 = (view s)(KEY_METADATA \<mapsto> Blob (blob_of_metadata (counted m)))"
      using boot_counts [OF R] by blast
    have "view s2 KEY_ACTIVE = Some (Blob (blob_of_config c))" using v2 1 d c by simp
    then obtain s3 where rc: "read_configuration P KEY_ACTIVE c0 s2 = (ESP_OK, c, s3)" and v3: "view s3 = view s2"
      using read_configuration_ok [OF R _ c(2)] by blast
    show ?case
      using m d 1 v2 v3
      by (simp add: load_for_boot_locked_def load_active_for_boot_def g w rc Let_def counted_def runs_on_def)
  qed (rule runs_on_unlock [OF R])
  then show ?thesis by (auto simp: device_config_load_for_boot_def)
qed

lemma activate_ok:
  assumes R: "reliable P view work" and d: "runs_on view V (Some (revision v)) d"
    and m: "readable_metadata V m" "md_state m = DEVICE_CONFIG_STATE_PENDING" "candidate_revision m = revision v"
    and c: "V KEY_CANDIDATE = Some (Blob (blob_of_config c))" "valid_config (p_x509 P) c"
      "configurations_match c v"
  shows "\<exists>d'. device_config_activate_candidate P (Some v) d = (ESP_OK, d')
    \<and> runs_on view (V(KEY_ACTIVE \<mapsto> Blob (blob_of_config c),
        KEY_METADATA \<mapsto> Blob (blob_of_metadata (settled m)), KEY_CANDIDATE := None)) None d'"
proof -
  note c' = valid_configD [OF c(2)] and m' = readable_stored [OF m(1)]
  have d': "configuration_mutex d" "candidate_validation_in_progress d"
      "candidate_validation_revision d = revision v" "view (env d) = V"
    using d by (simp_all add: runs_on_def)
  show ?thesis
    unfolding device_config_activate_candidate_def option.case
  proof (rule with_lock_ok [OF R d'(1)], goal_cases)
    case (1 s)
    obtain ok s1 where a: "p_calloc P sizeof_device_config s = (ok, s1)" by force
    have ok: ok "view s1 = V"
      using reliableD(11) [OF R, of sizeof_device_config s] a
        contract_calloc [OF reliableD(1) [OF R] a] 1 d' by simp_all
    then have "view s1 KEY_CANDIDATE = Some (Blob (blob_of_config c))" using c by simp
    then obtain s2 where rc: "read_configuration P KEY_CANDIDATE zero_config s1 = (ESP_OK, c, s2)"
        and v2: "view s2 = view s1"
      using read_configuration_ok [OF R _ c(2)] by blast
    have "readable_metadata (view s2) m" using m ok v2 by simp
    then obtain s3 where g: "get_metadata_locked P zero_metadata s2 = (ESP_OK, m, s3)" and v3: "view s3 = view s2"
      using get_metadata_locked_ok [OF R] by blast
    obtain s4 where w: "write_configuration P KEY_ACTIVE c s3 = (ESP_OK, s4)"
        and v4: "view s4 = (view s3)(KEY_ACTIVE \<mapsto> Blob (blob_of_config c))"
      using write_configuration_ok [OF R] c' by blast
    have "metadata_storable (settled m)" using m' by simp
    then obtain s5 where x: "write_metadata P (settled m) s4 = (ESP_OK, s5)"
        and v5: "view s5 = (view s4)(KEY_METADATA \<mapsto> Blob (blob_of_metadata (settled m)))"
      using write_metadata_ok [OF R] by blast
    obtain s6 where e: "erase_key P KEY_CANDIDATE s5 = (ESP_OK, s6)"
        and v6: "view s6 = (view s5)(KEY_CANDIDATE := None)"
      using erase_ok [OF R] by blast
    show ?case
      using m c c' d' ok v2 v3 v4 v5 v6 x
      by (simp add: a rc g w e Let_def settled_def runs_on_def)
  qed (rule runs_on_unlock [OF R])
qed

lemma load_active_ok:
  assumes R: "reliable P view work" and d: "runs_on view V v d"
    and c: "V KEY_ACTIVE = Some (Blob (blob_of_config c))" "valid_config (p_x509 P) c"
  shows "\<exists>d'. device_config_load_active P (Some c0) d = ((ESP_OK, Some c), d') \<and> runs_on view V v d'"
  unfolding device_config_load_active_def option.case
proof (rule with_lock_ok [OF R], goal_cases)
  case 1
  then show ?case using d by (simp add: runs_on_def)
next
  case (2 s)
  have "view s KEY_ACTIVE = Some (Blob (blob_of_config c))" using 2 d c by (simp add: runs_on_def)
  then obtain s2 where rc: "read_configuration P KEY_ACTIVE c0 s = (ESP_OK, c, s2)" and "view s2 = view s"
    using read_configuration_ok [OF R _ c(2)] by blast
  then show ?case using 2 d by (simp add: rc runs_on_def split: option.splits)
qed (rule runs_on_unlock [OF R])

lemma rollback_locked_ok:
  assumes R: "reliable P view work" and d: "view (env d) = V" and m: "readable_metadata V m"
  shows "\<exists>s'. rollback_candidate_locked P reason d
      = (ESP_OK, d\<lparr>env := s', candidate_validation_in_progress := False, candidate_validation_revision := 0\<rparr>)
    \<and> view s' = V(KEY_METADATA \<mapsto> Blob (blob_of_metadata (rolled_back (reason_text reason) m)),
        KEY_CANDIDATE := None)"
proof -
  have "readable_metadata (view (env d)) m" using d m by simp
  then obtain s1 where g: "get_metadata_locked P zero_metadata (env d) = (ESP_OK, m, s1)"
      and v1: "view s1 = view (env d)"
    using get_metadata_locked_ok [OF R] by blast
  let ?m = "rolled_back (reason_text reason) m"
  have "metadata_storable ?m" using readable_stored [OF m] by (simp add: rolled_back_storable)
  then obtain s2 where w: "write_metadata P ?m s1 = (ESP_OK, s2)"
      and v2: "view s2 = (view s1)(KEY_METADATA \<mapsto> Blob (blob_of_metadata ?m))"
    using write_metadata_ok [OF R] by blast
  obtain s3 where e: "erase_key P KEY_CANDIDATE s2 = (ESP_OK, s3)" and v3: "view s3 = (view s2)(KEY_CANDIDATE := None)"
    using erase_ok [OF R] by blast
  show ?thesis
    using v1 v2 v3 d w
    by (intro exI [of _ s3])
       (simp add: rollback_candidate_locked_def g e Let_def rolled_back_def reason_text_def)
qed

lemma boot_exhausted_ok:
  assumes R: "reliable P view work" and d: "configuration_mutex d" "view (env d) = V"
    and m: "readable_metadata V m" "md_state m = DEVICE_CONFIG_STATE_PENDING"
      "candidate_max_attempts P \<le> boot_attempts m"
    and c: "V KEY_ACTIVE = Some (Blob (blob_of_config c))" "valid_config (p_x509 P) c"
  defines "m' \<equiv> rolled_back ''candidate boot attempt limit reached'' (counted m)"
  shows "\<exists>d'. device_config_load_for_boot P (Some (c0, u0, m0)) d
      = (Some \<lparr>boot_err = ESP_OK, boot_config = c, using_candidate = False, boot_metadata = m'\<rparr>, ESP_OK, d')
    \<and> runs_on view (V(KEY_METADATA \<mapsto> Blob (blob_of_metadata m'), KEY_CANDIDATE := None)) None d'"
proof -
  have r: "reason_text (Some ''candidate boot attempt limit reached'') = ''candidate boot attempt limit reached''"
    by (simp add: reason_text_def cstr_Cons)
  note mm = readable_stored [OF m(1)]
  let ?res = "\<lparr>boot_err = ESP_OK, boot_config = c, using_candidate = False, boot_metadata = m'\<rparr>"
  have "\<exists>d'. with_lock P (\<lambda>e. \<lparr>boot_err = e, boot_config = c0, using_candidate = u0, boot_metadata = m0\<rparr>)
        (load_for_boot_locked P c0 u0 m0) d = (?res, d')
      \<and> runs_on view (V(KEY_METADATA \<mapsto> Blob (blob_of_metadata m'), KEY_CANDIDATE := None)) None d'"
  proof (rule with_lock_ok [OF R d(1)], goal_cases)
    case (1 s)
    have "readable_metadata (view s) m" using 1 d m by simp
    then obtain s1 s2 where g: "get_metadata_locked P m0 s = (ESP_OK, m, s1)"
      and w: "write_metadata P (m\<lparr>boot_count := boot_count m + 1\<rparr>) s1 = (ESP_OK, s2)"
      and v2: "view s2 = (view s)(KEY_METADATA \<mapsto> Blob (blob_of_metadata (counted m)))"
      using boot_counts [OF R] by blast
    let ?d = "d\<lparr>candidate_validation_in_progress := False, candidate_validation_revision := 0, env := s2\<rparr>"
    have "readable_metadata (view s2) (counted m)" using mm by (simp add: v2 readable_metadata_def)
    then obtain s3 where rb: "rollback_candidate_locked P (Some ''candidate boot attempt limit reached'') ?d
        = (ESP_OK, ?d\<lparr>env := s3, candidate_validation_in_progress := False, candidate_validation_revision := 0\<rparr>)"
      and v3: "view s3 = (view s2)(KEY_METADATA \<mapsto> Blob (blob_of_metadata m'), KEY_CANDIDATE := None)"
      using rollback_locked_ok [OF R, of ?d "view s2" "counted m"
          "Some ''candidate boot attempt limit reached''"] by (auto simp: m'_def r)
    have "readable_metadata (view s3) m'"
      using mm by (simp add: v3 readable_metadata_def m'_def rolled_back_storable)
    then obtain s4 where g4: "get_metadata_locked P (m\<lparr>boot_count := boot_count m + 1\<rparr>) s3 = (ESP_OK, m', s4)"
        and v4: "view s4 = view s3"
      using get_metadata_locked_ok [OF R] by blast
    have "view s4 KEY_ACTIVE = Some (Blob (blob_of_config c))" using v2 v3 v4 1 d c by simp
    then obtain s5 where rc: "read_configuration P KEY_ACTIVE c0 s4 = (ESP_OK, c, s5)" and v5: "view s5 = view s4"
      using read_configuration_ok [OF R _ c(2)] by blast
    show ?case
      using m d 1 v2 v3 v4 v5 rb
      by (simp add: load_for_boot_locked_def rollback_for_boot_def load_active_for_boot_def g w g4 rc
          Let_def runs_on_def)
  qed (rule runs_on_unlock [OF R])
  then show ?thesis by (auto simp: device_config_load_for_boot_def)
qed

lemma runs_on_restart:
  "reliable P view work \<Longrightarrow> view (env d) = V \<Longrightarrow> runs_on view V None (restart_device P d)"
  by (simp add: runs_on_def restart_ok)

lemma configurations_match_refl: "configurations_match c c"
  by (simp add: configurations_match_def)

lemma word_zero_less: "(0 :: u32) < y \<longleftrightarrow> y \<noteq> 0"
  by (simp add: word_gt_0)

lemma example_config_valid_config: "valid_config (\<lambda>_. 0) example_config"
  by (rule validate_config_storable [OF example_config_layout example_config_valid])

end
