(* ===== verification/Config_Properties.thy ===== *)
theory Config_Properties
  imports Config_Progress
begin

text \<open>
  What the configuration component promises: the state of the flash over any sequence of
  operations, faults and restarts, the rules of activation, the bound on candidate boots, the boot-time
  choice, mutual exclusion during validation, the setup secret and the redacted snapshot.
  The examples run on \<open>ram_platform\<close> with scripted faults.
\<close>

section \<open>Validation and the storage format\<close>

text \<open>
  C8. Validation accepts exactly the configurations of the declarative specification
  \<open>config_spec\<close>; it rejects every other one with an error text, cut to the caller's buffer
  and always terminated in it.
\<close>
theorem validation_decides_the_specification:
  assumes "config_layout c" and "0 < length err"
  shows "if config_spec x509 c
    then device_config_validate x509 (Some c) err (length err) = (ESP_OK, err[0 := NUL])
    else \<exists>message err'. validate_message x509 (Some c) = Some message
       \<and> device_config_validate x509 (Some c) err (length err) = (ESP_ERR_INVALID_ARG, err')
       \<and> length err' = length err \<and> cstr err' = cstr (take (length err - 1) message)"
proof (cases "config_spec x509 c")
  case True
  then have "validate_message x509 (Some c) = None" using validate_message_iff [OF assms(1)] by blast
  then show ?thesis using True assms(2) by (simp add: device_config_validate_def)
next
  case False
  then obtain message where "validate_message x509 (Some c) = Some message"
    using validate_message_iff [OF assms(1), of x509] by (cases "validate_message x509 (Some c)") auto
  then show ?thesis using False assms(2)
    by (simp add: device_config_validate_def validation_error_def cstr_store_s)
qed

theorem validation_decides_the_specification_witness:
  "device_config_validate (\<lambda>_. 0) (Some example_config) (zeros 128) 128 = (ESP_OK, (zeros 128)[0 := NUL])"
  using validation_decides_the_specification [OF example_config_layout, of "zeros 128" "\<lambda>_. 0"]
    example_config_spec by simp

text \<open>
  The broker URI is accepted exactly when it reads \<^verbatim>\<open>mqtts://host:port\<close> with a decimal port
  from 1 to 65535 behind the last colon (behind the closing bracket for a bracketed host),
  and no \<^verbatim>\<open>@\<close> and no blank in it.
\<close>
lemma broker_uri_grammar: "valid_mqtts_uri v \<longleftrightarrow> mqtts_uri_spec (cstr v)"
  by (rule valid_mqtts_uri_iff)

text \<open>
  Contrary to the message of the check, a path is accepted: whatever stands between
  the host and the last colon, if it holds no \<^verbatim>\<open>@\<close> and no blank.
\<close>
lemma broker_uri_path_is_accepted:
  assumes "host \<noteq> []" and "hd host \<noteq> CHR ''[''" and "list_all is_digit port" and "port \<noteq> []"
    and "1 \<le> dec_value port" and "dec_value port \<le> 65535"
    and "\<forall>x \<in> set (host @ path). x \<noteq> NUL \<and> x \<noteq> CHR ''@'' \<and> x \<notin> set uri_whitespace"
  shows "valid_mqtts_uri (''mqtts://'' @ host @ ''/'' @ path @ '':'' @ port @ [NUL])"
proof -
  let ?h = "host @ ''/'' @ path"
  let ?s = "''mqtts://'' @ ?h @ CHR '':'' # port"
  have "NUL \<notin> set port" using assms(3) by (auto simp: list_all_iff)
  then have "NUL \<notin> set ?s" using assms(7) by auto
  then have "cstr (?s @ [NUL]) = ?s" by (subst cstr_append_nul) (rule cstr_id)
  moreover have "mqtts_uri_spec ?s"
    unfolding mqtts_uri_spec_def
  proof (intro exI conjI)
    show "?s = ''mqtts://'' @ ?h @ CHR '':'' # port" ..
    show "uri_host_spec ?h" using assms(1,2) by (simp add: uri_host_spec_def)
    show "CHR ''@'' \<notin> set ?h" using assms(7) by auto
    show "set ?h \<inter> set uri_whitespace = {}" using assms(7) by (auto simp: uri_whitespace_def)
  qed (use assms in simp_all)
  ultimately show ?thesis by (simp add: valid_mqtts_uri_iff)
qed

lemma broker_uri_path_is_accepted_witness:
  "valid_mqtts_uri (''mqtts://broker/evil:8883'' @ [NUL])"
  using broker_uri_path_is_accepted [of "''broker''" "''8883''" "''evil''"]
  by (simp add: is_digit_def dec_value_def digit_val_def less_eq_char_def uri_whitespace_def)

text \<open>
  C9. The decoder accepts exactly the encodings of the storable configurations, and gives
  back what was encoded: no two blobs decode alike, no damaged header, length, flag byte
  or trailing byte is accepted.
\<close>
theorem configuration_blob_round_trip:
  "config_of_blob bs = Some c \<longleftrightarrow> config_storable c \<and> bs = blob_of_config c"
  by (rule config_codec.dec_iff)

text \<open>The same for the metadata, whose rollback reason must be terminated.\<close>
lemma metadata_blob_round_trip:
  "metadata_of_blob bs = Some m \<longleftrightarrow> metadata_storable m \<and> bs = blob_of_metadata m"
  by (rule metadata_codec.dec_iff)

text \<open>
  A decoder that reports an error leaves the caller's structure as it was or all zero,
  never partly filled.
\<close>
lemma failed_decode_leaves_nothing_partial:
  "(fst (device_config_storage_decode_configuration e (Some c0)) = ESP_OK
    \<or> snd (device_config_storage_decode_configuration e (Some c0)) \<in> {Some c0, Some zero_config})
   \<and> (fst (device_config_storage_decode_metadata e (Some m0)) = ESP_OK
    \<or> snd (device_config_storage_decode_metadata e (Some m0)) \<in> {Some m0, Some zero_metadata})"
  by (simp add: device_config_storage_decode_configuration_def device_config_storage_decode_metadata_def
      split: prod.split option.split)

section \<open>Any sequence of operations\<close>

definition run :: "'s platform \<Rightarrow> operation list \<Rightarrow> 's device \<Rightarrow> 's device" where
  "run P ops d = fold (config_step P) ops d"

definition example_ops :: "operation list" where
  "example_ops = [Init, Stage (Some example_config), Power_cycle, Init, Load_for_boot,
     Activate (Some example_config), Setup_secret, Rollback (Some ''x''), Cancel, Power_cycle]"

definition some_faults :: "bool list" where
  "some_faults = replicate 9 False @ [True, False, True]"

lemma fresh_device_good: "good_flash x509 limit (durable (env (fresh_device fs)))"
  by (simp add: fresh_device_def fresh_ram_def good_flash_def good_entry_def good_metadata_def
      good_secret_def stored_metadata_def zero_metadata_def)

lemma example_ops_legal: "list_all legal_operation example_ops"
  by (simp add: example_ops_def example_config_layout)

text \<open>
  C1. Whatever operations run in whatever order, with restarts in between and any calls
  failing at any point, the flash never holds an active or candidate configuration that
  fails validation, metadata that do not decode or count more boot attempts than the
  configured limit, or a setup secret other than 32 hexadecimal digits.
\<close>
theorem flash_stays_valid:
  assumes "nvs_contract P view work" and "list_all legal_operation ops"
    and "good_flash (p_x509 P) (candidate_max_attempts P) (view (env d))"
  shows "good_flash (p_x509 P) (candidate_max_attempts P) (view (env (run P ops d)))"
  using config_system.run_inv [OF assms(2), of P view work d] assms
  by (simp add: config_inv_def run_def)

theorem flash_stays_valid_witness:
  "good_flash (\<lambda>_. 0) 2 (durable (env (run ram_platform example_ops (fresh_device some_faults))))"
  using flash_stays_valid [OF ram_platform_contract example_ops_legal fresh_device_good]
  by simp

section \<open>The active configuration\<close>

definition keeps_active :: "operation \<Rightarrow> bool" where
  "keeps_active oper = (case oper of Activate _ \<Rightarrow> False | Factory_reset \<Rightarrow> False | Recover \<Rightarrow> False | _ \<Rightarrow> True)"

lemma keeps_active_actions:
  "keeps_active oper \<Longrightarrow> Install \<notin> operation_actions oper \<and> Wipe \<notin> operation_actions oper"
  by (cases oper) (simp_all add: keeps_active_def boot_actions_def)

interpretation active_system:
  invariant_system "config_step P" "\<lambda>oper. legal_operation oper \<and> keeps_active oper"
    "\<lambda>d. nvs_contract P view work \<longrightarrow> view (env d) KEY_ACTIVE = v"
proof
  fix oper and d :: "'a device"
  assume l: "legal_operation oper \<and> keeps_active oper"
    and i: "nvs_contract P view work \<longrightarrow> view (env d) KEY_ACTIVE = v"
  show "nvs_contract P view work \<longrightarrow> view (env (config_step P oper d)) KEY_ACTIVE = v"
  proof
    assume C: "nvs_contract P view work"
    have "flash (store_of view (config_step P oper d)) KEY_ACTIVE = flash (store_of view d) KEY_ACTIVE"
      using l keeps_active_actions by (intro active_kept [OF operation_steps [OF C]]) auto
    then show "view (env (config_step P oper d)) KEY_ACTIVE = v" using i C by simp
  qed
qed

text \<open>Without an activation the active configuration can only stay or be erased.\<close>

definition no_activation :: "operation \<Rightarrow> bool" where
  "no_activation oper = (case oper of Activate _ \<Rightarrow> False | _ \<Rightarrow> True)"

lemma active_kept_or_erased:
  assumes "store_steps P L a b" and "Install \<notin> L"
  shows "flash b KEY_ACTIVE \<in> {flash a KEY_ACTIVE, None}"
  using assms(1)
proof (rule store_steps_invariant [where I = "\<lambda>b. flash b KEY_ACTIVE \<in> {flash a KEY_ACTIVE, None}"])
  fix l x y
  assume "l \<in> L" and "store_step (p_x509 P) (candidate_max_attempts P) l x y"
    and "flash x KEY_ACTIVE \<in> {flash a KEY_ACTIVE, None}"
  from this(2,1,3) assms(2) show "flash y KEY_ACTIVE \<in> {flash a KEY_ACTIVE, None}"
    by cases (auto simp: between_def dest!: spec [of _ KEY_ACTIVE])
qed simp

interpretation erasing_system:
  invariant_system "config_step P" "\<lambda>oper. legal_operation oper \<and> no_activation oper"
    "\<lambda>d. nvs_contract P view work \<longrightarrow> view (env d) KEY_ACTIVE \<in> {v, None}"
proof
  fix oper and d :: "'a device"
  assume l: "legal_operation oper \<and> no_activation oper"
    and i: "nvs_contract P view work \<longrightarrow> view (env d) KEY_ACTIVE \<in> {v, None}"
  have "Install \<notin> operation_actions oper" using l by (cases oper) (simp_all add: no_activation_def boot_actions_def)
  then have "flash (store_of view (config_step P oper d)) KEY_ACTIVE \<in> {flash (store_of view d) KEY_ACTIVE, None}"
    if "nvs_contract P view work"
    using l by (intro active_kept_or_erased [OF operation_steps [OF that]]) auto
  then show "nvs_contract P view work \<longrightarrow> view (env (config_step P oper d)) KEY_ACTIVE \<in> {v, None}" using i by auto
qed

text \<open>
  C3. Without an activation the active configuration is never replaced, whichever calls fail:
  over any sequence of the other operations it stays as it is or is erased, and only the factory
  reset and the recovery of unreadable storage can erase it; staging, cancelling, rolling back,
  booting, reading, creating the setup secret and restarting leave it untouched.
\<close>
theorem active_changes_only_on_activation:
  assumes "nvs_contract P view work" and "list_all legal_operation ops" and "list_all no_activation ops"
  shows "view (env (run P ops d)) KEY_ACTIVE \<in> {view (env d) KEY_ACTIVE, None}
    \<and> (list_all keeps_active ops \<longrightarrow> view (env (run P ops d)) KEY_ACTIVE = view (env d) KEY_ACTIVE)"
  using active_system.run_inv [where es = ops and s = d and P = P and view = view and work = work
      and v = "view (env d) KEY_ACTIVE"] assms
    erasing_system.run_inv [where es = ops and s = d and P = P and view = view and work = work
      and v = "view (env d) KEY_ACTIVE"]
  by (simp add: list_all_iff run_def)

theorem active_changes_only_on_activation_witness:
  "durable (env (run ram_platform [Init, Stage (Some example_config), Power_cycle, Init, Load_for_boot,
     Rollback None] (fresh_device some_faults))) KEY_ACTIVE = None"
  using active_changes_only_on_activation [OF ram_platform_contract,
      of "[Init, Stage (Some example_config), Power_cycle, Init, Load_for_boot, Rollback None]"
         "fresh_device some_faults"]
  by (simp add: keeps_active_def no_activation_def example_config_layout) (simp add: fresh_device_def fresh_ram_def)

text \<open>
  C2. An activation leaves the active configuration alone or replaces it, even when a later
  call of it fails, by the stored candidate: one that is being validated by this boot, passes
  validation and equals the configuration the caller verified. When it reports success the
  new configuration is active, the metadata are settled and the candidate is gone.
\<close>
theorem activation_installs_the_verified_candidate:
  assumes "nvs_contract P view work"
    and "device_config_activate_candidate P (Some v) d = (r, d')"
  shows "(view (env d') KEY_ACTIVE = view (env d) KEY_ACTIVE
    \<or> (\<exists>c. candidate_validation_in_progress d \<and> candidate_validation_revision d = revision v
        \<and> stored_config (view (env d)) KEY_CANDIDATE = Some c \<and> valid_config (p_x509 P) c
        \<and> configurations_match c v \<and> view (env d') KEY_ACTIVE = Some (Blob (blob_of_config c))))
    \<and> (r = ESP_OK \<longrightarrow> (\<exists>c. configurations_match c v
        \<and> stored_config (view (env d')) KEY_ACTIVE = Some c
        \<and> stored_config (view (env d)) KEY_CANDIDATE = Some c
        \<and> view (env d') KEY_CANDIDATE = None \<and> \<not> candidate_validation_in_progress d'))"
proof -
  have L: "{Install, Settle, Drop_candidate, Restart} \<subseteq> (UNIV :: store_action set)" by simp
  note sp = activate_spec [OF assms L]
  have changed: "view (env d') KEY_ACTIVE = view (env d) KEY_ACTIVE
    \<or> (\<exists>c. candidate_validation_in_progress d \<and> candidate_validation_revision d = revision v
        \<and> stored_config (view (env d)) KEY_CANDIDATE = Some c \<and> valid_config (p_x509 P) c
        \<and> configurations_match c v \<and> view (env d') KEY_ACTIVE = Some (Blob (blob_of_config c)))"
    using sp by (auto simp: store_of_def split: if_splits)
  have ok: "\<exists>c. configurations_match c v
        \<and> stored_config (view (env d')) KEY_ACTIVE = Some c
        \<and> stored_config (view (env d)) KEY_CANDIDATE = Some c
        \<and> view (env d') KEY_CANDIDATE = None \<and> \<not> candidate_validation_in_progress d'"
    if "r = ESP_OK"
  proof -
    from that sp obtain m c where *: "stored_config (view (env d)) KEY_CANDIDATE = Some c"
      "valid_config (p_x509 P) c" "configurations_match c v"
      "store_of view d' = idle (drop_key KEY_CANDIDATE (put_metadata (settled m)
             (put_config KEY_ACTIVE c (store_of view d))))" by auto
    have "view (env d') = (view (env d))(KEY_ACTIVE \<mapsto> Blob (blob_of_config c),
        KEY_METADATA \<mapsto> Blob (blob_of_metadata (settled m)), KEY_CANDIDATE := None)"
      using arg_cong [OF *(4), of flash] by simp
    moreover have "\<not> candidate_validation_in_progress d'"
      using arg_cong [OF *(4), of validating] by (simp add: store_of_def split: if_splits)
    ultimately show ?thesis using * by (intro exI [of _ c]) (simp add: valid_config_def)
  qed
  show ?thesis using changed ok by blast
qed

theorem activation_installs_the_verified_candidate_witness:
  "let d = run ram_platform [Stage (Some example_config), Power_cycle, Init, Load_for_boot] (fresh_device []);
       d' = snd (device_config_activate_candidate ram_platform (Some example_config) d)
   in durable (env d') KEY_ACTIVE = durable (env d) KEY_ACTIVE
    \<or> (\<exists>c. stored_config (durable (env d)) KEY_CANDIDATE = Some c
        \<and> configurations_match c example_config
        \<and> durable (env d') KEY_ACTIVE = Some (Blob (blob_of_config c)))"
  using activation_installs_the_verified_candidate [OF ram_platform_contract surjective_pairing,
      where v = example_config and
      d = "run ram_platform [Stage (Some example_config), Power_cycle, Init, Load_for_boot] (fresh_device [])"]
  by (auto simp only: Let_def)

section \<open>Candidate boots are bounded\<close>

text \<open>How many of the boots of a run reported that they use the candidate.\<close>

fun candidate_boots :: "'s platform \<Rightarrow> operation list \<Rightarrow> 's device \<Rightarrow> nat" where
  "candidate_boots P [] d = 0"
| "candidate_boots P (oper # ops) d =
     (case (oper, device_config_load_for_boot P (Some blank_out) d) of
        (Load_for_boot, (Some res, ESP_OK, _)) \<Rightarrow> if using_candidate res then 1 else 0
      | _ \<Rightarrow> 0) + candidate_boots P ops (config_step P oper d)"

text \<open>The attempts that the metadata in flash leave to the candidate.\<close>

definition attempts_left :: "u32 \<Rightarrow> (string \<rightharpoonup> nvs_value) \<Rightarrow> nat" where
  "attempts_left limit V =
     (case stored_metadata V of None \<Rightarrow> 0
      | Some m \<Rightarrow> if md_state m = DEVICE_CONFIG_STATE_PENDING then unat limit - unat (boot_attempts m) else 0)"

lemma attempts_left_upd [simp]:
  "key \<noteq> KEY_METADATA \<Longrightarrow> attempts_left limit (V(key := v)) = attempts_left limit V"
  "metadata_storable m \<Longrightarrow> attempts_left limit (V(KEY_METADATA \<mapsto> Blob (blob_of_metadata m))) =
     (if md_state m = DEVICE_CONFIG_STATE_PENDING then unat limit - unat (boot_attempts m) else 0)"
  by (simp_all add: attempts_left_def)

lemma unat_increment: "(x :: u32) < y \<Longrightarrow> unat (x + 1) = unat x + 1"
proof -
  assume "x < y"
  moreover have "unat y < 2 ^ LENGTH(32)" by (rule unsigned_less)
  ultimately have "unat x + 1 < 2 ^ 32" by (simp add: word_less_nat_alt)
  then show ?thesis by (simp add: unat_word_ariths)
qed

lemma attempts_left_step:
  assumes "store_step x509 limit l a b" and "l \<noteq> Stage_metadata"
  shows "attempts_left limit (flash b) \<le> attempts_left limit (flash a)"
  using assms(1)
proof cases
  case (count_boot m)
  then show ?thesis using stored_metadata_storable [OF count_boot(3)]
    by (simp add: attempts_left_def [of limit "flash a"])
next
  case (count_attempt m)
  then show ?thesis using stored_metadata_storable [OF count_attempt(3)]
    by (simp add: attempts_left_def [of limit "flash a"] unat_increment)
next
  case (rollback_metadata m reason)
  then show ?thesis by simp
next
  case (settle_active m c)
  then show ?thesis using stored_metadata_storable [OF settle_active(3)] by (simp add: settled_def)
next
  case (settle_cancel m)
  then show ?thesis using stored_metadata_storable [OF settle_cancel(4)] by (simp add: settled_def)
next
  case (wipe V)
  then have "V KEY_METADATA = flash a KEY_METADATA \<or> V KEY_METADATA = None" by (auto simp: between_def)
  then show ?thesis using wipe
    by (auto simp: attempts_left_def stored_metadata_def zero_metadata_def)
qed (use assms(2) in auto)

lemma attempts_left_steps:
  assumes "store_steps P L a b" and "Stage_metadata \<notin> L"
  shows "attempts_left (candidate_max_attempts P) (flash b) \<le> attempts_left (candidate_max_attempts P) (flash a)"
  using assms(1)
  by (rule store_steps_invariant
      [where I = "\<lambda>b. attempts_left (candidate_max_attempts P) (flash b)
          \<le> attempts_left (candidate_max_attempts P) (flash a)"])
     (use assms(2) attempts_left_step order_trans in blast)+

definition stages_nothing :: "operation \<Rightarrow> bool" where
  "stages_nothing oper = (case oper of Stage _ \<Rightarrow> False | _ \<Rightarrow> True)"

lemma stages_nothing_actions:
  "stages_nothing oper \<Longrightarrow> Stage_metadata \<notin> operation_actions oper \<and> legal_operation oper"
  by (cases oper) (simp_all add: stages_nothing_def boot_actions_def)

text \<open>
  C4. As long as no new candidate is staged, whatever else happens and whatever fails, the
  boots that use the candidate are at most the attempts left, so never more than the
  configured limit; after that every boot uses the active configuration or fails.
\<close>
theorem candidate_boots_bounded:
  assumes C: "nvs_contract P view work" and "list_all stages_nothing ops"
  shows "candidate_boots P ops d \<le> attempts_left (candidate_max_attempts P) (view (env d))"
  using assms(2)
proof (induction ops arbitrary: d)
  case (Cons oper ops)
  let ?left = "\<lambda>d. attempts_left (candidate_max_attempts P) (view (env d))"
  let ?d = "config_step P oper d"
  have oper: "Stage_metadata \<notin> operation_actions oper" "legal_operation oper"
    using Cons.prems stages_nothing_actions by auto
  have rest: "candidate_boots P ops ?d \<le> ?left ?d" using Cons by simp
  have le: "?left ?d \<le> ?left d"
    using attempts_left_steps [OF operation_steps [OF C oper(2)] oper(1)] by simp
  obtain b r d1 where boot: "device_config_load_for_boot P (Some blank_out) d = (b, r, d1)"
    by (cases "device_config_load_for_boot P (Some blank_out) d")
  show ?case
  proof (cases "oper = Load_for_boot \<and> r = ESP_OK \<and> using_candidate (the b)")
    case True
    then have d1: "?d = d1" using boot by simp
    from load_for_boot_spec [OF C boot [unfolded blank_out_def]] True obtain res
      where b: "b = Some res" and bk: "booted P (store_of view d) (store_of view d1) res" by auto
    with True obtain m where m: "stored_metadata (view (env d)) = Some m"
        "md_state m = DEVICE_CONFIG_STATE_PENDING" "boot_attempts m < candidate_max_attempts P"
        "boot_attempts (boot_metadata res) = boot_attempts m + 1"
        "stored_metadata (view (env d1)) = Some (boot_metadata res)"
        "md_state (boot_metadata res) = DEVICE_CONFIG_STATE_PENDING"
      by (auto simp: booted_def)
    have "?left d1 + 1 \<le> ?left d"
      using m by (simp add: attempts_left_def unat_increment word_less_nat_alt)
    then show ?thesis using rest True b by (simp add: boot d1)
  next
    case False
    then have "candidate_boots P (oper # ops) d = candidate_boots P ops ?d"
      using boot by (auto split: operation.splits esp_err.splits option.splits)
    then show ?thesis using rest le by simp
  qed
qed simp

theorem candidate_boots_bounded_witness:
  "candidate_boots ram_platform (concat (replicate 5 [Power_cycle, Init, Load_for_boot]))
     (run ram_platform [Stage (Some example_config)] (fresh_device [])) \<le> 2"
proof -
  have "attempts_left 2 V \<le> 2" for V
    by (simp add: attempts_left_def split: option.splits)
  then show ?thesis
    using candidate_boots_bounded [OF ram_platform_contract,
        of "concat (replicate 5 [Power_cycle, Init, Load_for_boot])"
           "run ram_platform [Stage (Some example_config)] (fresh_device [])"]
    by (simp add: stages_nothing_def numeral_eq_Suc order_trans)
qed

section \<open>What a boot returns\<close>

text \<open>
  A boot that reports success returns a configuration that passes validation: the
  stored candidate, now under validation, its revision the one the metadata announce and
  its attempt already counted in flash; or the active configuration, with no candidate pending. The
  active configuration itself is untouched.
\<close>
lemma boot_configuration_is_valid_and_recorded:
  assumes "nvs_contract P view work"
    and "device_config_load_for_boot P (Some (c0, u0, m0)) d = (Some res, ESP_OK, d')"
  shows "valid_config (p_x509 P) (boot_config res)
    \<and> stored_metadata (view (env d')) = Some (boot_metadata res)
    \<and> view (env d') KEY_ACTIVE = view (env d) KEY_ACTIVE
    \<and> stored_config (view (env d')) (if using_candidate res then KEY_CANDIDATE else KEY_ACTIVE)
        = Some (boot_config res)
    \<and> candidate_validation_in_progress d' = using_candidate res
    \<and> (using_candidate res \<longrightarrow> candidate_validation_revision d' = revision (boot_config res)
        \<and> candidate_revision (boot_metadata res) = revision (boot_config res)
        \<and> 0 < boot_attempts (boot_metadata res)
        \<and> boot_attempts (boot_metadata res) \<le> candidate_max_attempts P)"
proof -
  note sp = load_for_boot_spec [OF assms]
  then have bk: "booted P (store_of view d) (store_of view d') res" by simp
  have "flash (store_of view d') KEY_ACTIVE = flash (store_of view d) KEY_ACTIVE"
    by (rule active_kept [of P boot_actions]) (use sp in \<open>simp_all add: boot_actions_def\<close>)
  moreover have "boot_attempts (boot_metadata res) \<le> candidate_max_attempts P" if "using_candidate res"
    using bk that increment_le by (auto simp: booted_def)
  ultimately show ?thesis using bk by (auto simp: booted_def store_of_def split: if_splits)
qed

definition configured_device :: "ram device" where
  "configured_device = \<lparr>configuration_mutex = True, candidate_validation_in_progress = False,
     candidate_validation_revision = 0,
     env = \<lparr>durable = [KEY_ACTIVE \<mapsto> Blob (blob_of_config example_config)], working = Map.empty, faults = []\<rparr>\<rparr>"

lemma boot_configuration_is_valid_and_recorded_witness:
  "\<exists>res d'. device_config_load_for_boot ideal_platform (Some (zero_config, False, zero_metadata)) configured_device
       = (Some res, ESP_OK, d')
    \<and> valid_config (\<lambda>_. 0) (boot_config res) \<and> candidate_validation_in_progress d' = using_candidate res"
proof -
  have "readable_metadata (durable (env configured_device)) zero_metadata"
    and "configuration_mutex configured_device"
    and "durable (env configured_device) KEY_ACTIVE = Some (Blob (blob_of_config example_config))"
    and "md_state zero_metadata \<noteq> DEVICE_CONFIG_STATE_PENDING"
    by (simp_all add: configured_device_def readable_metadata_def zero_metadata_def)
  then obtain res d' where "device_config_load_for_boot ideal_platform
      (Some (zero_config, False, zero_metadata)) configured_device = (Some res, ESP_OK, d')"
    using boot_active_ok [OF ideal_platform_reliable] example_config_valid_config by fastforce
  then show ?thesis
    using boot_configuration_is_valid_and_recorded [OF ideal_platform_contract] by fastforce
qed

section \<open>From staging to the active configuration\<close>

text \<open>
  C7. When no call fails, a configuration that passes validation can be staged; the next
  boot returns it as the candidate, activating it succeeds, it is then what is loaded as the
  active configuration, and the boot after that returns it with no candidate involved.
\<close>
theorem staged_configuration_becomes_active:
  assumes R: "reliable P view work" and limit: "0 < candidate_max_attempts P"
    and d: "configuration_mutex d" "\<not> candidate_validation_in_progress d"
    and c: "valid_config (p_x509 P) c" and m: "readable_metadata (view (env d)) m"
  shows "\<exists>d1 d2 d3 d4 res2 res4.
      device_config_stage_candidate P (Some c) d = (ESP_OK, d1)
    \<and> device_config_load_for_boot P (Some blank_out) (restart_device P d1) = (Some res2, ESP_OK, d2)
    \<and> using_candidate res2 \<and> boot_config res2 = c
    \<and> device_config_activate_candidate P (Some c) d2 = (ESP_OK, d3)
    \<and> fst (device_config_load_active P (Some zero_config) d3) = (ESP_OK, Some c)
    \<and> device_config_load_for_boot P (Some blank_out) (restart_device P d3) = (Some res4, ESP_OK, d4)
    \<and> \<not> using_candidate res4 \<and> boot_config res4 = c"
proof -
  let ?V = "view (env d)" and ?b = "Blob (blob_of_config c)" and ?m = "\<lambda>m. Blob (blob_of_metadata m)"
  note m' = readable_stored [OF m]
  have d0: "runs_on view ?V None d" using d by (simp add: runs_on_def)
  obtain d1 where s1: "device_config_stage_candidate P (Some c) d = (ESP_OK, d1)"
    and r1: "runs_on view (?V(KEY_CANDIDATE \<mapsto> ?b, KEY_METADATA \<mapsto> ?m (staged c m))) None d1"
    using stage_ok [OF R d0 c m] by blast
  let ?V1 = "?V(KEY_CANDIDATE \<mapsto> ?b, KEY_METADATA \<mapsto> ?m (staged c m))"
  have b1: "runs_on view ?V1 None (restart_device P d1)"
    using runs_on_restart [OF R] r1 by (simp add: runs_on_def)
  have rm1: "readable_metadata ?V1 (staged c m)" using m' by (simp add: readable_metadata_def)
  obtain res2 d2 where s2: "device_config_load_for_boot P (Some blank_out) (restart_device P d1) = (Some res2, ESP_OK, d2)"
      "using_candidate res2" "boot_config res2 = c"
    and r2: "runs_on view (?V1(KEY_METADATA \<mapsto> ?m (tried (staged c m)))) (Some (revision c)) d2"
    using boot_candidate_ok [OF R _ _ rm1, of "restart_device P d1" c zero_config False zero_metadata] b1 c limit
    unfolding blank_out_def by (auto simp: runs_on_def staged_def)
  let ?V2 = "?V1(KEY_METADATA \<mapsto> ?m (tried (staged c m)))"
  have rm2: "readable_metadata ?V2 (tried (staged c m))" using m' by (simp add: readable_metadata_def)
  obtain d3 where s3: "device_config_activate_candidate P (Some c) d2 = (ESP_OK, d3)"
    and r3: "runs_on view (?V2(KEY_ACTIVE \<mapsto> ?b, KEY_METADATA \<mapsto> ?m (settled (tried (staged c m))),
        KEY_CANDIDATE := None)) None d3"
    using activate_ok [OF R r2 rm2 _ _ _ c configurations_match_refl] by (auto simp: tried_def staged_def)
  let ?V3 = "?V2(KEY_ACTIVE \<mapsto> ?b, KEY_METADATA \<mapsto> ?m (settled (tried (staged c m))), KEY_CANDIDATE := None)"
  have a3: "?V3 KEY_ACTIVE = Some ?b" by simp
  have s4: "fst (device_config_load_active P (Some zero_config) d3) = (ESP_OK, Some c)"
    using load_active_ok [OF R r3 a3 c, of zero_config] by auto
  have b3: "runs_on view ?V3 None (restart_device P d3)"
    using runs_on_restart [OF R] r3 by (simp add: runs_on_def)
  have rm3: "readable_metadata ?V3 (settled (tried (staged c m)))" using m' by (simp add: readable_metadata_def)
  have b3': "configuration_mutex (restart_device P d3)" "view (env (restart_device P d3)) = ?V3"
    using b3 by (simp_all add: runs_on_def)
  have "md_state (settled (tried (staged c m))) \<noteq> DEVICE_CONFIG_STATE_PENDING" by (simp add: settled_def)
  from boot_active_ok [OF R b3' rm3 this a3 c, of zero_config False zero_metadata]
  obtain res4 d4 where s5:
      "device_config_load_for_boot P (Some blank_out) (restart_device P d3) = (Some res4, ESP_OK, d4)"
      "\<not> using_candidate res4" "boot_config res4 = c"
    unfolding blank_out_def by fastforce
  show ?thesis using s1 s2 s3 s4 s5 by blast
qed

theorem staged_configuration_becomes_active_witness:
  "\<exists>d1 d2 res2. device_config_stage_candidate ideal_platform (Some example_config) (fresh_device []) = (ESP_OK, d1)
    \<and> device_config_load_for_boot ideal_platform (Some blank_out) (restart_device ideal_platform d1)
        = (Some res2, ESP_OK, d2)
    \<and> boot_config res2 = example_config"
proof -
  have "readable_metadata (durable (env (fresh_device []))) zero_metadata"
    by (simp add: readable_metadata_def fresh_device_def fresh_ram_def)
  moreover have "configuration_mutex (fresh_device [])" "\<not> candidate_validation_in_progress (fresh_device [])"
    by (simp_all add: fresh_device_def)
  ultimately show ?thesis
    using staged_configuration_becomes_active [OF ideal_platform_reliable, of "fresh_device []" example_config zero_metadata]
      example_config_valid_config by auto
qed

text \<open>
  When the attempts are used up and no call fails, the next boot rolls back by itself:
  it returns the active configuration, the candidate is erased, and the metadata say why.
\<close>
lemma exhausted_candidate_rolls_back:
  assumes R: "reliable P view work" and "configuration_mutex d"
    and m: "readable_metadata (view (env d)) m" "md_state m = DEVICE_CONFIG_STATE_PENDING"
      "candidate_max_attempts P \<le> boot_attempts m"
    and c: "view (env d) KEY_ACTIVE = Some (Blob (blob_of_config c))" "valid_config (p_x509 P) c"
  shows "\<exists>res d'. device_config_load_for_boot P (Some blank_out) d = (Some res, ESP_OK, d')
    \<and> \<not> using_candidate res \<and> boot_config res = c
    \<and> view (env d') KEY_CANDIDATE = None
    \<and> stored_metadata (view (env d')) = Some (boot_metadata res)
    \<and> md_state (boot_metadata res) = DEVICE_CONFIG_STATE_ROLLBACK
    \<and> boot_attempts (boot_metadata res) = 0
    \<and> cstr (last_rollback_reason (boot_metadata res)) = ''candidate boot attempt limit reached''"
proof -
  let ?m = "rolled_back ''candidate boot attempt limit reached'' (counted m)"
  have reason: "cstr (last_rollback_reason ?m) = ''candidate boot attempt limit reached''"
    by (simp add: rolled_back_def cstr_store_s) (simp add: cstr_Cons)
  have "metadata_storable ?m" using readable_stored [OF m(1)] by (simp add: rolled_back_storable)
  then show ?thesis
    using boot_exhausted_ok [OF R assms(2) refl m c, of zero_config False zero_metadata] reason
    unfolding blank_out_def by (auto simp: runs_on_def) (simp_all add: rolled_back_def)
qed

definition exhausted_device :: "ram device" where
  "exhausted_device = \<lparr>configuration_mutex = True, candidate_validation_in_progress = False,
     candidate_validation_revision = 0,
     env = \<lparr>durable = [KEY_ACTIVE \<mapsto> Blob (blob_of_config example_config),
              KEY_METADATA \<mapsto> Blob (blob_of_metadata (zero_metadata\<lparr>
                md_state := DEVICE_CONFIG_STATE_PENDING, candidate_revision := 8, boot_attempts := 2\<rparr>))],
            working = Map.empty, faults = []\<rparr>\<rparr>"

lemma exhausted_candidate_rolls_back_witness:
  "\<exists>res d'. device_config_load_for_boot ideal_platform (Some blank_out) exhausted_device = (Some res, ESP_OK, d')
    \<and> boot_config res = example_config \<and> md_state (boot_metadata res) = DEVICE_CONFIG_STATE_ROLLBACK"
proof -
  let ?m = "zero_metadata\<lparr>md_state := DEVICE_CONFIG_STATE_PENDING, candidate_revision := 8, boot_attempts := 2\<rparr>"
  have "readable_metadata (durable (env exhausted_device)) ?m"
    by (simp add: readable_metadata_def exhausted_device_def)
  moreover have "configuration_mutex exhausted_device"
      "durable (env exhausted_device) KEY_ACTIVE = Some (Blob (blob_of_config example_config))"
    by (simp_all add: exhausted_device_def)
  ultimately show ?thesis
    using exhausted_candidate_rolls_back [OF ideal_platform_reliable, of exhausted_device ?m example_config]
      example_config_valid_config by auto
qed

section \<open>One boot, one validation\<close>

text \<open>
  While a candidate is under validation, staging another one or cancelling it is refused
  and changes neither the flash nor the validation.
\<close>
lemma validation_excludes_staging_and_cancelling:
  assumes "nvs_contract P view work" and "candidate_validation_in_progress d"
    and "config_layout c"
    and "device_config_stage_candidate P (Some c) d = (r1, d1)"
    and "device_config_cancel_candidate P d = (r2, d2)"
  shows "r1 \<noteq> ESP_OK \<and> r2 \<noteq> ESP_OK
    \<and> view (env d1) = view (env d) \<and> view (env d2) = view (env d)
    \<and> candidate_validation_in_progress d1 \<and> candidate_validation_in_progress d2
    \<and> candidate_validation_revision d1 = candidate_validation_revision d
    \<and> candidate_validation_revision d2 = candidate_validation_revision d"
proof -
  have v: "validating (store_of view d) = Some (candidate_validation_revision d)"
    using assms(2) by (simp add: store_of_def)
  have "r1 \<noteq> ESP_OK" and s1: "store_of view d1 = store_of view d"
    using stage_spec [OF assms(1,4,3) order_refl] v by auto
  moreover have "r2 \<noteq> ESP_OK" and s2: "store_of view d2 = store_of view d"
    using cancel_spec [OF assms(1,5) order_refl] v by auto
  ultimately show ?thesis
    using assms(2) by (auto simp: store_of_def split: if_splits)
qed

definition validating_device :: "ram device" where
  "validating_device = (fresh_device [])\<lparr>candidate_validation_in_progress := True,
     candidate_validation_revision := 7\<rparr>"

lemma validation_excludes_staging_and_cancelling_witness:
  "let (r1, d1) = device_config_stage_candidate ram_platform (Some example_config) validating_device;
       (r2, d2) = device_config_cancel_candidate ram_platform validating_device
   in r1 \<noteq> ESP_OK \<and> r2 \<noteq> ESP_OK \<and> candidate_validation_revision d2 = 7"
proof -
  have "candidate_validation_in_progress validating_device" "candidate_validation_revision validating_device = 7"
    by (simp_all add: validating_device_def)
  then show ?thesis
    using validation_excludes_staging_and_cancelling [OF ram_platform_contract _ example_config_layout
        surjective_pairing surjective_pairing, of validating_device]
    by (simp add: Let_def case_prod_unfold)
qed

section \<open>Setup secret, factory reset and snapshot\<close>

definition wipes_nothing :: "operation \<Rightarrow> bool" where
  "wipes_nothing oper = (case oper of Factory_reset \<Rightarrow> False | Recover \<Rightarrow> False | _ \<Rightarrow> True)"

lemma wipes_nothing_actions: "wipes_nothing oper \<Longrightarrow> Wipe \<notin> operation_actions oper"
  by (cases oper) (simp_all add: wipes_nothing_def boot_actions_def)

interpretation secret_system:
  invariant_system "config_step P" "\<lambda>oper. legal_operation oper \<and> wipes_nothing oper"
    "\<lambda>d. nvs_contract P view work \<longrightarrow> view (env d) KEY_SETUP = Some (Str t)"
proof
  fix oper and d :: "'a device"
  assume l: "legal_operation oper \<and> wipes_nothing oper"
    and i: "nvs_contract P view work \<longrightarrow> view (env d) KEY_SETUP = Some (Str t)"
  show "nvs_contract P view work \<longrightarrow> view (env (config_step P oper d)) KEY_SETUP = Some (Str t)"
  proof
    assume C: "nvs_contract P view work"
    have "flash (store_of view (config_step P oper d)) KEY_SETUP = Some (Str t)"
      using l i C wipes_nothing_actions
      by (intro secret_kept [OF operation_steps [OF C], of oper d]) auto
    then show "view (env (config_step P oper d)) KEY_SETUP = Some (Str t)" by simp
  qed
qed

text \<open>
  C35. Once a setup secret has been handed out, every later request that succeeds hands out
  the same 32 hexadecimal digits and generates nothing, whatever happens in between short
  of a factory reset or a recovery; a request that fails hands out only zero bytes.
\<close>
theorem setup_secret_is_stable:
  assumes C: "nvs_contract P view work"
    and first: "device_config_get_or_create_setup_secret P (Some out) d = ((ESP_OK, Some (secret, g)), d1)"
    and ops: "list_all legal_operation ops" "list_all wipes_nothing ops"
    and later: "device_config_get_or_create_setup_secret P (Some out') (run P ops d1)
      = ((r, Some (secret', g')), d2)"
  shows "(\<exists>t. usable_secret t \<and> secret = secret_array t)
    \<and> (r = ESP_OK \<longrightarrow> secret' = secret \<and> \<not> g')
    \<and> (r \<noteq> ESP_OK \<longrightarrow> secret' = zeros 33 \<and> \<not> g')"
proof -
  obtain t where t: "usable_secret t" "secret = secret_array t" "view (env d1) KEY_SETUP = Some (Str t)"
    using setup_secret_spec [OF C first] by auto
  have "view (env (run P ops d1)) KEY_SETUP = Some (Str t)"
    using secret_system.run_inv [where es = ops and s = d1 and P = P and view = view and work = work and t = t]
      ops C t(3) by (simp add: list_all_iff run_def)
  note kept = this
  have "view (env d2) KEY_SETUP = Some (Str t)"
  proof -
    have "store_steps P {Create_secret} (store_of view (run P ops d1)) (store_of view d2)"
      using setup_secret_spec [OF C later] by auto
    then show ?thesis using secret_kept [of P "{Create_secret}" "store_of view (run P ops d1)" "store_of view d2" t] kept
      by simp
  qed
  then show ?thesis using setup_secret_spec [OF C later] kept t by (auto split: if_splits)
qed

theorem setup_secret_is_stable_witness:
  "\<exists>out1 d1 out2 d2. device_config_get_or_create_setup_secret ideal_platform (Some (zeros 33, False)) (fresh_device [])
       = ((ESP_OK, Some out1), d1)
    \<and> device_config_get_or_create_setup_secret ideal_platform (Some (zeros 33, False))
        (run ideal_platform [Power_cycle, Init] d1) = ((ESP_OK, Some out2), d2)
    \<and> fst out2 = fst out1 \<and> \<not> snd out2"
proof -
  let ?call = "device_config_get_or_create_setup_secret ideal_platform (Some (zeros 33, False))"
  have first: "fst (fst (?call (fresh_device []))) = ESP_OK"
    and later: "fst (fst (?call (run ideal_platform [Power_cycle, Init] (snd (?call (fresh_device [])))))) = ESP_OK"
    by code_simp+
  obtain s1 g1 d1 where c1: "?call (fresh_device []) = ((ESP_OK, Some (s1, g1)), d1)"
    using first setup_secret_spec [OF ideal_platform_contract, of "(zeros 33, False)" "fresh_device []"]
    by (metis prod.collapse)
  obtain s2 g2 d2 where c2: "?call (run ideal_platform [Power_cycle, Init] d1) = ((ESP_OK, Some (s2, g2)), d2)"
    using later c1 setup_secret_spec [OF ideal_platform_contract, of "(zeros 33, False)"
        "run ideal_platform [Power_cycle, Init] d1"]
    by (metis prod.collapse snd_conv)
  show ?thesis
    using setup_secret_is_stable [OF ideal_platform_contract c1 _ _ c2] c1 c2
    by (simp add: wipes_nothing_def) blast
qed

text \<open>
  A factory reset that reports success leaves the namespace empty and no validation in
  progress; whatever its result, each key is either erased or as it was.
\<close>
lemma factory_reset_clears_everything:
  assumes "nvs_contract P view work" and "device_config_factory_reset P d = (r, d')"
  shows "(\<forall>key. view (env d') key = view (env d) key \<or> view (env d') key = None)
    \<and> (r = ESP_OK \<longrightarrow> view (env d') = Map.empty \<and> \<not> candidate_validation_in_progress d')"
proof -
  note sp = factory_reset_spec [OF assms]
  have "r = ESP_OK \<Longrightarrow> view (env d') = Map.empty \<and> \<not> candidate_validation_in_progress d'"
    using sp by (simp add: store_of_def split: if_splits)
  then show ?thesis using sp by (auto simp: between_def)
qed

lemma factory_reset_clears_everything_witness:
  "durable (env (snd (device_config_factory_reset ram_platform configured_device))) = Map.empty"
proof -
  have "fst (device_config_factory_reset ram_platform configured_device) = ESP_OK"
    by (simp add: device_config_factory_reset_def with_lock_def configuration_lock_def ram_platform_def
        ram_services_def ram_call_def ram_try_def next_fault_def configured_device_def
        open_namespace_def Let_def)
  then show ?thesis
    using factory_reset_clears_everything [OF ram_platform_contract surjective_pairing, of configured_device] by simp
qed

definition with_secrets :: "device_config \<Rightarrow> carray \<Rightarrow> carray \<Rightarrow> carray \<Rightarrow> device_config" where
  "with_secrets c p q r = c\<lparr>wifi_password := p, mqtt_password := q, mqtt_ca_certificate := r\<rparr>"

text \<open>
  The redacted snapshot does not depend on the Wi-Fi password, the broker password or
  the certificate beyond their being set, nor on what the snapshot structure held before;
  its identifiers are those of the configuration.
\<close>
lemma redacted_snapshot_hides_secrets:
  assumes "config_layout c"
    and "length p = 64" "length q = 128" "length r = 4096"
    and "p ! 0 = NUL \<longleftrightarrow> wifi_password c ! 0 = NUL" "q ! 0 = NUL \<longleftrightarrow> mqtt_password c ! 0 = NUL"
      "r ! 0 = NUL \<longleftrightarrow> mqtt_ca_certificate c ! 0 = NUL"
    and "config_strings_terminated c"
  shows "device_config_get_redacted_snapshot (Some (with_secrets c p q r)) (Some s1)
       = device_config_get_redacted_snapshot (Some c) (Some s2)
    \<and> (\<exists>s. device_config_get_redacted_snapshot (Some c) (Some s2) = (ESP_OK, Some s)
         \<and> cstr (red_device_id s) = cstr (device_id c)
         \<and> cstr (red_wifi_ssid s) = cstr (wifi_ssid c)
         \<and> cstr (red_mqtt_broker_uri s) = cstr (mqtt_broker_uri c)
         \<and> cstr (red_mqtt_username s) = cstr (mqtt_username c)
         \<and> cstr (red_mqtt_client_id s) = cstr (mqtt_client_id c)
         \<and> red_revision s = revision c)"
proof -
  have "length (cstr (device_id c)) < 64" "length (cstr (wifi_ssid c)) < 33"
      "length (cstr (mqtt_broker_uri c)) < 256" "length (cstr (mqtt_username c)) < 64"
      "length (cstr (mqtt_client_id c)) < 128"
    using assms(1,8) cstr_terminated_iff
    by (auto simp: config_layout_def config_strings_terminated_def)
  then show ?thesis
    using assms
    by (simp add: device_config_get_redacted_snapshot_def with_secrets_def zero_redacted_def Let_def
        store_s_fits)
qed

lemma redacted_snapshot_hides_secrets_witness:
  "device_config_get_redacted_snapshot (Some (with_secrets example_config (text_array 64 ''another-password'')
       (text_array 128 ''other'') (text_array 4096 ''-----''))) (Some zero_redacted)
   = device_config_get_redacted_snapshot (Some example_config) (Some zero_redacted)"
  using redacted_snapshot_hides_secrets [of example_config "text_array 64 ''another-password''"
      "text_array 128 ''other''" "text_array 4096 ''-----''" zero_redacted zero_redacted] example_config_layout
    example_config_spec
  by (simp add: example_config_def config_spec_def) (simp add: text_array_def)

end
