(* ===== verification/Provisioning_State.thy ===== *)
theory Provisioning_State
  imports Prelude
begin

text \<open>
  The provisioning state machine (\<^verbatim>\<open>provisioning_state.c\<close>): whether the device offers its
  provisioning interface, and when a maintenance window closes. Times are the 64-bit
  milliseconds and 32-bit seconds of the code. The mutex is the flag \<open>mutex_created\<close>; the
  outcome of taking it is the argument \<open>taken\<close> of every operation. A null machine pointer
  is \<open>None\<close>.
\<close>

section \<open>State and operations\<close>

text \<open>\<open>PROVISIONING_OTHER\<close> is any number outside the enumeration.\<close>

datatype provisioning_state =
    PROVISIONING_BOOT
  | PROVISIONING_LOAD_CONFIGURATION
  | PROVISIONING_UNPROVISIONED
  | PROVISIONING_MAINTENANCE_WINDOW
  | PROVISIONING_OPERATIONAL
  | PROVISIONING_ROLLBACK
  | PROVISIONING_OTHER int

record provisioning_state_machine =
  mutex_created :: bool
  pm_state :: provisioning_state
  configured :: bool
  maintenance_enabled :: bool
  authenticated_activity :: bool
  opened_ms :: u64
  last_authenticated_ms :: u64
  inactivity_seconds :: u32
  absolute_seconds :: u32

record provisioning_state_snapshot =
  snap_state :: provisioning_state
  snap_configured :: bool
  snap_maintenance_enabled :: bool
  snap_authenticated_activity :: bool
  snap_opened_ms :: u64
  snap_last_authenticated_ms :: u64
  snap_inactivity_seconds :: u32
  snap_absolute_seconds :: u32

definition state_lock :: "bool \<Rightarrow> provisioning_state_machine \<Rightarrow> bool" where
  "state_lock taken machine \<longleftrightarrow> mutex_created machine \<and> taken"

definition zero_machine :: provisioning_state_machine where
  "zero_machine = \<lparr>mutex_created = False, pm_state = PROVISIONING_BOOT, configured = False,
     maintenance_enabled = False, authenticated_activity = False, opened_ms = 0,
     last_authenticated_ms = 0, inactivity_seconds = 0, absolute_seconds = 0\<rparr>"

definition provisioning_state_init ::
  "bool \<Rightarrow> provisioning_state_machine option \<Rightarrow> provisioning_state_machine option" where
  "provisioning_state_init created machine =
     (case machine of None \<Rightarrow> None
      | Some _ \<Rightarrow> Some (zero_machine\<lparr>mutex_created := created,
                          pm_state := PROVISIONING_LOAD_CONFIGURATION\<rparr>))"

definition provisioning_state_configuration_loaded ::
  "bool \<Rightarrow> bool \<Rightarrow> bool \<Rightarrow> u64 \<Rightarrow> u32 \<Rightarrow> u32 \<Rightarrow> provisioning_state_machine option
     \<Rightarrow> provisioning_state_machine option" where
  "provisioning_state_configuration_loaded taken valid maintenance now_ms inactivity absolute machine =
     (case machine of None \<Rightarrow> None | Some m \<Rightarrow>
      if \<not> state_lock taken m then Some m
      else Some (m\<lparr>configured := valid, maintenance_enabled := maintenance, opened_ms := now_ms,
             last_authenticated_ms := now_ms, inactivity_seconds := inactivity,
             absolute_seconds := absolute,
             pm_state := (if \<not> valid then PROVISIONING_UNPROVISIONED
                          else if maintenance then PROVISIONING_MAINTENANCE_WINDOW
                          else PROVISIONING_OPERATIONAL)\<rparr>))"

definition provisioning_state_authenticated_activity ::
  "bool \<Rightarrow> u64 \<Rightarrow> provisioning_state_machine option \<Rightarrow> provisioning_state_machine option" where
  "provisioning_state_authenticated_activity taken now_ms machine =
     (case machine of None \<Rightarrow> None | Some m \<Rightarrow>
      if \<not> state_lock taken m then Some m
      else if pm_state m = PROVISIONING_MAINTENANCE_WINDOW
        then Some (m\<lparr>authenticated_activity := True, last_authenticated_ms := now_ms\<rparr>)
      else Some m)"

definition elapsed :: "u64 \<Rightarrow> u64 \<Rightarrow> u64" where
  "elapsed now_ms since_ms = (if now_ms \<ge> since_ms then now_ms - since_ms else 0)"

definition provisioning_state_tick ::
  "bool \<Rightarrow> u64 \<Rightarrow> provisioning_state_machine option \<Rightarrow> bool \<times> provisioning_state_machine option" where
  "provisioning_state_tick taken now_ms machine =
     (case machine of None \<Rightarrow> (False, None) | Some m \<Rightarrow>
      if \<not> state_lock taken m then (False, Some m)
      else if pm_state m \<noteq> PROVISIONING_MAINTENANCE_WINDOW then (False, Some m)
      else if elapsed now_ms (last_authenticated_ms m) \<ge> ucast (inactivity_seconds m) * 1000
           \<or> elapsed now_ms (opened_ms m) \<ge> ucast (absolute_seconds m) * 1000
        then (False, Some (m\<lparr>pm_state := PROVISIONING_OPERATIONAL\<rparr>))
      else (True, Some m))"

definition provisioning_state_get_snapshot ::
  "bool \<Rightarrow> provisioning_state_machine option \<Rightarrow> provisioning_state_snapshot option
     \<Rightarrow> bool \<times> provisioning_state_snapshot option" where
  "provisioning_state_get_snapshot taken machine snapshot =
     (case (machine, snapshot) of
        (Some m, Some _) \<Rightarrow>
          if \<not> state_lock taken m then (False, snapshot)
          else (True, Some \<lparr>snap_state = pm_state m, snap_configured = configured m,
                 snap_maintenance_enabled = maintenance_enabled m,
                 snap_authenticated_activity = authenticated_activity m,
                 snap_opened_ms = opened_ms m, snap_last_authenticated_ms = last_authenticated_ms m,
                 snap_inactivity_seconds = inactivity_seconds m,
                 snap_absolute_seconds = absolute_seconds m\<rparr>)
      | _ \<Rightarrow> (False, snapshot))"

fun provisioning_state_name :: "provisioning_state \<Rightarrow> string" where
  "provisioning_state_name PROVISIONING_BOOT = ''boot''"
| "provisioning_state_name PROVISIONING_LOAD_CONFIGURATION = ''load_configuration''"
| "provisioning_state_name PROVISIONING_UNPROVISIONED = ''unprovisioned''"
| "provisioning_state_name PROVISIONING_MAINTENANCE_WINDOW = ''maintenance_window''"
| "provisioning_state_name PROVISIONING_OPERATIONAL = ''operational''"
| "provisioning_state_name PROVISIONING_ROLLBACK = ''rollback''"
| "provisioning_state_name (PROVISIONING_OTHER _) = ''unknown''"

section \<open>The tick in unbounded arithmetic\<close>

lemma unat_elapsed: "unat (elapsed now since) = unat now - unat since"
  by (simp add: elapsed_def unat_sub word_le_nat_alt)

lemma unat_milliseconds: "unat (ucast (s :: u32) * 1000 :: u64) = 1000 * unat s"
proof -
  have s: "unat s < 2 ^ LENGTH(32)" by (rule unsigned_less)
  then have "unat (ucast s :: u64) = unat s" by (simp add: unsigned_ucast_eq take_bit_nat_eq_self)
  then show ?thesis using s by (simp add: unat_word_ariths)
qed

text \<open>The window is over at \<open>now\<close>, by inactivity or by its absolute length.\<close>

definition window_over :: "u64 \<Rightarrow> provisioning_state_machine \<Rightarrow> bool" where
  "window_over now m \<longleftrightarrow>
     1000 * unat (inactivity_seconds m) \<le> unat now - unat (last_authenticated_ms m)
   \<or> 1000 * unat (absolute_seconds m) \<le> unat now - unat (opened_ms m)"

lemma tick_eq:
  "provisioning_state_tick taken now (Some m) =
     (if state_lock taken m \<and> pm_state m = PROVISIONING_MAINTENANCE_WINDOW then
        if window_over now m then (False, Some (m\<lparr>pm_state := PROVISIONING_OPERATIONAL\<rparr>))
        else (True, Some m)
      else (False, Some m))"
  by (simp add: provisioning_state_tick_def window_over_def word_le_nat_alt unat_elapsed
      unat_milliseconds)

section \<open>Events of a running device\<close>

text \<open>After the configuration is loaded: ticks and authenticated requests, in any order.\<close>

datatype window_event = Tick bool u64 | Activity bool u64

fun window_step :: "window_event \<Rightarrow> provisioning_state_machine \<Rightarrow> provisioning_state_machine" where
  "window_step (Tick taken now) m = the (snd (provisioning_state_tick taken now (Some m)))"
| "window_step (Activity taken now) m = the (provisioning_state_authenticated_activity taken now (Some m))"

abbreviation window_run :: "window_event list \<Rightarrow> provisioning_state_machine \<Rightarrow> provisioning_state_machine" where
  "window_run es m \<equiv> fold window_step es m"

text \<open>What no event changes: the mutex, the configuration and the opening of the window.\<close>

definition same_window :: "provisioning_state_machine \<Rightarrow> provisioning_state_machine \<Rightarrow> bool" where
  "same_window m n \<longleftrightarrow> mutex_created n = mutex_created m \<and> configured n = configured m
     \<and> maintenance_enabled n = maintenance_enabled m \<and> opened_ms n = opened_ms m
     \<and> inactivity_seconds n = inactivity_seconds m \<and> absolute_seconds n = absolute_seconds m
     \<and> (pm_state n = pm_state m
        \<or> pm_state m = PROVISIONING_MAINTENANCE_WINDOW \<and> pm_state n = PROVISIONING_OPERATIONAL)"

lemma window_step_same: "same_window n (window_step e n)"
  by (cases e) (auto simp: same_window_def tick_eq provisioning_state_authenticated_activity_def)

lemma same_window_trans: "same_window m n \<Longrightarrow> same_window n k \<Longrightarrow> same_window m k"
  by (auto simp: same_window_def)

interpretation window: invariant_system window_step "\<lambda>_. True" "same_window m"
  by unfold_locales (rule same_window_trans [OF _ window_step_same])

interpretation closed_window:
  absorbing_system window_step "\<lambda>_. True" "same_window m"
    "\<lambda>n :: provisioning_state_machine. pm_state n \<noteq> PROVISIONING_MAINTENANCE_WINDOW"
proof
  fix e and n :: provisioning_state_machine
  assume "pm_state n \<noteq> PROVISIONING_MAINTENANCE_WINDOW"
  with window_step_same [of n e] show "pm_state (window_step e n) \<noteq> PROVISIONING_MAINTENANCE_WINDOW"
    by (simp add: same_window_def)
qed

lemma same_window_refl: "same_window m m"
  by (simp add: same_window_def)

lemma window_run_same: "same_window m (window_run es m)"
  by (rule window.run_inv) (simp_all add: list_all_iff same_window_refl)

text \<open>
  C36. A maintenance window never outlives its absolute length: whatever ticks and
  authenticated requests came before, a tick at or after that time closes it for good,
  and no later event opens it again.
\<close>
theorem window_closes_at_the_absolute_limit:
  assumes "mutex_created m" and "pm_state m = PROVISIONING_MAINTENANCE_WINDOW"
    and "unat (opened_ms m) + 1000 * unat (absolute_seconds m) \<le> unat now"
  shows "fst (provisioning_state_tick True now (Some (window_run before m))) = False
    \<and> pm_state (window_run (before @ Tick True now # after) m) = PROVISIONING_OPERATIONAL"
proof -
  let ?n = "window_run before m"
  have s: "same_window m ?n" by (rule window_run_same)
  then have over: "window_over now ?n"
    using assms(3) by (auto simp: same_window_def window_over_def)
  let ?k = "window_step (Tick True now) ?n"
  have closed: "fst (provisioning_state_tick True now (Some ?n)) = False"
      "pm_state ?k \<noteq> PROVISIONING_MAINTENANCE_WINDOW"
    using over assms(1) s by (auto simp: tick_eq state_lock_def same_window_def)
  have k: "same_window m ?k" by (rule same_window_trans [OF s window_step_same])
  have "pm_state (window_run after ?k) \<noteq> PROVISIONING_MAINTENANCE_WINDOW"
    using closed_window.run_final [of after m ?k] k closed(2) by (simp add: list_all_iff)
  moreover have "same_window m (window_run after ?k)"
    using window.run_inv [of after m ?k] k by (simp add: list_all_iff)
  ultimately show ?thesis using closed(1) assms(2) by (auto simp: same_window_def)
qed

definition example_window :: provisioning_state_machine where
  "example_window = the (provisioning_state_configuration_loaded True True True 5000 300 900
     (provisioning_state_init True (Some zero_machine)))"

lemma example_window_facts:
  "mutex_created example_window" "pm_state example_window = PROVISIONING_MAINTENANCE_WINDOW"
  "opened_ms example_window = 5000" "absolute_seconds example_window = 900"
  "last_authenticated_ms example_window = 5000" "inactivity_seconds example_window = 300"
  by (simp_all add: example_window_def provisioning_state_configuration_loaded_def
      provisioning_state_init_def state_lock_def zero_machine_def)

theorem window_closes_at_the_absolute_limit_witness:
  "pm_state (window_run [Activity True 200000, Tick True 400000, Activity True 690000, Tick True 905000,
     Activity True 905001] example_window) = PROVISIONING_OPERATIONAL"
  using window_closes_at_the_absolute_limit [of example_window 905000
      "[Activity True 200000, Tick True 400000, Activity True 690000]" "[Activity True 905001]"]
  by (simp add: example_window_facts)

text \<open>
  A tick keeps the window open exactly when it is open, the mutex is taken, the last
  authenticated request is less than the inactivity limit ago and the opening less than the
  absolute limit; the time arithmetic of the code never overflows, and a clock that runs
  backwards counts as no time.
\<close>
lemma tick_keeps_the_window_exactly_within_limits:
  "fst (provisioning_state_tick taken now (Some m)) \<longleftrightarrow>
     mutex_created m \<and> taken \<and> pm_state m = PROVISIONING_MAINTENANCE_WINDOW
   \<and> unat now - unat (last_authenticated_ms m) < 1000 * unat (inactivity_seconds m)
   \<and> unat now - unat (opened_ms m) < 1000 * unat (absolute_seconds m)"
  by (auto simp: tick_eq state_lock_def window_over_def)

text \<open>
  An unprovisioned device stays unprovisioned and an operational one operational
  under every tick and request: only loading a configuration changes that.
\<close>
lemma only_a_window_expires:
  "pm_state m \<noteq> PROVISIONING_MAINTENANCE_WINDOW \<longrightarrow> pm_state (window_run es m) = pm_state m"
  using window_run_same [of m es] by (auto simp: same_window_def)

lemma only_a_window_expires_witness:
  "pm_state (window_run [Tick True 10, Activity True 20, Tick False 30]
     (zero_machine\<lparr>mutex_created := True, pm_state := PROVISIONING_UNPROVISIONED\<rparr>)) = PROVISIONING_UNPROVISIONED"
  using only_a_window_expires [of "zero_machine\<lparr>mutex_created := True, pm_state := PROVISIONING_UNPROVISIONED\<rparr>"
      "[Tick True 10, Activity True 20, Tick False 30]"]
  by simp

end
