(* ===== verification/Provisioning_Security.thy ===== *)
theory Provisioning_Security
  imports Config_Model
begin

text \<open>
  The pure checks of \<^verbatim>\<open>provisioning_security.c\<close> (comparison of secrets, request bodies,
  sessions, stream generations) and the life cycle of the log-stream worker. A C string
  argument is an optional list of the characters before its NUL, \<open>None\<close> a null pointer;
  the signed 64-bit times are only compared and are integers here.
\<close>

section \<open>Checks\<close>

text \<open>The byte at an index, 0 behind the end; the differences are collected in 32 bits.\<close>

definition byte_at :: "string \<Rightarrow> nat \<Rightarrow> u32" where
  "byte_at s i = (if i < length s then of_char (s ! i) else 0)"

definition provisioning_security_constant_time_equal :: "string option \<Rightarrow> string option \<Rightarrow> bool" where
  "provisioning_security_constant_time_equal left right =
     (case (left, right) of
        (Some l, Some r) \<Rightarrow>
          (let difference = of_nat (length l) XOR of_nat (length r) :: u32
           in fold (\<lambda>i d. d OR (byte_at l i XOR byte_at r i)) [0..<max (length l) (length r)] difference = 0)
      | _ \<Rightarrow> False)"

definition provisioning_security_json_body_allowed :: "string option \<Rightarrow> nat \<Rightarrow> nat \<Rightarrow> bool" where
  "provisioning_security_json_body_allowed content_type len maximum =
     (case content_type of None \<Rightarrow> False
      | Some t \<Rightarrow> take 16 t = ''application/json''
          \<and> (char_at t 16 = NUL \<or> char_at t 16 = CHR '';'') \<and> len > 0 \<and> len \<le> maximum)"

definition provisioning_security_session_authorized ::
  "string option \<Rightarrow> string option \<Rightarrow> string option \<Rightarrow> string option \<Rightarrow> int \<Rightarrow> int \<Rightarrow> bool \<Rightarrow> bool" where
  "provisioning_security_session_authorized stored_session request_session stored_csrf request_csrf
       expires_ms now_ms modifying =
     (if stored_session = None \<or> char_at (the stored_session) 0 = NUL \<or> request_session = None
         \<or> now_ms \<ge> expires_ms
         \<or> \<not> provisioning_security_constant_time_equal stored_session request_session then False
      else \<not> modifying \<or> (request_csrf \<noteq> None \<and> stored_csrf \<noteq> None
             \<and> provisioning_security_constant_time_equal stored_csrf request_csrf))"

definition provisioning_security_factory_confirmed :: "string option \<Rightarrow> bool" where
  "provisioning_security_factory_confirmed confirmation \<longleftrightarrow>
     confirmation \<noteq> None
     \<and> provisioning_security_constant_time_equal confirmation (Some ''ERASE-DEVICE-CONFIGURATION'')"

definition provisioning_security_stream_session_valid ::
  "u64 \<Rightarrow> u64 \<Rightarrow> int \<Rightarrow> int \<Rightarrow> bool \<Rightarrow> bool \<Rightarrow> bool" where
  "provisioning_security_stream_session_valid stream_generation current_generation expires_ms now_ms
       shutdown service_stop \<longleftrightarrow>
     \<not> shutdown \<and> \<not> service_stop \<and> stream_generation \<noteq> 0
     \<and> stream_generation = current_generation \<and> now_ms < expires_ms"

fun generation_loop :: "u64 \<Rightarrow> string \<Rightarrow> u64 option" where
  "generation_loop parsed [] = Some parsed"
| "generation_loop parsed (c # cs) =
     (if c < CHR ''0'' \<or> c > CHR ''9'' then None
      else let digit = of_char c - 48 in
        if parsed > (- 1 - digit) div 10 then None
        else generation_loop (parsed * 10 + digit) cs)"

text \<open>The value stored through the pointer, \<open>None\<close> when the function returns false.\<close>

definition provisioning_security_parse_stream_generation :: "string option \<Rightarrow> u64 option" where
  "provisioning_security_parse_stream_generation s =
     (case s of None \<Rightarrow> None
      | Some t \<Rightarrow>
          if char_at t 0 = NUL then None
          else (case generation_loop 0 t of None \<Rightarrow> None
                | Some parsed \<Rightarrow> if parsed = 0 then None else Some parsed))"

definition provisioning_security_stream_request_authorized :: "string option \<Rightarrow> u64 \<Rightarrow> int \<Rightarrow> int \<Rightarrow> bool" where
  "provisioning_security_stream_request_authorized requested authenticated_generation expires_ms now_ms \<longleftrightarrow>
     authenticated_generation \<noteq> 0 \<and> now_ms < expires_ms
     \<and> (case provisioning_security_parse_stream_generation requested of
          None \<Rightarrow> False | Some parsed \<Rightarrow> parsed = authenticated_generation)"

section \<open>The comparison is equality\<close>

lemma fold_or_zero:
  "fold (\<lambda>i d. d OR f i) xs (d :: 'a::len word) = 0 \<longleftrightarrow> d = 0 \<and> (\<forall>i \<in> set xs. f i = 0)"
proof (induction xs arbitrary: d)
  case (Cons x xs)
  have "d OR f x = 0 \<longleftrightarrow> d = 0 \<and> f x = 0"
    by (auto simp: bit_eq_iff bit_simps)
  then show ?case using Cons by auto
qed simp

lemma xor_zero: "a XOR b = 0 \<longleftrightarrow> a = (b :: 'a::len word)"
  by (auto simp: bit_eq_iff bit_simps)

lemma of_char_inj: "(of_char a :: u32) = of_char b \<longleftrightarrow> a = b"
  using unat_of_char32 by (metis char_of_char)

lemma constant_time_equal_iff:
  assumes "length l < 2 ^ 32" and "length r < 2 ^ 32"
  shows "provisioning_security_constant_time_equal (Some l) (Some r) \<longleftrightarrow> l = r"
proof -
  have "(of_nat (length l) :: u32) = of_nat (length r) \<longleftrightarrow> length l = length r"
  proof
    assume "(of_nat (length l) :: u32) = of_nat (length r)"
    then have "unat (of_nat (length l) :: u32) = unat (of_nat (length r) :: u32)" by simp
    then show "length l = length r" using assms by (simp add: unat_of_nat)
  qed simp
  then have "provisioning_security_constant_time_equal (Some l) (Some r) \<longleftrightarrow>
      length l = length r \<and> (\<forall>i < max (length l) (length r). byte_at l i = byte_at r i)"
    by (auto simp: provisioning_security_constant_time_equal_def fold_or_zero xor_zero)
  also have "\<dots> \<longleftrightarrow> l = r"
    by (auto simp: list_eq_iff_nth_eq byte_at_def of_char_inj)
  finally show ?thesis .
qed

lemma constant_time_equal_None [simp]:
  "\<not> provisioning_security_constant_time_equal None r"
  "\<not> provisioning_security_constant_time_equal l None"
  by (simp_all add: provisioning_security_constant_time_equal_def split: option.split)

text \<open>C strings that fit the 32-bit address space, as every string of the device does.\<close>

definition fits :: "string option \<Rightarrow> bool" where
  "fits s = (case s of None \<Rightarrow> True | Some t \<Rightarrow> NUL \<notin> set t \<and> length t < 2 ^ 32)"

text \<open>
  A request is let through exactly when the device has a session that has not expired,
  the request names the same session, and, if it modifies something, carries the session's
  CSRF token: the accumulated comparison is equality of the strings.
\<close>
lemma session_authorized_exactly_for_the_session:
  assumes "fits ss" and "fits rs" and "fits sc" and "fits rc"
  shows "provisioning_security_session_authorized ss rs sc rc expires now modifying \<longleftrightarrow>
    (\<exists>s. ss = Some s \<and> rs = Some s \<and> s \<noteq> [] \<and> now < expires
       \<and> (modifying \<longrightarrow> (\<exists>t. sc = Some t \<and> rc = Some t)))"
proof -
  have nul: "char_at s 0 = NUL \<longleftrightarrow> s = []" if "NUL \<notin> set s" for s
    using that by (cases s) (auto simp: char_at_def)
  show ?thesis using assms
    by (cases ss; cases rs; cases sc; cases rc)
       (auto simp: provisioning_security_session_authorized_def fits_def constant_time_equal_iff nul)
qed

lemma session_authorized_exactly_for_the_session_witness:
  "provisioning_security_session_authorized (Some ''s1'') (Some ''s1'') (Some ''tok'') (Some ''tok'') 900 100 True
   \<and> \<not> provisioning_security_session_authorized (Some ''s1'') (Some ''s1'') (Some ''tok'') (Some ''to'') 900 100 True"
  using session_authorized_exactly_for_the_session [of "Some ''s1''" "Some ''s1''" "Some ''tok''" "Some ''tok''" 900 100 True]
    session_authorized_exactly_for_the_session [of "Some ''s1''" "Some ''s1''" "Some ''tok''" "Some ''to''" 900 100 True]
  by (simp add: fits_def)

section \<open>Parsing a generation\<close>

lemma digit_word64: "is_digit c \<Longrightarrow> unat (of_char c - 48 :: u64) = digit_val c"
proof -
  assume c: "is_digit c"
  have "(of_char c :: nat) < 18446744073709551616" using nat_of_char_less_256 [of c] by linarith
  then have "unat (of_nat (of_char c) :: u64) = of_char c" by (simp add: unat_of_nat)
  then have u: "unat (of_char c :: u64) = of_char c" by (simp add: of_nat_of_char)
  then show ?thesis using c
    by (subst unat_sub) (auto simp: word_le_nat_alt is_digit_def less_eq_char_def digit_val_def)
qed

lemma unat_below_max: "unat (- 1 - d :: u64) = 2 ^ 64 - 1 - unat d"
  by (simp add: unat_sub unsigned_minus_1_eq_mask mask_eq_exp_minus_1)

lemma div_10_less: "d \<le> m \<Longrightarrow> (m - d) div 10 < p \<longleftrightarrow> m < 10 * p + d" for m d p :: nat
  by (subst div_less_iff_less_mult) auto

lemma generation_step:
  fixes parsed :: u64
  assumes "is_digit c"
  shows "parsed > (- 1 - (of_char c - 48)) div 10 \<longleftrightarrow> 10 * unat parsed + digit_val c \<ge> 2 ^ 64"
    and "10 * unat parsed + digit_val c < 2 ^ 64 \<Longrightarrow>
         unat (parsed * 10 + (of_char c - 48)) = 10 * unat parsed + digit_val c"
proof -
  let ?d = "of_char c - 48 :: u64"
  have d: "unat ?d = digit_val c" "digit_val c < 10" using assms digit_word64 digit_val_less by auto
  have "unat (- 1 - ?d) = 2 ^ 64 - 1 - digit_val c" unfolding unat_below_max d(1) ..
  then have "unat ((- 1 - ?d) div 10) = (2 ^ 64 - 1 - digit_val c) div 10" unfolding unat_div by simp
  then have "parsed > (- 1 - ?d) div 10 \<longleftrightarrow> (2 ^ 64 - 1 - digit_val c) div 10 < unat parsed"
    by (simp only: word_less_nat_alt)
  also have "\<dots> \<longleftrightarrow> 2 ^ 64 - 1 < 10 * unat parsed + digit_val c"
    by (rule div_10_less) (use d(2) in simp)
  finally show "parsed > (- 1 - ?d) div 10 \<longleftrightarrow> 10 * unat parsed + digit_val c \<ge> 2 ^ 64"
    by auto
  show "10 * unat parsed + digit_val c < 2 ^ 64 \<Longrightarrow>
         unat (parsed * 10 + ?d) = 10 * unat parsed + digit_val c"
    using d by (simp add: unat_word_ariths)
qed

lemma generation_loop_eq:
  "generation_loop parsed s =
     (if list_all is_digit s \<and> dec_from (unat parsed) s < 2 ^ 64
      then Some (of_nat (dec_from (unat parsed) s)) else None)"
proof (induction s arbitrary: parsed)
  case Nil
  have "unat parsed < 2 ^ LENGTH(64)" by (rule unsigned_less)
  then show ?case by simp
next
  case (Cons c cs)
  show ?case
  proof (cases "is_digit c")
    case False
    then show ?thesis by (simp add: is_digit_not)
  next
    case True
    then have nd: "\<not> (c < CHR ''0'' \<or> c > CHR ''9'')" by (simp add: is_digit_not [symmetric])
    let ?n = "10 * unat parsed + digit_val c"
    show ?thesis
    proof (cases "?n < 2 ^ 64")
      case False
      then have "\<not> dec_from ?n cs < 2 ^ 64" using dec_from_ge [of ?n cs] by simp
      then show ?thesis using nd False generation_step(1) [OF True, of parsed] by (simp add: Let_def)
    next
      case small: True
      then show ?thesis using nd True generation_step [OF True, of parsed]
          Cons.IH [of "parsed * 10 + (of_char c - 48)"] by (simp add: Let_def)
    qed
  qed
qed

text \<open>
  A stream generation is read exactly: a non-empty digit string whose value is from 1
  to \<open>2^64 - 1\<close> gives that value, everything else is rejected, no overflow included.
\<close>
lemma stream_generation_is_read_exactly:
  assumes "NUL \<notin> set t"
  shows "provisioning_security_parse_stream_generation (Some t) =
    (if t \<noteq> [] \<and> list_all is_digit t \<and> 1 \<le> dec_value t \<and> dec_value t < 2 ^ 64
     then Some (of_nat (dec_value t)) else None)"
proof -
  have nul: "char_at t 0 = NUL \<longleftrightarrow> t = []"
    using assms by (cases t) (auto simp: char_at_def)
  have zero: "(of_nat n :: u64) = 0 \<longleftrightarrow> n = 0" if "n < 2 ^ 64" for n
  proof
    assume "(of_nat n :: u64) = 0"
    then have "unat (of_nat n :: u64) = 0" by simp
    moreover have "unat (of_nat n :: u64) = n" using that by (simp add: unat_of_nat)
    ultimately show "n = 0" by simp
  qed simp
  show ?thesis
    by (auto simp: provisioning_security_parse_stream_generation_def nul generation_loop_eq
        dec_value_def zero)
qed

lemma stream_generation_is_read_exactly_witness:
  "provisioning_security_parse_stream_generation (Some ''18446744073709551615'') = Some 18446744073709551615
   \<and> provisioning_security_parse_stream_generation (Some ''18446744073709551616'') = None"
proof -
  have digits: "list_all is_digit ''18446744073709551615''" by code_simp
  have max: "dec_value ''18446744073709551615'' = 18446744073709551615"
    by (simp add: dec_value_def digit_val_def)
  have over: "dec_value ''18446744073709551616'' = 18446744073709551616"
    by (simp add: dec_value_def digit_val_def)
  have "provisioning_security_parse_stream_generation (Some ''18446744073709551615'')
      = Some (of_nat 18446744073709551615)"
    by (subst stream_generation_is_read_exactly) (simp_all only: digits max, simp_all)
  moreover have "provisioning_security_parse_stream_generation (Some ''18446744073709551616'') = None"
    by (subst stream_generation_is_read_exactly) (simp_all only: over, simp_all)
  ultimately show ?thesis by simp
qed

end
