(* ===== verification/Stream_Lifecycle.thy ===== *)
theory Stream_Lifecycle
  imports Prelude
begin

text \<open>
  The life cycle of the single log-stream worker of the provisioning server
  (\<^verbatim>\<open>provisioning_security.c\<close>, the \<^verbatim>\<open>provisioning_stream_\<close> and
  \<^verbatim>\<open>provisioning_async_\<close> functions): admission under a fresh generation, the socket,
  shutdown requests, completion, and the condition a stopping service waits for.
  A null pointer is \<open>None\<close>.
\<close>

section \<open>State and operations\<close>

record provisioning_async_lifecycle =
  async_completed :: bool

record provisioning_stream_lifecycle =
  next_worker_generation :: u64
  active_worker_generation :: u64
  completed_worker_generation :: u64
  active_socket :: int
  worker_active :: bool
  shutdown_requested :: bool
  service_stopping :: bool

definition provisioning_async_mark_complete ::
  "provisioning_async_lifecycle option \<Rightarrow> bool \<times> provisioning_async_lifecycle option" where
  "provisioning_async_mark_complete lifecycle =
     (case lifecycle of None \<Rightarrow> (False, None)
      | Some l \<Rightarrow> if async_completed l then (False, Some l)
                  else (True, Some (l\<lparr>async_completed := True\<rparr>)))"

definition empty_lifecycle :: provisioning_stream_lifecycle where
  "empty_lifecycle = \<lparr>next_worker_generation = 0, active_worker_generation = 0,
     completed_worker_generation = 0, active_socket = - 1, worker_active = False,
     shutdown_requested = False, service_stopping = False\<rparr>"

definition provisioning_stream_lifecycle_init ::
  "provisioning_stream_lifecycle option \<Rightarrow> provisioning_stream_lifecycle option" where
  "provisioning_stream_lifecycle_init lifecycle =
     (case lifecycle of None \<Rightarrow> None | Some _ \<Rightarrow> Some empty_lifecycle)"

text \<open>The generation stored through the second pointer is the first component, if any.\<close>

definition provisioning_stream_admit ::
  "provisioning_stream_lifecycle \<Rightarrow> u64 option \<times> provisioning_stream_lifecycle" where
  "provisioning_stream_admit l =
     (if worker_active l \<or> service_stopping l then (None, l)
      else let g = next_worker_generation l + 1; g = (if g = 0 then 1 else g) in
        (Some g, l\<lparr>next_worker_generation := g, active_worker_generation := g,
                   active_socket := - 1, worker_active := True, shutdown_requested := False\<rparr>))"

definition provisioning_stream_attach_socket ::
  "u64 \<Rightarrow> int \<Rightarrow> provisioning_stream_lifecycle \<Rightarrow> bool \<times> provisioning_stream_lifecycle" where
  "provisioning_stream_attach_socket generation socket_fd l =
     (if socket_fd < 0 \<or> \<not> worker_active l \<or> active_worker_generation l \<noteq> generation then (False, l)
      else (\<not> shutdown_requested l \<and> \<not> service_stopping l, l\<lparr>active_socket := socket_fd\<rparr>))"

definition provisioning_stream_worker_current :: "u64 \<Rightarrow> provisioning_stream_lifecycle \<Rightarrow> bool" where
  "provisioning_stream_worker_current generation l \<longleftrightarrow>
     worker_active l \<and> active_worker_generation l = generation
     \<and> \<not> shutdown_requested l \<and> \<not> service_stopping l"

text \<open>The generation to wait for, 0 for none, and the socket to shut down, -1 for none.\<close>

definition provisioning_stream_request_shutdown ::
  "bool \<Rightarrow> provisioning_stream_lifecycle \<Rightarrow> (u64 \<times> int) \<times> provisioning_stream_lifecycle" where
  "provisioning_stream_request_shutdown stopping l =
     (let l = (if stopping then l\<lparr>service_stopping := True\<rparr> else l) in
      if \<not> worker_active l then ((0, - 1), l)
      else ((active_worker_generation l, active_socket l), l\<lparr>shutdown_requested := True\<rparr>))"

definition provisioning_stream_complete ::
  "u64 \<Rightarrow> provisioning_stream_lifecycle \<Rightarrow> bool \<times> provisioning_stream_lifecycle" where
  "provisioning_stream_complete generation l =
     (if \<not> worker_active l \<or> active_worker_generation l \<noteq> generation then (False, l)
      else (True, l\<lparr>completed_worker_generation := generation, active_worker_generation := 0,
                    active_socket := - 1, worker_active := False, shutdown_requested := False\<rparr>))"

definition provisioning_stream_stop_satisfied :: "u64 \<Rightarrow> provisioning_stream_lifecycle \<Rightarrow> bool" where
  "provisioning_stream_stop_satisfied generation l \<longleftrightarrow>
     generation = 0
   \<or> (completed_worker_generation l \<ge> generation
      \<and> (\<not> worker_active l \<or> active_worker_generation l \<noteq> generation))"

section \<open>Histories\<close>

datatype stream_event = Admit | Attach u64 int | Shutdown bool | Complete u64

text \<open>The life cycle with the generations admitted and completed so far.\<close>

record history =
  cycle :: provisioning_stream_lifecycle
  admitted :: "u64 list"
  finished :: "u64 list"

fun stream_step :: "stream_event \<Rightarrow> history \<Rightarrow> history" where
  "stream_step Admit h = (case provisioning_stream_admit (cycle h) of
      (Some g, l) \<Rightarrow> h\<lparr>cycle := l, admitted := admitted h @ [g]\<rparr>
    | (None, l) \<Rightarrow> h\<lparr>cycle := l\<rparr>)"
| "stream_step (Attach g fd) h = h\<lparr>cycle := snd (provisioning_stream_attach_socket g fd (cycle h))\<rparr>"
| "stream_step (Shutdown stopping) h =
     h\<lparr>cycle := snd (provisioning_stream_request_shutdown stopping (cycle h))\<rparr>"
| "stream_step (Complete g) h = (case provisioning_stream_complete g (cycle h) of
      (ok, l) \<Rightarrow> h\<lparr>cycle := l, finished := (if ok then finished h @ [g] else finished h)\<rparr>)"

definition empty_history :: history where
  "empty_history = \<lparr>cycle = empty_lifecycle, admitted = [], finished = []\<rparr>"

definition stream_run :: "stream_event list \<Rightarrow> history" where
  "stream_run es = fold stream_step es empty_history"

text \<open>
  Generations count up from 1 and complete in that order; at most the last one is open.
\<close>

definition generations :: "nat \<Rightarrow> u64 list" where
  "generations n = map of_nat [1..<n + 1]"

definition stream_inv :: "history \<Rightarrow> bool" where
  "stream_inv h \<longleftrightarrow> (let l = cycle h; n = length (admitted h) in
     n < 2 ^ 64 \<longrightarrow>
       admitted h = generations n
     \<and> next_worker_generation l = of_nat n
     \<and> (if worker_active l
        then 0 < n \<and> active_worker_generation l = of_nat n
           \<and> finished h = generations (n - 1) \<and> completed_worker_generation l = of_nat (n - 1)
        else active_worker_generation l = 0 \<and> active_socket l = - 1
           \<and> finished h = generations n \<and> completed_worker_generation l = of_nat n))"

lemma generations_Suc: "generations (Suc n) = generations n @ [of_nat (Suc n)]"
  by (simp add: generations_def)

lemma length_generations [simp]: "length (generations n) = n"
  by (simp add: generations_def)

lemma unat_generation: "n < 2 ^ 64 \<Longrightarrow> unat (of_nat n :: u64) = n"
  by (simp add: unat_of_nat)

lemma generation_nonzero: "0 < n \<Longrightarrow> n < 2 ^ 64 \<Longrightarrow> (of_nat n :: u64) \<noteq> 0"
  using unat_generation [of n] by auto

lemma stream_inv_empty: "stream_inv empty_history"
  by (simp add: stream_inv_def empty_history_def empty_lifecycle_def generations_def)

lemma stream_inv_step:
  assumes inv: "stream_inv h"
  shows "stream_inv (stream_step e h)"
proof (cases e)
  case Admit
  show ?thesis
  proof (cases "worker_active (cycle h) \<or> service_stopping (cycle h)")
    case True
    then show ?thesis using inv Admit by (simp add: provisioning_stream_admit_def)
  next
    case False
    let ?n = "length (admitted h)"
    have "stream_inv (stream_step e h)" if small: "Suc ?n < 2 ^ 64"
    proof -
      have old: "admitted h = generations ?n" "next_worker_generation (cycle h) = of_nat ?n"
          "finished h = generations ?n" "completed_worker_generation (cycle h) = of_nat ?n"
        using inv False small by (simp_all add: stream_inv_def Let_def)
      have g: "next_worker_generation (cycle h) + 1 = of_nat (Suc ?n)" using old by simp
      have nz: "(of_nat (Suc ?n) :: u64) \<noteq> 0"
        by (rule generation_nonzero) (use small in simp_all)
      have step: "stream_step e h = h\<lparr>cycle := (cycle h)\<lparr>next_worker_generation := of_nat (Suc ?n),
          active_worker_generation := of_nat (Suc ?n), active_socket := - 1, worker_active := True,
          shutdown_requested := False\<rparr>, admitted := admitted h @ [of_nat (Suc ?n)]\<rparr>"
        using False by (simp add: Admit provisioning_stream_admit_def Let_def g nz del: of_nat_Suc)
      have "admitted h @ [of_nat (Suc ?n)] = generations (Suc ?n)"
        using old(1) generations_Suc [of ?n] by simp
      then show ?thesis unfolding step stream_inv_def Let_def using old by simp
    qed
    moreover have "length (admitted (stream_step e h)) = Suc ?n"
      using False by (simp add: Admit provisioning_stream_admit_def Let_def)
    ultimately show ?thesis by (auto simp: stream_inv_def Let_def)
  qed
next
  case (Attach g fd)
  then show ?thesis using inv
    by (auto simp: stream_inv_def provisioning_stream_attach_socket_def Let_def)
next
  case (Shutdown stopping)
  then show ?thesis using inv
    by (auto simp: stream_inv_def provisioning_stream_request_shutdown_def Let_def)
next
  case (Complete g)
  show ?thesis
  proof (cases "worker_active (cycle h) \<and> active_worker_generation (cycle h) = g")
    case False
    then show ?thesis using inv by (auto simp: Complete stream_inv_def provisioning_stream_complete_def)
  next
    case True
    let ?n = "length (admitted h)"
    have "stream_inv (stream_step e h)" if small: "?n < 2 ^ 64"
    proof -
      obtain k where k: "?n = Suc k" "g = of_nat (Suc k)" "finished h = generations k"
          "admitted h = generations ?n" "next_worker_generation (cycle h) = of_nat ?n"
        using inv True small by (cases ?n) (auto simp: stream_inv_def Let_def)
      have "finished h @ [g] = generations ?n" using k generations_Suc [of k] by simp
      then show ?thesis using True k by (simp add: Complete stream_inv_def provisioning_stream_complete_def Let_def)
    qed
    moreover have "length (admitted (stream_step e h)) = ?n"
      using True by (simp add: Complete provisioning_stream_complete_def)
    ultimately show ?thesis by (auto simp: stream_inv_def Let_def)
  qed
qed

interpretation stream: invariant_system stream_step "\<lambda>_. True" stream_inv
  by unfold_locales (rule stream_inv_step)

interpretation stopping_stream:
  absorbing_system stream_step "\<lambda>_. True" "\<lambda>_. True"
    "\<lambda>h :: history. service_stopping (cycle h) \<and> admitted h = gs"
proof
  fix e and h :: history
  assume "service_stopping (cycle h) \<and> admitted h = gs"
  then show "service_stopping (cycle (stream_step e h)) \<and> admitted (stream_step e h) = gs"
    by (cases e) (auto simp: provisioning_stream_admit_def provisioning_stream_attach_socket_def
        provisioning_stream_request_shutdown_def provisioning_stream_complete_def Let_def)
qed simp

lemma stream_run_inv: "stream_inv (stream_run es)"
  unfolding stream_run_def by (rule stream.run_inv) (simp_all add: list_all_iff stream_inv_empty)

lemma admitted_le: "length (admitted (stream_run es)) \<le> length es"
proof -
  have "length (admitted (fold stream_step es h)) \<le> length (admitted h) + length es" for h
  proof (induction es arbitrary: h)
    case (Cons e es)
    have "length (admitted (stream_step e h)) \<le> Suc (length (admitted h))"
      by (cases e) (auto simp: provisioning_stream_admit_def provisioning_stream_complete_def Let_def)
    then show ?case using Cons [of "stream_step e h"] by simp
  qed simp
  from this [of empty_history] show ?thesis by (simp add: stream_run_def empty_history_def)
qed

lemma set_generations: "set (generations k) = of_nat ` {1..<k + 1}"
  unfolding generations_def set_map set_upt ..

lemma in_generations: "k < 2 ^ 64 \<Longrightarrow> g \<in> set (generations k) \<longleftrightarrow> 1 \<le> unat g \<and> unat g \<le> k"
proof -
  assume k: "k < 2 ^ 64"
  show ?thesis
  proof
    assume "g \<in> set (generations k)"
    then obtain i where "g = of_nat i" "1 \<le> i" "i \<le> k" by (auto simp: generations_def)
    then show "1 \<le> unat g \<and> unat g \<le> k" using k unat_generation [of i] by simp
  next
    assume "1 \<le> unat g \<and> unat g \<le> k"
    then have "unat g \<in> {1..<k + 1}" by simp
    then have "of_nat (unat g) \<in> (of_nat ` {1..<k + 1} :: u64 set)" by (rule imageI)
    then have "of_nat (unat g) \<in> set (generations k)" unfolding set_generations .
    then show "g \<in> set (generations k)" by simp
  qed
qed

lemma distinct_generations: "n < 2 ^ 64 \<Longrightarrow> distinct (generations n)"
proof -
  assume n: "n < 2 ^ 64"
  have "inj_on (of_nat :: nat \<Rightarrow> u64) (set [1..<n + 1])"
  proof (rule inj_onI)
    fix i j
    assume "i \<in> set [1..<n + 1]" "j \<in> set [1..<n + 1]" "(of_nat i :: u64) = of_nat j"
    then have "unat (of_nat i :: u64) = unat (of_nat j :: u64)" "i < 2 ^ 64" "j < 2 ^ 64" using n by auto
    then show "i = j" by (simp only: unat_generation)
  qed
  then show ?thesis by (simp add: generations_def distinct_map)
qed

text \<open>
  C37. Over any history of fewer than \<open>2^64\<close> events, the generations handed out are distinct
  and not 0, at most one worker is open at a time, and the condition a stopping service waits
  for holds of an admitted generation exactly when that worker has completed; a worker that
  still counts as current has not.
\<close>
theorem stop_waits_for_exactly_that_worker:
  assumes "length es < 2 ^ 64"
  defines "h \<equiv> stream_run es"
  shows "distinct (admitted h) \<and> 0 \<notin> set (admitted h)
    \<and> set (finished h) \<subseteq> set (admitted h) \<and> length (admitted h) \<le> Suc (length (finished h))
    \<and> (\<forall>g \<in> set (admitted h).
          (provisioning_stream_stop_satisfied g (cycle h) \<longleftrightarrow> g \<in> set (finished h))
        \<and> (provisioning_stream_worker_current g (cycle h) \<longrightarrow> g \<notin> set (finished h)))"
proof -
  let ?n = "length (admitted h)"
  have n: "?n < 2 ^ 64" using admitted_le [of es] assms by simp
  have inv: "stream_inv h" unfolding h_def by (rule stream_run_inv)
  have a: "admitted h = generations ?n" using inv n by (simp add: stream_inv_def Let_def)
  have mem: "g \<in> set (admitted h) \<longleftrightarrow> 1 \<le> unat g \<and> unat g \<le> ?n" for g
    by (subst a) (rule in_generations [OF n])
  have zero: "0 \<notin> set (admitted h)" using mem [of 0] by simp
  have dist: "distinct (admitted h)" by (subst a) (rule distinct_generations [OF n])
  show ?thesis
  proof (cases "worker_active (cycle h)")
    case True
    then have f: "0 < ?n" "active_worker_generation (cycle h) = of_nat ?n"
        "finished h = generations (?n - 1)" "completed_worker_generation (cycle h) = of_nat (?n - 1)"
      using inv n by (simp_all add: stream_inv_def Let_def)
    have memf: "g \<in> set (finished h) \<longleftrightarrow> 1 \<le> unat g \<and> unat g \<le> ?n - 1" for g
      unfolding f(3) by (rule in_generations) (use n in simp)
    have u: "unat (of_nat (?n - 1) :: u64) = ?n - 1" "unat (of_nat ?n :: u64) = ?n"
      using n by (simp_all add: unat_generation)
    have "provisioning_stream_stop_satisfied g (cycle h) \<longleftrightarrow> g \<in> set (finished h)"
        "provisioning_stream_worker_current g (cycle h) \<longrightarrow> g \<notin> set (finished h)"
      if "g \<in> set (admitted h)" for g
      using that mem memf True f u
      by (auto simp: provisioning_stream_stop_satisfied_def provisioning_stream_worker_current_def
          word_le_nat_alt)
    moreover have "set (finished h) \<subseteq> set (admitted h)" using mem memf by auto
    moreover have "?n \<le> Suc (length (finished h))" using f by simp
    ultimately show ?thesis using dist zero by blast
  next
    case False
    then have f: "finished h = admitted h" "completed_worker_generation (cycle h) = of_nat ?n"
      using inv n a by (simp_all add: stream_inv_def Let_def)
    have u: "unat (of_nat ?n :: u64) = ?n" using n by (simp add: unat_generation)
    have "provisioning_stream_stop_satisfied g (cycle h)" if "g \<in> set (admitted h)" for g
      using that mem False f u by (simp add: provisioning_stream_stop_satisfied_def word_le_nat_alt)
    then show ?thesis using dist zero f False
      by (simp add: provisioning_stream_worker_current_def)
  qed
qed

theorem stop_waits_for_exactly_that_worker_witness:
  "let h = stream_run [Admit, Attach 1 7, Shutdown False, Complete 1, Admit, Admit] in
     admitted h = [1, 2] \<and> provisioning_stream_stop_satisfied 1 (cycle h)
     \<and> \<not> provisioning_stream_stop_satisfied 2 (cycle h)"
proof -
  let ?es = "[Admit, Attach 1 7, Shutdown False, Complete 1, Admit, Admit]"
  have "admitted (stream_run ?es) = [1, 2]" "finished (stream_run ?es) = [1]"
    by code_simp+
  then show ?thesis
    using stop_waits_for_exactly_that_worker [of ?es] by (simp add: Let_def)
qed

text \<open>
  Once the service is stopping, no worker is admitted any more and none counts as
  current, whatever happens afterwards.
\<close>
lemma stopping_service_admits_no_worker:
  assumes "service_stopping (cycle h)"
  shows "admitted (fold stream_step es h) = admitted h
    \<and> \<not> provisioning_stream_worker_current g (cycle (fold stream_step es h))"
  using stopping_stream.run_final [where es = es and s = h and gs = "admitted h"] assms
  by (simp add: list_all_iff provisioning_stream_worker_current_def)

lemma stopping_service_admits_no_worker_witness:
  "admitted (fold stream_step [Complete 1, Admit, Attach 2 5] (stream_run [Admit, Shutdown True])) = [1]"
proof -
  have "service_stopping (cycle (stream_run [Admit, Shutdown True]))"
    "admitted (stream_run [Admit, Shutdown True]) = [1]" by code_simp+
  then show ?thesis
    using stopping_service_admits_no_worker [of "stream_run [Admit, Shutdown True]" "[Complete 1, Admit, Attach 2 5]"]
    by simp
qed

end
