(* ===== verification/Softap_Endpoint.thy ===== *)
theory Softap_Endpoint
  imports Prelude
begin

text \<open>
  The check that a provisioning request came in over the device's own access point
  (\<^verbatim>\<open>provisioning_softap_endpoint.c\<close>). The sockaddr layout and the sizes of its
  structures belong to the IP stack: an address is a value of \<open>sockaddr\<close>, the sizes are a
  record, and \<^verbatim>\<open>getsockname\<close> is a parameter.
\<close>

datatype sa_family = AF_UNSPEC | AF_INET | AF_INET6 | AF_OTHER int

text \<open>
  The IPv4 address as the 32-bit value of its bytes in memory; the 16 bytes of an IPv6
  address; any other family by its number, 0 being \<open>AF_UNSPEC\<close>.
\<close>

datatype sockaddr = Sockaddr_in u32 | Sockaddr_in6 "byte list" | Sockaddr_other int

fun family_of :: "sockaddr \<Rightarrow> sa_family" where
  "family_of (Sockaddr_in _) = AF_INET"
| "family_of (Sockaddr_in6 _) = AF_INET6"
| "family_of (Sockaddr_other f) = (if f = 0 then AF_UNSPEC else AF_OTHER f)"

record sockaddr_sizes =
  size_family :: nat
  size_in :: nat
  size_in6 :: nat
  size_storage :: nat

datatype provisioning_endpoint_class =
    PROVISIONING_ENDPOINT_IPV4_SOFTAP
  | PROVISIONING_ENDPOINT_IPV4_OTHER
  | PROVISIONING_ENDPOINT_IPV4_MAPPED_SOFTAP
  | PROVISIONING_ENDPOINT_IPV4_MAPPED_OTHER
  | PROVISIONING_ENDPOINT_IPV6_NATIVE
  | PROVISIONING_ENDPOINT_NETIF_UNAVAILABLE
  | PROVISIONING_ENDPOINT_INVALID_SOCKET
  | PROVISIONING_ENDPOINT_GETSOCKNAME_FAILED
  | PROVISIONING_ENDPOINT_TRUNCATED
  | PROVISIONING_ENDPOINT_UNEXPECTED_FAMILY
  | PROVISIONING_ENDPOINT_OTHER int

definition mapped_prefix :: "byte list" where
  "mapped_prefix = [0, 0, 0, 0, 0, 0, 0, 0, 0, 0, 0xff, 0xff]"

definition provisioning_softap_classify_local_endpoint ::
  "sockaddr_sizes \<Rightarrow> sockaddr option \<Rightarrow> nat \<Rightarrow> u32 \<Rightarrow> provisioning_endpoint_class" where
  "provisioning_softap_classify_local_endpoint sz local len softap_ipv4 =
     (case local of None \<Rightarrow> PROVISIONING_ENDPOINT_TRUNCATED | Some a \<Rightarrow>
      if len < size_family sz then PROVISIONING_ENDPOINT_TRUNCATED
      else (case a of
          Sockaddr_in s_addr \<Rightarrow>
            if len < size_in sz then PROVISIONING_ENDPOINT_TRUNCATED
            else if s_addr = softap_ipv4 then PROVISIONING_ENDPOINT_IPV4_SOFTAP
            else PROVISIONING_ENDPOINT_IPV4_OTHER
        | Sockaddr_in6 s6 \<Rightarrow>
            if len < size_in6 sz then PROVISIONING_ENDPOINT_TRUNCATED
            else if take 12 s6 \<noteq> mapped_prefix then PROVISIONING_ENDPOINT_IPV6_NATIVE
            else if of_le32 (drop 12 s6) = softap_ipv4 then PROVISIONING_ENDPOINT_IPV4_MAPPED_SOFTAP
            else PROVISIONING_ENDPOINT_IPV4_MAPPED_OTHER
        | Sockaddr_other _ \<Rightarrow> PROVISIONING_ENDPOINT_UNEXPECTED_FAMILY))"

text \<open>
  \<open>getsockname fd\<close> is the address and its length, \<open>None\<close> when the call fails. The second
  component is what is stored through the family pointer.
\<close>

definition provisioning_softap_authorize_socket ::
  "sockaddr_sizes \<Rightarrow> (int \<Rightarrow> (sockaddr \<times> nat) option) \<Rightarrow> int \<Rightarrow> bool \<Rightarrow> u32 \<Rightarrow> u32
     \<Rightarrow> provisioning_endpoint_class \<times> sa_family" where
  "provisioning_softap_authorize_socket sz getsockname socket_fd softap_ready softap_ipv4 softap_netmask =
     (if \<not> softap_ready \<or> softap_ipv4 = 0 \<or> softap_netmask = 0
        then (PROVISIONING_ENDPOINT_NETIF_UNAVAILABLE, AF_UNSPEC)
      else if socket_fd < 0 then (PROVISIONING_ENDPOINT_INVALID_SOCKET, AF_UNSPEC)
      else (case getsockname socket_fd of
          None \<Rightarrow> (PROVISIONING_ENDPOINT_GETSOCKNAME_FAILED, AF_UNSPEC)
        | Some (local, len) \<Rightarrow>
            (if len > size_storage sz then PROVISIONING_ENDPOINT_TRUNCATED
             else provisioning_softap_classify_local_endpoint sz (Some local) len softap_ipv4,
             if len \<ge> size_family sz then family_of local else AF_UNSPEC)))"

definition provisioning_softap_endpoint_is_authorized :: "provisioning_endpoint_class \<Rightarrow> bool" where
  "provisioning_softap_endpoint_is_authorized c \<longleftrightarrow>
     c = PROVISIONING_ENDPOINT_IPV4_SOFTAP \<or> c = PROVISIONING_ENDPOINT_IPV4_MAPPED_SOFTAP"

fun provisioning_softap_endpoint_class_name :: "provisioning_endpoint_class \<Rightarrow> string" where
  "provisioning_softap_endpoint_class_name PROVISIONING_ENDPOINT_IPV4_SOFTAP = ''ipv4-softap''"
| "provisioning_softap_endpoint_class_name PROVISIONING_ENDPOINT_IPV4_OTHER = ''ipv4-other''"
| "provisioning_softap_endpoint_class_name PROVISIONING_ENDPOINT_IPV4_MAPPED_SOFTAP = ''ipv4-mapped-softap''"
| "provisioning_softap_endpoint_class_name PROVISIONING_ENDPOINT_IPV4_MAPPED_OTHER = ''ipv4-mapped-other''"
| "provisioning_softap_endpoint_class_name PROVISIONING_ENDPOINT_IPV6_NATIVE = ''ipv6-native''"
| "provisioning_softap_endpoint_class_name PROVISIONING_ENDPOINT_NETIF_UNAVAILABLE = ''softap-netif-unavailable''"
| "provisioning_softap_endpoint_class_name PROVISIONING_ENDPOINT_INVALID_SOCKET = ''invalid-socket''"
| "provisioning_softap_endpoint_class_name PROVISIONING_ENDPOINT_GETSOCKNAME_FAILED = ''getsockname-failed''"
| "provisioning_softap_endpoint_class_name PROVISIONING_ENDPOINT_TRUNCATED = ''sockaddr-truncated''"
| "provisioning_softap_endpoint_class_name PROVISIONING_ENDPOINT_UNEXPECTED_FAMILY = ''unexpected-family''"
| "provisioning_softap_endpoint_class_name (PROVISIONING_ENDPOINT_OTHER _) = ''unknown''"

text \<open>The IPv4 address an address stands for: itself, or the one mapped into IPv6.\<close>

definition ipv4_of :: "sockaddr \<Rightarrow> u32 option" where
  "ipv4_of a = (case a of
      Sockaddr_in s \<Rightarrow> Some s
    | Sockaddr_in6 s6 \<Rightarrow> if take 12 s6 = mapped_prefix then Some (of_le32 (drop 12 s6)) else None
    | Sockaddr_other _ \<Rightarrow> None)"

definition full_length :: "sockaddr_sizes \<Rightarrow> sockaddr \<Rightarrow> nat \<Rightarrow> bool" where
  "full_length sz a len \<longleftrightarrow> size_family sz \<le> len \<and> len \<le> size_storage sz
     \<and> (case a of Sockaddr_in _ \<Rightarrow> size_in sz \<le> len | Sockaddr_in6 _ \<Rightarrow> size_in6 sz \<le> len
        | Sockaddr_other _ \<Rightarrow> True)"

text \<open>
  A socket is authorised exactly when the access point is up with an address and a
  netmask, the socket is valid, its local address is known in full length, and that
  address is, directly or mapped into IPv6, the access point's own; a missing interface,
  a failing system call or a short address never lets a request through.
\<close>
lemma socket_authorized_exactly_on_the_access_point:
  "provisioning_softap_endpoint_is_authorized
      (fst (provisioning_softap_authorize_socket sz getsockname fd ready ip netmask)) \<longleftrightarrow>
    ready \<and> ip \<noteq> 0 \<and> netmask \<noteq> 0 \<and> 0 \<le> fd
    \<and> (\<exists>a len. getsockname fd = Some (a, len) \<and> full_length sz a len \<and> ipv4_of a = Some ip)"
  by (auto simp: provisioning_softap_authorize_socket_def provisioning_softap_endpoint_is_authorized_def
      provisioning_softap_classify_local_endpoint_def full_length_def ipv4_of_def
      split: option.splits prod.splits sockaddr.splits if_splits)

text \<open>The name reported for a class identifies it.\<close>
lemma endpoint_names_are_distinct:
  "provisioning_softap_endpoint_class_name c = provisioning_softap_endpoint_class_name d \<longleftrightarrow>
     c = d \<or> ((\<exists>i. c = PROVISIONING_ENDPOINT_OTHER i) \<and> (\<exists>j. d = PROVISIONING_ENDPOINT_OTHER j))"
  by (cases c; cases d; simp)

end
