(* ===== verification/Diagnostic_Ring.thy ===== *)
theory Diagnostic_Ring
  imports Prelude
begin

text \<open>
  The ring of the last 64 log records (\<^verbatim>\<open>diagnostic_ring.c\<close>) and its reader interface:
  \<open>diagnostic_ring_push\<close>, \<open>diagnostic_ring_batch\<close>. The ring refines a list of the
  newest records; a reader that follows the cursor of the batches gets every record that is
  still held, once and in order (locale \<open>log_source\<close>).
\<close>

section \<open>Types and operations\<close>

definition DIAGNOSTIC_LOG_CAPACITY :: nat where [simp]: "DIAGNOSTIC_LOG_CAPACITY = 64"
definition DIAGNOSTIC_LOG_BATCH_CAPACITY :: nat where [simp]: "DIAGNOSTIC_LOG_BATCH_CAPACITY = 8"
definition DIAGNOSTIC_LOG_MESSAGE_MAX :: nat where [simp]: "DIAGNOSTIC_LOG_MESSAGE_MAX = 159"
definition DIAGNOSTIC_LOG_COMPONENT_MAX :: nat where [simp]: "DIAGNOSTIC_LOG_COMPONENT_MAX = 23"

record diagnostic_log_record =
  seq_no :: u64
  relative_ms :: u64
  level :: char
  log_component :: carray
  message :: carray

definition zero_record :: diagnostic_log_record where
  "zero_record = \<lparr>seq_no = 0, relative_ms = 0, level = NUL, log_component = zeros 24, message = zeros 160\<rparr>"

record diagnostic_log_batch =
  batch_records :: "diagnostic_log_record list"
  batch_count :: nat
  cursor :: u64
  first_available_sequence :: u64
  batch_next_sequence :: u64
  batch_overwritten :: u64
  lost_before_cursor :: u64
  has_more :: bool

text \<open>The static variables of the file.\<close>

record diagnostic_ring =
  ring_records :: "diagnostic_log_record list"
  ring_head :: nat
  ring_count :: nat
  next_sequence :: u64
  overwritten :: u64

definition initial_ring :: diagnostic_ring where
  "initial_ring = \<lparr>ring_records = replicate DIAGNOSTIC_LOG_CAPACITY zero_record,
     ring_head = 0, ring_count = 0, next_sequence = 1, overwritten = 0\<rparr>"

definition diagnostic_ring_reset :: "diagnostic_ring \<Rightarrow> diagnostic_ring" where
  "diagnostic_ring_reset r = \<lparr>ring_records = replicate DIAGNOSTIC_LOG_CAPACITY zero_record,
     ring_head = 0, ring_count = 0, next_sequence = 1, overwritten = 0\<rparr>"

text \<open>The caller's record gets its sequence number; it is the first component.\<close>

definition diagnostic_ring_push ::
  "diagnostic_log_record option \<Rightarrow> diagnostic_ring \<Rightarrow> diagnostic_log_record option \<times> diagnostic_ring" where
  "diagnostic_ring_push rec r =
     (case rec of None \<Rightarrow> (None, r)
      | Some x \<Rightarrow>
          let x = x\<lparr>seq_no := next_sequence r\<rparr>;
              r = r\<lparr>next_sequence := next_sequence r + 1,
                    ring_records := (ring_records r)[ring_head r := x],
                    ring_head := (ring_head r + 1) mod DIAGNOSTIC_LOG_CAPACITY\<rparr>
          in (Some x, if ring_count r < DIAGNOSTIC_LOG_CAPACITY then r\<lparr>ring_count := ring_count r + 1\<rparr>
                      else r\<lparr>overwritten := overwritten r + 1\<rparr>))"

text \<open>The loop over the records from the oldest, \<open>n\<close> of them left.\<close>

fun batch_loop :: "diagnostic_ring \<Rightarrow> u64 \<Rightarrow> nat \<Rightarrow> nat \<Rightarrow> nat \<Rightarrow> diagnostic_log_batch \<Rightarrow> diagnostic_log_batch" where
  "batch_loop r after start index 0 b = b"
| "batch_loop r after start index (Suc n) b =
     (let x = ring_records r ! ((start + index) mod DIAGNOSTIC_LOG_CAPACITY) in
      if seq_no x > after then
        if batch_count b = DIAGNOSTIC_LOG_BATCH_CAPACITY then b\<lparr>has_more := True\<rparr>
        else batch_loop r after start (index + 1) n
               (b\<lparr>batch_records := (batch_records b)[batch_count b := x],
                  batch_count := batch_count b + 1, cursor := seq_no x\<rparr>)
      else batch_loop r after start (index + 1) n b)"

definition ring_start :: "diagnostic_ring \<Rightarrow> nat" where
  "ring_start r = (ring_head r + DIAGNOSTIC_LOG_CAPACITY - ring_count r) mod DIAGNOSTIC_LOG_CAPACITY"

definition empty_batch :: diagnostic_log_batch where
  "empty_batch = \<lparr>batch_records = replicate DIAGNOSTIC_LOG_BATCH_CAPACITY zero_record, batch_count = 0,
     cursor = 0, first_available_sequence = 0, batch_next_sequence = 0, batch_overwritten = 0,
     lost_before_cursor = 0, has_more = False\<rparr>"

definition diagnostic_ring_batch :: "diagnostic_ring \<Rightarrow> u64 \<Rightarrow> diagnostic_log_batch" where
  "diagnostic_ring_batch r after =
     (let b = empty_batch\<lparr>cursor := after, batch_next_sequence := next_sequence r,
                batch_overwritten := overwritten r\<rparr>;
          start = ring_start r;
          b = (if ring_count r > 0 then
                 let first = seq_no (ring_records r ! start); b = b\<lparr>first_available_sequence := first\<rparr> in
                 if after \<noteq> - 1 \<and> after + 1 < first
                 then b\<lparr>lost_before_cursor := first - after - 1\<rparr> else b
               else b\<lparr>first_available_sequence := next_sequence r\<rparr>)
      in batch_loop r after start 0 (ring_count r) b)"

section \<open>The ring is a bounded list\<close>

definition ring_list :: "diagnostic_ring \<Rightarrow> diagnostic_log_record list" where
  "ring_list r = map (\<lambda>i. ring_records r ! ((ring_start r + i) mod 64)) [0..<ring_count r]"

definition ring_shape :: "diagnostic_ring \<Rightarrow> bool" where
  "ring_shape r \<longleftrightarrow> length (ring_records r) = 64 \<and> ring_head r < 64 \<and> ring_count r \<le> 64"

lemma reset_shape: "ring_shape (diagnostic_ring_reset r)" "ring_list (diagnostic_ring_reset r) = []"
  by (simp_all add: ring_shape_def diagnostic_ring_reset_def ring_list_def)

lemma push_shape: "ring_shape r \<Longrightarrow> ring_shape (snd (diagnostic_ring_push rec r))"
  by (auto simp: ring_shape_def diagnostic_ring_push_def Let_def split: option.splits)

lemma length_ring_list [simp]: "length (ring_list r) = ring_count r"
  by (simp add: ring_list_def)

lemma ring_index:
  fixes h n i :: nat
  assumes "h < 64" and "n \<le> 64" and "i < n" and "(h + 64 - n + i) mod 64 = h"
  shows "n = 64 \<and> i = 0"
proof (cases "h + 64 - n + i < 64")
  case True
  then have "h + 64 - n + i = h" using assms(4) by simp
  then show ?thesis using assms by linarith
next
  case False
  define k where "k = h + 64 - n + i - 64"
  have "h + 64 - n + i = k + 64" and "k < 64"
    using False assms unfolding k_def by linarith+
  then have "k = h" using assms(4) by simp
  then have "n = i + 64" using False assms unfolding k_def by linarith
  then show ?thesis using assms by linarith
qed

lemma start_plus: "ring_shape r \<Longrightarrow> i < ring_count r \<Longrightarrow> (ring_start r + i) mod 64 \<noteq> ring_head r
    \<or> ring_count r = 64 \<and> i = 0"
  using ring_index [of "ring_head r" "ring_count r" i]
  by (auto simp: ring_start_def ring_shape_def mod_add_left_eq)

lemma ring_nth: "i < ring_count r \<Longrightarrow> ring_list r ! i = ring_records r ! ((ring_start r + i) mod 64)"
  by (simp add: ring_list_def)

lemma start_end: "ring_shape r \<Longrightarrow> (ring_start r + ring_count r) mod 64 = ring_head r"
  by (simp add: ring_shape_def ring_start_def mod_simps)

lemma push_index:
  fixes h n :: nat
  assumes "h < 64" and "n < 64"
  shows "((h + 1) mod 64 + 64 - (n + 1)) mod 64 = (h + 64 - n) mod 64"
proof (cases "h = 63")
  case True
  have "127 - n = (63 - n) + 64" using assms by simp
  then have "(127 - n) mod 64 = (63 - n) mod 64" by (simp only: mod_add_self2)
  then have "(127 - n) mod 64 = 63 - n" by simp
  then show ?thesis using True assms by simp
next
  case False
  then have "(h + 1) mod 64 = h + 1" using assms by simp
  then show ?thesis by (simp add: add.commute)
qed

lemma push_start: "ring_shape r \<Longrightarrow>
    ring_start (snd (diagnostic_ring_push (Some x) r)) =
      (ring_start r + (if ring_count r < 64 then 0 else 1)) mod 64"
  using push_index [of "ring_head r" "ring_count r"]
  by (cases "ring_count r < 64")
    (simp_all add: ring_shape_def ring_start_def diagnostic_ring_push_def Let_def mod_Suc_eq)

text \<open>Pushing appends; a full ring drops its oldest record.\<close>

lemma ring_list_push:
  assumes shape: "ring_shape r"
  shows "ring_list (snd (diagnostic_ring_push (Some x) r)) =
    (if ring_count r < 64 then ring_list r else tl (ring_list r)) @ [x\<lparr>seq_no := next_sequence r\<rparr>]"
proof -
  let ?x = "x\<lparr>seq_no := next_sequence r\<rparr>"
  let ?r = "snd (diagnostic_ring_push (Some x) r)"
  let ?off = "if ring_count r < 64 then 0 else 1 :: nat"
  have recs: "ring_records ?r = (ring_records r)[ring_head r := ?x]"
    and count: "ring_count ?r = (if ring_count r < 64 then ring_count r + 1 else ring_count r)"
    by (auto simp: diagnostic_ring_push_def Let_def)
  have len: "length (ring_records r) = 64" "ring_head r < 64" "ring_count r \<le> 64"
    using shape by (simp_all add: ring_shape_def)
  show ?thesis
  proof (rule nth_equalityI)
    show "length (ring_list ?r) = length ((if ring_count r < 64 then ring_list r else tl (ring_list r)) @ [?x])"
      using len by (auto simp: count)
  next
    fix i assume "i < length (ring_list ?r)"
    then have i: "i < ring_count ?r" by simp
    then have nth: "ring_list ?r ! i =
        (if (ring_start r + (?off + i)) mod 64 = ring_head r then ?x
         else ring_records r ! ((ring_start r + (?off + i)) mod 64))"
      using len by (simp add: ring_nth push_start [OF shape] recs mod_simps nth_list_update add.assoc)
    show "ring_list ?r ! i = ((if ring_count r < 64 then ring_list r else tl (ring_list r)) @ [?x]) ! i"
    proof (cases "?off + i < ring_count r")
      case True
      then have "(ring_start r + (?off + i)) mod 64 \<noteq> ring_head r"
        using start_plus [OF shape True] by (auto split: if_splits)
      then have "ring_list ?r ! i = ring_list r ! (?off + i)"
        using nth True by (simp only: if_False ring_nth)
      then show ?thesis using True by (auto simp: nth_append nth_tl split: if_splits)
    next
      case False
      then have e: "?off + i = ring_count r"
        using i len by (auto simp: count split: if_splits)
      then have "ring_list ?r ! i = ?x"
        using nth start_end [OF shape] by simp
      then show ?thesis using e len by (auto simp: nth_append split: if_splits)
    qed
  qed
qed


section \<open>The ring against the history of all pushed records\<close>

definition numbered :: "diagnostic_log_record list \<Rightarrow> diagnostic_log_record list" where
  "numbered xs = map (\<lambda>i. (xs ! i)\<lparr>seq_no := of_nat (Suc i)\<rparr>) [0..<length xs]"

definition log_all :: "diagnostic_log_record list \<Rightarrow> diagnostic_ring \<Rightarrow> diagnostic_ring" where
  "log_all xs r = fold (\<lambda>x r. snd (diagnostic_ring_push (Some x) r)) xs r"

abbreviation logged :: "diagnostic_log_record list \<Rightarrow> diagnostic_ring \<Rightarrow> diagnostic_ring" where
  "logged xs r \<equiv> log_all xs (diagnostic_ring_reset r)"

lemma length_numbered [simp]: "length (numbered xs) = length xs"
  by (simp add: numbered_def)

lemma numbered_snoc: "numbered (xs @ [x]) = numbered xs @ [x\<lparr>seq_no := of_nat (Suc (length xs))\<rparr>]"
  by (auto simp: numbered_def nth_append intro: nth_equalityI)

lemma nth_numbered: "i < length xs \<Longrightarrow> numbered xs ! i = (xs ! i)\<lparr>seq_no := of_nat (Suc i)\<rparr>"
  by (simp add: numbered_def del: of_nat_Suc)

lemma log_all_snoc: "log_all (xs @ [x]) r = snd (diagnostic_ring_push (Some x) (log_all xs r))"
  by (simp add: log_all_def)

lemma logged_ring:
  "ring_shape (logged xs r) \<and>
   ring_list (logged xs r) = drop (length xs - 64) (numbered xs) \<and>
   ring_count (logged xs r) = min 64 (length xs) \<and>
   next_sequence (logged xs r) = of_nat (Suc (length xs)) \<and>
   overwritten (logged xs r) = of_nat (length xs - 64)"
proof (induction xs rule: rev_induct)
  case Nil
  then show ?case
    by (simp add: log_all_def reset_shape numbered_def) (simp add: diagnostic_ring_reset_def)
next
  case (snoc x xs)
  let ?l = "logged xs r"
  have shape: "ring_shape ?l" using snoc by blast
  have "ring_count (snd (diagnostic_ring_push (Some x) ?l)) = min 64 (length (xs @ [x]))"
    "next_sequence (snd (diagnostic_ring_push (Some x) ?l)) = of_nat (Suc (length (xs @ [x])))"
    "overwritten (snd (diagnostic_ring_push (Some x) ?l)) = of_nat (length (xs @ [x]) - 64)"
    using snoc by (auto simp: diagnostic_ring_push_def Let_def Suc_diff_le)
  moreover have "ring_list (snd (diagnostic_ring_push (Some x) ?l)) =
      drop (length (xs @ [x]) - 64) (numbered (xs @ [x]))"
  proof (cases "length xs < 64")
    case False
    then have "length (xs @ [x]) - 64 = Suc (length xs - 64)" by simp
    then show ?thesis
      using snoc False unfolding ring_list_push [OF shape] numbered_snoc
      by (simp add: tl_drop drop_Suc del: of_nat_Suc)
  qed (use snoc in \<open>simp add: ring_list_push [OF shape] numbered_snoc del: of_nat_Suc\<close>)
  ultimately show ?case using push_shape [OF shape] unfolding log_all_snoc by blast
qed

section \<open>What a batch holds\<close>

fun fill_batch :: "u64 \<Rightarrow> diagnostic_log_record list \<Rightarrow> diagnostic_log_batch \<Rightarrow> diagnostic_log_batch" where
  "fill_batch after [] b = b"
| "fill_batch after (x # xs) b =
     (if seq_no x > after then
        if batch_count b = 8 then b\<lparr>has_more := True\<rparr>
        else fill_batch after xs (b\<lparr>batch_records := (batch_records b)[batch_count b := x],
                 batch_count := batch_count b + 1, cursor := seq_no x\<rparr>)
      else fill_batch after xs b)"

lemma batch_loop_fill:
  "index + n = ring_count r \<Longrightarrow>
   batch_loop r after (ring_start r) index n b = fill_batch after (drop index (ring_list r)) b"
proof (induction n arbitrary: index b)
  case (Suc n)
  then have "drop index (ring_list r) = ring_list r ! index # drop (Suc index) (ring_list r)"
    by (simp add: Cons_nth_drop_Suc)
  moreover have "ring_list r ! index = ring_records r ! ((ring_start r + index) mod 64)"
    using Suc.prems by (simp add: ring_nth)
  ultimately show ?case using Suc by (simp add: Let_def)
qed simp

definition batch_list :: "diagnostic_log_batch \<Rightarrow> diagnostic_log_record list" where
  "batch_list b = take (batch_count b) (batch_records b)"

lemma fill_batch_frame:
  "first_available_sequence (fill_batch after xs b) = first_available_sequence b"
  "batch_next_sequence (fill_batch after xs b) = batch_next_sequence b"
  "batch_overwritten (fill_batch after xs b) = batch_overwritten b"
  "lost_before_cursor (fill_batch after xs b) = lost_before_cursor b"
  by (induction after xs b rule: fill_batch.induct) auto

lemma fill_batch_spec:
  assumes "length (batch_records b) = 8" and "batch_count b \<le> 8" and "\<not> has_more b"
  shows "let pending = filter (\<lambda>x. after < seq_no x) xs; room = 8 - batch_count b; c = fill_batch after xs b in
    batch_list c = batch_list b @ take room pending \<and>
    cursor c = last (cursor b # map seq_no (take room pending)) \<and>
    (has_more c \<longleftrightarrow> room < length pending) \<and> batch_count c \<le> 8"
  using assms
proof (induction after xs b rule: fill_batch.induct)
  case (2 after x xs b)
  show ?case
  proof (cases "after < seq_no x \<and> batch_count b < 8")
    case True
    have "8 - batch_count b = Suc (8 - Suc (batch_count b))" using True by linarith
    then show ?thesis
      using True 2 by (simp add: Let_def batch_list_def take_Suc_conv_app_nth)
  qed (use 2 in \<open>auto simp: Let_def batch_list_def\<close>)
qed (simp add: Let_def)

lemma diagnostic_ring_batch_spec:
  fixes r after
  defines "pending \<equiv> filter (\<lambda>x. after < seq_no x) (ring_list r)"
    and "b \<equiv> diagnostic_ring_batch r after"
  shows "batch_list b = take 8 pending"
    and "cursor b = last (after # map seq_no (take 8 pending))"
    and "has_more b \<longleftrightarrow> 8 < length pending"
    and "batch_next_sequence b = next_sequence r" and "batch_overwritten b = overwritten r"
    and "first_available_sequence b =
      (if ring_list r = [] then next_sequence r else seq_no (hd (ring_list r)))"
    and "lost_before_cursor b =
      (if ring_list r \<noteq> [] \<and> after \<noteq> - 1 \<and> after + 1 < seq_no (hd (ring_list r))
       then seq_no (hd (ring_list r)) - after - 1 else 0)"
proof -
  obtain b0 where b: "b = fill_batch after (ring_list r) b0"
    and b0: "length (batch_records b0) = 8" "batch_count b0 = 0" "\<not> has_more b0" "cursor b0 = after"
      "batch_next_sequence b0 = next_sequence r" "batch_overwritten b0 = overwritten r"
      "first_available_sequence b0 =
        (if ring_count r = 0 then next_sequence r else seq_no (ring_records r ! ring_start r))"
      "lost_before_cursor b0 =
        (if ring_count r \<noteq> 0 \<and> after \<noteq> - 1 \<and> after + 1 < seq_no (ring_records r ! ring_start r)
         then seq_no (ring_records r ! ring_start r) - after - 1 else 0)"
    using batch_loop_fill [of 0 "ring_count r" r after]
    unfolding b_def diagnostic_ring_batch_def Let_def by (auto simp: empty_batch_def)
  note spec = fill_batch_spec [of b0 after "ring_list r", folded b pending_def]
  have empty: "ring_list r = [] \<longleftrightarrow> ring_count r = 0"
    by (metis length_ring_list length_0_conv)
  have head: "ring_count r \<noteq> 0 \<Longrightarrow> hd (ring_list r) = ring_records r ! ring_start r"
    using empty by (simp add: hd_conv_nth ring_nth) (simp add: ring_start_def)
  show "batch_list b = take 8 pending" "cursor b = last (after # map seq_no (take 8 pending))"
    "has_more b \<longleftrightarrow> 8 < length pending"
    using spec b0 by (simp_all add: Let_def batch_list_def)
  show "batch_next_sequence b = next_sequence r" "batch_overwritten b = overwritten r"
    using b0 by (simp_all add: b fill_batch_frame)
  show "first_available_sequence b =
      (if ring_list r = [] then next_sequence r else seq_no (hd (ring_list r)))"
    and "lost_before_cursor b =
      (if ring_list r \<noteq> [] \<and> after \<noteq> - 1 \<and> after + 1 < seq_no (hd (ring_list r))
       then seq_no (hd (ring_list r)) - after - 1 else 0)"
    using b0 head unfolding b fill_batch_frame empty by auto
qed

text \<open>The same over the history: record \<open>i\<close> of the history carries the number \<open>i + 1\<close>.\<close>

definition entry :: "diagnostic_log_record list \<Rightarrow> nat \<Rightarrow> diagnostic_log_record" where
  "entry xs i = (xs ! i)\<lparr>seq_no := of_nat (Suc i)\<rparr>"

lemma seq_no_entry [simp]: "seq_no (entry xs i) = of_nat (Suc i)"
  by (simp add: entry_def del: of_nat_Suc)

lemma numbered_entries: "numbered xs = map (entry xs) [0..<length xs]"
  by (simp add: numbered_def entry_def)

lemma entry_append: "i < length xs \<Longrightarrow> entry (xs @ ys) i = entry xs i"
  by (simp add: entry_def nth_append)

lemma unat_u64: "n < 18446744073709551616 \<Longrightarrow> unat (of_nat n :: u64) = n"
  by (simp add: unat_of_nat take_bit_nat_eq_self)

lemma filter_from: "filter (\<lambda>i. a \<le> i) [m..<n] = [max a m..<n]"
  by (induction n) (auto simp: max_def)

lemma take_upt_min: "take k [m..<n] = [m..<min (m + k) n]"
  by (cases "m + k \<le> n") (auto simp: min_def)

lemma history_batch:
  fixes xs :: "diagnostic_log_record list" and a :: nat and r :: diagnostic_ring
  defines "h \<equiv> length xs - 64" and "b \<equiv> diagnostic_ring_batch (logged xs r) (of_nat a)"
  assumes small: "length xs < 18446744073709551615" and a: "a \<le> length xs"
  shows "batch_list b = map (entry xs) [max a h..<min (max a h + 8) (length xs)]"
    and "unat (cursor b) = min (max a h + 8) (length xs)"
    and "unat (lost_before_cursor b) = h - a"
    and "has_more b \<longleftrightarrow> max a h + 8 < length xs"
proof -
  have ring: "ring_list (logged xs r) = map (entry xs) [h..<length xs]"
    using logged_ring [of xs r] by (simp add: numbered_entries h_def drop_map)
  have wa: "unat (of_nat a :: u64) = a" using small a by (simp add: unat_u64)
  have wi: "i < length xs \<Longrightarrow> unat (of_nat (Suc i) :: u64) = Suc i" for i
    using small by (intro unat_u64) simp
  have "filter (\<lambda>x. of_nat a < seq_no x) (map (entry xs) [h..<length xs]) =
      map (entry xs) (filter (\<lambda>i. a \<le> i) [h..<length xs])"
    unfolding filter_map comp_def
    by (intro arg_cong [where f = "map (entry xs)"] filter_cong) (auto simp: word_less_nat_alt wa wi simp del: of_nat_Suc)
  then have pending: "filter (\<lambda>x. of_nat a < seq_no x) (ring_list (logged xs r)) =
      map (entry xs) [max a h..<length xs]"
    by (simp add: ring filter_from)
  have taken: "take 8 (map (entry xs) [max a h..<length xs]) =
      map (entry xs) [max a h..<min (max a h + 8) (length xs)]"
    by (simp add: take_map take_upt_min)
  note spec = diagnostic_ring_batch_spec [of "logged xs r" "of_nat a", folded b_def, unfolded pending taken]
  show "batch_list b = map (entry xs) [max a h..<min (max a h + 8) (length xs)]"
    by (rule spec)
  show "has_more b \<longleftrightarrow> max a h + 8 < length xs"
    using spec(3) by auto
  show "unat (cursor b) = min (max a h + 8) (length xs)"
  proof (cases "max a h < length xs")
    case True
    define e where "e = min (max a h + 8) (length xs) - 1"
    have e: "min (max a h + 8) (length xs) = Suc e" "max a h \<le> e" "e < length xs"
      using True unfolding e_def by linarith+
    then show ?thesis using spec(2) wi [of e] by (simp add: e del: of_nat_Suc)
  next
    case False
    then have "max a h = length xs" using a by (auto simp: h_def)
    then show ?thesis using spec(2) wa False a by (simp add: h_def max_def split: if_splits)
  qed
  show "unat (lost_before_cursor b) = h - a"
  proof (cases "a < h")
    case True
    then have ne: "h < length xs" by (simp add: h_def)
    then have hd: "ring_list (logged xs r) \<noteq> []" "hd (ring_list (logged xs r)) = entry xs h"
      by (simp_all add: ring upt_conv_Cons)
    have "unat (of_nat a + 1 :: u64) = Suc a" and max: "(of_nat a :: u64) \<noteq> - 1"
      using wi [of a] True ne wa small by (auto simp: add.commute)
    then have "of_nat a + 1 < (of_nat (Suc h) :: u64)"
      using True wi [OF ne] by (simp add: word_less_nat_alt del: of_nat_Suc)
    then have "lost_before_cursor b = of_nat (Suc h) - of_nat a - 1"
      using spec(7) hd max by (simp del: of_nat_Suc)
    also have "\<dots> = of_nat (h - a)" using True by simp
    finally show ?thesis using ne small by (simp add: unat_u64)
  next
    case False
    have "lost_before_cursor b = 0"
    proof (cases "ring_list (logged xs r) \<noteq> [] \<and> (of_nat a :: u64) \<noteq> - 1")
      case True
      then have ne: "h < length xs" by (auto simp: ring)
      have "unat (of_nat a + 1 :: u64) = Suc a"
        using small a by (simp add: unat_u64 flip: of_nat_Suc add: add.commute)
      then have "\<not> of_nat a + 1 < (of_nat (Suc h) :: u64)"
        using False wi [OF ne] by (simp add: word_less_nat_alt del: of_nat_Suc)
      then show ?thesis using spec(7) ne by (simp add: ring upt_conv_Cons del: of_nat_Suc)
    qed (use spec(7) in auto)
    then show ?thesis using False by simp
  qed
qed

end
