(* ===== verification/Diagnostic_Reader.thy ===== *)
theory Diagnostic_Reader
  imports Diagnostic_Ring
begin

text \<open>
  A reader that follows the log: it asks for the batch after its cursor and moves the
  cursor to the batch's, as the log stream of the provisioning service does. The locale
  \<open>log_source\<close> states what such a reader needs of the log; it is interpreted on the ring of
  \<^verbatim>\<open>diagnostic_ring.c\<close>.
\<close>

section \<open>Readers of a log that forgets\<close>

text \<open>
  \<open>read xs a\<close> is the answer, after the history \<open>xs\<close>, to a reader that has seen everything up
  to record \<open>a\<close>: the records, the new cursor, how many records are gone, whether more wait.
\<close>

datatype 'x log_event = Logged 'x | Polled

record ('x, 'r) log_reader =
  history :: "'x list"
  reader_cursor :: nat
  delivered :: "'r list"
  lost :: nat

fun log_read :: "('x list \<Rightarrow> nat \<Rightarrow> 'r list \<times> nat \<times> nat \<times> bool) \<Rightarrow> 'x log_event \<Rightarrow>
    ('x, 'r) log_reader \<Rightarrow> ('x, 'r) log_reader" where
  "log_read read (Logged x) s = s\<lparr>history := history s @ [x]\<rparr>"
| "log_read read Polled s =
     (let (rs, c, l, more) = read (history s) (reader_cursor s) in
      s\<lparr>reader_cursor := c, delivered := delivered s @ rs, lost := lost s + l\<rparr>)"

locale log_source =
  fixes read :: "'x list \<Rightarrow> nat \<Rightarrow> 'r list \<times> nat \<times> nat \<times> bool"
    and record_at :: "'x list \<Rightarrow> nat \<Rightarrow> 'r"
    and capacity :: nat and page :: nat and limit :: nat
  assumes stable: "i < length xs \<Longrightarrow> record_at (xs @ ys) i = record_at xs i"
    and read: "\<lbrakk>length xs < limit; a \<le> length xs\<rbrakk> \<Longrightarrow>
      read xs a =
        (let first = max a (length xs - capacity); c = min (first + page) (length xs) in
         (map (record_at xs) [first..<c], c, first - a, first + page < length xs))"
begin

text \<open>The delivered records are pairwise different records of the history, in its order.\<close>

definition sound :: "('x, 'r) log_reader \<Rightarrow> bool" where
  "sound s \<longleftrightarrow> reader_cursor s \<le> length (history s) \<and>
     length (delivered s) + lost s = reader_cursor s \<and>
     (\<exists>is. delivered s = map (record_at (history s)) is \<and> sorted_wrt (<) is \<and>
        (\<forall>i\<in>set is. i < reader_cursor s))"

lemma sound_start: "sound \<lparr>history = [], reader_cursor = 0, delivered = [], lost = 0\<rparr>"
  by (auto simp: sound_def intro: exI [where x = "[]"])

lemma sound_logged: "sound s \<Longrightarrow> sound (log_read read (Logged x) s)"
proof -
  assume s: "sound s"
  then obtain "is" where i: "delivered s = map (record_at (history s)) is" "sorted_wrt (<) is"
      "\<forall>i\<in>set is. i < reader_cursor s" and c: "reader_cursor s \<le> length (history s)"
      and acc: "length (delivered s) + lost s = reader_cursor s"
    unfolding sound_def by blast
  have "map (record_at (history s @ [x])) is = map (record_at (history s)) is"
    using i c by (intro map_cong refl stable) auto
  then show ?thesis using i c acc unfolding sound_def by (auto intro!: exI [where x = "is"])
qed

lemma sound_polled: "sound s \<Longrightarrow> length (history s) < limit \<Longrightarrow> sound (log_read read Polled s)"
proof -
  assume s: "sound s" and small: "length (history s) < limit"
  then obtain "is" where i: "delivered s = map (record_at (history s)) is" "sorted_wrt (<) is"
      "\<forall>i\<in>set is. i < reader_cursor s" and c: "reader_cursor s \<le> length (history s)"
      and acc: "length (delivered s) + lost s = reader_cursor s"
    unfolding sound_def by blast
  define f where "f = max (reader_cursor s) (length (history s) - capacity)"
  define e where "e = min (f + page) (length (history s))"
  have bounds: "reader_cursor s \<le> f" "f \<le> length (history s)" "f \<le> e" "e \<le> length (history s)"
    using c by (auto simp: f_def e_def)
  have step: "log_read read Polled s = s\<lparr>reader_cursor := e,
      delivered := delivered s @ map (record_at (history s)) [f..<e], lost := lost s + (f - reader_cursor s)\<rparr>"
    using read [OF small c] by (simp add: Let_def f_def e_def)
  have "sorted_wrt (<) (is @ [f..<e])"
    using i(2,3) bounds by (auto simp: sorted_wrt_append)
  moreover have "\<forall>i\<in>set (is @ [f..<e]). i < e"
    using i(3) bounds by (auto dest!: bspec)
  ultimately show ?thesis
    using i bounds acc unfolding step sound_def by (auto intro!: exI [where x = "is @ [f..<e]"])
qed

lemma log_read_history: "length (history (fold (log_read read) es s)) \<le> length (history s) + length es"
proof (induction es arbitrary: s)
  case (Cons e es)
  have "length (history (log_read read e s)) \<le> Suc (length (history s))"
    by (cases e) (auto simp: split_beta Let_def)
  then show ?case using Cons.IH [of "log_read read e s"] by simp
qed simp

lemma sound_run: "sound s \<Longrightarrow> length (history s) + length es < limit \<Longrightarrow> sound (fold (log_read read) es s)"
proof (induction es arbitrary: s)
  case (Cons e es)
  have "length (history (log_read read e s)) \<le> Suc (length (history s))"
    by (cases e) (auto simp: split_beta Let_def)
  moreover have "sound (log_read read e s)"
    using Cons.prems by (cases e) (simp_all add: sound_logged sound_polled del: log_read.simps)
  ultimately show ?case using Cons by simp
qed simp

text \<open>Without new records, enough polls reach the end of the history.\<close>

lemma polls_history: "history ((log_read read Polled ^^ n) s) = history s"
  by (induction n) (simp_all add: split_beta Let_def)

lemma polls_catch_up:
  assumes "reader_cursor s \<le> length (history s)" and "length (history s) < limit"
  defines "seen \<equiv> \<lambda>n. reader_cursor ((log_read read Polled ^^ n) s)"
  shows "seen n \<le> length (history s) \<and> length (history s) \<le> seen n + (capacity - n * page) \<or> n = 0"
proof (induction n)
  case (Suc n)
  let ?t = "(log_read read Polled ^^ n) s"
  have run: "seen (Suc n) = reader_cursor (log_read read Polled ?t)" by (simp add: seen_def)
  have t: "reader_cursor ?t \<le> length (history ?t)" "length (history ?t) < limit"
    using Suc assms(1,2) by (auto simp: polls_history seen_def)
  have step: "seen (Suc n) =
      min (max (seen n) (length (history s) - capacity) + page) (length (history s))"
    unfolding run using read [OF t(2,1)] by (simp add: Let_def polls_history seen_def)
  show ?case
  proof (cases "n = 0")
    case True
    then show ?thesis unfolding step by auto
  next
    case False
    then show ?thesis using Suc unfolding step by auto
  qed
qed simp

end

section \<open>The ring as a log source\<close>

definition ring_read :: "diagnostic_log_record list \<Rightarrow> nat \<Rightarrow> diagnostic_log_record list \<times> nat \<times> nat \<times> bool" where
  "ring_read xs a =
     (let b = diagnostic_ring_batch (log_all xs initial_ring) (of_nat a) in
      (batch_list b, unat (cursor b), unat (lost_before_cursor b), has_more b))"

lemma reset_initial: "diagnostic_ring_reset r = initial_ring"
  by (simp add: diagnostic_ring_reset_def initial_ring_def)

lemmas initial_batch = history_batch [unfolded reset_initial]

interpretation ring_source: log_source ring_read entry 64 8 18446744073709551615
  by unfold_locales (simp_all add: entry_append ring_read_def initial_batch Let_def)

text \<open>The reader on the code's own state: the ring, the cursor of the last batch.\<close>

record log_monitor =
  mon_ring :: diagnostic_ring
  mon_cursor :: u64
  mon_delivered :: "diagnostic_log_record list"
  mon_lost :: nat

fun monitor :: "diagnostic_log_record log_event \<Rightarrow> log_monitor \<Rightarrow> log_monitor" where
  "monitor (Logged x) m = m\<lparr>mon_ring := snd (diagnostic_ring_push (Some x) (mon_ring m))\<rparr>"
| "monitor Polled m =
     (let b = diagnostic_ring_batch (mon_ring m) (mon_cursor m) in
      m\<lparr>mon_cursor := cursor b, mon_delivered := mon_delivered m @ batch_list b,
        mon_lost := mon_lost m + unat (lost_before_cursor b)\<rparr>)"

definition new_monitor :: "diagnostic_ring \<Rightarrow> log_monitor" where
  "new_monitor r = \<lparr>mon_ring = diagnostic_ring_reset r, mon_cursor = 0, mon_delivered = [], mon_lost = 0\<rparr>"

fun pushed :: "'x log_event list \<Rightarrow> 'x list" where
  "pushed [] = []"
| "pushed (Logged x # es) = x # pushed es"
| "pushed (Polled # es) = pushed es"

definition abstracts :: "(diagnostic_log_record, diagnostic_log_record) log_reader \<Rightarrow> log_monitor \<Rightarrow> bool" where
  "abstracts s m \<longleftrightarrow> mon_ring m = log_all (history s) initial_ring \<and> mon_cursor m = of_nat (reader_cursor s) \<and>
     mon_delivered m = delivered s \<and> mon_lost m = lost s"

lemma abstracts_step: "abstracts s m \<Longrightarrow> abstracts (log_read ring_read e s) (monitor e m)"
proof (cases e)
  case (Logged x)
  assume "abstracts s m"
  then show ?thesis unfolding Logged by (simp add: abstracts_def log_all_snoc)
next
  case Polled
  assume "abstracts s m"
  then show ?thesis unfolding Polled by (simp add: abstracts_def ring_read_def Let_def)
qed

lemma abstracts_run: "abstracts s m \<Longrightarrow> abstracts (fold (log_read ring_read) es s) (fold monitor es m)"
  by (induction es arbitrary: s m) (simp_all add: abstracts_step)

lemma abstracts_new: "abstracts \<lparr>history = [], reader_cursor = 0, delivered = [], lost = 0\<rparr> (new_monitor r)"
  by (simp add: abstracts_def new_monitor_def log_all_def reset_initial)

lemma history_run: "history (fold (log_read ring_read) es s) = history s @ pushed es"
  by (induction es arbitrary: s rule: pushed.induct) (simp_all add: Let_def ring_read_def)

lemma pushed_length: "length (pushed es) \<le> length es"
  by (induction es rule: pushed.induct) auto

lemma pushed_append: "pushed (es @ fs) = pushed es @ pushed fs"
  by (induction es rule: pushed.induct) auto

lemma pushed_polls: "pushed (replicate n Polled) = []"
  by (induction n) auto

text \<open>What the locale proves of readers, at the code's reader.\<close>

lemma reader_run:
  assumes "length es < 18446744073709551615"
  shows "\<exists>s. abstracts s (fold monitor es (new_monitor r)) \<and> history s = pushed es \<and> ring_source.sound s"
proof -
  let ?s = "\<lparr>history = [], reader_cursor = 0, delivered = [], lost = 0\<rparr>
    :: (diagnostic_log_record, diagnostic_log_record) log_reader"
  have "ring_source.sound (fold (log_read ring_read) es ?s)"
    using assms by (intro ring_source.sound_run ring_source.sound_start) simp
  then show ?thesis
    using abstracts_run [OF abstracts_new] history_run [of es ?s] by auto
qed

section \<open>Properties\<close>

text \<open>
  C39. Whatever was logged since the reset, the ring holds exactly the newest 64 records, in
  order and numbered consecutively from 1; \<open>next_sequence\<close> is the number of the next record
  and \<open>overwritten\<close> counts the records that are gone.
\<close>

theorem ring_keeps_the_newest_records:
  "ring_list (log_all xs (diagnostic_ring_reset r)) = drop (length xs - 64) (numbered xs) \<and>
   next_sequence (log_all xs (diagnostic_ring_reset r)) = of_nat (length xs + 1) \<and>
   overwritten (log_all xs (diagnostic_ring_reset r)) = of_nat (length xs - 64)"
  using logged_ring [of xs r] by simp

text \<open>
  A batch holds the oldest eight of the held records above the requested sequence number,
  its cursor is the number of the last of them (the requested one if there are none), and it
  says that more wait exactly if there are more than eight; for every ring and every number.
\<close>

lemma batch_is_a_page_of_the_ring:
  fixes r after
  defines "pending \<equiv> filter (\<lambda>x. after < seq_no x) (ring_list r)"
    and "b \<equiv> diagnostic_ring_batch r after"
  shows "batch_list b = take 8 pending \<and> cursor b = last (after # map seq_no (take 8 pending)) \<and>
    (has_more b \<longleftrightarrow> 8 < length pending)"
  unfolding pending_def b_def by (simp add: diagnostic_ring_batch_spec)

text \<open>
  C38. A reader that follows the cursor, at any pace and with any number of records logged
  between its requests, gets different records of the log in their order, and every record up
  to its cursor is either delivered or counted in \<open>lost_before_cursor\<close>, exactly once.
\<close>

theorem log_reader_accounts_for_every_record:
  fixes es and r :: diagnostic_ring
  assumes "length es < 18446744073709551615"
  defines "m \<equiv> fold monitor es (new_monitor r)"
  shows "length (mon_delivered m) + mon_lost m = unat (mon_cursor m) \<and>
    unat (mon_cursor m) \<le> length (pushed es) \<and>
    (\<exists>is. mon_delivered m = map (entry (pushed es)) is \<and> sorted_wrt (<) is \<and>
       (\<forall>i\<in>set is. i < unat (mon_cursor m)))"
proof -
  obtain s where s: "abstracts s m" "history s = pushed es" "ring_source.sound s"
    using reader_run [OF assms(1)] unfolding m_def by blast
  then show ?thesis
    using pushed_length [of es] assms(1) by (simp add: abstracts_def ring_source.sound_def unat_u64)
qed

theorem log_reader_accounts_for_every_record_witness:
  "let m = fold monitor [Logged zero_record, Polled] (new_monitor initial_ring) in
     length (mon_delivered m) + mon_lost m = unat (mon_cursor m)"
  using log_reader_accounts_for_every_record
    [where es = "[Logged zero_record, Polled]" and r = initial_ring] by (simp add: Let_def)

text \<open>
  Eight requests in a row bring a reader to the end of the log, wherever it was: every
  record logged so far is then delivered or counted as lost.
\<close>

lemma eight_batches_reach_the_end:
  fixes es and r :: diagnostic_ring
  assumes "length es < 18446744073709551600"
  defines "m \<equiv> fold monitor (es @ replicate 8 Polled) (new_monitor r)"
  shows "unat (mon_cursor m) = length (pushed es) \<and>
    length (mon_delivered m) + mon_lost m = length (pushed es)"
proof -
  have small: "length (es @ replicate 8 Polled) < 18446744073709551615" using assms(1) by simp
  have same: "pushed (es @ replicate 8 Polled) = pushed es" by (simp add: pushed_append pushed_polls)
  obtain s where s: "abstracts s (fold monitor es (new_monitor r))" "history s = pushed es"
      "ring_source.sound s"
    using reader_run [of es r] assms(1) by auto
  let ?t = "(log_read ring_read Polled ^^ 8) s"
  have t: "abstracts ?t m"
    using abstracts_run [OF s(1), of "replicate 8 Polled"] by (simp add: m_def fold_replicate)
  have "reader_cursor ?t = length (pushed es)"
    using ring_source.polls_catch_up [of s 8] s(2,3) pushed_length [of es] assms(1)
    by (auto simp: ring_source.sound_def)
  moreover have "ring_source.sound ?t"
    using ring_source.sound_run [OF s(3), of "replicate 8 Polled"] s(2) pushed_length [of es] assms(1)
    by (simp add: fold_replicate)
  ultimately show ?thesis
    using t pushed_length [of es] assms(1) by (simp add: abstracts_def ring_source.sound_def unat_u64)
qed

lemma eight_batches_reach_the_end_witness:
  "unat (mon_cursor (fold monitor ([Logged zero_record] @ replicate 8 Polled) (new_monitor initial_ring))) = 1"
  using eight_batches_reach_the_end [where es = "[Logged zero_record]" and r = initial_ring] by simp

end
