(* ===== verification/Diagnostic_Log.thy ===== *)
theory Diagnostic_Log
  imports Diagnostic_Ring "HOL-Library.Signed_Division"
begin

text \<open>
  The log sink (\<^verbatim>\<open>diagnostic_log.c\<close>): every line the SDK prints goes to the handler that was
  installed before and, as a record, to the ring. What a handler returns and the formatted
  text of a line come from the SDK and the C library: they are parameters.
\<close>

section \<open>The prefix of a line\<close>

text \<open>
  \<^verbatim>\<open>while (candidate > cursor && candidate[-1] != ' ') candidate--;\<close> from position \<open>n\<close>.
\<close>

fun scan_back :: "string \<Rightarrow> nat \<Rightarrow> nat" where
  "scan_back s 0 = 0"
| "scan_back s (Suc n) = (if s ! n = CHR '' '' then Suc n else scan_back s n)"

definition level_letter :: "char \<Rightarrow> bool" where
  "level_letter c \<longleftrightarrow> c = CHR ''E'' \<or> c = CHR ''W'' \<or> c = CHR ''I'' \<or> c = CHR ''D'' \<or> c = CHR ''V''"

text \<open>\<open>tag\<close> is the text from \<open>tag_start\<close> on, \<open>colon\<close> an offset in it.\<close>

definition parse_prefix :: "diagnostic_log_record \<Rightarrow> diagnostic_log_record" where
  "parse_prefix r =
     (let r = r\<lparr>level := CHR ''?'', log_component := store_s (log_component r) 24 ''esp-idf''\<rparr>;
          s = cstr (message r)
      in case strstr s '') '' of None \<Rightarrow> r | Some lv \<Rightarrow>
        let tag = drop (lv + 2) s in
        if tag = [] then r else
        case strchr tag (CHR '':'') of None \<Rightarrow> r | Some colon \<Rightarrow>
          if colon = 0 then r else
          let candidate = s ! scan_back s lv;
              r = (if level_letter candidate then r\<lparr>level := candidate\<rparr> else r);
              n = (if colon > DIAGNOSTIC_LOG_COMPONENT_MAX then DIAGNOSTIC_LOG_COMPONENT_MAX else colon)
          in r\<lparr>log_component := take n tag @ NUL # drop (Suc n) (log_component r)\<rparr>)"

section \<open>The sink\<close>

datatype 'v vprintf_like = Diagnostic_vprintf | Handler 'v

text \<open>
  The statics of the file; \<open>esp_log_vprintf\<close> is the handler the SDK calls for a line, and
  \<open>serial\<close> lists what was given to other handlers, \<^verbatim>\<open>vprintf\<close> being \<open>None\<close>.
\<close>

record 'v log_system =
  log_ring :: diagnostic_ring
  diagnostic_sink_installed :: bool
  original_vprintf :: "'v vprintf_like option"
  esp_log_vprintf :: "'v vprintf_like"
  serial :: "('v vprintf_like option \<times> string) list"

definition initial_log :: "'v \<Rightarrow> 'v log_system" where
  "initial_log v = \<lparr>log_ring = initial_ring, diagnostic_sink_installed = False, original_vprintf = None,
     esp_log_vprintf = Handler v, serial = []\<rparr>"

text \<open>
  \<open>line\<close> is what the format and the arguments expand to, \<open>time\<close> the 64-bit microseconds of
  \<^verbatim>\<open>esp_timer_get_time\<close>, \<open>printed\<close> the results of the handlers.
\<close>

definition log_line :: "string \<Rightarrow> int \<Rightarrow> diagnostic_log_record" where
  "log_line line time =
     parse_prefix (zero_record\<lparr>message := store_s (message zero_record) 160 line,
       relative_ms := word_of_int (time sdiv 1000)\<rparr>)"

definition diagnostic_vprintf ::
  "('v vprintf_like option \<Rightarrow> string \<Rightarrow> int) \<Rightarrow> string \<Rightarrow> int \<Rightarrow> 'v log_system \<Rightarrow> int \<times> 'v log_system" where
  "diagnostic_vprintf printed line time s =
     (let result = printed (original_vprintf s) line;
          s = s\<lparr>serial := serial s @ [(original_vprintf s, line)]\<rparr>
      in (result, s\<lparr>log_ring := snd (diagnostic_ring_push (Some (log_line line time)) (log_ring s))\<rparr>))"

definition diagnostic_log_init :: "'v log_system \<Rightarrow> esp_err \<times> 'v log_system" where
  "diagnostic_log_init s =
     (if diagnostic_sink_installed s then (ESP_OK, s)
      else let s = s\<lparr>log_ring := diagnostic_ring_reset (log_ring s), diagnostic_sink_installed := True\<rparr>
        in (ESP_OK, s\<lparr>original_vprintf := Some (esp_log_vprintf s), esp_log_vprintf := Diagnostic_vprintf\<rparr>))"

text \<open>A null batch pointer is \<open>False\<close>: nothing is written then.\<close>

definition diagnostic_log_get_batch :: "bool \<Rightarrow> u64 \<Rightarrow> 'v log_system \<Rightarrow> diagnostic_log_batch option" where
  "diagnostic_log_get_batch batch after s = (if batch then Some (diagnostic_ring_batch (log_ring s) after) else None)"

text \<open>What the SDK does for a line of the log: it calls its current handler.\<close>

definition esp_log_line ::
  "('v vprintf_like option \<Rightarrow> string \<Rightarrow> int) \<Rightarrow> string \<Rightarrow> int \<Rightarrow> 'v log_system \<Rightarrow> int \<times> 'v log_system" where
  "esp_log_line printed line time s =
     (case esp_log_vprintf s of
        Diagnostic_vprintf \<Rightarrow> diagnostic_vprintf printed line time s
      | Handler v \<Rightarrow> (printed (Some (Handler v)) line, s\<lparr>serial := serial s @ [(Some (Handler v), line)]\<rparr>))"

datatype log_call = Log_init | Log_line string int

fun run_log_call :: "('v vprintf_like option \<Rightarrow> string \<Rightarrow> int) \<Rightarrow> log_call \<Rightarrow> 'v log_system \<Rightarrow> 'v log_system" where
  "run_log_call printed Log_init s = snd (diagnostic_log_init s)"
| "run_log_call printed (Log_line line time) s = snd (esp_log_line printed line time s)"

section \<open>The scan for the level\<close>

lemma scan_back_le: "scan_back s n \<le> n"
  by (induction n) auto

lemma scan_back_stop: "scan_back s n = 0 \<or> s ! (scan_back s n - 1) = CHR '' ''"
  by (induction n) auto

lemma scan_back_word:
  assumes "\<forall>i. k \<le> i \<and> i < n \<longrightarrow> s ! i \<noteq> CHR '' ''" and "k \<le> n" and "0 < k" and "s ! (k - 1) = CHR '' ''"
  shows "scan_back s n = k"
  using assms
proof (induction n)
  case (Suc n)
  then show ?case by (cases "k = Suc n") auto
qed simp

lemma strstr_paren: "CHR '')'' \<notin> set p \<Longrightarrow> strstr (p @ '') '' @ rest) '') '' = Some (length p)"
  by (induction p) auto

lemma parse_prefix_message [simp]: "message (parse_prefix r) = message r"
  by (simp add: parse_prefix_def Let_def split: option.splits)

text \<open>A line \<open>p (time) rest\<close>: the word before the closing bracket begins with the opening one.\<close>

lemma scan_standard:
  assumes "CHR '' '' \<notin> set time"
  shows "scan_back (p @ '' ('' @ time @ '') '' @ rest) (length p + 2 + length time) = length p + 1"
proof (rule scan_back_word)
  show "\<forall>i. length p + 1 \<le> i \<and> i < length p + 2 + length time \<longrightarrow>
      (p @ '' ('' @ time @ '') '' @ rest) ! i \<noteq> CHR '' ''"
  proof (intro allI impI)
    fix i assume i: "length p + 1 \<le> i \<and> i < length p + 2 + length time"
    define j where "j = i - length p - 1"
    then have j: "i = length p + Suc j" "j \<le> length time" using i by linarith+
    show "(p @ '' ('' @ time @ '') '' @ rest) ! i \<noteq> CHR '' ''"
      using assms j by (cases j) (auto simp: nth_append Suc_le_eq dest: nth_mem)
  qed
qed (simp_all add: nth_append)

lemma parse_standard:
  assumes s: "cstr (message r) = p @ '' ('' @ time @ '') '' @ rest"
    and p: "CHR '')'' \<notin> set p" and time: "CHR '')'' \<notin> set time" "CHR '' '' \<notin> set time"
  shows "level (parse_prefix r) = CHR ''?''"
    and "\<lbrakk>strchr rest (CHR '':'') = Some n; n \<noteq> 0\<rbrakk> \<Longrightarrow> cstr (log_component (parse_prefix r)) = take 23 (take n rest)"
proof -
  define lv where "lv = length p + 2 + length time"
  have found: "strstr (cstr (message r)) '') '' = Some lv"
    using strstr_paren [of "p @ '' ('' @ time" rest] p time(1) by (simp add: s lv_def)
  have tag: "drop (lv + 2) (cstr (message r)) = rest"
    by (simp add: s lv_def numeral_eq_Suc)
  have scan: "cstr (message r) ! scan_back (cstr (message r)) lv = CHR ''(''"
    using scan_standard [OF time(2), of p rest] by (simp add: s lv_def nth_append)
  have letter: "\<not> level_letter (CHR ''('')" by (simp add: level_letter_def)
  show "level (parse_prefix r) = CHR ''?''"
    unfolding parse_prefix_def Let_def
    by (simp add: found tag scan letter split: option.splits del: add_2_eq_Suc')
  assume n: "strchr rest (CHR '':'') = Some n" "n \<noteq> 0"
  then have rest: "rest \<noteq> []" by auto
  have "NUL \<notin> set rest"
    using arg_cong [OF s, of set] cstr_no_nul [of "message r"] by auto
  then have "cstr (take k rest @ NUL # z) = take k rest" for k z
    by (simp add: cstr_append_nul) (rule cstr_id, auto dest: in_set_takeD)
  then show "cstr (log_component (parse_prefix r)) = take 23 (take n rest)"
    unfolding parse_prefix_def Let_def
    using n rest by (simp add: found tag scan letter min_def split: if_splits del: add_2_eq_Suc')
qed

section \<open>The arrays of a record\<close>

definition terminated_record :: "diagnostic_log_record \<Rightarrow> bool" where
  "terminated_record r \<longleftrightarrow> length (message r) = 160 \<and> NUL \<in> set (message r) \<and>
     length (log_component r) = 24 \<and> NUL \<in> set (log_component r)"

lemma terminated_parse:
  assumes "length (message r) = 160" "NUL \<in> set (message r)" "length (log_component r) = 24"
  shows "terminated_record (parse_prefix r)"
proof -
  have "min m k + (23 - k) = 23" if "k \<le> m" "k \<le> 23" for m k :: nat
    using that by simp
  then show ?thesis
    using assms unfolding terminated_record_def parse_prefix_def Let_def
    by (auto simp: nul_in_store_s strchr_Some split: option.splits)
qed

lemma log_line_arrays: "terminated_record (log_line line time)"
  unfolding log_line_def
  by (rule terminated_parse) (simp_all add: zero_record_def nul_in_store_s)

lemma log_line_message: "cstr (message (log_line line time)) = cstr (take 159 line)"
  by (simp add: log_line_def zero_record_def cstr_store_s)

section \<open>The sink over a sequence of calls\<close>

text \<open>The lines of a run, and those after the first initialisation.\<close>

fun lines_of :: "log_call list \<Rightarrow> (string \<times> int) list" where
  "lines_of [] = []"
| "lines_of (Log_init # cs) = lines_of cs"
| "lines_of (Log_line line time # cs) = (line, time) # lines_of cs"

fun captured :: "log_call list \<Rightarrow> (string \<times> int) list" where
  "captured [] = []"
| "captured (Log_init # cs) = lines_of cs"
| "captured (Log_line _ _ # cs) = captured cs"

abbreviation run_log :: "('v vprintf_like option \<Rightarrow> string \<Rightarrow> int) \<Rightarrow> log_call list \<Rightarrow> 'v log_system \<Rightarrow> 'v log_system" where
  "run_log printed cs s \<equiv> fold (run_log_call printed) cs s"

lemma run_installed:
  assumes "diagnostic_sink_installed s" "esp_log_vprintf s = Diagnostic_vprintf" "original_vprintf s = Some (Handler v)"
  shows "let t = run_log printed cs s in
    diagnostic_sink_installed t \<and> esp_log_vprintf t = Diagnostic_vprintf \<and> original_vprintf t = Some (Handler v) \<and>
    serial t = serial s @ map (\<lambda>(line, _). (Some (Handler v), line)) (lines_of cs) \<and>
    log_ring t = log_all (map (\<lambda>(line, time). log_line line time) (lines_of cs)) (log_ring s)"
  using assms
proof (induction cs arbitrary: s rule: lines_of.induct)
  case (3 line time cs)
  let ?t = "run_log_call printed (Log_line line time) s"
  have "diagnostic_sink_installed ?t" "esp_log_vprintf ?t = Diagnostic_vprintf"
    "original_vprintf ?t = Some (Handler v)" "serial ?t = serial s @ [(Some (Handler v), line)]"
    "log_ring ?t = snd (diagnostic_ring_push (Some (log_line line time)) (log_ring s))"
    using 3 by (simp_all add: esp_log_line_def diagnostic_vprintf_def Let_def)
  then show ?case using "3.IH" [of ?t] by (simp add: Let_def log_all_def)
qed (simp_all add: diagnostic_log_init_def log_all_def)

lemma run_fresh:
  assumes "\<not> diagnostic_sink_installed s" "esp_log_vprintf s = Handler v" "log_ring s = initial_ring"
  shows "let t = run_log printed cs s in
    serial t = serial s @ map (\<lambda>(line, _). (Some (Handler v), line)) (lines_of cs) \<and>
    log_ring t = log_all (map (\<lambda>(line, time). log_line line time) (captured cs)) initial_ring"
  using assms
proof (induction cs arbitrary: s rule: lines_of.induct)
  case (2 cs)
  let ?t = "run_log_call printed Log_init s"
  have t: "diagnostic_sink_installed ?t" "esp_log_vprintf ?t = Diagnostic_vprintf"
    "original_vprintf ?t = Some (Handler v)" "serial ?t = serial s" "log_ring ?t = initial_ring"
    using 2 by (simp_all add: diagnostic_log_init_def Let_def diagnostic_ring_reset_def initial_ring_def)
  show ?case using run_installed [OF t(1-3), of printed cs] t(4,5) by (simp add: Let_def)
next
  case (3 line time cs)
  let ?t = "run_log_call printed (Log_line line time) s"
  have "\<not> diagnostic_sink_installed ?t" "esp_log_vprintf ?t = Handler v" "log_ring ?t = initial_ring"
    "serial ?t = serial s @ [(Some (Handler v), line)]"
    using 3 by (simp_all add: esp_log_line_def)
  then show ?case using "3.IH" [of ?t] by (simp add: Let_def)
qed (simp add: log_all_def)

section \<open>Properties\<close>

text \<open>
  C40. The level of a line is lost: for every line of the SDK's form
  \<open>I (1234) tag: text\<close>, with or without a colour sequence before the letter, the scan back
  from the closing bracket stops at the opening one, so the record's level is \<open>?\<close>, whatever
  the letter was. The tag is found.
\<close>

theorem standard_lines_lose_their_level:
  assumes "cstr (message r) = p @ '' ('' @ time @ '') '' @ rest"
    and "CHR '')'' \<notin> set p" and "CHR '')'' \<notin> set time" and "CHR '' '' \<notin> set time"
  shows "level (parse_prefix r) = CHR ''?'' \<and>
    (\<forall>n. strchr rest (CHR '':'') = Some n \<and> n \<noteq> 0 \<longrightarrow>
      cstr (log_component (parse_prefix r)) = take 23 (take n rest))"
  using parse_standard [OF assms] by blast

theorem standard_lines_lose_their_level_witness:
  "level (parse_prefix (zero_record\<lparr>message := ''I (1234) wifi: connected'' @ [NUL]\<rparr>)) = CHR ''?'' \<and>
   cstr (log_component (parse_prefix (zero_record\<lparr>message := ''I (1234) wifi: connected'' @ [NUL]\<rparr>))) = ''wifi''"
  using standard_lines_lose_their_level
    [where r = "zero_record\<lparr>message := ''I (1234) wifi: connected'' @ [NUL]\<rparr>" and p = "''I''" and
      time = "''1234''" and rest = "''wifi: connected''"]
  by (simp add: cstr_def)

text \<open>
  Whatever is logged and however often the sink is initialised, each line reaches the
  handler that was installed first, exactly once and unchanged; from the first initialisation
  on each line is also a record of the ring. The sink never becomes its own successor.
\<close>

lemma sink_passes_every_line_on:
  fixes v :: 'v and printed and cs
  defines "s \<equiv> run_log printed cs (initial_log v)"
  shows "serial s = map (\<lambda>(line, _). (Some (Handler v), line)) (lines_of cs) \<and>
    ring_list (log_ring s) =
      drop (length (captured cs) - 64) (numbered (map (\<lambda>(line, time). log_line line time) (captured cs)))"
proof -
  have fresh: "\<not> diagnostic_sink_installed (initial_log v)" "esp_log_vprintf (initial_log v) = Handler v"
    "log_ring (initial_log v) = initial_ring" "serial (initial_log v) = []"
    by (simp_all add: initial_log_def)
  have "initial_ring = diagnostic_ring_reset initial_ring"
    by (simp add: diagnostic_ring_reset_def initial_ring_def)
  then show ?thesis
    using run_fresh [OF fresh(1-3), of printed cs] fresh(4)
      logged_ring [of "map (\<lambda>(line, time). log_line line time) (captured cs)" initial_ring]
    by (simp add: s_def Let_def)
qed

text \<open>
  The record of a line holds its first 159 characters, and both arrays of the record are
  terminated strings of their sizes, whatever the line is.
\<close>

lemma line_record_is_bounded:
  "cstr (message (log_line line time)) = cstr (take 159 line) \<and>
   length (message (log_line line time)) = 160 \<and> NUL \<in> set (message (log_line line time)) \<and>
   length (log_component (log_line line time)) = 24 \<and> NUL \<in> set (log_component (log_line line time))"
  using log_line_arrays [of line time] by (simp add: terminated_record_def log_line_message)

end
