(* ===== verification/Serial_Recovery.thy ===== *)
theory Serial_Recovery
  imports Config_Safety
begin

text \<open>
  Recovery over the serial console (\<^verbatim>\<open>serial_recovery.c\<close>): the task reads lines with
  \<^verbatim>\<open>fgets\<close> and erases the NVS partition on one exact command.
\<close>

section \<open>Reading from the console\<close>

text \<open>The console as the task reads it; \<open>None\<close> is a moment at which no character is available.\<close>

type_synonym console = "char option list"

abbreviation CR :: char where "CR \<equiv> CHR 0x0D"
abbreviation LF :: char where "LF \<equiv> CHR 0x0A"

text \<open>
  \<^verbatim>\<open>fgets\<close> with room for \<open>n\<close> characters and the terminator: up to and with the newline, or
  until the room or the available characters end. Nothing read is the null result.
\<close>

fun fgets :: "nat \<Rightarrow> console \<Rightarrow> string \<times> console" where
  "fgets 0 xs = ([], xs)"
| "fgets (Suc n) [] = ([], [])"
| "fgets (Suc n) (None # xs) = ([], xs)"
| "fgets (Suc n) (Some c # xs) =
     (if c = LF then ([c], xs) else let (l, ys) = fgets n xs in (c # l, ys))"

lemma fgets_shrinks: "length (snd (fgets n xs)) \<le> length xs"
  by (induction n xs rule: fgets.induct) (auto split: prod.splits)

lemma fgets_progress: "length (snd (fgets (Suc n) (x # xs))) < Suc (length xs)"
  using fgets_shrinks [of n xs] by (cases x) (auto split: prod.splits)

lemma fgets_less: "(line, rest) = fgets 95 (x # xs) \<Longrightarrow> length rest < Suc (length xs)"
  using fgets_progress [of 94 x xs] by (simp add: prod_eq_iff)

text \<open>The line up to its end, as \<^verbatim>\<open>line[strcspn(line, "\r\n")] = 0\<close> leaves it.\<close>

definition stripped :: "string \<Rightarrow> string" where
  "stripped line = takeWhile (\<lambda>c. c \<noteq> CR \<and> c \<noteq> LF) (cstr line)"

definition recovery_command :: string where
  "recovery_command = ''factory-reset ERASE-DEVICE-CONFIGURATION''"

section \<open>The task\<close>

text \<open>What the task does with a line, and its start.\<close>

datatype recovery_outcome = Rejected | Reset_failed esp_err | Reset

text \<open>
  The loop over a finite part of the input; the last component is false after the restart,
  which is where the task ends.
\<close>

function recovery_task ::
  "'s platform \<Rightarrow> console \<Rightarrow> 's device \<Rightarrow> recovery_outcome list \<times> 's device \<times> bool" where
  "recovery_task P [] d = ([], d, True)"
| "recovery_task P (x # xs) d =
     (let (line, rest) = fgets 95 (x # xs) in
      if line = [] then recovery_task P rest d
      else if stripped line \<noteq> recovery_command
        then let (os, d, running) = recovery_task P rest d in (Rejected # os, d, running)
      else let (result, d) = device_config_storage_recover P d in
        if result \<noteq> ESP_OK
        then let (os, d, running) = recovery_task P rest d in (Reset_failed result # os, d, running)
        else ([Reset], power_cycle P d, False))"
  by pat_completeness auto

text \<open>Every turn takes something from the input.\<close>

termination recovery_task
  by (relation "measure (\<lambda>(P, xs, d). length xs)") (auto simp: fgets_less)

definition serial_recovery_start :: "bool \<Rightarrow> bool \<Rightarrow> esp_err \<times> bool" where
  "serial_recovery_start created recovery_task_handle =
     (if recovery_task_handle then (ESP_OK, recovery_task_handle)
      else if \<not> created then (ESP_ERR_NO_MEM, False)
      else (ESP_OK, True))"

section \<open>Facts\<close>

lemma fgets_takes: "fgets n xs = (l, rest) \<Longrightarrow> \<exists>ys. xs = map Some l @ ys \<and> suffix rest ys"
proof (induction n xs arbitrary: l rule: fgets.induct)
  case (3 n xs)
  then show ?case by (auto intro: suffix_ConsI)
next
  case (4 n c xs)
  show ?case
  proof (cases "c = LF")
    case False
    obtain l' where l': "fgets n xs = (l', rest)" "l = c # l'"
      using 4(2) False by (auto split: prod.splits)
    from 4(1) [OF False l'(1)] show ?thesis using l'(2) by auto
  qed (use 4(2) in auto)
qed auto

lemma fgets_line:
  "length l < n \<Longrightarrow> LF \<notin> set l \<Longrightarrow> fgets n (map Some l @ Some LF # xs) = (l @ [LF], xs)"
proof (induction l arbitrary: n)
  case Nil
  then show ?case by (cases n) auto
next
  case (Cons c l)
  then show ?case by (cases n) auto
qed

lemma stripped_prefix: "prefix (stripped line) line"
  using takeWhile_is_prefix cstr_prefix prefix_order.trans unfolding stripped_def by blast

lemma stripped_line: "LF \<notin> set l \<Longrightarrow> stripped (l @ [LF]) = takeWhile (\<lambda>c. c \<noteq> CR) (cstr l)"
proof (induction l)
  case (Cons c l)
  then show ?case by (auto simp: stripped_def cstr_Cons)
qed (simp add: stripped_def cstr_Cons)

lemma recovery_command_nonempty: "recovery_command \<noteq> []"
  by (simp add: recovery_command_def)

lemma recovery_without_command:
  "recovery_task P xs d = (os, d', running) \<Longrightarrow> \<not> sublist (map Some recovery_command) xs \<Longrightarrow>
   d' = d \<and> running \<and> list_all (\<lambda>o'. o' = Rejected) os"
proof (induction P xs d arbitrary: os rule: recovery_task.induct)
  case (2 P x xs d)
  obtain line rest where line: "fgets 95 (x # xs) = (line, rest)" by fastforce
  obtain ys where ys: "x # xs = map Some line @ ys" "suffix rest ys" using fgets_takes [OF line] by blast
  have "suffix rest (x # xs)" unfolding ys(1) using ys(2) by (simp add: suffix_appendI)
  then have "sublist rest (x # xs)" by (rule suffix_imp_sublist)
  then have rest: "\<not> sublist (map Some recovery_command) rest"
    using 2(5) sublist_order.order.trans [of "map Some recovery_command" rest "x # xs"] by blast
  have "stripped line \<noteq> recovery_command"
  proof
    assume "stripped line = recovery_command"
    then have "prefix (map Some recovery_command) (x # xs)"
      using stripped_prefix [of line] ys(1) by (auto simp: prefix_def)
    then show False using 2(5) by (simp add: prefix_imp_sublist)
  qed
  then show ?case
    using 2(1) [OF line [symmetric] refl, of os] 2(2) [OF line [symmetric] refl] 2(4) line rest
    by (auto split: if_splits prod.splits)
qed simp

section \<open>Properties\<close>

text \<open>
  C30. Nothing but the exact command erases the device: whatever arrives over the console, in
  whatever portions, unless all characters of the command arrive in immediate succession the
  configuration store is not touched, the device does not restart, and every line is rejected.
\<close>

theorem only_the_exact_command_erases:
  assumes "recovery_task P xs d = (os, d', running)" and "\<not> sublist (map Some recovery_command) xs"
  shows "d' = d \<and> running \<and> list_all (\<lambda>o'. o' = Rejected) os"
  by (rule recovery_without_command [OF assms])

theorem only_the_exact_command_erases_witness:
  "\<forall>(P :: unit platform) d. \<exists>os. recovery_task P (map Some ''factory-reset ERASE'' @ [None, Some LF]) d = (os, d, True)"
proof (intro allI)
  fix P :: "unit platform" and d
  let ?xs = "map Some ''factory-reset ERASE'' @ [None, Some LF]"
  obtain os d' running where run: "recovery_task P ?xs d = (os, d', running)"
    by (metis prod_cases3)
  have "\<not> sublist (map Some recovery_command) ?xs"
    by (auto dest!: sublist_length_le simp: recovery_command_def)
  from only_the_exact_command_erases [OF run this] run show "\<exists>os. recovery_task P ?xs d = (os, d, True)"
    by auto
qed

text \<open>The input that a user types: lines of characters, each with its newline.\<close>

definition typed :: "string list \<Rightarrow> console" where
  "typed ls = concat (map (\<lambda>l. map Some l @ [Some LF]) ls)"

text \<open>What is meant: each line in turn, until one is the command and the erasure succeeds.\<close>

fun recovery_of_lines :: "'s platform \<Rightarrow> string list \<Rightarrow> 's device \<Rightarrow> recovery_outcome list \<times> 's device \<times> bool" where
  "recovery_of_lines P [] d = ([], d, True)"
| "recovery_of_lines P (l # ls) d =
     (if takeWhile (\<lambda>c. c \<noteq> CR) (cstr l) \<noteq> recovery_command
      then let (os, d, running) = recovery_of_lines P ls d in (Rejected # os, d, running)
      else let (result, d) = device_config_storage_recover P d in
        if result \<noteq> ESP_OK
        then let (os, d, running) = recovery_of_lines P ls d in (Reset_failed result # os, d, running)
        else ([Reset], power_cycle P d, False))"

text \<open>
  C34. On typed lines of at most 94 characters the task does what is meant, line by line: a line
  that is the command, also with a carriage return, erases the partition and, if that succeeds,
  restarts the device; every other line is rejected; a failed erasure leaves the task listening.
\<close>

theorem recovery_follows_the_lines:
  assumes "list_all (\<lambda>l. length l \<le> 94 \<and> LF \<notin> set l) ls"
  shows "recovery_task P (typed ls) d = recovery_of_lines P ls d"
  using assms
proof (induction ls arbitrary: d)
  case (Cons l ls)
  then have line: "fgets 95 (map Some l @ Some LF # typed ls) = (l @ [LF], typed ls)" by (intro fgets_line) auto
  obtain x xs where xs: "map Some l @ Some LF # typed ls = x # xs" by (cases l) auto
  have "typed (l # ls) = x # xs" using xs by (simp add: typed_def)
  then show ?case
    using Cons line stripped_line [of l] by (simp add: xs [symmetric] del: append.simps) (simp add: xs split: prod.splits)
qed (simp add: typed_def)

theorem recovery_follows_the_lines_witness:
  "\<forall>(P :: unit platform) d. recovery_task P (typed [''help'', recovery_command @ [CR]]) d =
     (let (result, d) = device_config_storage_recover P d in
      if result \<noteq> ESP_OK then ([Rejected, Reset_failed result], d, True) else ([Rejected, Reset], power_cycle P d, False))"
proof (intro allI)
  fix P :: "unit platform" and d
  have short: "list_all (\<lambda>l. length l \<le> 94 \<and> LF \<notin> set l) [''help'', recovery_command @ [CR]]"
    by (simp add: recovery_command_def)
  show "recovery_task P (typed [''help'', recovery_command @ [CR]]) d =
     (let (result, d) = device_config_storage_recover P d in
      if result \<noteq> ESP_OK then ([Rejected, Reset_failed result], d, True) else ([Rejected, Reset], power_cycle P d, False))"
    unfolding recovery_follows_the_lines [OF short]
    by (simp add: recovery_command_def cstr_Cons split: prod.splits)
qed

text \<open>
  The room of 95 characters cuts a longer line: what follows counts as a line of its own, so the
  command is accepted behind any 95 characters.
\<close>

lemma fgets_full: "length l = n \<Longrightarrow> LF \<notin> set l \<Longrightarrow> fgets n (map Some l @ xs) = (l, xs)"
proof (induction l arbitrary: n)
  case (Cons c l)
  then show ?case by (cases n) auto
qed simp

lemma tail_of_a_long_line_is_a_command:
  assumes "length l = 95" and "LF \<notin> set l" and "stripped l \<noteq> recovery_command"
  shows "recovery_task P (typed [l @ recovery_command]) d =
    (let (os, d, running) = recovery_task P (typed [recovery_command]) d in (Rejected # os, d, running))"
proof -
  have line: "fgets 95 (map Some l @ typed [recovery_command]) = (l, typed [recovery_command])"
    using assms by (intro fgets_full) auto
  obtain x xs where xs: "map Some l @ typed [recovery_command] = x # xs" using assms(1) by (cases l) auto
  have "typed [l @ recovery_command] = x # xs" using xs by (simp add: typed_def)
  moreover have "l \<noteq> []" using assms(1) by auto
  ultimately show ?thesis using line assms(3) by (simp add: xs)
qed

end
