(* ===== verification/System_Time.thy ===== *)
theory System_Time
  imports Prelude
begin

text \<open>
  The synchronised clock (\<^verbatim>\<open>system_time.c\<close>) and the calendar functions of the C library it
  uses: \<^verbatim>\<open>gmtime_r\<close> and \<^verbatim>\<open>strftime\<close> with the format \<^verbatim>\<open>%Y-%m-%dT%H:%M:%SZ\<close>. The SNTP client
  of the SDK is a parameter: its results, and the moments at which it reports a
  synchronisation.
\<close>

section \<open>Numbers as text\<close>

fun dec_string :: "nat \<Rightarrow> string" where
  "dec_string n = (if n < 10 then [char_of (48 + n)] else dec_string (n div 10) @ [char_of (48 + n mod 10)])"

declare dec_string.simps [simp del]

definition two_digits :: "nat \<Rightarrow> string" where
  "two_digits n = [char_of (48 + n div 10 mod 10), char_of (48 + n mod 10)]"

lemma digit_char: "d < 10 \<Longrightarrow> is_digit (char_of (48 + d)) \<and> digit_val (char_of (48 + d)) = d"
  by (simp add: is_digit_def digit_val_def less_eq_char_def)

lemma dec_value_single: "dec_value [c] = digit_val c"
  by (simp add: dec_value_def)

lemma dec_string_value: "dec_value (dec_string n) = n"
proof (induction n rule: dec_string.induct)
  case (1 n)
  then show ?case
    by (subst dec_string.simps) (simp add: dec_value_snoc digit_char dec_value_single)
qed

lemma dec_string_digits: "list_all is_digit (dec_string n)"
proof (induction n rule: dec_string.induct)
  case (1 n)
  then show ?case by (subst dec_string.simps) (simp add: digit_char)
qed

lemma length_two_digits [simp]: "length (two_digits n) = 2"
  by (simp add: two_digits_def)

lemma dec_string_bound: "n < 10 ^ k \<Longrightarrow> 0 < k \<Longrightarrow> length (dec_string n) \<le> k"
proof (induction n arbitrary: k rule: dec_string.induct)
  case (1 n)
  show ?case
  proof (cases "n < 10")
    case True
    then show ?thesis using 1 by (subst dec_string.simps) simp
  next
    case False
    then obtain j where k: "k = Suc j" and j: "0 < j" using 1 by (cases k; cases "k - 1") auto
    have "n div 10 < 10 ^ j" using 1 k by (simp add: less_mult_imp_div_less mult.commute)
    then have "length (dec_string (n div 10)) \<le> j" using 1 False j by simp
    then show ?thesis using False k by (subst dec_string.simps) simp
  qed
qed

lemma not_digit_nul: "\<not> is_digit NUL"
  by (simp add: is_digit_def less_eq_char_def)

text \<open>Evaluation one digit at a time.\<close>

lemma dec_string_step:
  "n < 10 \<Longrightarrow> dec_string n = [char_of (48 + n)]"
  "\<not> n < 10 \<Longrightarrow> dec_string n = dec_string (n div 10) @ [char_of (48 + n mod 10)]"
  by (subst dec_string.simps, simp)+

lemma dec_string_no_nul: "NUL \<notin> set (dec_string n)"
  using dec_string_digits [of n] not_digit_nul by (auto simp: list_all_iff)

lemma two_digits_no_nul: "NUL \<notin> set (two_digits n)"
proof -
  have "is_digit (char_of (48 + n div 10 mod 10))" "is_digit (char_of (48 + n mod 10))"
    using digit_char [of "n div 10 mod 10"] digit_char [of "n mod 10"] by simp_all
  then show ?thesis unfolding two_digits_def using not_digit_nul by (metis empty_set set_ConsD empty_iff)
qed

section \<open>The calendar\<close>

record tm =
  tm_year :: int
  tm_mon :: nat
  tm_mday :: nat
  tm_hour :: nat
  tm_min :: nat
  tm_sec :: nat

text \<open>
  The proleptic Gregorian date of a number of days since 1970-01-01: years that begin in
  March, in eras of 400 years; \<open>tm_year\<close> is the full year and \<open>tm_mon\<close> counts from 1.
\<close>

definition year_of_era :: "int \<Rightarrow> int" where
  "year_of_era doe = (doe - doe div 1460 + doe div 36524 - doe div 146096) div 365"

definition day_of_year :: "int \<Rightarrow> int \<Rightarrow> int" where
  "day_of_year doe yoe = doe - (365 * yoe + yoe div 4 - yoe div 100)"

definition month_index :: "int \<Rightarrow> int" where
  "month_index doy = (5 * doy + 2) div 153"

text \<open>The fields from year, day of the year, month index and second of the day.\<close>

definition tm_of :: "int \<Rightarrow> int \<Rightarrow> int \<Rightarrow> nat \<Rightarrow> tm" where
  "tm_of y doy mp s =
     \<lparr>tm_year = (if mp < 10 then y else y + 1), tm_mon = nat (if mp < 10 then mp + 3 else mp - 9),
      tm_mday = nat (doy - (153 * mp + 2) div 5 + 1),
      tm_hour = s div 3600, tm_min = s mod 3600 div 60, tm_sec = s mod 60\<rparr>"

definition gmtime :: "int \<Rightarrow> tm" where
  "gmtime t =
     (let z = t div 86400 + 719468; doe = z mod 146097; yoe = year_of_era doe; doy = day_of_year doe yoe
      in tm_of (yoe + z div 146097 * 400) doy (month_index doy) (nat (t mod 86400)))"

text \<open>\<^verbatim>\<open>gmtime_r\<close> fails if the year does not fit the 32-bit field of years since 1900.\<close>

definition gmtime_r :: "int \<Rightarrow> tm option" where
  "gmtime_r t =
     (let u = gmtime t in
      if - 2147483648 \<le> tm_year u - 1900 \<and> tm_year u - 1900 < 2147483648 then Some u else None)"

definition int_string :: "int \<Rightarrow> string" where
  "int_string y = (if y < 0 then CHR ''-'' # dec_string (nat (- y)) else dec_string (nat y))"

definition iso_string :: "tm \<Rightarrow> string" where
  "iso_string u = int_string (tm_year u) @ ''-'' @ two_digits (tm_mon u) @ ''-'' @ two_digits (tm_mday u)
     @ ''T'' @ two_digits (tm_hour u) @ '':'' @ two_digits (tm_min u) @ '':'' @ two_digits (tm_sec u) @ ''Z''"

text \<open>\<^verbatim>\<open>strftime\<close> stores the text if it fits with its terminator; otherwise it returns 0.\<close>

definition strftime_iso :: "carray \<Rightarrow> nat \<Rightarrow> tm \<Rightarrow> nat \<times> carray" where
  "strftime_iso buf n u =
     (if length (iso_string u) < n then (length (iso_string u), store_s buf n (iso_string u)) else (0, buf))"

section \<open>The clock\<close>

definition SYSTEM_TIME_TIMESTAMP_SIZE :: nat where [simp]: "SYSTEM_TIME_TIMESTAMP_SIZE = 21"

text \<open>The only state of the file is the flag \<open>time_valid\<close>.\<close>

type_synonym system_time = bool

definition time_sync_notification_cb :: "system_time \<Rightarrow> system_time" where
  "time_sync_notification_cb time_valid = True"

definition system_time_is_valid :: "system_time \<Rightarrow> bool" where
  "system_time_is_valid time_valid = time_valid"

text \<open>
  \<open>sntp_init\<close> and \<open>sntp_wait\<close> are the results of the SNTP client; \<open>synced\<close> says whether it
  reports a synchronisation while the call waits.
\<close>

definition system_time_init :: "esp_err \<Rightarrow> esp_err \<Rightarrow> bool \<Rightarrow> system_time \<Rightarrow> esp_err \<times> system_time" where
  "system_time_init sntp_init sntp_wait synced time_valid =
     (if sntp_init \<noteq> ESP_OK then (sntp_init, time_valid)
      else (sntp_wait, if synced then time_sync_notification_cb time_valid else time_valid))"

text \<open>\<open>now\<close> is what \<^verbatim>\<open>time\<close> reads; \<open>buffer\<close> is \<open>None\<close> for a null pointer.\<close>

definition system_time_get_timestamp ::
  "int \<Rightarrow> carray option \<Rightarrow> nat \<Rightarrow> system_time \<Rightarrow> esp_err \<times> carray option" where
  "system_time_get_timestamp now buffer buffer_size time_valid =
     (case buffer of None \<Rightarrow> (ESP_ERR_INVALID_ARG, None) | Some b \<Rightarrow>
        if buffer_size < SYSTEM_TIME_TIMESTAMP_SIZE then (ESP_ERR_INVALID_SIZE, buffer)
        else if \<not> system_time_is_valid time_valid then (ESP_ERR_INVALID_STATE, buffer)
        else case gmtime_r now of None \<Rightarrow> (ESP_FAIL, buffer) | Some utc_time \<Rightarrow>
          let (written, b) = strftime_iso b buffer_size utc_time in
          if written = 0 then (ESP_ERR_INVALID_SIZE, Some b) else (ESP_OK, Some b))"

lemma iso_string_no_nul: "NUL \<notin> set (iso_string u)"
  by (auto simp: iso_string_def int_string_def dec_string_no_nul two_digits_no_nul)

lemma stored_iso: "length (iso_string u) < n \<Longrightarrow> cstr (store_s b n (iso_string u)) = iso_string u"
  by (simp add: cstr_store_s cstr_id iso_string_no_nul)

text \<open>A successful call leaves the whole text in the buffer.\<close>

lemma get_timestamp_ok:
  assumes "system_time_get_timestamp now (Some b) n v = (ESP_OK, b')" and "length b = n"
  shows "\<exists>u a. gmtime_r now = Some u \<and> b' = Some a \<and> length a = n \<and> cstr a = iso_string u \<and>
    length (iso_string u) < n \<and> v"
  using assms
  by (auto simp: system_time_get_timestamp_def system_time_is_valid_def strftime_iso_def stored_iso
      split: if_splits option.splits)

text \<open>The text of a year of four digits has the documented length.\<close>

lemma iso_string_length: "0 \<le> tm_year u \<Longrightarrow> tm_year u \<le> 9999 \<Longrightarrow> length (iso_string u) \<le> 20"
  using dec_string_bound [of "nat (tm_year u)" 4] by (simp add: iso_string_def int_string_def)

lemma example_calendar:
  "gmtime 1784635200 = \<lparr>tm_year = 2026, tm_mon = 7, tm_mday = 21, tm_hour = 12, tm_min = 0, tm_sec = 0\<rparr>"
proof -
  have "year_of_era 9638 = 26" by (simp add: year_of_era_def)
  moreover have "day_of_year 9638 26 = 142" by (simp add: day_of_year_def)
  moreover have "month_index 142 = 4" by (simp add: month_index_def)
  ultimately have "gmtime 1784635200 = tm_of 2026 142 4 43200" by (simp add: gmtime_def Let_def)
  then show ?thesis by (simp add: tm_of_def)
qed

lemma digit_chars [simp]:
  "char_of (48 :: nat) = CHR ''0''" "char_of (49 :: nat) = CHR ''1''" "char_of (50 :: nat) = CHR ''2''"
  "char_of (51 :: nat) = CHR ''3''" "char_of (52 :: nat) = CHR ''4''" "char_of (53 :: nat) = CHR ''5''"
  "char_of (54 :: nat) = CHR ''6''" "char_of (55 :: nat) = CHR ''7''" "char_of (56 :: nat) = CHR ''8''"
  "char_of (57 :: nat) = CHR ''9''"
  by (simp_all add: char_of_def bit_Suc_0_iff)

lemma example_timestamp: "map_option iso_string (gmtime_r 1784635200) = Some ''2026-07-21T12:00:00Z''"
  by (simp add: gmtime_r_def example_calendar iso_string_def int_string_def two_digits_def dec_string_step)

end
