(* ===== verification/Wifi.thy ===== *)
theory Wifi
  imports Ram_Platform System_Time
begin

text \<open>
  The Wi-Fi component (\<^verbatim>\<open>wifi.c\<close>): the event handler that keeps the station connecting, the
  start of the driver as station, access point or both, and the queries. The driver, the
  network interfaces and FreeRTOS are the SDK's: their answers are arguments, and what the code
  gives to the driver is part of the state.
\<close>

section \<open>State\<close>

definition CONFIG_WIFI_MAXIMUM_RETRY :: int where "CONFIG_WIFI_MAXIMUM_RETRY = 5"

record event_bits =
  connected_bit :: bool
  fail_bit :: bool

datatype wifi_mode = WIFI_MODE_STA | WIFI_MODE_AP | WIFI_MODE_APSTA

datatype wifi_auth_mode = WIFI_AUTH_OPEN | WIFI_AUTH_WPA2_PSK

record wifi_sta_config =
  sta_ssid :: carray
  sta_password :: carray
  sta_threshold :: wifi_auth_mode
  sta_pmf_capable :: bool

record wifi_ap_config =
  ap_ssid :: carray
  ap_password :: carray
  ap_ssid_len :: nat
  ap_channel :: nat
  ap_max_connection :: nat
  ap_authmode :: wifi_auth_mode
  ap_pmf_required :: bool

text \<open>The statics of the file; the driver's mode and configurations and whether it runs.\<close>

record wifi =
  wifi_event_group :: "event_bits option"
  station_netif :: bool
  access_point_netif :: bool
  station_connected :: bool
  softap_enabled :: bool
  retry_count :: int
  softap_ssid :: carray
  driver_mode :: "wifi_mode option"
  driver_station :: "wifi_sta_config option"
  driver_access_point :: "wifi_ap_config option"
  driver_started :: bool

definition initial_wifi :: wifi where
  "initial_wifi = \<lparr>wifi_event_group = None, station_netif = False, access_point_netif = False,
     station_connected = False, softap_enabled = False, retry_count = 0, softap_ssid = zeros 33,
     driver_mode = None, driver_station = None, driver_access_point = None, driver_started = False\<rparr>"

definition set_bits :: "(event_bits \<Rightarrow> event_bits) \<Rightarrow> wifi \<Rightarrow> wifi" where
  "set_bits f s = s\<lparr>wifi_event_group := map_option f (wifi_event_group s)\<rparr>"

section \<open>Events\<close>

datatype wifi_event =
    WIFI_EVENT_STA_START
  | WIFI_EVENT_STA_DISCONNECTED
  | IP_EVENT_STA_GOT_IP
  | WIFI_EVENT_AP_START
  | WIFI_EVENT_AP_STOP
  | WIFI_EVENT_AP_STACONNECTED
  | WIFI_EVENT_AP_STADISCONNECTED
  | OTHER_EVENT int

text \<open>The second component: whether the handler calls \<^verbatim>\<open>esp_wifi_connect\<close>.\<close>

fun wifi_event_handler :: "wifi_event \<Rightarrow> wifi \<Rightarrow> wifi \<times> bool" where
  "wifi_event_handler WIFI_EVENT_STA_START s = (s, True)"
| "wifi_event_handler WIFI_EVENT_STA_DISCONNECTED s =
     (let s = s\<lparr>station_connected := False\<rparr>; s = set_bits (\<lambda>b. b\<lparr>connected_bit := False\<rparr>) s in
      if retry_count s < CONFIG_WIFI_MAXIMUM_RETRY then (s\<lparr>retry_count := retry_count s + 1\<rparr>, True)
      else let s = set_bits (\<lambda>b. b\<lparr>fail_bit := True\<rparr>) s in (s\<lparr>retry_count := 0\<rparr>, True))"
| "wifi_event_handler IP_EVENT_STA_GOT_IP s =
     (let s = s\<lparr>retry_count := 0, station_connected := True\<rparr>;
          s = set_bits (\<lambda>b. b\<lparr>fail_bit := False\<rparr>) s
      in (set_bits (\<lambda>b. b\<lparr>connected_bit := True\<rparr>) s, False))"
| "wifi_event_handler WIFI_EVENT_AP_START s = (s\<lparr>softap_enabled := True\<rparr>, False)"
| "wifi_event_handler WIFI_EVENT_AP_STOP s = (s\<lparr>softap_enabled := False\<rparr>, False)"
| "wifi_event_handler WIFI_EVENT_AP_STACONNECTED s = (s, False)"
| "wifi_event_handler WIFI_EVENT_AP_STADISCONNECTED s = (s, False)"
| "wifi_event_handler (OTHER_EVENT n) s = (s, False)"

fun wifi_events :: "wifi_event list \<Rightarrow> wifi \<Rightarrow> wifi \<times> nat" where
  "wifi_events [] s = (s, 0)"
| "wifi_events (e # es) s =
     (let (s, connect) = wifi_event_handler e s; (s, connects) = wifi_events es s
      in (s, (if connect then 1 else 0) + connects))"

section \<open>Start\<close>

text \<open>The answers of the SDK, in the order of the calls.\<close>

record wifi_platform =
  group_created :: bool
  netif_init_result :: esp_err
  loop_result :: esp_err
  wifi_init_result :: esp_err
  set_storage_result :: esp_err
  register_wifi_result :: esp_err
  register_ip_result :: esp_err
  set_mode_result :: esp_err
  set_station_result :: esp_err
  read_mac_result :: esp_err
  softap_mac :: "byte list"
  set_access_point_result :: esp_err
  start_wifi_result :: esp_err

definition upper_hex_digit :: "nat \<Rightarrow> char" where
  "upper_hex_digit n = char_of (if n < 10 then 48 + n else 55 + n)"

text \<open>\<^verbatim>\<open>%02X\<close> of a byte.\<close>

definition upper_hex_byte :: "byte \<Rightarrow> string" where
  "upper_hex_byte b = [upper_hex_digit (unat b div 16), upper_hex_digit (unat b mod 16)]"

text \<open>\<^verbatim>\<open>memcpy\<close> of the first \<open>n\<close> bytes of \<open>src\<close> over \<open>dst\<close>.\<close>

definition copy_bytes :: "carray \<Rightarrow> carray \<Rightarrow> nat \<Rightarrow> carray" where
  "copy_bytes dst src n = take n src @ drop n dst"

definition configure_softap :: "wifi_platform \<Rightarrow> carray option \<Rightarrow> wifi \<Rightarrow> esp_err \<times> wifi" where
  "configure_softap p setup_secret s =
     (case setup_secret of None \<Rightarrow> (ESP_ERR_INVALID_ARG, s) | Some secret \<Rightarrow>
      if length (cstr secret) < 8 then (ESP_ERR_INVALID_ARG, s)
      else if read_mac_result p \<noteq> ESP_OK then (read_mac_result p, s)
      else let mac = softap_mac p;
          s = s\<lparr>softap_ssid := store_s (softap_ssid s) 33
                (''IEM-Setup-'' @ upper_hex_byte (mac ! 3) @ upper_hex_byte (mac ! 4) @ upper_hex_byte (mac ! 5))\<rparr>;
          softap_ssid_length = strnlen (softap_ssid s) 32;
          setup_secret_length = strnlen secret 64;
          access_point = \<lparr>ap_ssid = copy_bytes (zeros 32) (softap_ssid s) softap_ssid_length,
            ap_password = copy_bytes (zeros 64) secret setup_secret_length, ap_ssid_len = softap_ssid_length,
            ap_channel = 1, ap_max_connection = 2, ap_authmode = WIFI_AUTH_WPA2_PSK, ap_pmf_required = True\<rparr>
      in (set_access_point_result p,
          if set_access_point_result p = ESP_OK then s\<lparr>driver_access_point := Some access_point\<rparr> else s))"

definition station_config :: "device_config \<Rightarrow> wifi_sta_config" where
  "station_config c =
     (let ssid_length = strnlen (wifi_ssid c) 32; password_length = strnlen (wifi_password c) 64 in
      \<lparr>sta_ssid = copy_bytes (zeros 32) (wifi_ssid c) ssid_length,
       sta_password = copy_bytes (zeros 64) (wifi_password c) password_length,
       sta_threshold = WIFI_AUTH_WPA2_PSK, sta_pmf_capable = True\<rparr>)"

definition wifi_init_runtime ::
  "wifi_platform \<Rightarrow> device_config option \<Rightarrow> bool \<Rightarrow> carray option \<Rightarrow> wifi \<Rightarrow> esp_err \<times> wifi" where
  "wifi_init_runtime p configuration enable_softap setup_secret s =
     (let s = s\<lparr>wifi_event_group :=
          (if group_created p then Some \<lparr>connected_bit = False, fail_bit = False\<rparr> else None)\<rparr> in
      if wifi_event_group s = None then (ESP_ERR_NO_MEM, s)
      else if netif_init_result p \<noteq> ESP_OK then (netif_init_result p, s)
      else if loop_result p \<noteq> ESP_OK \<and> loop_result p \<noteq> ESP_ERR_INVALID_STATE then (loop_result p, s)
      else let s = (if configuration \<noteq> None then s\<lparr>station_netif := True\<rparr> else s);
          s = (if enable_softap then s\<lparr>access_point_netif := True\<rparr> else s)
      in if wifi_init_result p \<noteq> ESP_OK then (wifi_init_result p, s)
      else if set_storage_result p \<noteq> ESP_OK then (set_storage_result p, s)
      else if register_wifi_result p \<noteq> ESP_OK then (register_wifi_result p, s)
      else if register_ip_result p \<noteq> ESP_OK then (register_ip_result p, s)
      else let mode = (if configuration = None then WIFI_MODE_AP
                       else if enable_softap then WIFI_MODE_APSTA else WIFI_MODE_STA)
      in if set_mode_result p \<noteq> ESP_OK then (set_mode_result p, s)
      else let s = s\<lparr>driver_mode := Some mode\<rparr>;
          (station_result, s) = (case configuration of None \<Rightarrow> (ESP_OK, s)
            | Some c \<Rightarrow> (set_station_result p,
                if set_station_result p = ESP_OK then s\<lparr>driver_station := Some (station_config c)\<rparr> else s))
      in if station_result \<noteq> ESP_OK then (station_result, s)
      else let (softap_result, s) = (if enable_softap then configure_softap p setup_secret s else (ESP_OK, s))
      in if softap_result \<noteq> ESP_OK then (softap_result, s)
      else if start_wifi_result p \<noteq> ESP_OK then (start_wifi_result p, s)
      else (ESP_OK, s\<lparr>driver_started := True\<rparr>))"

section \<open>Queries\<close>

text \<open>\<open>s\<close> is the state when the wait ends; the event group exists once the driver is started.\<close>

definition wifi_wait_for_station :: "wifi \<Rightarrow> esp_err" where
  "wifi_wait_for_station s = (if connected_bit (the (wifi_event_group s)) then ESP_OK else ESP_ERR_TIMEOUT)"

definition wifi_disable_softap :: "esp_err \<Rightarrow> wifi \<Rightarrow> esp_err \<times> wifi" where
  "wifi_disable_softap mode_result s =
     (if \<not> softap_enabled s then (ESP_OK, s)
      else (mode_result, if mode_result = ESP_OK then s\<lparr>driver_mode := Some WIFI_MODE_STA\<rparr> else s))"

definition wifi_station_is_connected :: "wifi \<Rightarrow> bool" where
  "wifi_station_is_connected s = station_connected s"

definition wifi_softap_is_enabled :: "wifi \<Rightarrow> bool" where
  "wifi_softap_is_enabled s = softap_enabled s"

text \<open>The text of \<^verbatim>\<open>IPSTR\<close>: the bytes of the address from the lowest.\<close>

definition ip_string :: "u32 \<Rightarrow> string" where
  "ip_string a = (let b = (\<lambda>i. dec_string (unat (drop_bit (8 * i) a AND 0xFF))) in
     b 0 @ ''.'' @ b 1 @ ''.'' @ b 2 @ ''.'' @ b 3)"

definition wifi_get_station_ip ::
  "esp_err \<Rightarrow> u32 \<Rightarrow> carray option \<Rightarrow> nat \<Rightarrow> wifi \<Rightarrow> esp_err \<times> carray option" where
  "wifi_get_station_ip result addr buffer buffer_size s =
     (case buffer of None \<Rightarrow> (ESP_ERR_INVALID_ARG, None) | Some b \<Rightarrow>
      if buffer_size < 16 \<or> \<not> station_netif s then (ESP_ERR_INVALID_ARG, buffer)
      else if result \<noteq> ESP_OK then (result, buffer)
      else (if addr \<noteq> 0 then ESP_OK else ESP_ERR_INVALID_STATE, Some (store_s b buffer_size (ip_string addr))))"

definition wifi_get_station_rssi :: "esp_err \<Rightarrow> int \<Rightarrow> bool \<Rightarrow> wifi \<Rightarrow> esp_err \<times> int option" where
  "wifi_get_station_rssi error rssi present s =
     (if \<not> present then (ESP_ERR_INVALID_ARG, None)
      else if \<not> station_connected s then (ESP_ERR_INVALID_STATE, None)
      else if error \<noteq> ESP_OK then (error, None) else (ESP_OK, Some rssi))"

definition wifi_get_softap_ipv4 ::
  "esp_err \<Rightarrow> u32 \<Rightarrow> u32 \<Rightarrow> bool \<Rightarrow> bool \<Rightarrow> wifi \<Rightarrow> esp_err \<times> (u32 \<times> u32) option" where
  "wifi_get_softap_ipv4 result ip nm address netmask s =
     (if \<not> address \<or> \<not> netmask \<or> \<not> access_point_netif s then (ESP_ERR_INVALID_STATE, None)
      else if result \<noteq> ESP_OK then (result, None)
      else if ip = 0 \<or> nm = 0 then (ESP_ERR_INVALID_STATE, None)
      else (ESP_OK, Some (ip, nm)))"

definition wifi_get_softap_ssid :: "wifi \<Rightarrow> carray" where
  "wifi_get_softap_ssid s = softap_ssid s"

section \<open>Facts\<close>

lemma takeWhile_take_eq: "length (takeWhile P xs) \<le> n \<Longrightarrow> takeWhile P (take n xs) = takeWhile P xs"
  by (induction xs arbitrary: n) (auto simp: take_Cons split: nat.splits)

text \<open>A C string that fits is copied whole; the rest of the array stays zero.\<close>

lemma copied_text:
  assumes "length (cstr src) \<le> n"
  shows "copy_bytes (zeros n) src (strnlen src n) = cstr src @ zeros (n - length (cstr src))"
proof -
  have "cstr (take n src) = cstr src" using assms by (simp add: cstr_def takeWhile_take_eq)
  then show ?thesis by (simp add: copy_bytes_def strnlen_def zeros_def)
qed

definition station_up :: "wifi_event \<Rightarrow> bool \<Rightarrow> bool" where
  "station_up e up = (if e = IP_EVENT_STA_GOT_IP then True else if e = WIFI_EVENT_STA_DISCONNECTED then False else up)"

definition asks_to_connect :: "wifi_event \<Rightarrow> bool" where
  "asks_to_connect e \<longleftrightarrow> e = WIFI_EVENT_STA_START \<or> e = WIFI_EVENT_STA_DISCONNECTED"

definition wifi_inv :: "wifi \<Rightarrow> bool" where
  "wifi_inv s \<longleftrightarrow> 0 \<le> retry_count s \<and> retry_count s \<le> CONFIG_WIFI_MAXIMUM_RETRY \<and>
     (\<exists>b. wifi_event_group s = Some b \<and> connected_bit b = station_connected s \<and> \<not> (connected_bit b \<and> fail_bit b))"

lemma handler_effect:
  assumes "wifi_inv s" and "wifi_event_handler e s = (s', connect)"
  shows "wifi_inv s' \<and> station_connected s' = station_up e (station_connected s) \<and> connect = asks_to_connect e"
  using assms
  by (cases e) (auto simp: wifi_inv_def set_bits_def station_up_def asks_to_connect_def CONFIG_WIFI_MAXIMUM_RETRY_def
      Let_def split: if_splits)

lemma events_effect:
  "wifi_inv s \<Longrightarrow> wifi_events es s = (s', n) \<Longrightarrow>
   wifi_inv s' \<and> station_connected s' = fold station_up es (station_connected s) \<and> n = length (filter asks_to_connect es)"
proof (induction es arbitrary: s n)
  case (Cons e es)
  obtain t c where e: "wifi_event_handler e s = (t, c)" by fastforce
  obtain m where "wifi_events es t = (s', m)" "n = (if c then 1 else 0) + m"
    using Cons.prems(2) by (auto simp: e split: prod.splits)
  then show ?case
    using handler_effect [OF Cons.prems(1) e] Cons.IH [of t m] by auto
qed simp

lemma started:
  assumes "wifi_init_runtime p configuration enable_softap setup_secret s = (ESP_OK, s')"
  shows "wifi_event_group s' = Some \<lparr>connected_bit = False, fail_bit = False\<rparr>" "driver_started s'"
    "station_connected s' = station_connected s" "retry_count s' = retry_count s"
    "driver_mode s' = Some (if configuration = None then WIFI_MODE_AP else if enable_softap then WIFI_MODE_APSTA else WIFI_MODE_STA)"
    "configuration = Some c \<Longrightarrow> driver_station s' = Some (station_config c)"
    "enable_softap \<Longrightarrow> \<exists>secret ap. setup_secret = Some secret \<and> 8 \<le> length (cstr secret) \<and> driver_access_point s' = Some ap \<and>
       ap_authmode ap = WIFI_AUTH_WPA2_PSK \<and> ap_pmf_required ap \<and>
       ap_password ap = copy_bytes (zeros 64) secret (strnlen secret 64)"
  using assms
  by (auto simp: wifi_init_runtime_def configure_softap_def Let_def split: if_splits option.splits prod.splits)

lemma driver_credentials:
  assumes "config_layout c" and "config_spec x509 c" and "length (cstr secret) \<le> 32"
    and "wifi_init_runtime p (Some c) enable_softap (Some secret) s = (ESP_OK, s')"
  shows "\<exists>sta. driver_station s' = Some sta \<and> sta_threshold sta = WIFI_AUTH_WPA2_PSK \<and>
      sta_ssid sta = cstr (wifi_ssid c) @ zeros (32 - length (cstr (wifi_ssid c))) \<and> cstr (wifi_ssid c) \<noteq> [] \<and>
      sta_password sta = cstr (wifi_password c) @ zeros (64 - length (cstr (wifi_password c))) \<and> 8 \<le> length (cstr (wifi_password c))"
    and "if enable_softap then driver_mode s' = Some WIFI_MODE_APSTA \<and> (\<exists>ap. driver_access_point s' = Some ap \<and>
        ap_authmode ap = WIFI_AUTH_WPA2_PSK \<and> ap_password ap = cstr secret @ zeros (64 - length (cstr secret)) \<and> 8 \<le> length (cstr secret))
      else driver_mode s' = Some WIFI_MODE_STA"
proof -
  have "NUL \<in> set (wifi_ssid c)" "NUL \<in> set (wifi_password c)" "cstr (wifi_ssid c) \<noteq> []" "8 \<le> length (cstr (wifi_password c))"
    using assms(2) by (simp_all add: config_spec_def config_strings_terminated_def)
  moreover from this have "length (cstr (wifi_ssid c)) \<le> 32" "length (cstr (wifi_password c)) \<le> 64"
    using assms(1) length_cstr_less [of "wifi_ssid c"] length_cstr_less [of "wifi_password c"] by (simp_all add: config_layout_def)
  ultimately show "\<exists>sta. driver_station s' = Some sta \<and> sta_threshold sta = WIFI_AUTH_WPA2_PSK \<and>
      sta_ssid sta = cstr (wifi_ssid c) @ zeros (32 - length (cstr (wifi_ssid c))) \<and> cstr (wifi_ssid c) \<noteq> [] \<and>
      sta_password sta = cstr (wifi_password c) @ zeros (64 - length (cstr (wifi_password c))) \<and> 8 \<le> length (cstr (wifi_password c))"
    using started(6) [OF assms(4) refl] by (simp add: station_config_def copied_text)
  show "if enable_softap then driver_mode s' = Some WIFI_MODE_APSTA \<and> (\<exists>ap. driver_access_point s' = Some ap \<and>
        ap_authmode ap = WIFI_AUTH_WPA2_PSK \<and> ap_password ap = cstr secret @ zeros (64 - length (cstr secret)) \<and> 8 \<le> length (cstr secret))
      else driver_mode s' = Some WIFI_MODE_STA"
    using started(5,7) [OF assms(4)] copied_text [of secret 64] assms(3) by auto
qed

section \<open>Properties\<close>

text \<open>
  C29. The station never stops reconnecting and never reports a stale state: after a successful
  start, over any sequence of driver events, every start and every disconnection is answered by
  exactly one connection attempt; the connection flag and the answer to a waiting task are
  those of the last address obtained or disconnection; the connected and failed bits are never
  set together; and the retry counter stays between 0 and the configured maximum.
\<close>

theorem station_keeps_reconnecting:
  assumes "wifi_init_runtime p configuration enable_softap setup_secret initial_wifi = (ESP_OK, s0)"
    and "wifi_events es s0 = (s, connects)"
  shows "connects = length (filter asks_to_connect es) \<and>
    wifi_station_is_connected s = fold station_up es False \<and>
    wifi_wait_for_station s = (if fold station_up es False then ESP_OK else ESP_ERR_TIMEOUT) \<and>
    (\<exists>b. wifi_event_group s = Some b \<and> \<not> (connected_bit b \<and> fail_bit b)) \<and>
    0 \<le> retry_count s \<and> retry_count s \<le> CONFIG_WIFI_MAXIMUM_RETRY"
proof -
  have "wifi_inv s0" "\<not> station_connected s0"
    using started [OF assms(1)] by (simp_all add: wifi_inv_def initial_wifi_def CONFIG_WIFI_MAXIMUM_RETRY_def)
  with events_effect [OF _ assms(2)] show ?thesis
    by (auto simp: wifi_inv_def wifi_wait_for_station_def wifi_station_is_connected_def)
qed

definition example_wifi_platform :: wifi_platform where
  "example_wifi_platform = \<lparr>group_created = True, netif_init_result = ESP_OK, loop_result = ESP_ERR_INVALID_STATE,
     wifi_init_result = ESP_OK, set_storage_result = ESP_OK, register_wifi_result = ESP_OK, register_ip_result = ESP_OK,
     set_mode_result = ESP_OK, set_station_result = ESP_OK, read_mac_result = ESP_OK, softap_mac = [1, 2, 3, 0xA4, 0xB5, 0xC6],
     set_access_point_result = ESP_OK, start_wifi_result = ESP_OK\<rparr>"

lemma example_wifi_start:
  "\<exists>s. wifi_init_runtime example_wifi_platform (Some example_config) True (Some ''0123456789abcdef'') initial_wifi = (ESP_OK, s)"
  by (simp add: wifi_init_runtime_def configure_softap_def example_wifi_platform_def Let_def cstr_Cons)

theorem station_keeps_reconnecting_witness:
  "\<exists>s0 s. wifi_init_runtime example_wifi_platform (Some example_config) True (Some ''0123456789abcdef'') initial_wifi = (ESP_OK, s0) \<and>
     wifi_events (WIFI_EVENT_STA_START # replicate 7 WIFI_EVENT_STA_DISCONNECTED @ [IP_EVENT_STA_GOT_IP]) s0 = (s, 8) \<and>
     wifi_wait_for_station s = ESP_OK"
proof -
  obtain s0 where s0: "wifi_init_runtime example_wifi_platform (Some example_config) True (Some ''0123456789abcdef'') initial_wifi = (ESP_OK, s0)"
    using example_wifi_start by blast
  let ?es = "WIFI_EVENT_STA_START # replicate 7 WIFI_EVENT_STA_DISCONNECTED @ [IP_EVENT_STA_GOT_IP]"
  obtain s n where run: "wifi_events ?es s0 = (s, n)" by fastforce
  from station_keeps_reconnecting [OF s0 run] have "n = 8" "wifi_wait_for_station s = ESP_OK"
    by (simp_all add: asks_to_connect_def station_up_def)
  then show ?thesis using s0 run by blast
qed

text \<open>
  With a configuration that validation accepts, a started driver has the network's name and
  passphrase whole and joins nothing weaker than WPA2; the setup network, when it is enabled, is
  WPA2 as well, with the whole setup secret of at least 8 characters as its passphrase.
\<close>

lemma driver_has_the_credentials_whole:
  assumes "config_layout c" and "config_spec x509 c" and "length (cstr secret) \<le> 32"
    and "wifi_init_runtime p (Some c) enable_softap (Some secret) s = (ESP_OK, s')"
  shows "(\<exists>sta. driver_station s' = Some sta \<and> sta_threshold sta = WIFI_AUTH_WPA2_PSK \<and>
      sta_ssid sta = cstr (wifi_ssid c) @ zeros (32 - length (cstr (wifi_ssid c))) \<and> cstr (wifi_ssid c) \<noteq> [] \<and>
      sta_password sta = cstr (wifi_password c) @ zeros (64 - length (cstr (wifi_password c))) \<and> 8 \<le> length (cstr (wifi_password c))) \<and>
    (if enable_softap then driver_mode s' = Some WIFI_MODE_APSTA \<and> (\<exists>ap. driver_access_point s' = Some ap \<and>
        ap_authmode ap = WIFI_AUTH_WPA2_PSK \<and> ap_password ap = cstr secret @ zeros (64 - length (cstr secret)) \<and> 8 \<le> length (cstr secret))
      else driver_mode s' = Some WIFI_MODE_STA)"
  using driver_credentials [OF assms] by blast

lemma driver_has_the_credentials_whole_witness:
  "\<exists>s sta. wifi_init_runtime example_wifi_platform (Some example_config) True (Some ''0123456789abcdef'') initial_wifi = (ESP_OK, s) \<and>
     driver_station s = Some sta \<and> sta_ssid sta = ''plant'' @ zeros 27"
proof -
  obtain s0 where s0: "wifi_init_runtime example_wifi_platform (Some example_config) True (Some ''0123456789abcdef'') initial_wifi = (ESP_OK, s0)"
    using example_wifi_start by blast
  have "cstr (wifi_ssid example_config) = ''plant''" by (simp add: example_config_def cstr_Cons)
  then show ?thesis
    using driver_has_the_credentials_whole [OF example_config_layout example_config_spec _ s0] s0 by (auto simp: cstr_Cons)
qed

end
