(* ===== verification/Float32.thy ===== *)
theory Float32
  imports Complex_Main System_Time
begin

text \<open>
  What the firmware uses of C's \<^verbatim>\<open>float\<close>: conversion of integers, division, comparison,
  \<^verbatim>\<open>isfinite\<close> and the conversion \<^verbatim>\<open>%.2f\<close>. A finite value is the rational number it
  denotes, rounding is to nearest, ties to even, with 24 significant bits; no operation of
  the firmware produces a negative zero.
\<close>

datatype f32 = Finite rat | Infinite bool | NaN

definition isfinite :: "f32 \<Rightarrow> bool" where
  "isfinite x = (case x of Finite _ \<Rightarrow> True | _ \<Rightarrow> False)"

text \<open>\<open>x < c\<close> and \<open>x > c\<close> for a finite constant; a NaN compares false.\<close>

definition f32_less :: "f32 \<Rightarrow> rat \<Rightarrow> bool" where
  "f32_less x c = (case x of Finite q \<Rightarrow> q < c | Infinite neg \<Rightarrow> neg | NaN \<Rightarrow> False)"

definition f32_greater :: "f32 \<Rightarrow> rat \<Rightarrow> bool" where
  "f32_greater x c = (case x of Finite q \<Rightarrow> q > c | Infinite neg \<Rightarrow> \<not> neg | NaN \<Rightarrow> False)"

section \<open>Rounding\<close>

definition round_even :: "rat \<Rightarrow> int" where
  "round_even q =
     (let n = \<lfloor>q\<rfloor>; r = q - of_int n in
      if r < 1 / 2 then n else if r > 1 / 2 then n + 1 else if even n then n else n + 1)"

text \<open>The least \<open>k\<close>, at most \<open>fuel\<close> steps on, with \<open>a < 2 ^ (k + 1)\<close>.\<close>

fun binade :: "nat \<Rightarrow> nat \<Rightarrow> rat \<Rightarrow> nat" where
  "binade 0 k a = k"
| "binade (Suc fuel) k a = (if a < 2 ^ Suc k then k else binade fuel (Suc k) a)"

text \<open>
  A value of the binade \<open>2 ^ (k - 126)\<close> is a multiple of \<open>2 ^ (k - 149)\<close>; \<open>k = 0\<close> are the
  subnormal numbers. From \<open>2 ^ 128\<close> on the result is infinite.
\<close>

definition round32 :: "rat \<Rightarrow> f32" where
  "round32 q =
     (let k = binade 254 0 (\<bar>q\<bar> * 2 ^ 126); ulp = 2 ^ k / 2 ^ 149; x = of_int (round_even (q / ulp)) * ulp in
      if \<bar>x\<bar> \<ge> 2 ^ 128 then Infinite (x < 0) else Finite x)"

definition f32_of_int :: "int \<Rightarrow> f32" where
  "f32_of_int i = round32 (of_int i)"

text \<open>Division by a positive constant.\<close>

definition f32_div :: "f32 \<Rightarrow> rat \<Rightarrow> f32" where
  "f32_div x c = (case x of Finite q \<Rightarrow> round32 (q / c) | y \<Rightarrow> y)"

lemma round_even_int [simp]: "round_even (of_int n) = n"
  by (simp add: round_even_def)

lemma round_even_error: "\<bar>of_int (round_even q) - q\<bar> \<le> 1 / 2"
proof -
  have "of_int \<lfloor>q\<rfloor> \<le> q" "q < of_int \<lfloor>q\<rfloor> + 1" by linarith+
  then show ?thesis unfolding round_even_def Let_def abs_if by (simp split: if_split) linarith
qed

lemma round_even_near: "\<bar>q - of_int n\<bar> < 1 / 2 \<Longrightarrow> round_even q = n"
proof -
  assume "\<bar>q - of_int n\<bar> < 1 / 2"
  then have "\<bar>of_int (round_even q) - (of_int n :: rat)\<bar> < 1"
    using round_even_error [of q] by linarith
  then have "\<bar>of_int (round_even q - n)\<bar> < (1 :: rat)" by simp
  then show ?thesis by linarith
qed

lemma binade_bounds:
  "2 ^ k \<le> a \<or> k = 0 \<Longrightarrow> a < 2 ^ (k + fuel) \<or> fuel = 0 \<Longrightarrow>
   (2 ^ binade fuel k a \<le> a \<or> binade fuel k a = 0) \<and> (0 < fuel \<longrightarrow> a < 2 ^ Suc (binade fuel k a))"
proof (induction fuel k a rule: binade.induct)
  case (2 fuel k a)
  show ?case
  proof (cases "a < 2 ^ Suc k")
    case True
    then show ?thesis using 2 by simp
  next
    case False
    then have ne: "fuel \<noteq> 0" using "2.prems"(2) by (cases fuel) auto
    have "(2 ^ binade fuel (Suc k) a \<le> a \<or> binade fuel (Suc k) a = 0) \<and>
        (0 < fuel \<longrightarrow> a < 2 ^ Suc (binade fuel (Suc k) a))"
      using False 2 ne by (intro 2) (auto simp: not_less)
    then show ?thesis using False ne by simp
  qed
qed simp

lemma binade_le: "a < 2 ^ Suc k \<Longrightarrow> j \<le> k \<Longrightarrow> binade fuel j a \<le> k"
proof (induction fuel j a rule: binade.induct)
  case (2 fuel j a)
  show ?case
  proof (cases "j = k")
    case True
    then show ?thesis using 2 by simp
  next
    case False
    then show ?thesis using 2 by auto
  qed
qed simp

section \<open>Accuracy\<close>

text \<open>In the normal range the relative error is at most \<open>2 ^ - 24\<close>.\<close>

lemma round32_error:
  assumes "1 / 2 ^ 126 \<le> \<bar>q\<bar>" and "\<bar>q\<bar> < 2 ^ 127"
  shows "\<exists>x. round32 q = Finite x \<and> \<bar>x - q\<bar> \<le> \<bar>q\<bar> / 2 ^ 24"
proof -
  define a where "a = \<bar>q\<bar> * 2 ^ 126"
  define k where "k = binade 254 0 a"
  define ulp :: rat where "ulp = 2 ^ k / 2 ^ 149"
  define x where "x = of_int (round_even (q / ulp)) * ulp"
  have pos: "0 < ulp" by (simp add: ulp_def)
  have a: "1 \<le> a" "a < 2 ^ 253"
    using assms by (simp_all add: a_def field_simps)
  have "2 ^ k \<le> a \<or> k = 0"
    using binade_bounds [of 0 a 254] a unfolding k_def by simp
  then have "2 ^ k \<le> a" using a by auto
  then have "ulp \<le> a / 2 ^ 149" unfolding ulp_def by (intro divide_right_mono) simp_all
  then have "ulp \<le> \<bar>q\<bar> / 2 ^ 23" by (simp add: a_def)
  have "x - q = (of_int (round_even (q / ulp)) - q / ulp) * ulp"
    using pos by (simp add: x_def left_diff_distrib)
  then have "\<bar>x - q\<bar> = \<bar>of_int (round_even (q / ulp)) - q / ulp\<bar> * ulp"
    using pos by (simp add: abs_mult)
  also have "\<dots> \<le> 1 / 2 * ulp"
    using round_even_error pos by (intro mult_right_mono) simp_all
  also have "\<dots> \<le> \<bar>q\<bar> / 2 ^ 24" using \<open>ulp \<le> \<bar>q\<bar> / 2 ^ 23\<close> by simp
  finally have error: "\<bar>x - q\<bar> \<le> \<bar>q\<bar> / 2 ^ 24" .
  then have "\<bar>x\<bar> < 2 ^ 128" using assms(2) by (simp add: abs_if split: if_splits)
  then have "round32 q = Finite x"
    unfolding round32_def Let_def a_def [symmetric] k_def [symmetric] ulp_def [symmetric] x_def [symmetric]
    by simp
  then show ?thesis using error by blast
qed

lemma round_scaled:
  assumes "k \<le> m"
  shows "round_even (of_int i / (2 ^ k / 2 ^ m)) = i * 2 ^ (m - k)"
    and "of_int (i * 2 ^ (m - k)) * (2 ^ k / 2 ^ m) = (of_int i :: rat)"
proof -
  have m: "(2 :: rat) ^ m = 2 ^ k * 2 ^ (m - k)" using assms by (simp flip: power_add)
  have "of_int i / (2 ^ k / 2 ^ m :: rat) = of_int (i * 2 ^ (m - k))" by (simp add: m)
  then show "round_even (of_int i / (2 ^ k / 2 ^ m)) = i * 2 ^ (m - k)" by (simp only: round_even_int)
  show "of_int (i * 2 ^ (m - k)) * (2 ^ k / 2 ^ m) = (of_int i :: rat)" by (simp add: m)
qed

text \<open>Integers of 24 bits are exact.\<close>

lemma f32_of_int_exact:
  assumes "\<bar>i\<bar> < 2 ^ 24"
  shows "f32_of_int i = Finite (of_int i)"
proof -
  define k where "k = binade 254 0 (\<bar>of_int i\<bar> * 2 ^ 126)"
  have "of_int \<bar>i\<bar> < (of_int (2 ^ 24) :: rat)" using assms unfolding of_int_less_iff .
  then have small: "\<bar>of_int i :: rat\<bar> < 2 ^ 24" by simp
  then have "\<bar>of_int i :: rat\<bar> * 2 ^ 126 < 2 ^ Suc 149" by simp
  then have "k \<le> 149" unfolding k_def by (rule binade_le) simp
  then have "of_int (round_even (of_int i / (2 ^ k / 2 ^ 149))) * (2 ^ k / 2 ^ 149) = (of_int i :: rat)"
    by (simp only: round_scaled)
  then show ?thesis
    using small unfolding f32_of_int_def round32_def Let_def k_def [symmetric] by simp
qed

text \<open>So are 24-bit integers divided by a small power of two.\<close>

lemma round32_scaled:
  assumes "\<bar>i\<bar> < 2 ^ 24" and "n \<le> 100"
  shows "round32 (of_int i / 2 ^ n) = Finite (of_int i / 2 ^ n)"
proof -
  let ?q = "of_int i / 2 ^ n :: rat"
  define k where "k = binade 254 0 (\<bar>?q\<bar> * 2 ^ 126)"
  have "of_int \<bar>i\<bar> < (of_int (2 ^ 24) :: rat)" using assms(1) unfolding of_int_less_iff .
  then have small: "\<bar>of_int i :: rat\<bar> < 2 ^ 24" by simp
  have "(2 :: rat) ^ 126 = 2 ^ (126 - n) * 2 ^ n" using assms(2) by (simp flip: power_add)
  then have "\<bar>?q\<bar> * 2 ^ 126 = \<bar>?q\<bar> * (2 ^ (126 - n) * 2 ^ n)" by (simp only:)
  also have "\<dots> = \<bar>of_int i\<bar> * 2 ^ (126 - n)" by (simp add: abs_divide)
  also have "\<dots> < 2 ^ 24 * 2 ^ (126 - n)" using small by simp
  also have "\<dots> = 2 ^ (24 + (126 - n))" by (simp only: power_add)
  also have "24 + (126 - n) = Suc (149 - n)" using assms(2) by simp
  finally have k: "k \<le> 149 - n" unfolding k_def by (rule binade_le) simp
  have ulp: "(2 :: rat) ^ k / 2 ^ 149 = 2 ^ k / 2 ^ (149 - n) / 2 ^ n"
    using assms(2) by (simp flip: power_add)
  have "?q / (2 ^ k / 2 ^ 149) = of_int i / (2 ^ k / 2 ^ (149 - n))" unfolding ulp by simp
  then have "of_int (round_even (?q / (2 ^ k / 2 ^ 149))) * (2 ^ k / 2 ^ 149) = ?q"
    using round_scaled [OF k, of i] by (simp only: ulp times_divide_eq_right)
  moreover have "\<bar>?q\<bar> < 2 ^ 128"
  proof -
    have "\<bar>?q\<bar> = \<bar>of_int i\<bar> / 2 ^ n" by (simp add: abs_divide)
    also have "\<dots> \<le> \<bar>of_int i\<bar>" using mult_left_mono [of 1 "2 ^ n" "\<bar>of_int i :: rat\<bar>"] by (simp add: divide_le_eq)
    finally show ?thesis using small by simp
  qed
  ultimately show ?thesis unfolding round32_def Let_def k_def [symmetric] by simp
qed

lemma round32_0 [simp]: "round32 0 = Finite 0"
  using f32_of_int_exact [of 0] by (simp add: f32_of_int_def)

section \<open>The conversion \<^verbatim>\<open>%.2f\<close>\<close>

text \<open>The exact value is rounded to hundredths, ties to even.\<close>

definition format_2f :: "f32 \<Rightarrow> string" where
  "format_2f x =
     (case x of
        Finite q \<Rightarrow> let n = nat (round_even (100 * \<bar>q\<bar>)) in
          (if q < 0 then ''-'' else []) @ dec_string (n div 100) @ ''.'' @ two_digits (n mod 100)
      | Infinite neg \<Rightarrow> if neg then ''-inf'' else ''inf''
      | NaN \<Rightarrow> ''nan'')"

text \<open>The text of a number of hundredths.\<close>

definition hundredths :: "int \<Rightarrow> string" where
  "hundredths t = (if t < 0 then ''-'' else []) @ dec_string (nat \<bar>t\<bar> div 100) @ ''.'' @ two_digits (nat \<bar>t\<bar> mod 100)"

lemma round_even_mono_bound: "0 \<le> q \<Longrightarrow> q \<le> of_int n \<Longrightarrow> 0 \<le> round_even q \<and> round_even q \<le> n"
proof -
  assume q: "0 \<le> q" "q \<le> of_int n"
  have "\<bar>of_int (round_even q) - q\<bar> \<le> 1 / 2" by (rule round_even_error)
  then have "- (1 / 2) \<le> (of_int (round_even q) :: rat)" "of_int (round_even q) \<le> (of_int n + 1 / 2 :: rat)"
    using q by linarith+
  then have "of_int (- 1) < (of_int (round_even q) :: rat)" "of_int (round_even q) < (of_int (n + 1) :: rat)"
    by simp_all
  then show ?thesis unfolding of_int_less_iff by linarith
qed

lemma format_2f_length:
  assumes "- 40 \<le> q" and "q \<le> 100"
  shows "length (format_2f (Finite q)) \<le> 6"
proof -
  define n where "n = nat (round_even (100 * \<bar>q\<bar>))"
  have len: "length (format_2f (Finite q)) = (if q < 0 then 1 else 0) + length (dec_string (n div 100)) + 3"
    by (simp add: format_2f_def Let_def n_def)
  show ?thesis
  proof (cases "q < 0")
    case True
    then have "n \<le> 4000"
      using assms round_even_mono_bound [of "100 * \<bar>q\<bar>" 4000] by (simp add: n_def nat_le_iff)
    then have "length (dec_string (n div 100)) \<le> 2" by (intro dec_string_bound) simp_all
    then show ?thesis using len by simp
  next
    case False
    then have "n \<le> 10000"
      using assms round_even_mono_bound [of "100 * \<bar>q\<bar>" 10000] by (simp add: n_def nat_le_iff)
    then have "length (dec_string (n div 100)) \<le> 3" by (intro dec_string_bound) simp_all
    then show ?thesis using len False by simp
  qed
qed

text \<open>A number of hundredths that was rounded to a float is printed as it was.\<close>

lemma format_2f_hundredths:
  assumes "\<bar>t\<bar> < 2 ^ 22"
  shows "format_2f (f32_div (f32_of_int t) 100) = hundredths t"
proof -
  have exact: "f32_of_int t = Finite (of_int t)" using assms by (intro f32_of_int_exact) simp
  show ?thesis
  proof (cases "t = 0")
    case True
    then show ?thesis using exact by (simp add: f32_div_def format_2f_def hundredths_def Let_def round_even_def)
  next
    case False
    define q :: rat where "q = of_int t / 100"
    have "of_int \<bar>t\<bar> < (of_int (2 ^ 22) :: rat)" using assms unfolding of_int_less_iff .
    then have small: "\<bar>of_int t :: rat\<bar> < 2 ^ 22" by simp
    have "1 \<le> \<bar>t\<bar>" using False by simp
    then have "of_int 1 \<le> (of_int \<bar>t\<bar> :: rat)" unfolding of_int_le_iff .
    then have big: "1 \<le> \<bar>of_int t :: rat\<bar>" by simp
    have qa: "\<bar>q\<bar> = \<bar>of_int t\<bar> / 100" by (simp add: q_def)
    have "\<bar>q\<bar> < 2 ^ 127" using small by (simp add: qa)
    moreover have "1 / 2 ^ 126 \<le> \<bar>q\<bar>" using big by (simp add: qa)
    ultimately obtain x where x: "round32 q = Finite x" "\<bar>x - q\<bar> \<le> \<bar>q\<bar> / 2 ^ 24"
      using round32_error by blast
    have "\<bar>x - q\<bar> < 1 / 400" "\<bar>x - q\<bar> < \<bar>q\<bar>"
      using x(2) small big by (simp_all add: qa)
    then have sign: "x < 0 \<longleftrightarrow> t < 0"
      using False by (auto simp: q_def abs_if split: if_splits)
    have "\<bar>\<bar>x\<bar> - \<bar>q\<bar>\<bar> < 1 / 400" using \<open>\<bar>x - q\<bar> < 1 / 400\<close> by linarith
    moreover have "(of_int \<bar>t\<bar> :: rat) = 100 * \<bar>q\<bar>" by (simp add: qa)
    ultimately have "\<bar>100 * \<bar>x\<bar> - of_int \<bar>t\<bar>\<bar> < 1 / 2" by linarith
    then have "round_even (100 * \<bar>x\<bar>) = \<bar>t\<bar>" by (rule round_even_near)
    then show ?thesis
      using x(1) sign exact
      by (simp add: f32_div_def q_def [symmetric] format_2f_def hundredths_def Let_def)
  qed
qed

end
