(* ===== verification/Bme280_Compensation.thy ===== *)
theory Bme280_Compensation
  imports Float32 "HOL-Library.Monad_Syntax" "HOL-Library.Signed_Division"
begin

text \<open>
  The compensation formulas of the environmental sensor (\<^verbatim>\<open>bme280.c\<close>). Signed arithmetic that
  leaves its C type is undefined behaviour: the formulas are values of the option type,
  \<open>None\<close> where an operation overflows. A right shift rounds down and a left shift multiplies,
  as the compiler of the firmware defines them.
\<close>

section \<open>Calibration and checked arithmetic\<close>

text \<open>The signed coefficients are read with \<open>sint\<close>.\<close>

record bme280_calibration =
  dig_t1 :: u16
  dig_t2 :: u16
  dig_t3 :: u16
  dig_p1 :: u16
  dig_p2 :: u16
  dig_p3 :: u16
  dig_p4 :: u16
  dig_p5 :: u16
  dig_p6 :: u16
  dig_p7 :: u16
  dig_p8 :: u16
  dig_p9 :: u16
  dig_h1 :: u8
  dig_h2 :: u16
  dig_h3 :: u8
  dig_h4 :: u16
  dig_h5 :: u16
  dig_h6 :: u8

definition int32 :: "int \<Rightarrow> int option" where
  "int32 x = (if - 2147483648 \<le> x \<and> x \<le> 2147483647 then Some x else None)"

definition int64 :: "int \<Rightarrow> int option" where
  "int64 x = (if - 9223372036854775808 \<le> x \<and> x \<le> 9223372036854775807 then Some x else None)"

section \<open>The formulas\<close>

text \<open>
  The result is \<open>temperature_fine\<close> and the value returned, an operation a line; the unsigned
  coefficients are promoted to \<open>int\<close>.
\<close>

definition temperature_x100 :: "bme280_calibration \<Rightarrow> int \<Rightarrow> (int \<times> int) option" where
  "temperature_x100 c raw =
     do {
       t1x2 \<leftarrow> int32 (uint (dig_t1 c) * 2);
       d \<leftarrow> int32 (raw div 8 - t1x2);
       p \<leftarrow> int32 (d * sint (dig_t2 c));
       let variable_1 = p div 2048;
       e \<leftarrow> int32 (raw div 16 - uint (dig_t1 c));
       ee \<leftarrow> int32 (e * e);
       q \<leftarrow> int32 (ee div 4096 * sint (dig_t3 c));
       let variable_2 = q div 16384;
       fine \<leftarrow> int32 (variable_1 + variable_2);
       f5 \<leftarrow> int32 (fine * 5);
       f5r \<leftarrow> int32 (f5 + 128);
       Some (fine, f5r div 256)
     }"

definition bme280_compensate_temperature :: "bme280_calibration \<Rightarrow> int \<Rightarrow> (int \<times> f32) option" where
  "bme280_compensate_temperature c raw =
     map_option (\<lambda>(fine, t). (fine, f32_div (f32_of_int t) 100)) (temperature_x100 c raw)"

text \<open>The division of \<^verbatim>\<open>int64_t\<close> values truncates.\<close>

definition bme280_compensate_pressure :: "bme280_calibration \<Rightarrow> int \<Rightarrow> int \<Rightarrow> f32 option" where
  "bme280_compensate_pressure c fine raw =
     do {
       v1 \<leftarrow> int64 (fine - 128000);
       v1v1 \<leftarrow> int64 (v1 * v1);
       v2 \<leftarrow> int64 (v1v1 * sint (dig_p6 c));
       v1p5 \<leftarrow> int64 (v1 * sint (dig_p5 c));
       v1p5s \<leftarrow> int64 (v1p5 * 2 ^ 17);
       v2 \<leftarrow> int64 (v2 + v1p5s);
       p4s \<leftarrow> int64 (sint (dig_p4 c) * 2 ^ 35);
       v2 \<leftarrow> int64 (v2 + p4s);
       v1v1p3 \<leftarrow> int64 (v1v1 * sint (dig_p3 c));
       v1p2 \<leftarrow> int64 (v1 * sint (dig_p2 c));
       v1p2s \<leftarrow> int64 (v1p2 * 2 ^ 12);
       v1 \<leftarrow> int64 (v1v1p3 div 2 ^ 8 + v1p2s);
       v1 \<leftarrow> int64 (2 ^ 47 + v1);
       v1 \<leftarrow> int64 (v1 * uint (dig_p1 c));
       let v1 = v1 div 2 ^ 33;
       if v1 = 0 then Some (Finite 0)
       else do {
         p \<leftarrow> int32 (1048576 - raw);
         p \<leftarrow> int64 (p * 2 ^ 31);
         p \<leftarrow> int64 (p - v2);
         p \<leftarrow> int64 (p * 3125);
         p \<leftarrow> int64 (p sdiv v1);
         p9 \<leftarrow> int64 (sint (dig_p9 c) * (p div 2 ^ 13));
         p9 \<leftarrow> int64 (p9 * (p div 2 ^ 13));
         let v1 = p9 div 2 ^ 25;
         p8 \<leftarrow> int64 (sint (dig_p8 c) * p);
         let v2 = p8 div 2 ^ 19;
         p \<leftarrow> int64 (p + v1);
         p \<leftarrow> int64 (p + v2);
         p7 \<leftarrow> int64 (sint (dig_p7 c) * 2 ^ 4);
         p \<leftarrow> int64 (p div 2 ^ 8 + p7);
         Some (f32_div (f32_div (f32_of_int p) 256) 100)
       }
     }"

definition clamp_humidity :: "int \<Rightarrow> int" where
  "clamp_humidity h = (let h = (if h < 0 then 0 else h) in if h > 419430400 then 419430400 else h)"

definition humidity_x1024 :: "bme280_calibration \<Rightarrow> int \<Rightarrow> int \<Rightarrow> int option" where
  "humidity_x1024 c fine raw =
     do {
       h \<leftarrow> int32 (fine - 76800);
       raws \<leftarrow> int32 (raw * 2 ^ 14);
       h4s \<leftarrow> int32 (sint (dig_h4 c) * 2 ^ 20);
       a \<leftarrow> int32 (raws - h4s);
       h5h \<leftarrow> int32 (sint (dig_h5 c) * h);
       a \<leftarrow> int32 (a - h5h);
       a \<leftarrow> int32 (a + 16384);
       hh6 \<leftarrow> int32 (h * sint (dig_h6 c));
       hh3 \<leftarrow> int32 (h * uint (dig_h3 c));
       b \<leftarrow> int32 (hh3 div 2 ^ 11 + 32768);
       b \<leftarrow> int32 (hh6 div 2 ^ 10 * b);
       b \<leftarrow> int32 (b div 2 ^ 10 + 2097152);
       b \<leftarrow> int32 (b * sint (dig_h2 c));
       b \<leftarrow> int32 (b + 8192);
       h \<leftarrow> int32 (a div 2 ^ 15 * (b div 2 ^ 14));
       hh \<leftarrow> int32 (h div 2 ^ 15 * (h div 2 ^ 15));
       k \<leftarrow> int32 (hh div 2 ^ 7 * uint (dig_h1 c));
       h \<leftarrow> int32 (h - k div 2 ^ 4);
       Some (clamp_humidity h div 2 ^ 12)
     }"

definition bme280_compensate_humidity :: "bme280_calibration \<Rightarrow> int \<Rightarrow> int \<Rightarrow> f32 option" where
  "bme280_compensate_humidity c fine raw =
     map_option (\<lambda>h. f32_div (f32_of_int h) 1024) (humidity_x1024 c fine raw)"

section \<open>Where the formulas are defined\<close>

lemma int32_Some [simp]: "int32 x = Some y \<longleftrightarrow> y = x \<and> - 2147483648 \<le> x \<and> x \<le> 2147483647"
  by (auto simp: int32_def)

lemma int32_in: "- 2147483648 \<le> x \<Longrightarrow> x \<le> 2147483647 \<Longrightarrow> int32 x = Some x"
  by simp

lemma humidity_bounds: "humidity_x1024 c fine raw = Some h \<Longrightarrow> 0 \<le> h \<and> h \<le> 102400"
proof -
  have clamp: "0 \<le> clamp_humidity x div 2 ^ 12 \<and> clamp_humidity x div 2 ^ 12 \<le> 102400" for x
  proof -
    have "0 \<le> clamp_humidity x" "clamp_humidity x \<le> 419430400" by (simp_all add: clamp_humidity_def Let_def)
    then show ?thesis
      using zdiv_mono1 [of "clamp_humidity x" 419430400 "2 ^ 12"] by (simp add: pos_imp_zdiv_nonneg_iff)
  qed
  assume "humidity_x1024 c fine raw = Some h"
  then obtain x where "h = clamp_humidity x div 2 ^ 12"
    unfolding humidity_x1024_def by (auto simp: bind_eq_Some_conv simp del: int32_Some)
  then show ?thesis using clamp [of x] by simp
qed

lemma humidity_percent_bounds:
  assumes "bme280_compensate_humidity c fine raw = Some x"
  shows "\<exists>q. x = Finite q \<and> 0 \<le> q \<and> q \<le> 100"
proof -
  obtain h where h: "humidity_x1024 c fine raw = Some h" and x: "x = f32_div (f32_of_int h) 1024"
    using assms unfolding bme280_compensate_humidity_def by auto
  have bounds: "0 \<le> h" "h \<le> 102400" using humidity_bounds [OF h] by simp_all
  then have "f32_of_int h = Finite (of_int h)" by (intro f32_of_int_exact) simp
  then have "x = Finite (of_int h / 1024)" using bounds round32_scaled [of h 10] x by (simp add: f32_div_def)
  moreover have "of_int 0 \<le> (of_int h :: rat)" "of_int h \<le> (of_int 102400 :: rat)"
    using bounds unfolding of_int_le_iff by simp_all
  ultimately show ?thesis by (intro exI [of _ "of_int h / 1024"]) simp
qed

text \<open>
  The coefficients for which no 20-bit reading overflows the temperature formula; those of
  the data sheet (27504, 26435, -1000) are among them.
\<close>

definition temperature_coefficients_ok :: "bme280_calibration \<Rightarrow> bool" where
  "temperature_coefficients_ok c \<longleftrightarrow>
     19196 \<le> uint (dig_t1 c) \<and> uint (dig_t1 c) \<le> 46340 \<and>
     (131071 - 2 * uint (dig_t1 c)) * \<bar>sint (dig_t2 c)\<bar> \<le> 2147483647 \<and>
     2 * uint (dig_t1 c) * \<bar>sint (dig_t2 c)\<bar> \<le> 2147483647 \<and> \<bar>sint (dig_t3 c)\<bar> \<le> 4095"

lemma abs_mult_le:
  fixes d x m y :: int
  shows "- m \<le> d \<Longrightarrow> d \<le> n \<Longrightarrow> m * \<bar>x\<bar> \<le> y \<Longrightarrow> n * \<bar>x\<bar> \<le> y \<Longrightarrow> \<bar>d * x\<bar> \<le> y"
proof -
  assume d: "- m \<le> d" "d \<le> n" and y: "m * \<bar>x\<bar> \<le> y" "n * \<bar>x\<bar> \<le> y"
  show ?thesis
  proof (cases "0 \<le> d")
    case True
    then have "\<bar>d * x\<bar> = d * \<bar>x\<bar>" by (simp add: abs_mult)
    also have "\<dots> \<le> n * \<bar>x\<bar>" using d by (intro mult_right_mono) simp_all
    finally show ?thesis using y by linarith
  next
    case False
    then have "\<bar>d * x\<bar> = - d * \<bar>x\<bar>" by (simp add: abs_mult)
    also have "\<dots> \<le> m * \<bar>x\<bar>" using d by (intro mult_right_mono) simp_all
    finally show ?thesis using y by linarith
  qed
qed

lemma temperature_defined:
  assumes c: "temperature_coefficients_ok c" and raw: "0 \<le> raw" "raw < 1048576"
  shows "\<exists>fine t. temperature_x100 c raw = Some (fine, t) \<and> \<bar>fine\<bar> \<le> 1179648 \<and> \<bar>t\<bar> \<le> 23041"
proof -
  define t1 where "t1 = uint (dig_t1 c)"
  define d where "d = raw div 8 - t1 * 2"
  define e where "e = raw div 16 - t1"
  define p where "p = d * sint (dig_t2 c)"
  define q where "q = e * e div 4096 * sint (dig_t3 c)"
  have t1: "19196 \<le> t1" "t1 \<le> 46340" using c by (simp_all add: temperature_coefficients_ok_def t1_def)
  have d: "- (2 * t1) \<le> d" "d \<le> 131071 - 2 * t1" "d \<le> 131071" using raw t1 by (simp_all add: d_def)
  have p: "\<bar>p\<bar> \<le> 2147483647"
    unfolding p_def using c by (intro abs_mult_le [OF d(1,2)]) (simp_all add: temperature_coefficients_ok_def t1_def)
  have e: "- 46340 \<le> e" "e \<le> 46340" using raw t1 by (simp_all add: e_def)
  have "\<bar>e * e\<bar> \<le> 2147395600" using e by (intro abs_mult_le [of 46340 e 46340]) simp_all
  then have ee: "0 \<le> e * e" "e * e \<le> 2147395600" by simp_all
  then have "0 \<le> e * e div 4096" "e * e div 4096 \<le> 524266"
    using zdiv_mono1 [of "e * e" 2147395600 4096] by (simp_all add: pos_imp_zdiv_nonneg_iff)
  then have q: "\<bar>q\<bar> \<le> 2147483647"
    unfolding q_def using c by (intro abs_mult_le [of 0 _ 524266]) (simp_all add: temperature_coefficients_ok_def)
  define fine where "fine = p div 2048 + q div 16384"
  have "- 1048576 \<le> p div 2048" "p div 2048 \<le> 1048575" "- 131072 \<le> q div 16384" "q div 16384 \<le> 131071"
    using p q zdiv_mono1 [of "- 2147483647" p 2048] zdiv_mono1 [of p 2147483647 2048]
      zdiv_mono1 [of "- 2147483647" q 16384] zdiv_mono1 [of q 2147483647 16384]
    by (simp_all add: abs_le_iff)
  then have fine: "\<bar>fine\<bar> \<le> 1179648" by (simp add: fine_def abs_le_iff)
  have square: "int32 (e * e) = Some (e * e)" using ee by (intro int32_in) linarith+
  have "temperature_x100 c raw = Some (fine, (fine * 5 + 128) div 256)"
    unfolding temperature_x100_def Let_def t1_def [symmetric]
    using t1 d e ee p q fine
    by (simp add: int32_in square d_def [symmetric] e_def [symmetric] p_def [symmetric] q_def [symmetric]
        fine_def [symmetric] del: int32_Some)
  moreover have "\<bar>(fine * 5 + 128) div 256\<bar> \<le> 23041" using fine by simp
  ultimately show ?thesis using fine by blast
qed

section \<open>Properties\<close>

text \<open>
  C32. For every calibration whose temperature coefficients lie in the range of
  \<open>temperature_coefficients_ok\<close>, which bounds the products to 32 bits, and for every reading of
  the 20-bit converter the temperature is computed without overflow, lies within 230.41 degrees of
  zero, and prints with two decimals as exactly the hundredths of a degree that the integer formula
  yields. The driver itself accepts every calibration block; outside the range the signed
  arithmetic can overflow (\<open>temperature_overflows_outside_the_range\<close>).
\<close>

theorem temperature_is_exact_to_the_hundredth:
  assumes "temperature_coefficients_ok c" and "0 \<le> raw" and "raw < 1048576"
  shows "\<exists>fine t x. temperature_x100 c raw = Some (fine, t) \<and> \<bar>t\<bar> \<le> 23041 \<and>
    bme280_compensate_temperature c raw = Some (fine, x) \<and> format_2f x = hundredths t"
proof -
  obtain fine t where t: "temperature_x100 c raw = Some (fine, t)" "\<bar>t\<bar> \<le> 23041"
    using temperature_defined [OF assms] by blast
  then have "format_2f (f32_div (f32_of_int t) 100) = hundredths t"
    by (intro format_2f_hundredths) simp
  then show ?thesis using t by (simp add: bme280_compensate_temperature_def)
qed

text \<open>The coefficients and the reading of the data sheet's example.\<close>

definition zero_calibration :: bme280_calibration where
  "zero_calibration = \<lparr>dig_t1 = 0, dig_t2 = 0, dig_t3 = 0, dig_p1 = 0, dig_p2 = 0, dig_p3 = 0, dig_p4 = 0,
     dig_p5 = 0, dig_p6 = 0, dig_p7 = 0, dig_p8 = 0, dig_p9 = 0, dig_h1 = 0, dig_h2 = 0, dig_h3 = 0,
     dig_h4 = 0, dig_h5 = 0, dig_h6 = 0\<rparr>"

definition data_sheet_calibration :: bme280_calibration where
  "data_sheet_calibration = zero_calibration\<lparr>dig_t1 := 27504, dig_t2 := 26435, dig_t3 := - 1000\<rparr>"

lemma data_sheet_temperature: "temperature_x100 data_sheet_calibration 519888 = Some (128422, 2508)"
  by (simp add: temperature_x100_def data_sheet_calibration_def int32_in del: int32_Some)

lemma temperature_overflows_outside_the_range:
  "\<not> temperature_coefficients_ok zero_calibration" "temperature_x100 zero_calibration 1048575 = None"
  by (simp_all add: temperature_coefficients_ok_def zero_calibration_def temperature_x100_def int32_def)

theorem temperature_is_exact_to_the_hundredth_witness:
  "\<exists>fine x. bme280_compensate_temperature data_sheet_calibration 519888 = Some (fine, x) \<and> format_2f x = ''25.08''"
proof -
  have "temperature_coefficients_ok data_sheet_calibration"
    by (simp add: temperature_coefficients_ok_def data_sheet_calibration_def)
  then show ?thesis
    using temperature_is_exact_to_the_hundredth [of data_sheet_calibration 519888] data_sheet_temperature
    by (auto simp: hundredths_def two_digits_def dec_string_step)
qed

text \<open>
  Whatever the calibration, the reading and the temperature are, a humidity that is
  computed without overflow is a number from 0 to 100.
\<close>

lemma humidity_is_a_percentage:
  assumes "bme280_compensate_humidity c fine raw = Some x"
  shows "\<exists>q. x = Finite q \<and> 0 \<le> q \<and> q \<le> 100"
  using assms by (rule humidity_percent_bounds)

lemma humidity_is_a_percentage_witness:
  "\<exists>q. bme280_compensate_humidity zero_calibration 0 0 = Some (Finite q) \<and> 0 \<le> q \<and> q \<le> 100"
proof -
  have "humidity_x1024 zero_calibration 0 0 = Some 0"
    by (simp add: humidity_x1024_def zero_calibration_def clamp_humidity_def int32_in del: int32_Some)
  then have "bme280_compensate_humidity zero_calibration 0 0 = Some (f32_div (f32_of_int 0) 1024)"
    by (simp add: bme280_compensate_humidity_def)
  then show ?thesis using humidity_is_a_percentage [of zero_calibration 0 0] by auto
qed

end
