(* ===== verification/Bme280.thy ===== *)
theory Bme280
  imports Bme280_Compensation
begin

text \<open>
  The driver of the environmental sensor (\<^verbatim>\<open>bme280.c\<close>, \<^verbatim>\<open>bme280_registers.h\<close>): the life
  cycle of its device handle, the start-up sequence, the calibration block, a reading. The
  I2C master of the SDK is a parameter, a record of its transfers over a bus state. The
  null-pointer checks of the static functions, which their callers never fail, are left out.
\<close>

section \<open>Registers\<close>

definition BME280_STARTUP_MAX_ATTEMPTS :: nat where "BME280_STARTUP_MAX_ATTEMPTS = 10"

definition BME280_REG_CALIB_T1 :: u8 where "BME280_REG_CALIB_T1 = 0x88"
definition BME280_REG_CALIB_H2 :: u8 where "BME280_REG_CALIB_H2 = 0xE1"
definition BME280_REG_CHIP_ID :: u8 where "BME280_REG_CHIP_ID = 0xD0"
definition BME280_REG_RESET :: u8 where "BME280_REG_RESET = 0xE0"
definition BME280_REG_STATUS :: u8 where "BME280_REG_STATUS = 0xF3"
definition BME280_REG_CTRL_HUM :: u8 where "BME280_REG_CTRL_HUM = 0xF2"
definition BME280_REG_CTRL_MEAS :: u8 where "BME280_REG_CTRL_MEAS = 0xF4"
definition BME280_REG_CONFIG :: u8 where "BME280_REG_CONFIG = 0xF5"
definition BME280_REG_PRESS_MSB :: u8 where "BME280_REG_PRESS_MSB = 0xF7"
definition BME280_CHIP_ID :: u8 where "BME280_CHIP_ID = 0x60"
definition BME280_RESET_COMMAND :: u8 where "BME280_RESET_COMMAND = 0xB6"
definition BME280_CALIBRATION_BLOCK_1_SIZE :: nat where "BME280_CALIBRATION_BLOCK_1_SIZE = 26"
definition BME280_CALIBRATION_BLOCK_2_SIZE :: nat where "BME280_CALIBRATION_BLOCK_2_SIZE = 7"
definition BME280_MEASUREMENT_DATA_SIZE :: nat where "BME280_MEASUREMENT_DATA_SIZE = 8"
definition BME280_STATUS_IM_UPDATE_MASK :: u8 where "BME280_STATUS_IM_UPDATE_MASK = 0x01"
definition BME280_CTRL_HUM_VALUE :: u8 where "BME280_CTRL_HUM_VALUE = 0x01"
definition BME280_CONFIG_VALUE :: u8 where "BME280_CONFIG_VALUE = 0xA0"
definition BME280_CTRL_MEAS_VALUE :: u8 where "BME280_CTRL_MEAS_VALUE = 0x27"

section \<open>State\<close>

record bme280_raw_data =
  raw_temperature :: int
  raw_pressure :: int
  raw_humidity :: int

record bme280_measurement =
  temperature_c :: f32
  pressure_hpa :: f32
  humidity_percent :: f32

text \<open>
  The I2C master over a bus state \<open>'d\<close>: registering and removing the device, a transfer that
  writes a register address and reads a number of bytes into a buffer, a transfer that writes
  bytes.
\<close>

record 'd i2c_master =
  bus_add_device :: "'d \<Rightarrow> esp_err \<times> 'd"
  bus_rm_device :: "'d \<Rightarrow> esp_err \<times> 'd"
  transmit_receive :: "u8 \<Rightarrow> nat \<Rightarrow> 'd \<Rightarrow> esp_err \<times> (nat \<Rightarrow> byte) \<times> 'd"
  transmit :: "byte list \<Rightarrow> 'd \<Rightarrow> esp_err \<times> 'd"

text \<open>The statics of the file, the device handle as whether it is set, and the bus.\<close>

record 'd bme280 =
  bme280_device :: bool
  bme280_ready :: bool
  calibration :: bme280_calibration
  temperature_fine :: int
  i2c :: 'd

definition initial_bme280 :: "'d \<Rightarrow> 'd bme280" where
  "initial_bme280 d = \<lparr>bme280_device = False, bme280_ready = False, calibration = zero_calibration,
     temperature_fine = 0, i2c = d\<rparr>"

section \<open>Register access\<close>

definition bme280_uint16_from_le :: "(nat \<Rightarrow> byte) \<Rightarrow> nat \<Rightarrow> u16" where
  "bme280_uint16_from_le data i = ucast (data i) OR push_bit 8 (ucast (data (i + 1)))"

definition bme280_read_registers ::
  "'d i2c_master \<Rightarrow> u8 \<Rightarrow> nat \<Rightarrow> 'd bme280 \<Rightarrow> esp_err \<times> (nat \<Rightarrow> byte) \<times> 'd bme280" where
  "bme280_read_registers io register_address len s =
     (if \<not> bme280_device s then (ESP_ERR_INVALID_STATE, (\<lambda>_. 0), s)
      else if len = 0 then (ESP_ERR_INVALID_ARG, (\<lambda>_. 0), s)
      else let (result, data, d) = transmit_receive io register_address len (i2c s)
        in (result, data, s\<lparr>i2c := d\<rparr>))"

definition bme280_read_register ::
  "'d i2c_master \<Rightarrow> u8 \<Rightarrow> 'd bme280 \<Rightarrow> esp_err \<times> u8 \<times> 'd bme280" where
  "bme280_read_register io register_address s =
     (let (result, data, s) = bme280_read_registers io register_address 1 s in (result, data 0, s))"

definition bme280_write_register :: "'d i2c_master \<Rightarrow> u8 \<Rightarrow> u8 \<Rightarrow> 'd bme280 \<Rightarrow> esp_err \<times> 'd bme280" where
  "bme280_write_register io register_address v s =
     (if \<not> bme280_device s then (ESP_ERR_INVALID_STATE, s)
      else let (result, d) = transmit io [register_address, v] (i2c s) in (result, s\<lparr>i2c := d\<rparr>))"

definition bme280_remove_device :: "'d i2c_master \<Rightarrow> 'd bme280 \<Rightarrow> esp_err \<times> 'd bme280" where
  "bme280_remove_device io s =
     (if \<not> bme280_device s then (ESP_OK, s)
      else let (result, d) = bus_rm_device io (i2c s); s = s\<lparr>i2c := d\<rparr>
        in if result \<noteq> ESP_OK then (result, s) else (ESP_OK, s\<lparr>bme280_device := False\<rparr>))"

text \<open>The loop with \<open>n\<close> attempts left.\<close>

fun wait_loop :: "'d i2c_master \<Rightarrow> nat \<Rightarrow> 'd bme280 \<Rightarrow> esp_err \<times> 'd bme280" where
  "wait_loop io 0 s = (ESP_ERR_TIMEOUT, s)"
| "wait_loop io (Suc n) s =
     (let (result, status, s) = bme280_read_register io BME280_REG_STATUS s in
      if result \<noteq> ESP_OK then (result, s)
      else if status AND BME280_STATUS_IM_UPDATE_MASK = 0 then (ESP_OK, s)
      else wait_loop io n s)"

definition bme280_wait_for_calibration_copy :: "'d i2c_master \<Rightarrow> 'd bme280 \<Rightarrow> esp_err \<times> 'd bme280" where
  "bme280_wait_for_calibration_copy io = wait_loop io BME280_STARTUP_MAX_ATTEMPTS"

text \<open>Two 12-bit coefficients share a byte: \<open>(int8_t) msb * 16 | nibble\<close>.\<close>

definition nibble_value :: "byte \<Rightarrow> byte \<Rightarrow> u16" where
  "nibble_value msb nibble = scast msb * 16 OR ucast nibble"

definition decode_calibration :: "(nat \<Rightarrow> byte) \<Rightarrow> (nat \<Rightarrow> byte) \<Rightarrow> bme280_calibration" where
  "decode_calibration block_1 block_2 =
     \<lparr>dig_t1 = bme280_uint16_from_le block_1 0, dig_t2 = bme280_uint16_from_le block_1 2,
      dig_t3 = bme280_uint16_from_le block_1 4, dig_p1 = bme280_uint16_from_le block_1 6,
      dig_p2 = bme280_uint16_from_le block_1 8, dig_p3 = bme280_uint16_from_le block_1 10,
      dig_p4 = bme280_uint16_from_le block_1 12, dig_p5 = bme280_uint16_from_le block_1 14,
      dig_p6 = bme280_uint16_from_le block_1 16, dig_p7 = bme280_uint16_from_le block_1 18,
      dig_p8 = bme280_uint16_from_le block_1 20, dig_p9 = bme280_uint16_from_le block_1 22,
      dig_h1 = block_1 25, dig_h2 = bme280_uint16_from_le block_2 0, dig_h3 = block_2 2,
      dig_h4 = nibble_value (block_2 3) (block_2 4 AND 0x0F),
      dig_h5 = nibble_value (block_2 5) (drop_bit 4 (block_2 4)), dig_h6 = block_2 6\<rparr>"

definition bme280_read_calibration :: "'d i2c_master \<Rightarrow> 'd bme280 \<Rightarrow> esp_err \<times> 'd bme280" where
  "bme280_read_calibration io s =
     (let (result, block_1, s) = bme280_read_registers io BME280_REG_CALIB_T1 BME280_CALIBRATION_BLOCK_1_SIZE s in
      if result \<noteq> ESP_OK then (result, s)
      else let (result, block_2, s) = bme280_read_registers io BME280_REG_CALIB_H2 BME280_CALIBRATION_BLOCK_2_SIZE s in
      if result \<noteq> ESP_OK then (result, s)
      else let s = s\<lparr>calibration := decode_calibration block_1 block_2\<rparr> in
        if dig_p1 (calibration s) = 0 then (ESP_ERR_INVALID_RESPONSE, s) else (ESP_OK, s))"

definition bme280_configure :: "'d i2c_master \<Rightarrow> 'd bme280 \<Rightarrow> esp_err \<times> 'd bme280" where
  "bme280_configure io s =
     (let (result, s) = bme280_write_register io BME280_REG_CTRL_HUM BME280_CTRL_HUM_VALUE s in
      if result \<noteq> ESP_OK then (result, s)
      else let (result, s) = bme280_write_register io BME280_REG_CONFIG BME280_CONFIG_VALUE s in
      if result \<noteq> ESP_OK then (result, s)
      else bme280_write_register io BME280_REG_CTRL_MEAS BME280_CTRL_MEAS_VALUE s)"

definition decode_raw :: "(nat \<Rightarrow> byte) \<Rightarrow> bme280_raw_data" where
  "decode_raw b =
     \<lparr>raw_temperature = push_bit 12 (uint (b 3)) OR push_bit 4 (uint (b 4)) OR drop_bit 4 (uint (b 5)),
      raw_pressure = push_bit 12 (uint (b 0)) OR push_bit 4 (uint (b 1)) OR drop_bit 4 (uint (b 2)),
      raw_humidity = push_bit 8 (uint (b 6)) OR uint (b 7)\<rparr>"

definition bme280_read_raw :: "'d i2c_master \<Rightarrow> 'd bme280 \<Rightarrow> esp_err \<times> bme280_raw_data \<times> 'd bme280" where
  "bme280_read_raw io s =
     (let (result, buffer, s) = bme280_read_registers io BME280_REG_PRESS_MSB BME280_MEASUREMENT_DATA_SIZE s
      in (result, decode_raw buffer, s))"

section \<open>The interface\<close>

text \<open>The sequence after the device has been added.\<close>

definition bme280_start_up :: "'d i2c_master \<Rightarrow> 'd bme280 \<Rightarrow> esp_err \<times> 'd bme280" where
  "bme280_start_up io s =
     (let (result, chip_id, s) = bme280_read_register io BME280_REG_CHIP_ID s in
      if result \<noteq> ESP_OK then (result, snd (bme280_remove_device io s))
      else if chip_id \<noteq> BME280_CHIP_ID then (ESP_ERR_INVALID_RESPONSE, snd (bme280_remove_device io s))
      else let (result, s) = bme280_write_register io BME280_REG_RESET BME280_RESET_COMMAND s in
      if result \<noteq> ESP_OK then (result, snd (bme280_remove_device io s))
      else let (result, s) = bme280_wait_for_calibration_copy io s in
      if result \<noteq> ESP_OK then (result, snd (bme280_remove_device io s))
      else let (result, s) = bme280_read_calibration io s in
      if result \<noteq> ESP_OK then (result, snd (bme280_remove_device io s))
      else let (result, s) = bme280_configure io s in
      if result \<noteq> ESP_OK then (result, snd (bme280_remove_device io s))
      else (ESP_OK, s\<lparr>bme280_ready := True\<rparr>))"

text \<open>\<open>bus\<close>: the I2C bus has been initialised, \<^verbatim>\<open>app_i2c_bus_get_handle\<close> is not null.\<close>

definition bme280_init :: "'d i2c_master \<Rightarrow> bool \<Rightarrow> 'd bme280 \<Rightarrow> esp_err \<times> 'd bme280" where
  "bme280_init io bus s =
     (if bme280_device s \<and> bme280_ready s then (ESP_OK, s)
      else let (remove_result, s) = (if bme280_device s then bme280_remove_device io s else (ESP_OK, s)) in
      if remove_result \<noteq> ESP_OK then (remove_result, s)
      else if \<not> bus then (ESP_ERR_INVALID_STATE, s)
      else let (result, d) = bus_add_device io (i2c s) in
      if result \<noteq> ESP_OK then (result, s\<lparr>i2c := d\<rparr>)
      else bme280_start_up io (s\<lparr>i2c := d, bme280_device := True\<rparr>))"

definition bme280_deinit :: "'d i2c_master \<Rightarrow> 'd bme280 \<Rightarrow> esp_err \<times> 'd bme280" where
  "bme280_deinit io s = bme280_remove_device io (s\<lparr>bme280_ready := False\<rparr>)"

text \<open>
  The temperature comes first: it sets \<open>temperature_fine\<close> for the others. The outer option is
  \<open>None\<close> where a compensation overflows, the inner one where nothing is written.
\<close>

definition compensate ::
  "bme280_raw_data \<Rightarrow> 'd bme280 \<Rightarrow> (bme280_measurement \<times> 'd bme280) option" where
  "compensate raw s =
     do {
       (fine, t) \<leftarrow> bme280_compensate_temperature (calibration s) (raw_temperature raw);
       p \<leftarrow> bme280_compensate_pressure (calibration s) fine (raw_pressure raw);
       h \<leftarrow> bme280_compensate_humidity (calibration s) fine (raw_humidity raw);
       Some (\<lparr>temperature_c = t, pressure_hpa = p, humidity_percent = h\<rparr>, s\<lparr>temperature_fine := fine\<rparr>)
     }"

definition bme280_read ::
  "'d i2c_master \<Rightarrow> bool \<Rightarrow> 'd bme280 \<Rightarrow> (esp_err \<times> bme280_measurement option \<times> 'd bme280) option" where
  "bme280_read io measurement s =
     (if \<not> measurement then Some (ESP_ERR_INVALID_ARG, None, s)
      else if \<not> bme280_device s \<or> \<not> bme280_ready s then Some (ESP_ERR_INVALID_STATE, None, s)
      else let (result, raw, s) = bme280_read_raw io s in
      if result \<noteq> ESP_OK then Some (result, None, s)
      else map_option (\<lambda>(m, s). (ESP_OK, Some m, s)) (compensate raw s))"

section \<open>The registered device\<close>

text \<open>
  What the I2C master documents: \<open>registered\<close> is the number of devices on the bus; adding one
  and removing one change it exactly when they succeed, transfers never do.
\<close>

definition i2c_contract :: "'d i2c_master \<Rightarrow> ('d \<Rightarrow> nat) \<Rightarrow> bool" where
  "i2c_contract io registered \<longleftrightarrow>
     (\<forall>d r d'. bus_add_device io d = (r, d') \<longrightarrow> registered d' = (if r = ESP_OK then registered d + 1 else registered d)) \<and>
     (\<forall>d r d'. bus_rm_device io d = (r, d') \<longrightarrow> registered d' = (if r = ESP_OK then registered d - 1 else registered d)) \<and>
     (\<forall>a n d r b d'. transmit_receive io a n d = (r, b, d') \<longrightarrow> registered d' = registered d) \<and>
     (\<forall>bs d r d'. transmit io bs d = (r, d') \<longrightarrow> registered d' = registered d)"

definition device_registered :: "('d \<Rightarrow> nat) \<Rightarrow> 'd bme280 \<Rightarrow> bool" where
  "device_registered registered s \<longleftrightarrow> registered (i2c s) = (if bme280_device s then 1 else 0)"

text \<open>A transfer keeps the handle, the readiness and the registration.\<close>

definition same_handle :: "('d \<Rightarrow> nat) \<Rightarrow> 'd bme280 \<Rightarrow> 'd bme280 \<Rightarrow> bool" where
  "same_handle registered s s' \<longleftrightarrow> bme280_device s' = bme280_device s \<and> bme280_ready s' = bme280_ready s \<and>
     registered (i2c s') = registered (i2c s)"

lemma same_handle_refl [simp]: "same_handle registered s s"
  by (simp add: same_handle_def)

lemma same_handle_trans: "same_handle registered s t \<Longrightarrow> same_handle registered t u \<Longrightarrow> same_handle registered s u"
  by (simp add: same_handle_def)

lemma same_handle_registered:
  "same_handle registered s s' \<Longrightarrow> device_registered registered s \<Longrightarrow> device_registered registered s'"
  by (simp add: same_handle_def device_registered_def)

lemma read_registers_same:
  assumes "i2c_contract io registered"
  shows "bme280_read_registers io a n s = (r, b, s') \<Longrightarrow> same_handle registered s s'"
  using assms by (auto simp: bme280_read_registers_def same_handle_def i2c_contract_def split: if_splits prod.splits)

lemma read_register_same:
  assumes "i2c_contract io registered"
  shows "bme280_read_register io a s = (r, b, s') \<Longrightarrow> same_handle registered s s'"
  using read_registers_same [OF assms] by (auto simp: bme280_read_register_def split: prod.splits)

lemma write_register_same:
  assumes "i2c_contract io registered"
  shows "bme280_write_register io a v s = (r, s') \<Longrightarrow> same_handle registered s s'"
  using assms by (auto simp: bme280_write_register_def same_handle_def i2c_contract_def split: if_splits prod.splits)

lemma wait_same:
  assumes "i2c_contract io registered"
  shows "wait_loop io n s = (r, s') \<Longrightarrow> same_handle registered s s'"
proof (induction n arbitrary: s)
  case (Suc n)
  obtain q st t where read: "bme280_read_register io BME280_REG_STATUS s = (q, st, t)"
    by (metis prod_cases3)
  have "same_handle registered s t" using read_register_same [OF assms read] .
  moreover have "same_handle registered t s'"
    using Suc by (auto simp: read split: if_splits)
  ultimately show ?case by (rule same_handle_trans)
qed simp

lemma read_calibration_same:
  assumes "i2c_contract io registered"
  shows "bme280_read_calibration io s = (r, s') \<Longrightarrow> same_handle registered s s'"
  using read_registers_same [OF assms]
  by (fastforce simp: bme280_read_calibration_def Let_def same_handle_def split: if_splits prod.splits)

lemma configure_same:
  assumes "i2c_contract io registered"
  shows "bme280_configure io s = (r, s') \<Longrightarrow> same_handle registered s s'"
  using write_register_same [OF assms]
  by (fastforce simp: bme280_configure_def same_handle_def split: if_splits prod.splits)

lemma contract_add:
  "i2c_contract io registered \<Longrightarrow> bus_add_device io d = (r, d') \<Longrightarrow>
   registered d' = (if r = ESP_OK then registered d + 1 else registered d)"
  unfolding i2c_contract_def by blast

lemma contract_rm:
  "i2c_contract io registered \<Longrightarrow> bus_rm_device io d = (r, d') \<Longrightarrow>
   registered d' = (if r = ESP_OK then registered d - 1 else registered d)"
  unfolding i2c_contract_def by blast

lemma remove_registered:
  assumes "i2c_contract io registered" and "device_registered registered s"
    and "bme280_remove_device io s = (r, s')"
  shows "device_registered registered s' \<and> (r = ESP_OK \<longrightarrow> \<not> bme280_device s') \<and> bme280_ready s' = bme280_ready s"
  using assms(2,3) contract_rm [OF assms(1), of "i2c s"]
  by (auto simp: bme280_remove_device_def device_registered_def Let_def split: if_splits prod.splits)

definition bme280_inv :: "('d \<Rightarrow> nat) \<Rightarrow> 'd bme280 \<Rightarrow> bool" where
  "bme280_inv registered s \<longleftrightarrow> device_registered registered s \<and> (bme280_ready s \<longrightarrow> bme280_device s)"

text \<open>The state during the start-up sequence.\<close>

definition opened :: "('d \<Rightarrow> nat) \<Rightarrow> 'd bme280 \<Rightarrow> bool" where
  "opened registered s \<longleftrightarrow> device_registered registered s \<and> bme280_device s \<and> \<not> bme280_ready s"

lemma opened_same: "same_handle registered s s' \<Longrightarrow> opened registered s \<Longrightarrow> opened registered s'"
  using same_handle_registered by (auto simp: opened_def same_handle_def)

lemma opened_abort: "i2c_contract io registered \<Longrightarrow> opened registered s \<Longrightarrow>
    bme280_inv registered (snd (bme280_remove_device io s))"
  using remove_registered [of io registered s]
  by (cases "bme280_remove_device io s") (auto simp: opened_def bme280_inv_def)

lemma opened_ready: "opened registered s \<Longrightarrow> bme280_inv registered (s\<lparr>bme280_ready := True\<rparr>)"
  by (simp add: opened_def bme280_inv_def device_registered_def)

lemma opened_add:
  assumes "i2c_contract io registered" "device_registered registered s" "\<not> bme280_device s" "\<not> bme280_ready s"
    and "bus_add_device io (i2c s) = (r, d)"
  shows "if r = ESP_OK then opened registered (s\<lparr>i2c := d, bme280_device := True\<rparr>)
    else bme280_inv registered (s\<lparr>i2c := d\<rparr>)"
  using assms contract_add [OF assms(1,5)]
  by (simp add: opened_def bme280_inv_def device_registered_def)

lemma bme280_start_up_inv:
  assumes io: "i2c_contract io registered" and s: "opened registered s"
  shows "bme280_inv registered (snd (bme280_start_up io s))"
proof -
  obtain r1 id s1 where 1: "bme280_read_register io BME280_REG_CHIP_ID s = (r1, id, s1)" by (metis prod_cases3)
  obtain r2 s2 where 2: "bme280_write_register io BME280_REG_RESET BME280_RESET_COMMAND s1 = (r2, s2)" by fastforce
  obtain r3 s3 where 3: "bme280_wait_for_calibration_copy io s2 = (r3, s3)" by fastforce
  obtain r4 s4 where 4: "bme280_read_calibration io s3 = (r4, s4)" by fastforce
  obtain r5 s5 where 5: "bme280_configure io s4 = (r5, s5)" by fastforce
  have o1: "opened registered s1" using opened_same [OF read_register_same [OF io 1] s] .
  have o2: "opened registered s2" using opened_same [OF write_register_same [OF io 2] o1] .
  have o3: "opened registered s3"
    using opened_same [OF wait_same [OF io] o2] 3 by (simp add: bme280_wait_for_calibration_copy_def)
  have o4: "opened registered s4" using opened_same [OF read_calibration_same [OF io 4] o3] .
  have o5: "opened registered s5" using opened_same [OF configure_same [OF io 5] o4] .
  show ?thesis
    using o1 o2 o3 o4 o5 by (simp add: bme280_start_up_def 1 2 3 4 5 opened_abort [OF io] opened_ready)
qed

lemma bme280_init_inv:
  assumes io: "i2c_contract io registered" and s: "bme280_inv registered s"
  shows "bme280_inv registered (snd (bme280_init io bus s))"
proof (cases "bme280_device s \<and> bme280_ready s")
  case True
  then show ?thesis using s by (simp add: bme280_init_def)
next
  case False
  then have not_ready: "\<not> bme280_ready s" using s by (auto simp: bme280_inv_def)
  obtain q t where t: "(if bme280_device s then bme280_remove_device io s else (ESP_OK, s)) = (q, t)"
    by fastforce
  have t_inv: "device_registered registered t" "\<not> bme280_ready t" "q = ESP_OK \<longrightarrow> \<not> bme280_device t"
    using t s not_ready remove_registered [OF io, of s q t] by (auto simp: bme280_inv_def split: if_splits)
  obtain r d where d: "bus_add_device io (i2c t) = (r, d)" by fastforce
  show ?thesis
    using False t_inv opened_add [OF io t_inv(1) _ t_inv(2) d] bme280_start_up_inv [OF io]
    unfolding bme280_init_def t by (auto simp: d bme280_inv_def split: if_splits)
qed

lemma deinit_inv:
  assumes io: "i2c_contract io registered" and s: "bme280_inv registered s"
  shows "bme280_inv registered (snd (bme280_deinit io s))"
proof -
  have "device_registered registered (s\<lparr>bme280_ready := False\<rparr>)"
    using s by (simp add: bme280_inv_def device_registered_def)
  then show ?thesis
    using remove_registered [OF io, of "s\<lparr>bme280_ready := False\<rparr>"]
    by (cases "bme280_remove_device io (s\<lparr>bme280_ready := False\<rparr>)") (auto simp: bme280_deinit_def bme280_inv_def)
qed

lemma compensate_inv: "compensate raw s = Some (m, s') \<Longrightarrow> bme280_inv registered s \<Longrightarrow> bme280_inv registered s'"
  by (auto simp: compensate_def bind_eq_Some_conv bme280_inv_def device_registered_def)

lemma read_inv:
  assumes io: "i2c_contract io registered" and s: "bme280_inv registered s"
    and read: "bme280_read io present s = Some (r, m, s')"
  shows "bme280_inv registered s'"
proof -
  obtain q raw t where t: "bme280_read_raw io s = (q, raw, t)" by (metis prod_cases3)
  have same: "same_handle registered s t"
    using t read_registers_same [OF io] by (auto simp: bme280_read_raw_def split: prod.splits)
  then have "bme280_inv registered t"
    using s same_handle_registered [OF same] by (auto simp: bme280_inv_def same_handle_def)
  then show ?thesis
    using read s by (auto simp: bme280_read_def t compensate_inv split: if_splits)
qed

section \<open>Sequences of calls\<close>

datatype bme280_call = Sensor_init bool | Sensor_read | Sensor_deinit

fun bme280_step :: "'d i2c_master \<Rightarrow> bme280_call \<Rightarrow> 'd bme280 \<Rightarrow> 'd bme280 option" where
  "bme280_step io (Sensor_init bus) s = Some (snd (bme280_init io bus s))"
| "bme280_step io Sensor_read s = map_option (\<lambda>(r, m, s). s) (bme280_read io True s)"
| "bme280_step io Sensor_deinit s = Some (snd (bme280_deinit io s))"

text \<open>A run stops where a compensation overflows.\<close>

fun bme280_run :: "'d i2c_master \<Rightarrow> bme280_call list \<Rightarrow> 'd bme280 \<Rightarrow> 'd bme280 option" where
  "bme280_run io [] s = Some s"
| "bme280_run io (c # cs) s = Option.bind (bme280_step io c s) (bme280_run io cs)"

lemma step_inv:
  "i2c_contract io registered \<Longrightarrow> bme280_inv registered s \<Longrightarrow> bme280_step io c s = Some s' \<Longrightarrow> bme280_inv registered s'"
  by (cases c) (auto simp: bme280_init_inv deinit_inv dest: read_inv)

lemma bme280_run_inv:
  "i2c_contract io registered \<Longrightarrow> bme280_inv registered s \<Longrightarrow> bme280_run io cs s = Some s' \<Longrightarrow> bme280_inv registered s'"
  by (induction cs arbitrary: s) (auto simp: bind_eq_Some_conv dest: step_inv)

section \<open>Properties\<close>

text \<open>
  C31. Over any sequence of initialisations, readings and removals, whatever transfers fail,
  the driver has at most one device registered on the bus: exactly one while it holds the
  handle, none otherwise; and it only reports itself ready while it holds the handle.
\<close>

theorem sensor_is_registered_at_most_once:
  assumes "i2c_contract io registered" and "registered d = 0"
    and "bme280_run io calls (initial_bme280 d) = Some s"
  shows "registered (i2c s) = (if bme280_device s then 1 else 0) \<and> (bme280_ready s \<longrightarrow> bme280_device s)"
proof -
  have "bme280_inv registered (initial_bme280 d)"
    using assms(2) by (simp add: bme280_inv_def device_registered_def initial_bme280_def)
  from bme280_run_inv [OF assms(1) this assms(3)] show ?thesis
    by (simp add: bme280_inv_def device_registered_def)
qed

text \<open>A bus that counts its devices and whose sensor answers.\<close>

definition example_bus :: "nat i2c_master" where
  "example_bus = \<lparr>bus_add_device = (\<lambda>d. (ESP_OK, d + 1)), bus_rm_device = (\<lambda>d. (ESP_OK, d - 1)),
     transmit_receive = (\<lambda>a n d. (ESP_OK, \<lambda>i. if a = 0xD0 then 0x60 else if a = 0x88 \<and> i = 7 then 0x80 else 0, d)),
     transmit = (\<lambda>bs d. (ESP_OK, d))\<rparr>"

lemma example_bus_contract: "i2c_contract example_bus id"
  by (simp add: i2c_contract_def example_bus_def)

lemma example_bus_transfers [simp]:
  "bme280_device s \<Longrightarrow> bme280_read_register example_bus a s =
     (ESP_OK, if a = 0xD0 then 0x60 else 0, s)"
  "bme280_device s \<Longrightarrow> n \<noteq> 0 \<Longrightarrow> bme280_read_registers example_bus a n s =
     (ESP_OK, \<lambda>i. if a = 0xD0 then 0x60 else if a = 0x88 \<and> i = 7 then 0x80 else 0, s)"
  "bme280_device s \<Longrightarrow> bme280_write_register example_bus a v s = (ESP_OK, s)"
  by (simp_all add: example_bus_def bme280_read_register_def bme280_read_registers_def bme280_write_register_def)

definition example_calibration :: bme280_calibration where
  "example_calibration = decode_calibration (\<lambda>i. if i = 7 then 0x80 else 0) (\<lambda>_. 0)"

lemma example_coefficients:
  "dig_t1 example_calibration = 0" "dig_t2 example_calibration = 0" "dig_t3 example_calibration = 0"
  "dig_p1 example_calibration = 0x8000" "dig_p2 example_calibration = 0" "dig_p3 example_calibration = 0"
  "dig_p4 example_calibration = 0" "dig_p5 example_calibration = 0" "dig_p6 example_calibration = 0"
  "dig_p7 example_calibration = 0" "dig_p8 example_calibration = 0" "dig_p9 example_calibration = 0"
  "dig_h1 example_calibration = 0" "dig_h2 example_calibration = 0" "dig_h3 example_calibration = 0"
  "dig_h4 example_calibration = 0" "dig_h5 example_calibration = 0" "dig_h6 example_calibration = 0"
  by (simp_all add: example_calibration_def decode_calibration_def bme280_uint16_from_le_def nibble_value_def)

lemma example_bus_init:
  "bme280_init example_bus True (initial_bme280 0) = (ESP_OK,
     \<lparr>bme280_device = True, bme280_ready = True, calibration = example_calibration, temperature_fine = 0, i2c = 1\<rparr>)"
proof -
  let ?s = "(initial_bme280 0)\<lparr>i2c := 1 :: nat, bme280_device := True\<rparr>"
  have dev: "bme280_device ?s" by simp
  have "wait_loop example_bus (Suc 9) ?s = (ESP_OK, ?s)"
    by (subst wait_loop.simps) (simp add: BME280_REG_STATUS_def)
  then have wait: "bme280_wait_for_calibration_copy example_bus ?s = (ESP_OK, ?s)"
    by (simp add: bme280_wait_for_calibration_copy_def BME280_STARTUP_MAX_ATTEMPTS_def)
  let ?t = "?s\<lparr>calibration := example_calibration\<rparr>"
  have calib: "bme280_read_calibration example_bus ?s = (ESP_OK, ?t)"
    by (simp add: bme280_read_calibration_def BME280_CALIBRATION_BLOCK_1_SIZE_def Let_def
        example_calibration_def [symmetric] example_coefficients
        BME280_CALIBRATION_BLOCK_2_SIZE_def BME280_REG_CALIB_T1_def BME280_REG_CALIB_H2_def)
  have "bme280_configure example_bus ?t = (ESP_OK, ?t)" by (simp add: bme280_configure_def)
  then have "bme280_start_up example_bus ?s = (ESP_OK, ?t\<lparr>bme280_ready := True\<rparr>)"
    using wait calib by (simp add: bme280_start_up_def BME280_REG_CHIP_ID_def BME280_CHIP_ID_def)
  moreover have "bus_add_device example_bus 0 = (ESP_OK, 1)" by (simp add: example_bus_def)
  ultimately show ?thesis
    by (simp add: bme280_init_def initial_bme280_def)
qed

theorem sensor_is_registered_at_most_once_witness:
  "\<exists>s. bme280_run example_bus [Sensor_init True] (initial_bme280 0) = Some s \<and> bme280_ready s \<and> i2c s = 1"
  using sensor_is_registered_at_most_once [OF example_bus_contract, of 0 "[Sensor_init True]"]
  by (simp add: example_bus_init)

text \<open>The state after one poll of the status register, and whether a poll ends the wait.\<close>

definition after_poll :: "'d i2c_master \<Rightarrow> 'd bme280 \<Rightarrow> 'd bme280" where
  "after_poll io s = snd (snd (bme280_read_register io BME280_REG_STATUS s))"

definition poll_result :: "'d i2c_master \<Rightarrow> 'd bme280 \<Rightarrow> esp_err option" where
  "poll_result io s =
     (let (result, status, _) = bme280_read_register io BME280_REG_STATUS s in
      if result \<noteq> ESP_OK then Some result
      else if status AND BME280_STATUS_IM_UPDATE_MASK = 0 then Some ESP_OK else None)"

lemma wait_loop_step:
  "wait_loop io (Suc n) s =
     (case poll_result io s of Some r \<Rightarrow> (r, after_poll io s) | None \<Rightarrow> wait_loop io n (after_poll io s))"
  by (simp add: poll_result_def after_poll_def split: prod.splits)

lemma wait_loop_spec:
  "wait_loop io n s = (r, s') \<Longrightarrow>
   (\<exists>k<n. poll_result io ((after_poll io ^^ k) s) = Some r \<and> s' = (after_poll io ^^ Suc k) s \<and>
      (\<forall>j<k. poll_result io ((after_poll io ^^ j) s) = None)) \<or>
   r = ESP_ERR_TIMEOUT \<and> s' = (after_poll io ^^ n) s \<and> (\<forall>j<n. poll_result io ((after_poll io ^^ j) s) = None)"
proof (induction n arbitrary: s)
  case (Suc n)
  have shift: "(after_poll io ^^ k) (after_poll io s) = (after_poll io ^^ Suc k) s" for k
    by (simp add: funpow_swap1)
  show ?case
  proof (cases "poll_result io s")
    case (Some q)
    then have "r = q \<and> s' = after_poll io s" using Suc.prems by (simp add: wait_loop_step del: wait_loop.simps)
    then show ?thesis using Some by (intro disjI1 exI [of _ 0]) simp
  next
    case None
    then have "wait_loop io n (after_poll io s) = (r, s')"
      using Suc.prems by (simp add: wait_loop_step del: wait_loop.simps)
    from Suc.IH [OF this] show ?thesis
    proof (elim disjE exE conjE)
      fix k assume k: "k < n" "poll_result io ((after_poll io ^^ k) (after_poll io s)) = Some r"
        "s' = (after_poll io ^^ Suc k) (after_poll io s)"
        "\<forall>j<k. poll_result io ((after_poll io ^^ j) (after_poll io s)) = None"
      have "poll_result io ((after_poll io ^^ j) s) = None" if "j < Suc k" for j
        using that None k(4) shift by (cases j) (auto simp del: funpow.simps(2))
      then show ?thesis
        using k shift by (intro disjI1 exI [of _ "Suc k"]) (auto simp del: funpow.simps(2))
    next
      assume t: "r = ESP_ERR_TIMEOUT" "s' = (after_poll io ^^ n) (after_poll io s)"
        "\<forall>j<n. poll_result io ((after_poll io ^^ j) (after_poll io s)) = None"
      have "poll_result io ((after_poll io ^^ j) s) = None" if "j < Suc n" for j
        using that None t(3) shift by (cases j) (auto simp del: funpow.simps(2))
      then show ?thesis using t shift by (auto simp del: funpow.simps(2))
    qed
  qed
qed simp

text \<open>
  The wait for the sensor's start-up ends after at most ten reads of its status register:
  with the first read that fails or shows the copy done, and its result, or after ten reads
  that all show the copy pending, with a timeout.
\<close>

lemma calibration_wait_is_bounded:
  "\<exists>k r. bme280_wait_for_calibration_copy io s = (r, (after_poll io ^^ k) s) \<and> k \<le> 10 \<and>
     (if poll_result io ((after_poll io ^^ (k - 1)) s) = None
      then k = 10 \<and> r = ESP_ERR_TIMEOUT else 0 < k \<and> poll_result io ((after_poll io ^^ (k - 1)) s) = Some r) \<and>
     list_all (\<lambda>j. poll_result io ((after_poll io ^^ j) s) = None) [0..<k - 1]"
proof -
  obtain r s' where w: "wait_loop io 10 s = (r, s')" by fastforce
  have "bme280_wait_for_calibration_copy io s = (r, s')"
    by (simp add: bme280_wait_for_calibration_copy_def BME280_STARTUP_MAX_ATTEMPTS_def w)
  moreover from wait_loop_spec [OF w] have "\<exists>k. s' = (after_poll io ^^ k) s \<and> k \<le> 10 \<and>
     (if poll_result io ((after_poll io ^^ (k - 1)) s) = None
      then k = 10 \<and> r = ESP_ERR_TIMEOUT else 0 < k \<and> poll_result io ((after_poll io ^^ (k - 1)) s) = Some r) \<and>
     list_all (\<lambda>j. poll_result io ((after_poll io ^^ j) s) = None) [0..<k - 1]"
  proof (elim disjE exE conjE)
    fix k assume "k < 10" "poll_result io ((after_poll io ^^ k) s) = Some r" "s' = (after_poll io ^^ Suc k) s"
      "\<forall>j<k. poll_result io ((after_poll io ^^ j) s) = None"
    then show ?thesis by (intro exI [of _ "Suc k"]) (simp add: list_all_iff)
  next
    assume "r = ESP_ERR_TIMEOUT" "s' = (after_poll io ^^ 10) s"
      "\<forall>j<10. poll_result io ((after_poll io ^^ j) s) = None"
    then show ?thesis by (intro exI [of _ 10]) (simp add: list_all_iff)
  qed
  ultimately show ?thesis by blast
qed

end
