(* ===== verification/Sensor.thy ===== *)
theory Sensor
  imports Bme280
begin

text \<open>
  The sensor component (\<^verbatim>\<open>sensor.c\<close>), which initialises the driver when a reading needs it
  and drops it after a fault, and the I2C bus (\<^verbatim>\<open>i2c_bus.c\<close>), of which only the existence
  of the handle matters to the driver.
\<close>

section \<open>The I2C bus\<close>

text \<open>\<open>result\<close> is what \<^verbatim>\<open>i2c_new_master_bus\<close> returns; it sets the handle when it succeeds.\<close>

definition app_i2c_bus_init :: "esp_err \<Rightarrow> bool \<Rightarrow> esp_err \<times> bool" where
  "app_i2c_bus_init result i2c_bus_handle =
     (if i2c_bus_handle then (ESP_OK, i2c_bus_handle)
      else if result \<noteq> ESP_OK then (result, i2c_bus_handle)
      else (ESP_OK, True))"

definition app_i2c_bus_get_handle :: "bool \<Rightarrow> bool" where
  "app_i2c_bus_get_handle i2c_bus_handle = i2c_bus_handle"

section \<open>The sensor\<close>

record sensor_data =
  temperature :: f32
  humidity :: f32
  pressure :: f32

record 'd sensor =
  sensor_initialized :: bool
  driver :: "'d bme280"

definition initial_sensor :: "'d \<Rightarrow> 'd sensor" where
  "initial_sensor d = \<lparr>sensor_initialized = False, driver = initial_bme280 d\<rparr>"

definition sensor_invalidate :: "'d i2c_master \<Rightarrow> 'd sensor \<Rightarrow> esp_err \<times> 'd sensor" where
  "sensor_invalidate io s =
     (let s = s\<lparr>sensor_initialized := False\<rparr>; (result, d) = bme280_deinit io (driver s)
      in (result, s\<lparr>driver := d\<rparr>))"

definition sensor_init :: "'d i2c_master \<Rightarrow> bool \<Rightarrow> 'd sensor \<Rightarrow> esp_err \<times> 'd sensor" where
  "sensor_init io bus s =
     (let (result, d) = bme280_init io bus (driver s); s = s\<lparr>driver := d\<rparr> in
      if result \<noteq> ESP_OK then (result, snd (sensor_invalidate io s))
      else (ESP_OK, s\<lparr>sensor_initialized := True\<rparr>))"

text \<open>\<open>None\<close> where a compensation overflows; the data are written only on success.\<close>

definition sensor_read ::
  "'d i2c_master \<Rightarrow> bool \<Rightarrow> bool \<Rightarrow> 'd sensor \<Rightarrow> (esp_err \<times> sensor_data option \<times> 'd sensor) option" where
  "sensor_read io bus data s =
     (if \<not> data then Some (ESP_ERR_INVALID_ARG, None, s)
      else let (init_result, s) = (if \<not> sensor_initialized s then sensor_init io bus s else (ESP_OK, s)) in
      if init_result \<noteq> ESP_OK then Some (init_result, None, s)
      else do {
        (result, measurement, d) \<leftarrow> bme280_read io True (driver s);
        let s = s\<lparr>driver := d\<rparr>;
        if result \<noteq> ESP_OK then Some (result, None, snd (sensor_invalidate io s))
        else Some (ESP_OK, map_option (\<lambda>m. \<lparr>temperature = temperature_c m, humidity = humidity_percent m,
               pressure = pressure_hpa m\<rparr>) measurement, s)
      })"

section \<open>Facts\<close>

lemma bme280_read_ok:
  "bme280_read io present s = Some (r, m, s') \<Longrightarrow> (r = ESP_OK) = (m \<noteq> None)"
  by (auto simp: bme280_read_def split: if_splits prod.splits)

lemma bme280_read_values:
  assumes "bme280_read io present s = Some (r, Some m, s')"
  shows "\<exists>c rt rh. bme280_compensate_temperature c rt = Some (temperature_fine s', temperature_c m) \<and>
    bme280_compensate_humidity c (temperature_fine s') rh = Some (humidity_percent m)"
proof -
  obtain q raw t where "bme280_read_raw io s = (q, raw, t)" by (metis prod_cases3)
  then have "compensate raw t = Some (m, s')"
    using assms by (auto simp: bme280_read_def split: if_splits)
  then show ?thesis
    by (auto simp: compensate_def bind_eq_Some_conv intro!: exI [of _ "calibration t"])
qed

lemma sensor_read_ok:
  assumes "sensor_read io bus True s = Some (r, v, s')"
  shows "(r = ESP_OK) = (v \<noteq> None) \<and>
    (\<forall>d. v = Some d \<longrightarrow> (\<exists>c fine raw. bme280_compensate_humidity c fine raw = Some (humidity d)))"
proof -
  obtain q t where t: "(if \<not> sensor_initialized s then sensor_init io bus s else (ESP_OK, s)) = (q, t)" by fastforce
  show ?thesis
  proof (cases "q = ESP_OK")
    case False
    then show ?thesis using assms by (simp add: sensor_read_def t)
  next
    case True
    then obtain rd m d where read: "bme280_read io True (driver t) = Some (rd, m, d)"
      using assms by (auto simp: sensor_read_def t bind_eq_Some_conv)
    then show ?thesis
      using assms True bme280_read_ok [OF read] bme280_read_values
      by (auto simp: sensor_read_def t split: if_splits) blast
  qed
qed

text \<open>A failed reading leaves the sensor to be initialised anew.\<close>

lemma sensor_invalidate_initialized [simp]: "\<not> sensor_initialized (snd (sensor_invalidate io s))"
  by (simp add: sensor_invalidate_def split: prod.splits)

lemma sensor_read_failed:
  assumes "sensor_read io bus True s = Some (r, v, s')" and "r \<noteq> ESP_OK"
  shows "\<not> sensor_initialized s'"
  using assms
  by (auto simp: sensor_read_def sensor_init_def bind_eq_Some_conv Let_def split: if_splits prod.splits)

end
