(* ===== verification/Machine_Status.thy ===== *)
theory Machine_Status
  imports Ram_Platform
begin

text \<open>
  The machine status input (\<^verbatim>\<open>machine_status.c\<close>): a GPIO chosen by the configuration, or
  none. The pin driver is a parameter: whether \<^verbatim>\<open>gpio_config\<close> succeeds and the levels that
  \<^verbatim>\<open>gpio_get_level\<close> reads.
\<close>

datatype machine_status =
    MACHINE_STATUS_RUNNING
  | MACHINE_STATUS_STOPPED
  | MACHINE_STATUS_UNKNOWN
  | MACHINE_STATUS_OTHER int

datatype gpio_pull_mode = GPIO_FLOATING | GPIO_PULLUP_ONLY | GPIO_PULLDOWN_ONLY

text \<open>The request to the pin driver; its mode is always input and its interrupt disabled.\<close>

record gpio_configuration =
  pin_bit_mask :: u64
  pull_up_en :: bool
  pull_down_en :: bool

text \<open>The statics of the file.\<close>

record machine_status_module =
  input_initialized :: bool
  provider :: device_config_machine_provider
  input_gpio :: i32
  active_high :: bool
  pull :: device_config_pull

definition initial_machine_status :: machine_status_module where
  "initial_machine_status =
     \<lparr>input_initialized = False, provider = 0, input_gpio = 0, active_high = False, pull = 0\<rparr>"

definition machine_status_is_enabled :: "machine_status_module \<Rightarrow> bool" where
  "machine_status_is_enabled s \<longleftrightarrow> provider s = DEVICE_CONFIG_MACHINE_GPIO"

text \<open>The last component is the request given to \<^verbatim>\<open>gpio_config\<close>, if it is called.\<close>

definition machine_status_init ::
  "(gpio_configuration \<Rightarrow> esp_err) \<Rightarrow> device_config option \<Rightarrow> machine_status_module
     \<Rightarrow> esp_err \<times> machine_status_module \<times> gpio_configuration option" where
  "machine_status_init gpio_config configuration s =
     (case configuration of None \<Rightarrow> (ESP_ERR_INVALID_ARG, s, None) | Some c \<Rightarrow>
        let s = s\<lparr>provider := machine_status_provider c, input_gpio := machine_status_gpio c,
              active_high := machine_status_active_high c, pull := machine_status_pull c,
              input_initialized := False\<rparr>
        in if \<not> machine_status_is_enabled s then (ESP_OK, s, None)
        else let pull_mode = (if pull s = DEVICE_CONFIG_PULL_UP then GPIO_PULLUP_ONLY
                  else if pull s = DEVICE_CONFIG_PULL_DOWN then GPIO_PULLDOWN_ONLY else GPIO_FLOATING);
              request = \<lparr>pin_bit_mask = push_bit (unat (input_gpio s)) 1,
                  pull_up_en = (pull_mode = GPIO_PULLUP_ONLY), pull_down_en = (pull_mode = GPIO_PULLDOWN_ONLY)\<rparr>;
              result = gpio_config request
          in if result \<noteq> ESP_OK then (result, s, Some request)
          else (ESP_OK, s\<lparr>input_initialized := True\<rparr>, Some request))"

text \<open>\<open>status\<close> is the caller's variable, \<open>None\<close> for a null pointer.\<close>

definition machine_status_get ::
  "(i32 \<Rightarrow> int) \<Rightarrow> machine_status option \<Rightarrow> machine_status_module \<Rightarrow> esp_err \<times> machine_status option" where
  "machine_status_get gpio_get_level status s =
     (case status of None \<Rightarrow> (ESP_ERR_INVALID_ARG, None) | Some _ \<Rightarrow>
        if \<not> machine_status_is_enabled s then (ESP_ERR_NOT_SUPPORTED, Some MACHINE_STATUS_UNKNOWN)
        else if \<not> input_initialized s then (ESP_ERR_INVALID_STATE, Some MACHINE_STATUS_UNKNOWN)
        else let active = (gpio_get_level (input_gpio s) \<noteq> 0);
              active = (if \<not> active_high s then \<not> active else active)
          in (ESP_OK, Some (if active then MACHINE_STATUS_RUNNING else MACHINE_STATUS_STOPPED)))"

fun machine_status_to_string :: "machine_status \<Rightarrow> string" where
  "machine_status_to_string MACHINE_STATUS_RUNNING = ''running''"
| "machine_status_to_string MACHINE_STATUS_STOPPED = ''stopped''"
| "machine_status_to_string _ = ''unknown''"

section \<open>Facts\<close>

lemma machine_status_string_length:
  "length (machine_status_to_string s) \<le> 7" "machine_status_to_string s \<noteq> []"
  "NUL \<notin> set (machine_status_to_string s)"
  by (cases s; simp)+

lemma machine_status_get_unknown:
  "machine_status_get level (Some s0) s = (r, Some st) \<Longrightarrow> r \<noteq> ESP_OK \<Longrightarrow> st = MACHINE_STATUS_UNKNOWN"
  by (auto simp: machine_status_get_def Let_def split: if_splits)

lemma bit_of_pin: "bit (push_bit n (1 :: u64)) k \<longleftrightarrow> k = n \<and> n < 64"
  by (auto simp: bit_simps bit_1_iff dest: bit_imp_le_length)

lemma pin_number: "0 \<le> sint (g :: i32) \<Longrightarrow> sint g \<le> 39 \<Longrightarrow> int (unat g) = sint g"
proof -
  assume g: "0 \<le> sint g" "sint g \<le> 39"
  have "uint g = take_bit 32 (sint g)" by (simp add: uint_sint)
  also have "\<dots> = sint g" using g by (intro take_bit_int_eq_self) auto
  finally show ?thesis by simp
qed

lemma init_enabled:
  assumes "machine_status_provider c = DEVICE_CONFIG_MACHINE_GPIO"
  shows "machine_status_init gpio_config (Some c) s0 = (r, s, req) \<Longrightarrow>
     req = Some \<lparr>pin_bit_mask = push_bit (unat (machine_status_gpio c)) 1,
        pull_up_en = (machine_status_pull c = DEVICE_CONFIG_PULL_UP),
        pull_down_en = (machine_status_pull c = DEVICE_CONFIG_PULL_DOWN)\<rparr> \<and>
     r = gpio_config (the req) \<and>
     s = \<lparr>input_initialized = (r = ESP_OK), provider = DEVICE_CONFIG_MACHINE_GPIO,
        input_gpio = machine_status_gpio c, active_high = machine_status_active_high c,
        pull = machine_status_pull c\<rparr>"
  using assms by (auto simp: machine_status_init_def machine_status_is_enabled_def Let_def split: if_splits)

section \<open>Properties\<close>

text \<open>
  For a valid configuration that uses a GPIO, initialisation asks the driver for exactly
  the configured pin, which is none of the reserved ones, with at most one pull, and with none
  on the pins that have none (34 to 39). Afterwards the status is running exactly if the
  level read matches the configured polarity, or, if the driver refused the pin, an error
  and unknown.
\<close>

lemma machine_input_is_the_configured_pin:
  assumes "config_spec x509 c" and "machine_status_provider c = DEVICE_CONFIG_MACHINE_GPIO"
    and "machine_status_init gpio_config (Some c) s0 = (r, s, req)"
  shows "\<exists>q. req = Some q \<and> r = gpio_config q \<and>
    (\<forall>k. bit (pin_bit_mask q) k \<longleftrightarrow> int k = sint (machine_status_gpio c)) \<and>
    sint (machine_status_gpio c) \<notin> set reserved_gpios \<and>
    \<not> (pull_up_en q \<and> pull_down_en q) \<and>
    (34 \<le> sint (machine_status_gpio c) \<longrightarrow> \<not> pull_up_en q \<and> \<not> pull_down_en q) \<and>
    machine_status_get level (Some st) s =
      (if r = ESP_OK
       then (ESP_OK, Some (if (level (machine_status_gpio c) \<noteq> 0) = machine_status_active_high c
                           then MACHINE_STATUS_RUNNING else MACHINE_STATUS_STOPPED))
       else (ESP_ERR_INVALID_STATE, Some MACHINE_STATUS_UNKNOWN))"
proof -
  have gpio: "gpio_spec c" using assms(1) by (simp add: config_spec_def)
  then have pin: "int (unat (machine_status_gpio c)) = sint (machine_status_gpio c)"
    "sint (machine_status_gpio c) \<le> 39"
    using assms(2) pin_number [of "machine_status_gpio c"] by (auto simp: gpio_spec_def)
  have bits: "bit (push_bit (unat (machine_status_gpio c)) (1 :: u64)) k \<longleftrightarrow> int k = sint (machine_status_gpio c)" for k
    using pin unfolding bit_of_pin by linarith
  show ?thesis
    using init_enabled [OF assms(2,3)] bits gpio assms(2)
    by (auto simp: gpio_spec_def machine_status_get_def machine_status_is_enabled_def Let_def)
qed

lemma machine_input_is_the_configured_pin_witness:
  "let (r, s, req) = machine_status_init (\<lambda>_. ESP_OK) (Some example_config) initial_machine_status in
     machine_status_get (\<lambda>_. 1) (Some MACHINE_STATUS_UNKNOWN) s = (ESP_OK, Some MACHINE_STATUS_RUNNING)"
proof -
  obtain r s req where init:
    "machine_status_init (\<lambda>_. ESP_OK) (Some example_config) initial_machine_status = (r, s, req)"
    by (cases "machine_status_init (\<lambda>_. ESP_OK) (Some example_config) initial_machine_status") auto
  have "machine_status_provider example_config = DEVICE_CONFIG_MACHINE_GPIO"
    by (simp add: example_config_def)
  moreover have "machine_status_active_high example_config" by (simp add: example_config_def)
  moreover from machine_input_is_the_configured_pin
    [OF example_config_spec calculation(1) init, of "\<lambda>_. 1" MACHINE_STATUS_UNKNOWN]
  have "r = ESP_OK \<and> machine_status_get (\<lambda>_. 1) (Some MACHINE_STATUS_UNKNOWN) s =
      (ESP_OK, Some (if machine_status_active_high example_config
         then MACHINE_STATUS_RUNNING else MACHINE_STATUS_STOPPED))"
    by auto
  ultimately show ?thesis by (simp add: init)
qed

end
