(* ===== verification/Telemetry_Model.thy ===== *)
theory Telemetry_Model
  imports Sensor Machine_Status
begin

text \<open>
  A telemetry sample and its text (\<^verbatim>\<open>telemetry_model.c\<close>, \<^verbatim>\<open>telemetry_json.c\<close>): the sample is
  built from the sensor, the clock and the machine status, and rejected as a whole unless
  every part is valid.
\<close>

section \<open>Constants and types\<close>

definition TELEMETRY_MODEL_ERR_BASE :: int where [simp]: "TELEMETRY_MODEL_ERR_BASE = 0x7100"

text \<open>Codes of their own next to those of the SDK.\<close>

definition TELEMETRY_MODEL_ERR_SENSOR_READ :: esp_err where [simp]:
  "TELEMETRY_MODEL_ERR_SENSOR_READ = ESP_ERR_OTHER (TELEMETRY_MODEL_ERR_BASE + 1)"
definition TELEMETRY_MODEL_ERR_VALUE_NOT_FINITE :: esp_err where [simp]:
  "TELEMETRY_MODEL_ERR_VALUE_NOT_FINITE = ESP_ERR_OTHER (TELEMETRY_MODEL_ERR_BASE + 2)"
definition TELEMETRY_MODEL_ERR_TEMPERATURE_RANGE :: esp_err where [simp]:
  "TELEMETRY_MODEL_ERR_TEMPERATURE_RANGE = ESP_ERR_OTHER (TELEMETRY_MODEL_ERR_BASE + 3)"
definition TELEMETRY_MODEL_ERR_HUMIDITY_RANGE :: esp_err where [simp]:
  "TELEMETRY_MODEL_ERR_HUMIDITY_RANGE = ESP_ERR_OTHER (TELEMETRY_MODEL_ERR_BASE + 4)"
definition TELEMETRY_MODEL_ERR_TIMESTAMP :: esp_err where [simp]:
  "TELEMETRY_MODEL_ERR_TIMESTAMP = ESP_ERR_OTHER (TELEMETRY_MODEL_ERR_BASE + 5)"

definition TELEMETRY_DEVICE_ID_SIZE :: nat where [simp]: "TELEMETRY_DEVICE_ID_SIZE = 64"

definition SENSOR_TEMPERATURE_MIN_C :: rat where "SENSOR_TEMPERATURE_MIN_C = - 40"
definition SENSOR_TEMPERATURE_MAX_C :: rat where "SENSOR_TEMPERATURE_MAX_C = 85"
definition SENSOR_HUMIDITY_MIN_PERCENT :: rat where "SENSOR_HUMIDITY_MIN_PERCENT = 0"
definition SENSOR_HUMIDITY_MAX_PERCENT :: rat where "SENSOR_HUMIDITY_MAX_PERCENT = 100"

record telemetry =
  tel_device_id :: carray
  tel_timestamp :: carray
  tel_temperature :: f32
  tel_humidity :: f32
  tel_machine_status :: carray
  tel_machine_status_result :: esp_err

definition zero_telemetry :: telemetry where
  "zero_telemetry = \<lparr>tel_device_id = zeros 64, tel_timestamp = zeros 21, tel_temperature = Finite 0,
     tel_humidity = Finite 0, tel_machine_status = zeros 16, tel_machine_status_result = ESP_OK\<rparr>"

section \<open>Operations\<close>

text \<open>The static \<open>runtime_device_id\<close> is an array of 64 bytes.\<close>

definition telemetry_model_configure :: "carray option \<Rightarrow> carray \<Rightarrow> esp_err \<times> carray" where
  "telemetry_model_configure dev_id runtime =
     (case dev_id of None \<Rightarrow> (ESP_ERR_INVALID_ARG, runtime) | Some a \<Rightarrow>
        if cstr a = [] then (ESP_ERR_INVALID_ARG, runtime)
        else let (runtime, written) = snprintf_s runtime TELEMETRY_DEVICE_ID_SIZE (cstr a)
          in (if 0 < written \<and> written < TELEMETRY_DEVICE_ID_SIZE then ESP_OK else ESP_ERR_INVALID_SIZE, runtime))"

definition validate_measurement :: "sensor_data \<Rightarrow> esp_err" where
  "validate_measurement d =
     (if \<not> isfinite (temperature d) \<or> \<not> isfinite (humidity d) then TELEMETRY_MODEL_ERR_VALUE_NOT_FINITE
      else if f32_less (temperature d) SENSOR_TEMPERATURE_MIN_C
           \<or> f32_greater (temperature d) SENSOR_TEMPERATURE_MAX_C then TELEMETRY_MODEL_ERR_TEMPERATURE_RANGE
      else if f32_less (humidity d) SENSOR_HUMIDITY_MIN_PERCENT
           \<or> f32_greater (humidity d) SENSOR_HUMIDITY_MAX_PERCENT then TELEMETRY_MODEL_ERR_HUMIDITY_RANGE
      else ESP_OK)"

text \<open>
  \<open>now\<close> and \<open>time_valid\<close> are the clock at the moment of the call, \<open>level\<close> the levels of the
  pins. The sample is written only on success; \<open>None\<close> where a compensation overflows.
\<close>

definition telemetry_model_create ::
  "'d i2c_master \<Rightarrow> bool \<Rightarrow> int \<Rightarrow> system_time \<Rightarrow> (i32 \<Rightarrow> int) \<Rightarrow> machine_status_module \<Rightarrow> carray \<Rightarrow> bool
     \<Rightarrow> 'd sensor \<Rightarrow> (esp_err \<times> telemetry option \<times> 'd sensor) option" where
  "telemetry_model_create io bus now time_valid level machine runtime_device_id present s =
     (if \<not> present then Some (ESP_ERR_INVALID_ARG, None, s)
      else do {
        (sensor_result, sensor_data, s) \<leftarrow> sensor_read io bus True s;
        case sensor_data of
          None \<Rightarrow> Some (TELEMETRY_MODEL_ERR_SENSOR_READ, None, s)
        | Some d \<Rightarrow>
          let validation_result = validate_measurement d in
          if validation_result \<noteq> ESP_OK then Some (validation_result, None, snd (sensor_invalidate io s))
          else let candidate = zero_telemetry;
              (time_result, timestamp) =
                system_time_get_timestamp now (Some (tel_timestamp candidate)) SYSTEM_TIME_TIMESTAMP_SIZE time_valid
            in if time_result \<noteq> ESP_OK then Some (TELEMETRY_MODEL_ERR_TIMESTAMP, None, s)
            else let (machine_result, status) = machine_status_get level (Some MACHINE_STATUS_UNKNOWN) machine;
                (status_text, status_length) =
                  snprintf_s (tel_machine_status candidate) 16 (machine_status_to_string (the status))
              in if status_length = 0 \<or> status_length \<ge> 16 then Some (ESP_ERR_INVALID_SIZE, None, s)
              else let (device_id_text, device_id_length) =
                  snprintf_s (tel_device_id candidate) TELEMETRY_DEVICE_ID_SIZE (cstr runtime_device_id)
                in if device_id_length = 0 \<or> device_id_length \<ge> TELEMETRY_DEVICE_ID_SIZE
                   then Some (ESP_ERR_INVALID_SIZE, None, s)
                else Some (ESP_OK, Some \<lparr>tel_device_id = device_id_text, tel_timestamp = the timestamp,
                    tel_temperature = temperature d, tel_humidity = humidity d, tel_machine_status = status_text,
                    tel_machine_status_result = machine_result\<rparr>, s)
      })"

definition telemetry_text :: "telemetry \<Rightarrow> string" where
  "telemetry_text t =
     ''{\"device_id\":\"'' @ cstr (tel_device_id t) @
     ''\",\"timestamp\":\"'' @ cstr (tel_timestamp t) @
     ''\",\"temperature\":'' @ format_2f (tel_temperature t) @
     '',\"humidity\":'' @ format_2f (tel_humidity t) @
     '',\"machine_status\":\"'' @ cstr (tel_machine_status t) @ ''\"}''"

text \<open>The result and the buffer, \<open>None\<close> for null pointers.\<close>

definition telemetry_to_json :: "telemetry option \<Rightarrow> carray option \<Rightarrow> nat \<Rightarrow> int \<times> carray option" where
  "telemetry_to_json telemetry buffer buffer_size =
     (case (telemetry, buffer) of
        (Some t, Some b) \<Rightarrow>
          if buffer_size = 0 then (- 1, buffer)
          else let (b, written) = snprintf_s b buffer_size (telemetry_text t) in
            if written \<ge> buffer_size then (- 1, Some b) else (int written, Some b)
      | _ \<Rightarrow> (- 1, buffer))"

section \<open>Facts\<close>

text \<open>A measurement that validation lets through.\<close>

definition plausible :: "f32 \<Rightarrow> f32 \<Rightarrow> bool" where
  "plausible t h \<longleftrightarrow>
     (\<exists>q p. t = Finite q \<and> h = Finite p \<and> - 40 \<le> q \<and> q \<le> 85 \<and> 0 \<le> p \<and> p \<le> 100)"

lemma validate_measurement_iff: "validate_measurement d = ESP_OK \<longleftrightarrow> plausible (temperature d) (humidity d)"
  by (cases "temperature d"; cases "humidity d")
    (auto simp: validate_measurement_def plausible_def isfinite_def f32_less_def f32_greater_def
      SENSOR_TEMPERATURE_MIN_C_def SENSOR_TEMPERATURE_MAX_C_def SENSOR_HUMIDITY_MIN_PERCENT_def
      SENSOR_HUMIDITY_MAX_PERCENT_def)

lemma format_plausible:
  "plausible t h \<Longrightarrow> length (format_2f t) \<le> 6 \<and> length (format_2f h) \<le> 6"
  by (auto simp: plausible_def intro!: format_2f_length)

lemma machine_status_get_some: "\<exists>r st. machine_status_get level (Some st0) m = (r, Some st)"
  by (simp add: machine_status_get_def Let_def)

text \<open>What a sample is made of.\<close>

lemma create_ok:
  assumes "telemetry_model_create io bus now v level machine dev_id True s = Some (r, t, s')"
  shows "(r = ESP_OK) = (t \<noteq> None)"
    and "t = Some tel \<Longrightarrow> plausible (tel_temperature tel) (tel_humidity tel) \<and> v \<and>
      (\<exists>u. gmtime_r now = Some u \<and> cstr (tel_timestamp tel) = iso_string u) \<and> length (cstr (tel_timestamp tel)) \<le> 20 \<and>
      cstr (tel_device_id tel) = cstr dev_id \<and> cstr dev_id \<noteq> [] \<and> length (cstr dev_id) < 64 \<and>
      (\<exists>status. cstr (tel_machine_status tel) = machine_status_to_string status \<and>
         machine_status_get level (Some MACHINE_STATUS_UNKNOWN) machine = (tel_machine_status_result tel, Some status))"
proof -
  obtain q data t0 where read: "sensor_read io bus True s = Some (q, data, t0)"
    using assms by (auto simp: telemetry_model_create_def bind_eq_Some_conv)
  obtain tr ts where ts: "system_time_get_timestamp now (Some (zeros 21)) 21 v = (tr, ts)" by fastforce
  obtain mr ms where ms: "machine_status_get level (Some MACHINE_STATUS_UNKNOWN) machine = (mr, Some ms)"
    using machine_status_get_some by blast
  show "(r = ESP_OK) = (t \<noteq> None)"
    using assms read by (auto simp: telemetry_model_create_def zero_telemetry_def ts ms Let_def
        split: option.splits if_splits prod.splits)
  assume t: "t = Some tel"
  obtain d where d: "data = Some d" "validate_measurement d = ESP_OK" "tr = ESP_OK"
    "cstr dev_id \<noteq> []" "length (cstr dev_id) < 64"
    "tel = \<lparr>tel_device_id = store_s (zeros 64) 64 (cstr dev_id), tel_timestamp = the ts,
       tel_temperature = temperature d, tel_humidity = humidity d,
       tel_machine_status = store_s (zeros 16) 16 (machine_status_to_string ms), tel_machine_status_result = mr\<rparr>"
    using assms read t
    by (auto simp: telemetry_model_create_def zero_telemetry_def ts ms Let_def snprintf_s_def
        split: option.splits if_splits prod.splits)
  from ts d(3) obtain u a where u: "gmtime_r now = Some u" "ts = Some a" "cstr a = iso_string u"
      "length (iso_string u) < 21" v
    using get_timestamp_ok [of now "zeros 21" 21 v ts] by auto
  have "cstr (store_s (zeros 16) 16 (machine_status_to_string ms)) = machine_status_to_string ms"
    using machine_status_string_length [of ms] by (simp add: cstr_store_s cstr_id)
  then show "plausible (tel_temperature tel) (tel_humidity tel) \<and> v \<and>
      (\<exists>u. gmtime_r now = Some u \<and> cstr (tel_timestamp tel) = iso_string u) \<and> length (cstr (tel_timestamp tel)) \<le> 20 \<and>
      cstr (tel_device_id tel) = cstr dev_id \<and> cstr dev_id \<noteq> [] \<and> length (cstr dev_id) < 64 \<and>
      (\<exists>status. cstr (tel_machine_status tel) = machine_status_to_string status \<and>
         machine_status_get level (Some MACHINE_STATUS_UNKNOWN) machine = (tel_machine_status_result tel, Some status))"
    using d u ms by (simp add: validate_measurement_iff store_s_fits)
qed

text \<open>The text of a sample fits the buffer of 256 bytes.\<close>

lemma telemetry_text_length:
  "length (telemetry_text t) = 78 + length (cstr (tel_device_id t)) + length (cstr (tel_timestamp t)) +
     length (format_2f (tel_temperature t)) + length (format_2f (tel_humidity t)) + length (cstr (tel_machine_status t))"
  by (simp add: telemetry_text_def)

lemma created_text_length:
  assumes "telemetry_model_create io bus now v level machine dev_id True s = Some (r, Some tel, s')"
  shows "length (telemetry_text tel) \<le> 180"
proof -
  note ok = create_ok(2) [OF assms refl]
  then obtain status where "cstr (tel_machine_status tel) = machine_status_to_string status" by blast
  then have "length (cstr (tel_machine_status tel)) \<le> 7" by (simp add: machine_status_string_length)
  then show ?thesis
    using ok format_plausible [of "tel_temperature tel" "tel_humidity tel"] by (simp add: telemetry_text_length)
qed

end
