(* ===== verification/Device_Health.thy ===== *)
theory Device_Health
  imports Prelude
begin

text \<open>
  The health registry (\<^verbatim>\<open>device_health.c\<close>): the state of the four monitored components, the
  overall status derived from it, the revision number by which readers notice changes, the
  counters. Whether the mutex can be created and taken is a parameter of the operations.
\<close>

section \<open>Types\<close>

definition DEVICE_HEALTH_TIMESTAMP_SIZE :: nat where [simp]: "DEVICE_HEALTH_TIMESTAMP_SIZE = 21"

datatype device_health_overall_status =
    DEVICE_HEALTH_OVERALL_HEALTHY
  | DEVICE_HEALTH_OVERALL_DEGRADED

text \<open>The \<open>_OTHER\<close> constructors are the values of the C types outside the named ones.\<close>

datatype device_health_component_status =
    DEVICE_HEALTH_COMPONENT_HEALTHY
  | DEVICE_HEALTH_COMPONENT_DEGRADED
  | DEVICE_HEALTH_COMPONENT_FAULT
  | DEVICE_HEALTH_COMPONENT_UNKNOWN
  | DEVICE_HEALTH_COMPONENT_STATUS_OTHER int

datatype device_availability = DEVICE_AVAILABILITY_ONLINE | DEVICE_AVAILABILITY_OFFLINE

datatype device_health_error =
    DEVICE_HEALTH_ERROR_NONE
  | DEVICE_HEALTH_ERROR_NOT_INITIALIZED
  | DEVICE_HEALTH_ERROR_COMMUNICATION_FAILED
  | DEVICE_HEALTH_ERROR_READ_FAILED
  | DEVICE_HEALTH_ERROR_VALUE_NOT_FINITE
  | DEVICE_HEALTH_ERROR_TEMPERATURE_OUT_OF_RANGE
  | DEVICE_HEALTH_ERROR_HUMIDITY_OUT_OF_RANGE
  | DEVICE_HEALTH_ERROR_TIME_NOT_SYNCHRONIZED
  | DEVICE_HEALTH_ERROR_MQTT_DISCONNECTED
  | DEVICE_HEALTH_ERROR_PUBLISH_FAILED
  | DEVICE_HEALTH_ERROR_MACHINE_STATUS_UNAVAILABLE
  | DEVICE_HEALTH_ERROR_OTHER int

text \<open>A component is an index into the array of the snapshot, as in C.\<close>

type_synonym device_health_component = int

definition DEVICE_HEALTH_COMPONENT_SENSOR :: device_health_component where [simp]: "DEVICE_HEALTH_COMPONENT_SENSOR = 0"
definition DEVICE_HEALTH_COMPONENT_MACHINE_STATUS :: device_health_component where [simp]: "DEVICE_HEALTH_COMPONENT_MACHINE_STATUS = 1"
definition DEVICE_HEALTH_COMPONENT_SYSTEM_TIME :: device_health_component where [simp]: "DEVICE_HEALTH_COMPONENT_SYSTEM_TIME = 2"
definition DEVICE_HEALTH_COMPONENT_MQTT :: device_health_component where [simp]: "DEVICE_HEALTH_COMPONENT_MQTT = 3"
definition DEVICE_HEALTH_COMPONENT_COUNT :: device_health_component where [simp]: "DEVICE_HEALTH_COMPONENT_COUNT = 4"

record device_health_component_snapshot =
  comp_status :: device_health_component_status
  comp_error :: device_health_error
  has_updated_at :: bool
  updated_at :: carray

record device_health_counters =
  samples_ok :: u64
  samples_rejected :: u64
  publish_ok :: u64
  publish_failed :: u64
  machine_status_errors :: u64

record device_health_metrics =
  uptime_seconds :: u64
  free_heap_bytes :: u32
  minimum_free_heap_bytes :: u32
  has_wifi_rssi :: bool
  wifi_rssi_dbm :: u32

record device_health_snapshot =
  overall_status :: device_health_overall_status
  availability :: device_availability
  health_components :: "device_health_component_snapshot list"
  counters :: device_health_counters
  metrics :: device_health_metrics
  state_revision :: u32

text \<open>The statics \<open>state\<close> and \<open>mutex\<close> (whether it was created).\<close>

record health =
  health_state :: device_health_snapshot
  health_mutex :: bool

section \<open>Operations\<close>

fun calculate_overall_status :: "device_health_component_snapshot list \<Rightarrow> device_health_overall_status" where
  "calculate_overall_status [] = DEVICE_HEALTH_OVERALL_HEALTHY"
| "calculate_overall_status (c # cs) =
     (if comp_status c = DEVICE_HEALTH_COMPONENT_DEGRADED \<or> comp_status c = DEVICE_HEALTH_COMPONENT_FAULT
      then DEVICE_HEALTH_OVERALL_DEGRADED else calculate_overall_status cs)"

text \<open>\<open>takes\<close> is the answer of \<^verbatim>\<open>xSemaphoreTake\<close>; releasing the mutex changes nothing else.\<close>

definition lock_state :: "bool \<Rightarrow> health \<Rightarrow> bool" where
  "lock_state takes h \<longleftrightarrow> health_mutex h \<and> takes"

definition zero_counters :: device_health_counters where
  "zero_counters = \<lparr>samples_ok = 0, samples_rejected = 0, publish_ok = 0, publish_failed = 0, machine_status_errors = 0\<rparr>"

definition zero_metrics :: device_health_metrics where
  "zero_metrics = \<lparr>uptime_seconds = 0, free_heap_bytes = 0, minimum_free_heap_bytes = 0, has_wifi_rssi = False, wifi_rssi_dbm = 0\<rparr>"

text \<open>All bytes zero: the enumerators of value 0.\<close>

definition zero_component :: device_health_component_snapshot where
  "zero_component = \<lparr>comp_status = DEVICE_HEALTH_COMPONENT_HEALTHY, comp_error = DEVICE_HEALTH_ERROR_NONE,
     has_updated_at = False, updated_at = zeros DEVICE_HEALTH_TIMESTAMP_SIZE\<rparr>"

definition zero_snapshot :: device_health_snapshot where
  "zero_snapshot = \<lparr>overall_status = DEVICE_HEALTH_OVERALL_HEALTHY, availability = DEVICE_AVAILABILITY_ONLINE,
     health_components = replicate (nat DEVICE_HEALTH_COMPONENT_COUNT) zero_component,
     counters = zero_counters, metrics = zero_metrics, state_revision = 0\<rparr>"

definition initial_health :: health where
  "initial_health = \<lparr>health_state = zero_snapshot, health_mutex = False\<rparr>"

definition device_health_init :: "bool \<Rightarrow> health \<Rightarrow> esp_err \<times> health" where
  "device_health_init created h =
     (if health_mutex h then (ESP_OK, h)
      else let h = h\<lparr>health_mutex := created\<rparr> in
        if \<not> health_mutex h then (ESP_ERR_NO_MEM, h)
        else (ESP_OK, h\<lparr>health_state := zero_snapshot
          \<lparr>overall_status := DEVICE_HEALTH_OVERALL_HEALTHY, availability := DEVICE_AVAILABILITY_OFFLINE,
           health_components := map (\<lambda>c. c\<lparr>comp_status := DEVICE_HEALTH_COMPONENT_UNKNOWN,
               comp_error := DEVICE_HEALTH_ERROR_NOT_INITIALIZED\<rparr>) (health_components zero_snapshot),
           state_revision := 1\<rparr>\<rparr>))"

definition device_health_update_component ::
  "bool \<Rightarrow> device_health_component \<Rightarrow> device_health_component_status \<Rightarrow> device_health_error \<Rightarrow>
   string option \<Rightarrow> health \<Rightarrow> esp_err \<times> health" where
  "device_health_update_component takes component status error timestamp h =
     (if component < 0 \<or> component \<ge> DEVICE_HEALTH_COMPONENT_COUNT then (ESP_ERR_INVALID_ARG, h)
      else if \<not> lock_state takes h then (ESP_ERR_INVALID_STATE, h)
      else let s = health_state h;
          entry = health_components s ! nat component;
          state_changed = (comp_status entry \<noteq> status \<or> comp_error entry \<noteq> error);
          entry = entry\<lparr>comp_status := status, comp_error := error, has_updated_at := timestamp \<noteq> None,
            updated_at := (case timestamp of
               Some t \<Rightarrow> store_s (updated_at entry) DEVICE_HEALTH_TIMESTAMP_SIZE t
             | None \<Rightarrow> (updated_at entry)[0 := NUL])\<rparr>;
          s = s\<lparr>health_components := (health_components s)[nat component := entry]\<rparr>;
          overall = calculate_overall_status (health_components s);
          state_changed = (state_changed \<or> overall_status s \<noteq> overall);
          s = (if overall_status s \<noteq> overall then s\<lparr>overall_status := overall\<rparr> else s);
          s = (if state_changed then s\<lparr>state_revision := state_revision s + 1\<rparr> else s)
        in (ESP_OK, h\<lparr>health_state := s\<rparr>))"

definition device_health_set_availability :: "bool \<Rightarrow> device_availability \<Rightarrow> health \<Rightarrow> esp_err \<times> health" where
  "device_health_set_availability takes a h =
     (if \<not> lock_state takes h then (ESP_ERR_INVALID_STATE, h)
      else (ESP_OK, h\<lparr>health_state := (health_state h)\<lparr>availability := a\<rparr>\<rparr>))"

text \<open>The macro \<open>DEFINE_COUNTER_INCREMENT\<close>, with the field's update as its argument.\<close>

definition increment_counter ::
  "(device_health_counters \<Rightarrow> device_health_counters) \<Rightarrow> bool \<Rightarrow> health \<Rightarrow> health" where
  "increment_counter inc takes h =
     (if lock_state takes h
      then h\<lparr>health_state := (health_state h)\<lparr>counters := inc (counters (health_state h))\<rparr>\<rparr> else h)"

definition device_health_increment_samples_ok :: "bool \<Rightarrow> health \<Rightarrow> health" where
  "device_health_increment_samples_ok = increment_counter (\<lambda>c. c\<lparr>samples_ok := samples_ok c + 1\<rparr>)"

definition device_health_increment_samples_rejected :: "bool \<Rightarrow> health \<Rightarrow> health" where
  "device_health_increment_samples_rejected = increment_counter (\<lambda>c. c\<lparr>samples_rejected := samples_rejected c + 1\<rparr>)"

definition device_health_increment_publish_ok :: "bool \<Rightarrow> health \<Rightarrow> health" where
  "device_health_increment_publish_ok = increment_counter (\<lambda>c. c\<lparr>publish_ok := publish_ok c + 1\<rparr>)"

definition device_health_increment_publish_failed :: "bool \<Rightarrow> health \<Rightarrow> health" where
  "device_health_increment_publish_failed = increment_counter (\<lambda>c. c\<lparr>publish_failed := publish_failed c + 1\<rparr>)"

definition device_health_increment_machine_status_errors :: "bool \<Rightarrow> health \<Rightarrow> health" where
  "device_health_increment_machine_status_errors =
     increment_counter (\<lambda>c. c\<lparr>machine_status_errors := machine_status_errors c + 1\<rparr>)"

definition device_health_set_metrics :: "bool \<Rightarrow> device_health_metrics option \<Rightarrow> health \<Rightarrow> esp_err \<times> health" where
  "device_health_set_metrics takes m h =
     (case m of None \<Rightarrow> (ESP_ERR_INVALID_ARG, h)
      | Some m \<Rightarrow> if \<not> lock_state takes h then (ESP_ERR_INVALID_STATE, h)
          else (ESP_OK, h\<lparr>health_state := (health_state h)\<lparr>metrics := m\<rparr>\<rparr>))"

text \<open>\<open>present\<close>: the caller's pointer is not null. Without a success its target keeps its content.\<close>

definition device_health_get_snapshot :: "bool \<Rightarrow> bool \<Rightarrow> health \<Rightarrow> esp_err \<times> device_health_snapshot option" where
  "device_health_get_snapshot takes present h =
     (if \<not> present then (ESP_ERR_INVALID_ARG, None)
      else if \<not> lock_state takes h then (ESP_ERR_INVALID_STATE, None)
      else (ESP_OK, Some (health_state h)))"

section \<open>Names\<close>

definition device_health_overall_status_to_string :: "device_health_overall_status \<Rightarrow> string" where
  "device_health_overall_status_to_string s =
     (if s = DEVICE_HEALTH_OVERALL_HEALTHY then ''healthy'' else ''degraded'')"

fun device_health_component_status_to_string :: "device_health_component_status \<Rightarrow> string" where
  "device_health_component_status_to_string DEVICE_HEALTH_COMPONENT_HEALTHY = ''healthy''"
| "device_health_component_status_to_string DEVICE_HEALTH_COMPONENT_DEGRADED = ''degraded''"
| "device_health_component_status_to_string DEVICE_HEALTH_COMPONENT_FAULT = ''fault''"
| "device_health_component_status_to_string _ = ''unknown''"

fun device_health_error_to_string :: "device_health_error \<Rightarrow> string" where
  "device_health_error_to_string DEVICE_HEALTH_ERROR_NONE = ''none''"
| "device_health_error_to_string DEVICE_HEALTH_ERROR_NOT_INITIALIZED = ''not_initialized''"
| "device_health_error_to_string DEVICE_HEALTH_ERROR_COMMUNICATION_FAILED = ''communication_failed''"
| "device_health_error_to_string DEVICE_HEALTH_ERROR_READ_FAILED = ''read_failed''"
| "device_health_error_to_string DEVICE_HEALTH_ERROR_VALUE_NOT_FINITE = ''value_not_finite''"
| "device_health_error_to_string DEVICE_HEALTH_ERROR_TEMPERATURE_OUT_OF_RANGE = ''temperature_out_of_range''"
| "device_health_error_to_string DEVICE_HEALTH_ERROR_HUMIDITY_OUT_OF_RANGE = ''humidity_out_of_range''"
| "device_health_error_to_string DEVICE_HEALTH_ERROR_TIME_NOT_SYNCHRONIZED = ''time_not_synchronized''"
| "device_health_error_to_string DEVICE_HEALTH_ERROR_MQTT_DISCONNECTED = ''mqtt_disconnected''"
| "device_health_error_to_string DEVICE_HEALTH_ERROR_PUBLISH_FAILED = ''publish_failed''"
| "device_health_error_to_string DEVICE_HEALTH_ERROR_MACHINE_STATUS_UNAVAILABLE = ''machine_status_unavailable''"
| "device_health_error_to_string (DEVICE_HEALTH_ERROR_OTHER _) = ''not_initialized''"

definition device_availability_to_string :: "device_availability \<Rightarrow> string" where
  "device_availability_to_string a = (if a = DEVICE_AVAILABILITY_ONLINE then ''online'' else ''offline'')"

definition device_health_component_to_string :: "device_health_component \<Rightarrow> string" where
  "device_health_component_to_string c =
     (if c = DEVICE_HEALTH_COMPONENT_SENSOR then ''sensor''
      else if c = DEVICE_HEALTH_COMPONENT_MACHINE_STATUS then ''machine_status''
      else if c = DEVICE_HEALTH_COMPONENT_SYSTEM_TIME then ''system_time''
      else if c = DEVICE_HEALTH_COMPONENT_MQTT then ''mqtt''
      else ''unknown'')"

section \<open>Steps of the registry\<close>

datatype health_call =
    Call_init bool
  | Call_update bool device_health_component device_health_component_status device_health_error "string option"
  | Call_availability bool device_availability
  | Call_samples_ok bool
  | Call_samples_rejected bool
  | Call_publish_ok bool
  | Call_publish_failed bool
  | Call_machine_status_errors bool
  | Call_metrics bool "device_health_metrics option"

fun health_step :: "health_call \<Rightarrow> health \<Rightarrow> health" where
  "health_step (Call_init created) h = snd (device_health_init created h)"
| "health_step (Call_update takes c st e t) h = snd (device_health_update_component takes c st e t h)"
| "health_step (Call_availability takes a) h = snd (device_health_set_availability takes a h)"
| "health_step (Call_samples_ok takes) h = device_health_increment_samples_ok takes h"
| "health_step (Call_samples_rejected takes) h = device_health_increment_samples_rejected takes h"
| "health_step (Call_publish_ok takes) h = device_health_increment_publish_ok takes h"
| "health_step (Call_publish_failed takes) h = device_health_increment_publish_failed takes h"
| "health_step (Call_machine_status_errors takes) h = device_health_increment_machine_status_errors takes h"
| "health_step (Call_metrics takes m) h = snd (device_health_set_metrics takes m h)"

lemmas health_ops = device_health_set_availability_def device_health_set_metrics_def increment_counter_def
  device_health_increment_samples_ok_def device_health_increment_samples_rejected_def
  device_health_increment_publish_ok_def device_health_increment_publish_failed_def
  device_health_increment_machine_status_errors_def

definition component_ok :: "device_health_component_snapshot \<Rightarrow> bool" where
  "component_ok c \<longleftrightarrow> length (updated_at c) = 21 \<and> NUL \<in> set (updated_at c)"

definition snapshot_ok :: "device_health_snapshot \<Rightarrow> bool" where
  "snapshot_ok s \<longleftrightarrow> length (health_components s) = 4 \<and> list_all component_ok (health_components s) \<and>
     overall_status s = calculate_overall_status (health_components s)"

definition health_inv :: "health \<Rightarrow> bool" where
  "health_inv h \<longleftrightarrow> snapshot_ok (health_state h)"

text \<open>What a reader sees of the components.\<close>

definition component_view :: "health \<Rightarrow> (device_health_component_status \<times> device_health_error) list" where
  "component_view h = map (\<lambda>c. (comp_status c, comp_error c)) (health_components (health_state h))"

lemma overall_degraded_iff:
  "calculate_overall_status cs = DEVICE_HEALTH_OVERALL_DEGRADED \<longleftrightarrow>
   (\<exists>c\<in>set cs. comp_status c = DEVICE_HEALTH_COMPONENT_DEGRADED \<or> comp_status c = DEVICE_HEALTH_COMPONENT_FAULT)"
  by (induction cs) auto

lemma overall_view:
  "map (\<lambda>c. (comp_status c, comp_error c)) cs = map (\<lambda>c. (comp_status c, comp_error c)) ds \<Longrightarrow>
   calculate_overall_status cs = calculate_overall_status ds"
proof (induction cs arbitrary: ds)
  case (Cons c cs)
  then show ?case by (cases ds) auto
qed simp

lemma initial_inv: "health_inv initial_health"
  by (simp add: health_inv_def initial_health_def zero_snapshot_def snapshot_ok_def component_ok_def
      zero_component_def zeros_def numeral_eq_Suc)

text \<open>A successful update replaces one entry and recomputes the status.\<close>

lemma update_cases:
  fixes takes c st e t h
  defines "h' \<equiv> snd (device_health_update_component takes c st e t h)"
  assumes inv: "health_inv h"
  obtains "h' = h"
  | old new where "0 \<le> c" "c < 4" "health_mutex h" "old = health_components (health_state h) ! nat c"
      "comp_status new = st" "comp_error new = e" "component_ok new"
      "health_components (health_state h') = (health_components (health_state h))[nat c := new]"
      "overall_status (health_state h') = calculate_overall_status (health_components (health_state h'))"
      "state_revision (health_state h') = state_revision (health_state h) +
         of_bool (comp_status old \<noteq> st \<or> comp_error old \<noteq> e \<or>
            overall_status (health_state h) \<noteq> overall_status (health_state h'))"
      "health_mutex h' = health_mutex h" "counters (health_state h') = counters (health_state h)"
proof (cases "c < 0 \<or> 4 \<le> c \<or> \<not> lock_state takes h")
  case True
  then have "h' = h" by (auto simp: h'_def device_health_update_component_def)
  then show thesis by (rule that(1))
next
  case False
  let ?old = "health_components (health_state h) ! nat c"
  let ?new = "?old\<lparr>comp_status := st, comp_error := e, has_updated_at := t \<noteq> None,
      updated_at := (case t of Some t \<Rightarrow> store_s (updated_at ?old) DEVICE_HEALTH_TIMESTAMP_SIZE t | None \<Rightarrow> (updated_at ?old)[0 := NUL])\<rparr>"
  have "nat c < length (health_components (health_state h))"
    using inv False by (simp add: health_inv_def snapshot_ok_def nat_less_iff)
  then have "component_ok ?old"
    using inv by (simp add: health_inv_def snapshot_ok_def list_all_length)
  then have ok: "component_ok ?new"
    by (auto simp: component_ok_def nul_in_store_s set_update_memI split: option.splits)
  show thesis
    by (rule that(2) [of ?old ?new])
      (use False ok in \<open>auto simp: h'_def device_health_update_component_def lock_state_def Let_def\<close>)
qed

text \<open>The calls other than an update of a component, once the registry is initialised.\<close>

definition same_components :: "health \<Rightarrow> health \<Rightarrow> bool" where
  "same_components h h' \<longleftrightarrow>
     health_components (health_state h') = health_components (health_state h) \<and>
     overall_status (health_state h') = overall_status (health_state h) \<and>
     state_revision (health_state h') = state_revision (health_state h)"

lemma other_calls_same:
  assumes "\<And>takes c st e t. call \<noteq> Call_update takes c st e t" and "health_mutex h"
  shows "same_components h (health_step call h) \<and> health_mutex (health_step call h)"
proof (cases call)
  case (Call_update takes c st e t)
  then show ?thesis using assms(1) by blast
qed (use assms(2) in \<open>auto simp: health_ops same_components_def device_health_init_def split: option.splits\<close>)

lemma init_inv: "health_inv h \<Longrightarrow> health_inv (snd (device_health_init created h))"
  by (auto simp: device_health_init_def health_inv_def snapshot_ok_def zero_snapshot_def component_ok_def
      zero_component_def zeros_def numeral_eq_Suc Let_def)

lemma health_step_inv: "health_inv h \<Longrightarrow> health_inv (health_step call h)"
proof (cases "health_mutex h")
  case True
  assume inv: "health_inv h"
  show ?thesis
  proof (cases "\<exists>takes c st e t. call = Call_update takes c st e t")
    case True
    then obtain takes c st e t where call: "call = Call_update takes c st e t" by blast
    show ?thesis unfolding call health_step.simps
    proof (rule update_cases [OF inv, of takes c st e t], goal_cases)
      case 1
      then show ?case using inv by simp
    next
      case (2 old new)
      then show ?case
        using inv by (auto simp: health_inv_def snapshot_ok_def list_all_iff dest: set_update_subset_insert [THEN subsetD])
    qed
  next
    case False
    then show ?thesis
      using other_calls_same [of call h] \<open>health_mutex h\<close> inv
      by (auto simp: same_components_def health_inv_def snapshot_ok_def)
  qed
next
  case False
  assume inv: "health_inv h"
  show ?thesis
    using False inv init_inv [OF inv]
    by (cases call) (auto simp: health_ops device_health_update_component_def lock_state_def split: option.splits)
qed

interpretation health_registry: invariant_system health_step "\<lambda>_. True" health_inv
  by unfold_locales (rule health_step_inv)

lemma reached_inv: "health_inv (fold health_step calls initial_health)"
  by (rule health_registry.run_inv) (simp_all add: initial_inv list_all_iff)

lemma view_update:
  "i < length cs \<Longrightarrow> map (\<lambda>c. (comp_status c, comp_error c)) (cs[i := new]) = map (\<lambda>c. (comp_status c, comp_error c)) cs \<longleftrightarrow>
     comp_status (cs ! i) = comp_status new \<and> comp_error (cs ! i) = comp_error new"
  by (auto simp: map_update list_update_same_conv)

lemma revision_step:
  assumes inv: "health_inv h" and mutex: "health_mutex h"
  shows "health_mutex (health_step call h) \<and>
    state_revision (health_state (health_step call h)) =
      state_revision (health_state h) + of_bool (component_view (health_step call h) \<noteq> component_view h)"
proof (cases "\<exists>takes c st e t. call = Call_update takes c st e t")
  case True
  then obtain takes c st e t where call: "call = Call_update takes c st e t" by blast
  show ?thesis unfolding call health_step.simps
  proof (rule update_cases [OF inv, of takes c st e t], goal_cases)
    case 1
    then show ?case using mutex by simp
  next
    case (2 old new)
    let ?h = "snd (device_health_update_component takes c st e t h)"
    let ?cs = "health_components (health_state h)"
    have "nat c < length ?cs" using 2 inv by (simp add: health_inv_def snapshot_ok_def nat_less_iff)
    then have view: "component_view ?h = component_view h \<longleftrightarrow> comp_status old = st \<and> comp_error old = e"
      using 2 by (simp add: component_view_def view_update)
    have "overall_status (health_state h) = calculate_overall_status ?cs"
      using inv by (simp add: health_inv_def snapshot_ok_def)
    then have "component_view ?h = component_view h \<Longrightarrow>
        overall_status (health_state h) = overall_status (health_state ?h)"
      using 2 overall_view unfolding component_view_def by metis
    then show ?case using 2 mutex view by auto
  qed
next
  case False
  then show ?thesis
    using other_calls_same [of call h] mutex by (simp add: same_components_def component_view_def)
qed

fun view_changes :: "health_call list \<Rightarrow> health \<Rightarrow> nat" where
  "view_changes [] h = 0"
| "view_changes (e # es) h =
     (if component_view (health_step e h) \<noteq> component_view h then 1 else 0) + view_changes es (health_step e h)"

lemma view_changes_le: "view_changes es h \<le> length es"
  by (induction es arbitrary: h) (auto intro: le_SucI)

lemma revision_run:
  "health_inv h \<Longrightarrow> health_mutex h \<Longrightarrow>
   state_revision (health_state (fold health_step es h)) =
     state_revision (health_state h) + of_nat (view_changes es h)"
proof (induction es arbitrary: h)
  case (Cons e es)
  then show ?case using revision_step [of h e] health_step_inv [of h e] by simp
qed simp

lemma no_view_changes:
  "view_changes es h = 0 \<longleftrightarrow> (\<forall>n. component_view (fold health_step (take n es) h) = component_view h)"
proof (induction es arbitrary: h)
  case (Cons e es)
  show ?case
  proof
    assume "view_changes (e # es) h = 0"
    then have e: "component_view (health_step e h) = component_view h" and
      es: "view_changes es (health_step e h) = 0" by (auto split: if_splits)
    show "\<forall>n. component_view (fold health_step (take n (e # es)) h) = component_view h"
    proof
      fix n show "component_view (fold health_step (take n (e # es)) h) = component_view h"
        using e es Cons.IH by (cases n) simp_all
    qed
  next
    assume all: "\<forall>n. component_view (fold health_step (take n (e # es)) h) = component_view h"
    have "component_view (health_step e h) = component_view h" using spec [OF all, of 1] by simp
    moreover have "component_view (fold health_step (take n es) (health_step e h)) = component_view h" for n
      using spec [OF all, of "Suc n"] by simp
    ultimately show "view_changes (e # es) h = 0" using Cons.IH by simp
  qed
qed simp

section \<open>Properties\<close>

text \<open>
  After any sequence of calls, whatever the mutex does, the overall status is degraded
  exactly if some component is degraded or faulty, and the time stamps are terminated strings
  in their 21 bytes.
\<close>

lemma overall_status_summarises_the_components:
  defines "s \<equiv> \<lambda>calls. health_state (fold health_step calls initial_health)"
  shows "(overall_status (s calls) = DEVICE_HEALTH_OVERALL_DEGRADED \<longleftrightarrow>
      (\<exists>c\<in>set (health_components (s calls)).
         comp_status c = DEVICE_HEALTH_COMPONENT_DEGRADED \<or> comp_status c = DEVICE_HEALTH_COMPONENT_FAULT)) \<and>
    length (health_components (s calls)) = 4 \<and>
    list_all (\<lambda>c. length (updated_at c) = 21 \<and> NUL \<in> set (updated_at c)) (health_components (s calls))"
  using reached_inv [of calls] overall_degraded_iff
  by (auto simp: s_def health_inv_def snapshot_ok_def component_ok_def list_all_iff)

text \<open>
  A reader that compares revision numbers misses nothing: between two moments at most
  \<open>2 ^ 32 - 1\<close> calls apart, the number is the same exactly if no component's status or error
  differed at any moment between them.
\<close>

lemma revision_tells_every_change:
  fixes calls
  defines "h \<equiv> fold health_step calls initial_health"
  assumes "health_mutex h" and "length later < 4294967296"
  shows "state_revision (health_state (fold health_step later h)) = state_revision (health_state h) \<longleftrightarrow>
    (\<forall>n. component_view (fold health_step (take n later) h) = component_view h)"
proof -
  have "view_changes later h < 4294967296"
    using view_changes_le [of later h] assms(3) by linarith
  then have "unat (of_nat (view_changes later h) :: u32) = view_changes later h"
    by (simp add: unat_of_nat take_bit_nat_eq_self)
  then have "(of_nat (view_changes later h) :: u32) = 0 \<longleftrightarrow> view_changes later h = 0"
    using unat_eq_zero by metis
  then show ?thesis
    using revision_run [OF reached_inv [of calls, folded h_def] assms(2), of later]
    by (simp add: no_view_changes)
qed

lemma revision_tells_every_change_witness:
  "state_revision (health_state (health_step
      (Call_update True 0 DEVICE_HEALTH_COMPONENT_FAULT DEVICE_HEALTH_ERROR_READ_FAILED None)
      (health_step (Call_init True) initial_health))) \<noteq>
   state_revision (health_state (health_step (Call_init True) initial_health))"
proof -
  let ?e = "Call_update True 0 DEVICE_HEALTH_COMPONENT_FAULT DEVICE_HEALTH_ERROR_READ_FAILED None"
  let ?h = "health_step (Call_init True) initial_health"
  have "component_view (health_step ?e ?h) \<noteq> component_view ?h"
    by (simp add: component_view_def device_health_init_def initial_health_def zero_snapshot_def Let_def
        device_health_update_component_def lock_state_def numeral_eq_Suc)
  then have "\<not> (\<forall>n. component_view (fold health_step (take n [?e]) ?h) = component_view ?h)"
    by (metis fold_simps take_Suc_Cons take_0)
  moreover have "health_mutex ?h"
    by (simp add: device_health_init_def initial_health_def Let_def)
  ultimately show ?thesis
    using revision_tells_every_change [where calls = "[Call_init True]" and later = "[?e]"] by simp
qed

end
