(* ===== verification/Telemetry.thy ===== *)
theory Telemetry
  imports Telemetry_Model Device_Health
begin

text \<open>
  The telemetry task (\<^verbatim>\<open>telemetry.c\<close>): every cycle takes one sample, reports its outcome to
  the health registry and publishes it. The transport is the parameter \<open>publish\<close>.
\<close>

section \<open>State and inputs of a cycle\<close>

text \<open>The state of the components a cycle works on, and the payloads given to the transport.\<close>

record 'd telemetry_system =
  ts_health :: health
  ts_time :: system_time
  ts_sensor :: "'d sensor"
  ts_machine :: machine_status_module
  ts_device_id :: carray
  ts_published :: "(string \<times> esp_err) list"

text \<open>
  What the environment supplies in a cycle: whether the clock is synchronised by the SNTP
  client right before the first, second and third look at the flag, the clock at the two
  time stamps, the pin levels, whether the health mutex is granted, the transport's results.
\<close>

record cycle_inputs =
  sync1 :: bool
  sync2 :: bool
  sync3 :: bool
  now1 :: int
  now2 :: int
  levels :: "i32 \<Rightarrow> int"
  takes :: bool
  publish :: "string \<Rightarrow> esp_err"

definition synced :: "bool \<Rightarrow> 'd telemetry_system \<Rightarrow> 'd telemetry_system" where
  "synced b s = (if b then s\<lparr>ts_time := time_sync_notification_cb (ts_time s)\<rparr> else s)"

section \<open>The cycle\<close>

text \<open>The time stamp, or null; the buffer of the caller has 21 bytes.\<close>

definition get_timestamp :: "int \<Rightarrow> system_time \<Rightarrow> string option" where
  "get_timestamp now v =
     (case system_time_get_timestamp now (Some (zeros 21)) SYSTEM_TIME_TIMESTAMP_SIZE v of
        (ESP_OK, Some a) \<Rightarrow> Some (cstr a) | _ \<Rightarrow> None)"

definition sensor_failure_error :: "esp_err \<Rightarrow> device_health_error" where
  "sensor_failure_error model_result =
     (if model_result = TELEMETRY_MODEL_ERR_VALUE_NOT_FINITE then DEVICE_HEALTH_ERROR_VALUE_NOT_FINITE
      else if model_result = TELEMETRY_MODEL_ERR_TEMPERATURE_RANGE then DEVICE_HEALTH_ERROR_TEMPERATURE_OUT_OF_RANGE
      else if model_result = TELEMETRY_MODEL_ERR_HUMIDITY_RANGE then DEVICE_HEALTH_ERROR_HUMIDITY_OUT_OF_RANGE
      else DEVICE_HEALTH_ERROR_READ_FAILED)"

definition update_sensor_failure :: "bool \<Rightarrow> esp_err \<Rightarrow> string option \<Rightarrow> health \<Rightarrow> health" where
  "update_sensor_failure k model_result timestamp h =
     snd (device_health_update_component k DEVICE_HEALTH_COMPONENT_SENSOR DEVICE_HEALTH_COMPONENT_FAULT
       (sensor_failure_error model_result) timestamp h)"

definition update_machine_status_health :: "bool \<Rightarrow> telemetry \<Rightarrow> string option \<Rightarrow> health \<Rightarrow> health" where
  "update_machine_status_health k t timestamp h =
     (if tel_machine_status_result t = ESP_OK
      then snd (device_health_update_component k DEVICE_HEALTH_COMPONENT_MACHINE_STATUS
             DEVICE_HEALTH_COMPONENT_HEALTHY DEVICE_HEALTH_ERROR_NONE timestamp h)
      else if tel_machine_status_result t = ESP_ERR_NOT_SUPPORTED
      then snd (device_health_update_component k DEVICE_HEALTH_COMPONENT_MACHINE_STATUS
             DEVICE_HEALTH_COMPONENT_UNKNOWN DEVICE_HEALTH_ERROR_NONE timestamp h)
      else snd (device_health_update_component k DEVICE_HEALTH_COMPONENT_MACHINE_STATUS
             DEVICE_HEALTH_COMPONENT_FAULT DEVICE_HEALTH_ERROR_MACHINE_STATUS_UNAVAILABLE timestamp
             (device_health_increment_machine_status_errors k h)))"

text \<open>The branches for a clock that is not synchronised and for a rejected sample.\<close>

definition clock_not_synchronized :: "bool \<Rightarrow> health \<Rightarrow> health" where
  "clock_not_synchronized k h =
     snd (device_health_update_component k DEVICE_HEALTH_COMPONENT_SYSTEM_TIME DEVICE_HEALTH_COMPONENT_DEGRADED
       DEVICE_HEALTH_ERROR_TIME_NOT_SYNCHRONIZED None h)"

definition reject_sample :: "bool \<Rightarrow> esp_err \<Rightarrow> string option \<Rightarrow> health \<Rightarrow> health" where
  "reject_sample k model_result timestamp h =
     (let h = device_health_increment_samples_rejected k h in
      if model_result = TELEMETRY_MODEL_ERR_SENSOR_READ then update_sensor_failure k model_result timestamp h
      else if model_result = TELEMETRY_MODEL_ERR_VALUE_NOT_FINITE \<or> model_result = TELEMETRY_MODEL_ERR_TEMPERATURE_RANGE
           \<or> model_result = TELEMETRY_MODEL_ERR_HUMIDITY_RANGE then update_sensor_failure k model_result timestamp h
      else if model_result = TELEMETRY_MODEL_ERR_TIMESTAMP then clock_not_synchronized k h
      else h)"

definition accept_sample :: "bool \<Rightarrow> telemetry \<Rightarrow> string option \<Rightarrow> health \<Rightarrow> health" where
  "accept_sample k t timestamp h =
     (let h = device_health_increment_samples_ok k h;
          h = snd (device_health_update_component k DEVICE_HEALTH_COMPONENT_SENSOR DEVICE_HEALTH_COMPONENT_HEALTHY
                DEVICE_HEALTH_ERROR_NONE timestamp h);
          h = snd (device_health_update_component k DEVICE_HEALTH_COMPONENT_SYSTEM_TIME DEVICE_HEALTH_COMPONENT_HEALTHY
                DEVICE_HEALTH_ERROR_NONE timestamp h)
      in update_machine_status_health k t timestamp h)"

definition record_publication :: "bool \<Rightarrow> esp_err \<Rightarrow> string option \<Rightarrow> health \<Rightarrow> health" where
  "record_publication k publish_result timestamp h =
     (if publish_result = ESP_OK
      then snd (device_health_update_component k DEVICE_HEALTH_COMPONENT_MQTT DEVICE_HEALTH_COMPONENT_HEALTHY
             DEVICE_HEALTH_ERROR_NONE timestamp (device_health_increment_publish_ok k h))
      else let h = device_health_increment_publish_failed k h in
        if publish_result = ESP_ERR_INVALID_STATE
        then snd (device_health_update_component k DEVICE_HEALTH_COMPONENT_MQTT DEVICE_HEALTH_COMPONENT_DEGRADED
               DEVICE_HEALTH_ERROR_MQTT_DISCONNECTED timestamp h)
        else snd (device_health_update_component k DEVICE_HEALTH_COMPONENT_MQTT DEVICE_HEALTH_COMPONENT_FAULT
               DEVICE_HEALTH_ERROR_PUBLISH_FAILED timestamp h))"

text \<open>\<open>None\<close> where a compensation of the sensor overflows.\<close>

definition telemetry_collect_and_publish ::
  "'d i2c_master \<Rightarrow> bool \<Rightarrow> cycle_inputs \<Rightarrow> 'd telemetry_system \<Rightarrow> 'd telemetry_system option" where
  "telemetry_collect_and_publish io bus e s =
     (let s = synced (sync1 e) s;
          timestamp_value = get_timestamp (now1 e) (ts_time s);
          s = synced (sync2 e) s
      in if \<not> system_time_is_valid (ts_time s)
         then Some (s\<lparr>ts_health := clock_not_synchronized (takes e)
                (device_health_increment_samples_rejected (takes e) (ts_health s))\<rparr>)
      else let s = synced (sync3 e) s in
      do {
        (model_result, sample, sensor) \<leftarrow> telemetry_model_create io bus (now2 e) (ts_time s) (levels e)
           (ts_machine s) (ts_device_id s) True (ts_sensor s);
        let s = s\<lparr>ts_sensor := sensor\<rparr>;
        case sample of
          None \<Rightarrow> Some (s\<lparr>ts_health := reject_sample (takes e) model_result timestamp_value (ts_health s)\<rparr>)
        | Some t \<Rightarrow>
            let s = s\<lparr>ts_health := accept_sample (takes e) t timestamp_value (ts_health s)\<rparr>;
                (payload_length, payload) = telemetry_to_json sample (Some (zeros 256)) 256
            in if payload_length < 0
               then Some (s\<lparr>ts_health := device_health_increment_publish_failed (takes e) (ts_health s)\<rparr>)
            else let text = cstr (the payload); publish_result = publish e text
              in Some (s\<lparr>ts_published := ts_published s @ [(text, publish_result)],
                     ts_health := record_publication (takes e) publish_result timestamp_value (ts_health s)\<rparr>)
      })"

text \<open>
  The task is an endless loop of cycles; a run of it is a list of their inputs. The interval
  only determines the delay between cycles.
\<close>

fun telemetry_run ::
  "'d i2c_master \<Rightarrow> bool \<Rightarrow> cycle_inputs list \<Rightarrow> 'd telemetry_system \<Rightarrow> 'd telemetry_system option" where
  "telemetry_run io bus [] s = Some s"
| "telemetry_run io bus (e # es) s =
     Option.bind (telemetry_collect_and_publish io bus e s) (telemetry_run io bus es)"

record telemetry_task =
  telemetry_task_handle :: bool
  telemetry_interval :: u32
  runtime_device_id :: carray

text \<open>\<open>created\<close>: \<^verbatim>\<open>xTaskCreate\<close> succeeds.\<close>

definition telemetry_start :: "bool \<Rightarrow> carray option \<Rightarrow> u32 \<Rightarrow> telemetry_task \<Rightarrow> esp_err \<times> telemetry_task" where
  "telemetry_start created dev_id interval_seconds s =
     (if telemetry_task_handle s then (ESP_ERR_INVALID_STATE, s)
      else let (configuration_result, rt) = telemetry_model_configure dev_id (runtime_device_id s);
          s = s\<lparr>runtime_device_id := rt\<rparr>
        in if configuration_result \<noteq> ESP_OK \<or> interval_seconds < 1 \<or> interval_seconds > 3600
           then (ESP_ERR_INVALID_ARG, s)
        else let s = s\<lparr>telemetry_interval := interval_seconds\<rparr> in
          if \<not> created then (ESP_ERR_NO_MEM, s\<lparr>telemetry_task_handle := False\<rparr>)
          else (ESP_OK, s\<lparr>telemetry_task_handle := True\<rparr>))"

section \<open>The counters\<close>

abbreviation counts :: "health \<Rightarrow> device_health_counters" where
  "counts h \<equiv> counters (health_state h)"

named_theorems counting \<open>effect of the operations on the counters and the mutex\<close>

lemma update_counts [counting]:
  "counts (snd (device_health_update_component k c st e t h)) = counts h"
  "health_mutex (snd (device_health_update_component k c st e t h)) = health_mutex h"
  by (simp_all add: device_health_update_component_def Let_def)

lemma increment_counts [counting]:
  assumes "health_mutex h"
  shows "counts (device_health_increment_samples_ok True h) = (counts h)\<lparr>samples_ok := samples_ok (counts h) + 1\<rparr>"
    "counts (device_health_increment_samples_rejected True h) = (counts h)\<lparr>samples_rejected := samples_rejected (counts h) + 1\<rparr>"
    "counts (device_health_increment_publish_ok True h) = (counts h)\<lparr>publish_ok := publish_ok (counts h) + 1\<rparr>"
    "counts (device_health_increment_publish_failed True h) = (counts h)\<lparr>publish_failed := publish_failed (counts h) + 1\<rparr>"
    "counts (device_health_increment_machine_status_errors True h) =
       (counts h)\<lparr>machine_status_errors := machine_status_errors (counts h) + 1\<rparr>"
    "health_mutex (device_health_increment_samples_ok True h)" "health_mutex (device_health_increment_samples_rejected True h)"
    "health_mutex (device_health_increment_publish_ok True h)" "health_mutex (device_health_increment_publish_failed True h)"
    "health_mutex (device_health_increment_machine_status_errors True h)"
  using assms by (simp_all add: health_ops lock_state_def)

lemma machine_counts [counting]:
  assumes "health_mutex h"
  shows "samples_ok (counts (update_machine_status_health True t ts h)) = samples_ok (counts h)"
    "samples_rejected (counts (update_machine_status_health True t ts h)) = samples_rejected (counts h)"
    "publish_ok (counts (update_machine_status_health True t ts h)) = publish_ok (counts h)"
    "publish_failed (counts (update_machine_status_health True t ts h)) = publish_failed (counts h)"
    "health_mutex (update_machine_status_health True t ts h)"
  using assms by (simp_all add: update_machine_status_health_def counting)

lemmas outcome_defs = clock_not_synchronized_def reject_sample_def update_sensor_failure_def accept_sample_def
  record_publication_def

text \<open>How a cycle ends: what it counts and what it gives to the transport.\<close>

definition cycle_effect :: "'d telemetry_system \<Rightarrow> 'd telemetry_system \<Rightarrow> bool \<Rightarrow> bool \<Rightarrow> bool" where
  "cycle_effect s s' accepted published \<longleftrightarrow>
     health_mutex (ts_health s') \<and> ts_device_id s' = ts_device_id s \<and> ts_machine s' = ts_machine s \<and>
     samples_ok (counts (ts_health s')) = samples_ok (counts (ts_health s)) + of_bool accepted \<and>
     samples_rejected (counts (ts_health s')) = samples_rejected (counts (ts_health s)) + of_bool (\<not> accepted) \<and>
     publish_ok (counts (ts_health s')) + publish_failed (counts (ts_health s')) =
       publish_ok (counts (ts_health s)) + publish_failed (counts (ts_health s)) + of_bool accepted \<and>
     length (ts_published s') = length (ts_published s) + of_bool published"

lemma json_of_sample:
  assumes "length (telemetry_text t) < 256" and "NUL \<notin> set (telemetry_text t)"
  shows "\<exists>b. telemetry_to_json (Some t) (Some (zeros 256)) 256 = (int (length (telemetry_text t)), Some b)
    \<and> cstr b = telemetry_text t"
  using assms by (simp add: telemetry_to_json_def snprintf_s_def Let_def cstr_append_nul cstr_id)

lemma format_2f_no_nul: "NUL \<notin> set (format_2f x)"
  by (cases x) (auto simp: format_2f_def Let_def dec_string_no_nul two_digits_no_nul)

lemma telemetry_text_no_nul: "NUL \<notin> set (telemetry_text t)"
  by (simp add: telemetry_text_def format_2f_no_nul)

lemma synced_fields [simp]:
  "ts_health (synced b s) = ts_health s" "ts_sensor (synced b s) = ts_sensor s" "ts_machine (synced b s) = ts_machine s"
  "ts_device_id (synced b s) = ts_device_id s" "ts_published (synced b s) = ts_published s"
  by (simp_all add: synced_def)

text \<open>The payload for a device, a moment, a measurement and a machine status.\<close>

definition payload_text :: "string \<Rightarrow> tm \<Rightarrow> f32 \<Rightarrow> f32 \<Rightarrow> machine_status \<Rightarrow> string" where
  "payload_text dev_id u t h status =
     ''{\"device_id\":\"'' @ dev_id @ ''\",\"timestamp\":\"'' @ iso_string u @ ''\",\"temperature\":'' @ format_2f t @
     '',\"humidity\":'' @ format_2f h @ '',\"machine_status\":\"'' @ machine_status_to_string status @ ''\"}''"

definition sound_payload :: "string \<Rightarrow> string \<Rightarrow> bool" where
  "sound_payload dev_id p \<longleftrightarrow>
     (\<exists>u t h status. p = payload_text dev_id u t h status \<and> plausible t h) \<and> length p \<le> 180"

lemma created_payload:
  assumes "telemetry_model_create io bus now v level machine dev_id True s = Some (r, Some tel, s')"
  shows "sound_payload (cstr dev_id) (telemetry_text tel)"
proof -
  obtain u status where "cstr (tel_timestamp tel) = iso_string u"
      "cstr (tel_machine_status tel) = machine_status_to_string status"
      "plausible (tel_temperature tel) (tel_humidity tel)" "cstr (tel_device_id tel) = cstr dev_id"
    using create_ok(2) [OF assms refl] by blast
  then show ?thesis
    using created_text_length [OF assms] unfolding sound_payload_def telemetry_text_def payload_text_def by metis
qed

lemma cycle_effects:
  assumes "health_mutex (ts_health s)" and "takes e"
    and "telemetry_collect_and_publish io bus e s = Some s'"
  shows "\<exists>accepted. cycle_effect s s' accepted accepted \<and>
    (if accepted then \<exists>p. ts_published s' = ts_published s @ [(p, publish e p)] \<and>
         sound_payload (cstr (ts_device_id s)) p \<and> ts_time s'
     else ts_published s' = ts_published s)"
proof -
  define s1 where "s1 = synced (sync1 e) s"
  define s2 where "s2 = synced (sync2 e) s1"
  define s3 where "s3 = synced (sync3 e) s2"
  note fields = s1_def s2_def s3_def
  let ?ts = "get_timestamp (now1 e) (ts_time s1)"
  show ?thesis
  proof (cases "system_time_is_valid (ts_time s2)")
    case False
    then have s': "s' = s2\<lparr>ts_health := clock_not_synchronized True
        (device_health_increment_samples_rejected True (ts_health s2))\<rparr>"
      using assms by (simp add: telemetry_collect_and_publish_def Let_def fields)
    have "cycle_effect s s' False False"
      using assms(1) by (simp add: s' cycle_effect_def outcome_defs counting fields)
    moreover have "ts_published s' = ts_published s" by (simp add: s' fields)
    ultimately show ?thesis by (intro exI [of _ False]) simp
  next
    case True
    then have time: "ts_time s3" by (simp add: s3_def synced_def system_time_is_valid_def time_sync_notification_cb_def)
    obtain r sample sensor where create: "telemetry_model_create io bus (now2 e) (ts_time s3) (levels e)
        (ts_machine s) (ts_device_id s) True (ts_sensor s) = Some (r, sample, sensor)"
      using assms True by (auto simp: telemetry_collect_and_publish_def Let_def bind_eq_Some_conv fields)
    show ?thesis
    proof (cases sample)
      case None
      then have s': "s' = s3\<lparr>ts_sensor := sensor, ts_health := reject_sample True r ?ts (ts_health s)\<rparr>"
        using assms True create by (simp add: telemetry_collect_and_publish_def Let_def fields)
      have "cycle_effect s s' False False"
        using assms(1) by (simp add: s' cycle_effect_def outcome_defs counting fields Let_def)
      moreover have "ts_published s' = ts_published s" by (simp add: s' fields)
      ultimately show ?thesis by (intro exI [of _ False]) simp
    next
      case (Some tel)
      note payload = created_payload [OF create [unfolded Some]]
      obtain b where b: "telemetry_to_json (Some tel) (Some (zeros 256)) 256 = (int (length (telemetry_text tel)), Some b)"
          "cstr b = telemetry_text tel"
        using json_of_sample [of tel] payload telemetry_text_no_nul by (auto simp: sound_payload_def)
      let ?p = "telemetry_text tel"
      have s': "s' = s3\<lparr>ts_sensor := sensor, ts_published := ts_published s @ [(?p, publish e ?p)],
          ts_health := record_publication True (publish e ?p) ?ts (accept_sample True tel ?ts (ts_health s))\<rparr>"
        using assms True create Some b by (simp add: telemetry_collect_and_publish_def Let_def fields)
      have "cycle_effect s s' True True"
        using assms(1) by (simp add: s' cycle_effect_def outcome_defs counting fields Let_def)
      moreover have "ts_published s' = ts_published s @ [(?p, publish e ?p)]" "ts_time s'"
        using time by (simp_all add: s')
      ultimately show ?thesis using payload by (intro exI [of _ True]) auto
    qed
  qed
qed

section \<open>Runs of the task\<close>

lemma run_effects:
  assumes "health_mutex (ts_health s)" and "list_all takes es" and "telemetry_run io bus es s = Some s'"
  shows "health_mutex (ts_health s') \<and> ts_device_id s' = ts_device_id s \<and>
    (\<exists>ps. ts_published s' = ts_published s @ ps \<and> list_all (sound_payload (cstr (ts_device_id s))) (map fst ps) \<and>
       length ps \<le> length es \<and>
       samples_ok (counts (ts_health s')) = samples_ok (counts (ts_health s)) + of_nat (length ps) \<and>
       samples_rejected (counts (ts_health s')) = samples_rejected (counts (ts_health s)) + of_nat (length es - length ps) \<and>
       publish_ok (counts (ts_health s')) + publish_failed (counts (ts_health s')) =
         publish_ok (counts (ts_health s)) + publish_failed (counts (ts_health s)) + of_nat (length ps))"
  using assms
proof (induction es arbitrary: s)
  case (Cons e es)
  obtain t where t: "telemetry_collect_and_publish io bus e s = Some t" "telemetry_run io bus es t = Some s'"
    using Cons.prems by (auto simp: bind_eq_Some_conv)
  obtain accepted where eff: "cycle_effect s t accepted accepted" and
      pub: "if accepted then \<exists>p. ts_published t = ts_published s @ [(p, publish e p)] \<and>
         sound_payload (cstr (ts_device_id s)) p \<and> ts_time t else ts_published t = ts_published s"
    using cycle_effects [OF Cons.prems(1) _ t(1)] Cons.prems(2) by auto
  obtain ps where ps: "ts_published s' = ts_published t @ ps" "list_all (sound_payload (cstr (ts_device_id t))) (map fst ps)"
      "length ps \<le> length es" "health_mutex (ts_health s')" "ts_device_id s' = ts_device_id t"
      "samples_ok (counts (ts_health s')) = samples_ok (counts (ts_health t)) + of_nat (length ps)"
      "samples_rejected (counts (ts_health s')) = samples_rejected (counts (ts_health t)) + of_nat (length es - length ps)"
      "publish_ok (counts (ts_health s')) + publish_failed (counts (ts_health s')) =
         publish_ok (counts (ts_health t)) + publish_failed (counts (ts_health t)) + of_nat (length ps)"
    using Cons.IH [OF _ _ t(2)] Cons.prems(2) eff by (auto simp: cycle_effect_def)
  show ?case
  proof (cases accepted)
    case True
    then obtain p where "ts_published t = ts_published s @ [(p, publish e p)]" "sound_payload (cstr (ts_device_id s)) p"
      using pub by auto
    then show ?thesis
      using ps eff True by (intro conjI exI [of _ "(p, publish e p) # ps"]) (auto simp: cycle_effect_def)
  next
    case False
    then show ?thesis
      using ps eff pub by (intro conjI exI [of _ ps]) (auto simp: cycle_effect_def Suc_diff_le)
  qed
qed simp

section \<open>Properties\<close>

text \<open>
  An example: the bus of \<open>Bme280\<close>, whose sensor measures 0 degrees and no humidity, and a run
  of two cycles, the clock being synchronised at the beginning of the second.
\<close>

lemma binade_zero: "binade n k 0 = k"
  by (cases n) simp_all

lemma round32_zero: "round32 0 = Finite 0"
  using round_even_int [of 0] by (simp add: round32_def binade_zero)

lemma example_measurement:
  assumes "calibration s = example_calibration"
  shows "\<exists>p. compensate \<lparr>raw_temperature = 0, raw_pressure = 0, raw_humidity = 0\<rparr> s =
    Some (\<lparr>temperature_c = Finite 0, pressure_hpa = p, humidity_percent = Finite 0\<rparr>, s\<lparr>temperature_fine := 0\<rparr>)"
proof -
  have t: "bme280_compensate_temperature example_calibration 0 = Some (0, Finite 0)"
    by (simp add: bme280_compensate_temperature_def temperature_x100_def example_coefficients int32_in f32_of_int_def
        f32_div_def round32_zero del: int32_Some)
  have h: "bme280_compensate_humidity example_calibration 0 0 = Some (Finite 0)"
    by (simp add: bme280_compensate_humidity_def humidity_x1024_def clamp_humidity_def example_coefficients int32_in
        f32_of_int_def f32_div_def round32_zero del: int32_Some)
  have "\<exists>p. bme280_compensate_pressure example_calibration 0 0 = Some p"
    by (simp add: bme280_compensate_pressure_def example_coefficients int32_in int64_def signed_divide_int_def del: int32_Some)
  then show ?thesis using t h assms by (auto simp: compensate_def)
qed

definition example_cycle :: "bool \<Rightarrow> cycle_inputs" where
  "example_cycle b = \<lparr>sync1 = b, sync2 = False, sync3 = False, now1 = 0, now2 = 1784635200, levels = (\<lambda>_. 0), takes = True,
     publish = (\<lambda>_. ESP_OK)\<rparr>"

definition example_system :: "nat telemetry_system" where
  "example_system = \<lparr>ts_health = \<lparr>health_state = zero_snapshot, health_mutex = True\<rparr>, ts_time = False,
     ts_sensor = initial_sensor 0, ts_machine = initial_machine_status, ts_device_id = ''press-04'' @ zeros 56,
     ts_published = []\<rparr>"

lemma example_read:
  "\<exists>p s. sensor_read example_bus True True (initial_sensor 0) =
     Some (ESP_OK, Some \<lparr>temperature = Finite 0, humidity = Finite 0, pressure = p\<rparr>, s)"
proof -
  let ?d = "\<lparr>bme280_device = True, bme280_ready = True, calibration = example_calibration, temperature_fine = 0, i2c = 1 :: nat\<rparr>"
  have raw: "bme280_read_raw example_bus ?d = (ESP_OK, \<lparr>raw_temperature = 0, raw_pressure = 0, raw_humidity = 0\<rparr>, ?d)"
    by (simp add: bme280_read_raw_def BME280_MEASUREMENT_DATA_SIZE_def BME280_REG_PRESS_MSB_def decode_raw_def)
  have "calibration ?d = example_calibration" by simp
  from example_measurement [OF this] raw show ?thesis
    by (auto simp: sensor_read_def sensor_init_def initial_sensor_def example_bus_init bme280_read_def)
qed

lemma example_create:
  "\<exists>tel s. telemetry_model_create example_bus True 1784635200 True (\<lambda>_. 0) initial_machine_status (''press-04'' @ zeros 56) True
     (initial_sensor 0) = Some (ESP_OK, Some tel, s)"
proof -
  obtain p s where read: "sensor_read example_bus True True (initial_sensor 0) =
     Some (ESP_OK, Some \<lparr>temperature = Finite 0, humidity = Finite 0, pressure = p\<rparr>, s)"
    using example_read by blast
  have valid: "validate_measurement \<lparr>temperature = Finite 0, humidity = Finite 0, pressure = p\<rparr> = ESP_OK"
    by (simp add: validate_measurement_iff plausible_def)
  obtain u where "gmtime_r 1784635200 = Some u" "length (iso_string u) = 20"
    using example_timestamp by auto
  then have time: "\<exists>a. system_time_get_timestamp 1784635200 (Some (zeros 21)) 21 True = (ESP_OK, Some a)"
    by (simp add: system_time_get_timestamp_def system_time_is_valid_def strftime_iso_def)
  have machine: "machine_status_get (\<lambda>_. 0) (Some MACHINE_STATUS_UNKNOWN) initial_machine_status =
      (ESP_ERR_NOT_SUPPORTED, Some MACHINE_STATUS_UNKNOWN)"
    by (simp add: machine_status_get_def machine_status_is_enabled_def initial_machine_status_def)
  show ?thesis
    using read valid time machine
    by (auto simp: telemetry_model_create_def zero_telemetry_def snprintf_s_def cstr_Cons Let_def)
qed

lemma example_cycles:
  "\<exists>s p. telemetry_run example_bus True [example_cycle False, example_cycle True] example_system = Some s \<and>
     ts_published s = [(p, ESP_OK)]"
proof -
  obtain h where first: "telemetry_collect_and_publish example_bus True (example_cycle False) example_system =
      Some (example_system\<lparr>ts_health := h\<rparr>)"
    by (simp add: telemetry_collect_and_publish_def example_cycle_def example_system_def synced_def system_time_is_valid_def)
  obtain tel q where create: "telemetry_model_create example_bus True 1784635200 True (\<lambda>_. 0) initial_machine_status
      (''press-04'' @ zeros 56) True (initial_sensor 0) = Some (ESP_OK, Some tel, q)"
    using example_create by blast
  obtain b where "telemetry_to_json (Some tel) (Some (zeros 256)) 256 = (int (length (telemetry_text tel)), Some b)"
    using json_of_sample [of tel] created_text_length [OF create] telemetry_text_no_nul by fastforce
  then have "\<exists>s p. telemetry_collect_and_publish example_bus True (example_cycle True) (example_system\<lparr>ts_health := h\<rparr>) = Some s \<and>
      ts_published s = [(p, ESP_OK)]"
    using create
    by (simp add: telemetry_collect_and_publish_def example_cycle_def example_system_def synced_def system_time_is_valid_def
        time_sync_notification_cb_def Let_def)
  then show ?thesis using first by auto
qed

text \<open>
  C22. Only sound samples are published: over any sequence of cycles in which no compensation
  overflows, whatever the sensor, the clock and the transport do, each payload that reaches the
  transport is the text of one measurement within the limits of the sensor, from -40 to 85
  degrees and 0 to 100 percent, under this device's name, with the text of a time, and at most
  180 bytes long.
\<close>

theorem every_published_sample_is_sound:
  assumes "health_mutex (ts_health s)" and "list_all takes es" and "telemetry_run io bus es s = Some s'"
    and "ts_published s = []" and "p \<in> set (map fst (ts_published s'))"
  shows "\<exists>u t h status. p = payload_text (cstr (ts_device_id s)) u (Finite t) (Finite h) status \<and>
    - 40 \<le> t \<and> t \<le> 85 \<and> 0 \<le> h \<and> h \<le> 100 \<and> length p \<le> 180"
proof -
  have "list_all (sound_payload (cstr (ts_device_id s))) (map fst (ts_published s'))"
    using run_effects [OF assms(1-3)] assms(4) by auto
  then have "sound_payload (cstr (ts_device_id s)) p" using assms(5) by (auto simp: list_all_iff)
  then show ?thesis by (auto simp: sound_payload_def plausible_def)
qed

theorem every_published_sample_is_sound_witness:
  "\<exists>s p u t h status. telemetry_run example_bus True [example_cycle False, example_cycle True] example_system = Some s \<and>
     p \<in> set (map fst (ts_published s)) \<and> p = payload_text ''press-04'' u (Finite t) (Finite h) status \<and> t \<le> 85"
proof -
  obtain s p where s: "telemetry_run example_bus True [example_cycle False, example_cycle True] example_system = Some s"
      "ts_published s = [(p, ESP_OK)]"
    using example_cycles by blast
  have start: "health_mutex (ts_health example_system)" "ts_published example_system = []"
      "cstr (ts_device_id example_system) = ''press-04''" "list_all takes [example_cycle False, example_cycle True]"
    by (simp_all add: example_system_def example_cycle_def cstr_Cons)
  have "p \<in> set (map fst (ts_published s))" by (simp add: s(2))
  with every_published_sample_is_sound [OF start(1,4) s(1) start(2) this] s(1) show ?thesis
    unfolding start(3) by blast
qed

text \<open>
  The counters account for every cycle: over any sequence of cycles each one counts either
  as an accepted or as a rejected sample, modulo the width of the counters; the accepted ones
  are those whose payload reached the transport, each of which counts as published or failed.
\<close>

lemma counters_account_for_every_cycle:
  assumes "health_mutex (ts_health s)" and "list_all takes es" and "telemetry_run io bus es s = Some s'"
  shows "samples_ok (counts (ts_health s')) + samples_rejected (counts (ts_health s')) =
      samples_ok (counts (ts_health s)) + samples_rejected (counts (ts_health s)) + of_nat (length es) \<and>
    samples_ok (counts (ts_health s')) - samples_ok (counts (ts_health s)) =
      of_nat (length (ts_published s') - length (ts_published s)) \<and>
    publish_ok (counts (ts_health s')) + publish_failed (counts (ts_health s')) -
      (publish_ok (counts (ts_health s)) + publish_failed (counts (ts_health s))) =
      samples_ok (counts (ts_health s')) - samples_ok (counts (ts_health s))"
proof -
  obtain ps where ps: "ts_published s' = ts_published s @ ps" "length ps \<le> length es"
      "samples_ok (counts (ts_health s')) = samples_ok (counts (ts_health s)) + of_nat (length ps)"
      "samples_rejected (counts (ts_health s')) = samples_rejected (counts (ts_health s)) + of_nat (length es - length ps)"
      "publish_ok (counts (ts_health s')) + publish_failed (counts (ts_health s')) =
         publish_ok (counts (ts_health s)) + publish_failed (counts (ts_health s)) + of_nat (length ps)"
    using run_effects [OF assms] by blast
  have "(of_nat (length es) :: u64) = of_nat (length ps) + of_nat (length es - length ps)"
    using ps(2) by (simp add: of_nat_diff)
  then show ?thesis using ps by (simp add: algebra_simps)
qed

lemma counters_account_for_every_cycle_witness:
  "\<exists>s. telemetry_run example_bus True [example_cycle False, example_cycle True] example_system = Some s \<and>
     samples_ok (counts (ts_health s)) = 1 \<and> samples_rejected (counts (ts_health s)) = 1"
proof -
  obtain s p where s: "telemetry_run example_bus True [example_cycle False, example_cycle True] example_system = Some s"
      "ts_published s = [(p, ESP_OK)]"
    using example_cycles by blast
  have start: "health_mutex (ts_health example_system)" "ts_published example_system = []"
      "list_all takes [example_cycle False, example_cycle True]" "samples_ok (counts (ts_health example_system)) = 0"
      "samples_rejected (counts (ts_health example_system)) = 0"
    by (simp_all add: example_system_def example_cycle_def zero_snapshot_def zero_counters_def)
  from counters_account_for_every_cycle [OF start(1,3) s(1)] show ?thesis
    using start s by (simp add: eval_nat_numeral) (metis add_diff_cancel_left' add.commute one_add_one)
qed

end
