(* ===== verification/Mqtt_Client.thy ===== *)
theory Mqtt_Client
  imports Ram_Platform System_Time
begin

text \<open>
  The MQTT transport (\<^verbatim>\<open>mqtt_client_app.c\<close>) and the text of its last error
  (\<^verbatim>\<open>mqtt_error_state.c\<close>). The ESP-MQTT client, the TLS layer and FreeRTOS are not part of
  the sources: their results are arguments, and what the code gives to them is a result.
\<close>

section \<open>The last error\<close>

definition MQTT_ERROR_TEXT_CAPACITY :: nat where [simp]: "MQTT_ERROR_TEXT_CAPACITY = 96"

record mqtt_error_state =
  error_mutex :: bool
  error_text :: carray

definition MQTT_ERROR_STATE_INITIALIZER :: mqtt_error_state where
  "MQTT_ERROR_STATE_INITIALIZER = \<lparr>error_mutex = False, error_text = zeros 96\<rparr>"

text \<open>\<open>takes\<close>: the answer of \<^verbatim>\<open>xSemaphoreTake\<close>; \<open>None\<close> stands for a null pointer.\<close>

definition lock_error :: "bool \<Rightarrow> mqtt_error_state \<Rightarrow> bool" where
  "lock_error takes st \<longleftrightarrow> error_mutex st \<and> takes"

definition mqtt_error_state_init :: "bool \<Rightarrow> mqtt_error_state option \<Rightarrow> bool \<times> mqtt_error_state option" where
  "mqtt_error_state_init created st =
     (case st of None \<Rightarrow> (False, None)
      | Some s \<Rightarrow> (created, Some (s\<lparr>error_text := (error_text s)[0 := NUL], error_mutex := created\<rparr>)))"

definition mqtt_error_state_set :: "bool \<Rightarrow> string option \<Rightarrow> mqtt_error_state option \<Rightarrow> mqtt_error_state option" where
  "mqtt_error_state_set takes message st =
     (case st of None \<Rightarrow> None
      | Some s \<Rightarrow> if \<not> lock_error takes s then Some s
          else Some (s\<lparr>error_text := store_s (error_text s) MQTT_ERROR_TEXT_CAPACITY
                 (case message of Some m \<Rightarrow> m | None \<Rightarrow> [])\<rparr>))"

definition mqtt_error_state_copy ::
  "bool \<Rightarrow> mqtt_error_state option \<Rightarrow> carray option \<Rightarrow> nat \<Rightarrow> bool \<times> carray option" where
  "mqtt_error_state_copy takes st buffer buffer_size =
     (case (st, buffer) of
        (Some s, Some b) \<Rightarrow>
          if buffer_size = 0 then (False, buffer)
          else if \<not> lock_error takes s then (False, buffer)
          else let (b, written) = snprintf_s b buffer_size (cstr (error_text s)) in (written < buffer_size, Some b)
      | _ \<Rightarrow> (False, buffer))"

section \<open>The client\<close>

definition CONFIG_MQTT_TOPIC_PREFIX :: string where "CONFIG_MQTT_TOPIC_PREFIX = ''industrial/devices''"
definition CONFIG_MQTT_QOS :: int where "CONFIG_MQTT_QOS = 1"
definition MQTT_TOPIC_SIZE :: nat where [simp]: "MQTT_TOPIC_SIZE = 128"
definition MQTT_AVAILABILITY_PAYLOAD_SIZE :: nat where [simp]: "MQTT_AVAILABILITY_PAYLOAD_SIZE = 160"

text \<open>The handle, the event group (its \<open>BIT0\<close>, once it is created) and the other statics.\<close>

record mqtt_client_app =
  mqtt_client :: bool
  mqtt_connected :: bool
  connection_generation :: u32
  mqtt_event_group :: "bool option"
  last_error :: mqtt_error_state
  telemetry_topic :: carray
  health_topic :: carray
  availability_topic :: carray
  offline_payload :: carray

definition initial_mqtt :: mqtt_client_app where
  "initial_mqtt = \<lparr>mqtt_client = False, mqtt_connected = False, connection_generation = 0, mqtt_event_group = None,
     last_error = MQTT_ERROR_STATE_INITIALIZER, telemetry_topic = zeros MQTT_TOPIC_SIZE,
     health_topic = zeros MQTT_TOPIC_SIZE, availability_topic = zeros MQTT_TOPIC_SIZE,
     offline_payload = zeros MQTT_AVAILABILITY_PAYLOAD_SIZE\<rparr>"

text \<open>The configuration given to the client; C strings as the client reads them.\<close>

record esp_mqtt_client_config =
  uri :: string
  certificate :: string
  skip_cert_common_name_check :: bool
  username :: string
  client_id :: string
  password :: string
  last_will_topic :: string
  last_will_msg :: string
  last_will_qos :: int
  last_will_retain :: bool

definition mqtt_configuration_is_valid :: "(string \<Rightarrow> int) \<Rightarrow> device_config option \<Rightarrow> bool" where
  "mqtt_configuration_is_valid x509 c \<longleftrightarrow> c \<noteq> None \<and> fst (device_config_validate x509 c [] 0) = ESP_OK"

definition set_last_error :: "bool \<Rightarrow> string \<Rightarrow> mqtt_client_app \<Rightarrow> mqtt_client_app" where
  "set_last_error takes message s =
     s\<lparr>last_error := the (mqtt_error_state_set takes (Some message) (Some (last_error s)))\<rparr>"

subsection \<open>Events\<close>

text \<open>The SDK's structures, with the enumerators the code names.\<close>

datatype mqtt_error_type =
    MQTT_ERROR_TYPE_TCP_TRANSPORT
  | MQTT_ERROR_TYPE_CONNECTION_REFUSED
  | MQTT_ERROR_TYPE_OTHER int

datatype mqtt_connect_return_code =
    MQTT_CONNECTION_REFUSE_BAD_USERNAME
  | MQTT_CONNECTION_REFUSE_NOT_AUTHORIZED
  | MQTT_CONNECTION_REFUSE_OTHER int

record esp_mqtt_error_codes =
  error_type :: mqtt_error_type
  connect_return_code :: mqtt_connect_return_code
  esp_tls_cert_verify_flags :: int
  esp_tls_last_esp_err :: esp_err

definition ESP_ERR_ESP_TLS_CANNOT_RESOLVE_HOSTNAME :: esp_err where
  "ESP_ERR_ESP_TLS_CANNOT_RESOLVE_HOSTNAME = ESP_ERR_OTHER 0x8001"

definition mqtt_error_message :: "esp_mqtt_error_codes option \<Rightarrow> string" where
  "mqtt_error_message error =
     (case error of None \<Rightarrow> ''MQTT error without diagnostic context'' | Some e \<Rightarrow>
      case error_type e of
        MQTT_ERROR_TYPE_CONNECTION_REFUSED \<Rightarrow>
          (if connect_return_code e = MQTT_CONNECTION_REFUSE_BAD_USERNAME then ''MQTT credentials rejected''
           else if connect_return_code e = MQTT_CONNECTION_REFUSE_NOT_AUTHORIZED then ''MQTT client not authorized''
           else ''MQTT broker refused connection'')
      | MQTT_ERROR_TYPE_TCP_TRANSPORT \<Rightarrow>
          (if esp_tls_cert_verify_flags e \<noteq> 0 then ''MQTT TLS certificate or hostname verification failed''
           else if esp_tls_last_esp_err e = ESP_ERR_ESP_TLS_CANNOT_RESOLVE_HOSTNAME
             then ''MQTT broker DNS resolution failed''
           else if esp_tls_last_esp_err e \<noteq> ESP_OK then ''MQTT TLS transport failed''
           else ''MQTT transport failed'')
      | MQTT_ERROR_TYPE_OTHER t \<Rightarrow> take 95 (''MQTT client error type='' @ int_string t))"

definition log_mqtt_error :: "bool \<Rightarrow> esp_mqtt_error_codes option \<Rightarrow> mqtt_client_app \<Rightarrow> mqtt_client_app" where
  "log_mqtt_error takes error s = set_last_error takes (mqtt_error_message error) s"

datatype mqtt_event =
    MQTT_EVENT_CONNECTED
  | MQTT_EVENT_DISCONNECTED
  | MQTT_EVENT_PUBLISHED
  | MQTT_EVENT_ERROR "esp_mqtt_error_codes option"
  | MQTT_EVENT_OTHER int

fun mqtt_event_handler :: "bool \<Rightarrow> mqtt_event \<Rightarrow> mqtt_client_app \<Rightarrow> mqtt_client_app" where
  "mqtt_event_handler takes MQTT_EVENT_CONNECTED s =
     (let s = s\<lparr>mqtt_connected := True\<rparr>;
          s = s\<lparr>connection_generation := connection_generation s + 1\<rparr>;
          s = set_last_error takes '''' s
      in s\<lparr>mqtt_event_group := map_option (\<lambda>_. True) (mqtt_event_group s)\<rparr>)"
| "mqtt_event_handler takes MQTT_EVENT_DISCONNECTED s =
     (let s = s\<lparr>mqtt_connected := False\<rparr>
      in s\<lparr>mqtt_event_group := map_option (\<lambda>_. False) (mqtt_event_group s)\<rparr>)"
| "mqtt_event_handler takes MQTT_EVENT_PUBLISHED s = s"
| "mqtt_event_handler takes (MQTT_EVENT_ERROR error_handle) s = log_mqtt_error takes error_handle s"
| "mqtt_event_handler takes (MQTT_EVENT_OTHER n) s = s"

subsection \<open>Initialisation\<close>

text \<open>What FreeRTOS and ESP-MQTT answer to the calls of \<^verbatim>\<open>mqtt_init\<close>.\<close>

record mqtt_platform =
  error_mutex_created :: bool
  event_group_created :: bool
  client_created :: bool
  register_result :: esp_err
  start_result :: esp_err

definition offline_text :: "string \<Rightarrow> string" where
  "offline_text dev = ''{\"schema_version\":1,\"device_id\":\"'' @ dev @ ''\",\"status\":\"offline\"}''"

definition mqtt_set_topics :: "device_config \<Rightarrow> mqtt_client_app \<Rightarrow> mqtt_client_app" where
  "mqtt_set_topics c s =
     (let dev = cstr (device_id c); path = CONFIG_MQTT_TOPIC_PREFIX @ ''/'' @ dev in
      s\<lparr>telemetry_topic := store_s (telemetry_topic s) MQTT_TOPIC_SIZE (path @ ''/telemetry''),
        health_topic := store_s (health_topic s) MQTT_TOPIC_SIZE (path @ ''/health''),
        availability_topic := store_s (availability_topic s) MQTT_TOPIC_SIZE (path @ ''/availability''),
        offline_payload := store_s (offline_payload s) MQTT_AVAILABILITY_PAYLOAD_SIZE (offline_text dev)\<rparr>)"

definition mqtt_config_of :: "device_config \<Rightarrow> mqtt_client_app \<Rightarrow> esp_mqtt_client_config" where
  "mqtt_config_of c s =
     \<lparr>uri = cstr (mqtt_broker_uri c), certificate = cstr (mqtt_ca_certificate c),
      skip_cert_common_name_check = False, username = cstr (mqtt_username c),
      client_id = cstr (mqtt_client_id c), password = cstr (mqtt_password c),
      last_will_topic = cstr (availability_topic s), last_will_msg = cstr (offline_payload s),
      last_will_qos = CONFIG_MQTT_QOS, last_will_retain = True\<rparr>"

text \<open>The last component is the configuration given to \<^verbatim>\<open>esp_mqtt_client_init\<close>, if it is called.\<close>

definition mqtt_init ::
  "(string \<Rightarrow> int) \<Rightarrow> mqtt_platform \<Rightarrow> device_config option \<Rightarrow> mqtt_client_app
     \<Rightarrow> esp_err \<times> mqtt_client_app \<times> esp_mqtt_client_config option" where
  "mqtt_init x509 p configuration s =
     (if \<not> mqtt_configuration_is_valid x509 configuration then (ESP_ERR_INVALID_STATE, s, None)
      else let c = the configuration;
          (ready, st) = (if error_mutex (last_error s) then (True, Some (last_error s))
                         else mqtt_error_state_init (error_mutex_created p) (Some (last_error s)));
          s = s\<lparr>last_error := the st\<rparr>
      in if \<not> ready then (ESP_ERR_NO_MEM, s, None)
      else let s = mqtt_set_topics c s;
          mqtt_config = mqtt_config_of c s;
          s = s\<lparr>mqtt_event_group := (if event_group_created p then Some False else None)\<rparr>
      in if mqtt_event_group s = None then (ESP_ERR_NO_MEM, s, None)
      else let s = s\<lparr>mqtt_client := client_created p\<rparr> in
        if \<not> mqtt_client s then (ESP_FAIL, s, Some mqtt_config)
      else if register_result p \<noteq> ESP_OK
        then (register_result p, s\<lparr>mqtt_client := False\<rparr>, Some mqtt_config)
      else if start_result p \<noteq> ESP_OK
        then (start_result p, s\<lparr>mqtt_client := False\<rparr>, Some mqtt_config)
      else (ESP_OK, s, Some mqtt_config))"

subsection \<open>Publication and queries\<close>

text \<open>
  \<open>send\<close> is \<^verbatim>\<open>esp_mqtt_client_publish\<close> on the topic, the payload, the quality of service and
  the retain flag; the second component of the result is what it was given, if it was called.
\<close>

type_synonym mqtt_request = "string \<times> string \<times> int \<times> bool"

definition mqtt_publish ::
  "(mqtt_request \<Rightarrow> int) \<Rightarrow> carray option \<Rightarrow> string option \<Rightarrow> bool \<Rightarrow> mqtt_client_app
     \<Rightarrow> esp_err \<times> mqtt_request option" where
  "mqtt_publish send topic payload retain s =
     (case (topic, payload) of
        (Some t, Some p) \<Rightarrow>
          if \<not> mqtt_client s \<or> \<not> mqtt_connected s then (ESP_ERR_INVALID_STATE, None)
          else let request = (cstr t, p, CONFIG_MQTT_QOS, retain); msg_id = send request in
            if msg_id < 0 then (ESP_FAIL, Some request) else (ESP_OK, Some request)
      | _ \<Rightarrow> (ESP_ERR_INVALID_ARG, None))"

definition mqtt_publish_telemetry ::
  "(mqtt_request \<Rightarrow> int) \<Rightarrow> string option \<Rightarrow> mqtt_client_app \<Rightarrow> esp_err \<times> mqtt_request option" where
  "mqtt_publish_telemetry send payload s = mqtt_publish send (Some (telemetry_topic s)) payload False s"

definition mqtt_publish_health ::
  "(mqtt_request \<Rightarrow> int) \<Rightarrow> string option \<Rightarrow> mqtt_client_app \<Rightarrow> esp_err \<times> mqtt_request option" where
  "mqtt_publish_health send payload s = mqtt_publish send (Some (health_topic s)) payload True s"

definition mqtt_publish_availability ::
  "(mqtt_request \<Rightarrow> int) \<Rightarrow> string option \<Rightarrow> mqtt_client_app \<Rightarrow> esp_err \<times> mqtt_request option" where
  "mqtt_publish_availability send payload s = mqtt_publish send (Some (availability_topic s)) payload True s"

definition mqtt_is_connected :: "mqtt_client_app \<Rightarrow> bool" where
  "mqtt_is_connected s = mqtt_connected s"

definition mqtt_connection_generation :: "mqtt_client_app \<Rightarrow> u32" where
  "mqtt_connection_generation s = connection_generation s"

text \<open>\<open>s\<close> is the state when the wait ends: with the bit set or after the time.\<close>

definition mqtt_wait_connected :: "mqtt_client_app \<Rightarrow> esp_err" where
  "mqtt_wait_connected s =
     (case mqtt_event_group s of None \<Rightarrow> ESP_ERR_INVALID_STATE
      | Some bit0 \<Rightarrow> if bit0 then ESP_OK else ESP_ERR_TIMEOUT)"

definition mqtt_copy_last_error :: "bool \<Rightarrow> carray option \<Rightarrow> nat \<Rightarrow> mqtt_client_app \<Rightarrow> esp_err \<times> carray option" where
  "mqtt_copy_last_error takes buffer buffer_size s =
     (if buffer = None \<or> buffer_size = 0 then (ESP_ERR_INVALID_ARG, buffer)
      else let (copied, b) = mqtt_error_state_copy takes (Some (last_error s)) buffer buffer_size
        in (if copied then ESP_OK else ESP_ERR_INVALID_SIZE, b))"

section \<open>Facts\<close>

lemma int_string_no_nul: "NUL \<notin> set (int_string n)"
  by (simp add: int_string_def dec_string_no_nul)

lemma error_message_fits: "length (mqtt_error_message e) < 96" "NUL \<notin> set (mqtt_error_message e)"
proof -
  have "NUL \<notin> set (take n (int_string t))" for n t
    using int_string_no_nul [of t] by (auto dest!: in_set_takeD)
  then show "length (mqtt_error_message e) < 96" "NUL \<notin> set (mqtt_error_message e)"
    by (auto simp: mqtt_error_message_def split: option.splits mqtt_error_type.splits)
qed

lemma stored_text: "length t < cap \<Longrightarrow> NUL \<notin> set t \<Longrightarrow> cstr (store_s a cap t) = t"
  by (simp add: cstr_store_s cstr_id)

lemma device_id_characters: "device_id_spec d \<Longrightarrow> length d \<le> 63 \<and> NUL \<notin> set d"
  by (auto simp: device_id_spec_def device_id_character_def ascii_alphanumeric_def less_eq_char_def)

definition device_topic :: "string \<Rightarrow> string \<Rightarrow> string" where
  "device_topic dev kind = ''industrial/devices/'' @ dev @ ''/'' @ kind"

lemma topics_set:
  assumes "device_id_spec (cstr (device_id c))"
  shows "cstr (telemetry_topic (mqtt_set_topics c s)) = device_topic (cstr (device_id c)) ''telemetry''"
    "cstr (health_topic (mqtt_set_topics c s)) = device_topic (cstr (device_id c)) ''health''"
    "cstr (availability_topic (mqtt_set_topics c s)) = device_topic (cstr (device_id c)) ''availability''"
    "cstr (offline_payload (mqtt_set_topics c s)) = offline_text (cstr (device_id c))"
  using device_id_characters [OF assms]
  by (simp_all add: mqtt_set_topics_def Let_def stored_text CONFIG_MQTT_TOPIC_PREFIX_def device_topic_def offline_text_def)

lemma valid_configuration:
  "config_layout c \<Longrightarrow> mqtt_configuration_is_valid x509 (Some c) \<longleftrightarrow> config_spec x509 c"
  using validate_message_iff [of c x509]
  by (cases "validate_message x509 (Some c)") (simp_all add: mqtt_configuration_is_valid_def device_config_validate_def)

text \<open>How a call of \<^verbatim>\<open>mqtt_init\<close> that creates a client runs.\<close>

lemma mqtt_init_client:
  assumes "mqtt_init x509 p (Some c) s = (r, s', Some cfg)"
  obtains st where "mqtt_configuration_is_valid x509 (Some c)" "cfg = mqtt_config_of c (mqtt_set_topics c (s\<lparr>last_error := st\<rparr>))"
    "mqtt_event_group s' = Some False" "error_mutex st"
    "mqtt_client s' = (r = ESP_OK)" "connection_generation s' = connection_generation s" "mqtt_connected s' = mqtt_connected s"
    "last_error s' = st" "cstr (error_text st) = cstr (error_text (last_error s)) \<or> cstr (error_text st) = []"
    "telemetry_topic s' = telemetry_topic (mqtt_set_topics c (s\<lparr>last_error := st\<rparr>))"
    "health_topic s' = health_topic (mqtt_set_topics c (s\<lparr>last_error := st\<rparr>))"
    "availability_topic s' = availability_topic (mqtt_set_topics c (s\<lparr>last_error := st\<rparr>))"
proof -
  obtain ready st where st: "(if error_mutex (last_error s) then (True, Some (last_error s))
       else mqtt_error_state_init (error_mutex_created p) (Some (last_error s))) = (ready, Some st)"
    by (cases "error_mutex (last_error s)") (auto simp: mqtt_error_state_init_def)
  have content: "cstr (error_text st) = cstr (error_text (last_error s)) \<or> cstr (error_text st) = []"
    using st by (cases "error_text (last_error s)") (auto simp: mqtt_error_state_init_def cstr_Cons split: if_splits)
  have mutex: "ready \<longrightarrow> error_mutex st"
    using st by (auto simp: mqtt_error_state_init_def split: if_splits)
  have fields: "connection_generation (mqtt_set_topics c u) = connection_generation u"
      "mqtt_connected (mqtt_set_topics c u) = mqtt_connected u" "last_error (mqtt_set_topics c u) = last_error u" for u
    by (simp_all add: mqtt_set_topics_def Let_def)
  show thesis
    by (rule that [of st])
      (use assms st content mutex in \<open>auto simp: mqtt_init_def Let_def fields split: if_splits\<close>)
qed

text \<open>What has happened on the connection: whether it is up, how often it came up, the last error.\<close>

definition up_after :: "mqtt_event \<Rightarrow> bool \<Rightarrow> bool" where
  "up_after e up = (if e = MQTT_EVENT_CONNECTED then True else if e = MQTT_EVENT_DISCONNECTED then False else up)"

definition error_after :: "mqtt_event \<Rightarrow> string \<Rightarrow> string" where
  "error_after e t = (case e of MQTT_EVENT_CONNECTED \<Rightarrow> [] | MQTT_EVENT_ERROR x \<Rightarrow> mqtt_error_message x | _ \<Rightarrow> t)"

definition connections :: "mqtt_event list \<Rightarrow> nat" where
  "connections es = length (filter (\<lambda>e. e = MQTT_EVENT_CONNECTED) es)"

lemma set_last_error_fields [simp]:
  "mqtt_client (set_last_error k m s) = mqtt_client s" "mqtt_connected (set_last_error k m s) = mqtt_connected s"
  "connection_generation (set_last_error k m s) = connection_generation s"
  "mqtt_event_group (set_last_error k m s) = mqtt_event_group s"
  "telemetry_topic (set_last_error k m s) = telemetry_topic s" "health_topic (set_last_error k m s) = health_topic s"
  "availability_topic (set_last_error k m s) = availability_topic s"
  "error_mutex (last_error (set_last_error k m s)) = error_mutex (last_error s)"
  by (simp_all add: set_last_error_def mqtt_error_state_set_def)

lemma set_last_error_text:
  assumes "error_mutex (last_error s)" and "length m < 96" and "NUL \<notin> set m"
  shows "cstr (error_text (last_error (set_last_error True m s))) = m"
  using assms by (simp add: set_last_error_def mqtt_error_state_set_def lock_error_def stored_text)

lemma handler_unchanged:
  "mqtt_client (mqtt_event_handler k e s) = mqtt_client s" "telemetry_topic (mqtt_event_handler k e s) = telemetry_topic s"
  "health_topic (mqtt_event_handler k e s) = health_topic s"
  "availability_topic (mqtt_event_handler k e s) = availability_topic s"
  by (cases e; simp add: Let_def log_mqtt_error_def)+

lemma events_unchanged:
  "mqtt_client (fold (mqtt_event_handler k) es s) = mqtt_client s \<and>
   telemetry_topic (fold (mqtt_event_handler k) es s) = telemetry_topic s \<and>
   health_topic (fold (mqtt_event_handler k) es s) = health_topic s \<and>
   availability_topic (fold (mqtt_event_handler k) es s) = availability_topic s"
  by (induction es arbitrary: s) (simp_all add: handler_unchanged)

text \<open>The state agrees with a connection that is up or down, its number and the last error.\<close>

definition connection_state :: "mqtt_client_app \<Rightarrow> bool \<Rightarrow> u32 \<Rightarrow> string \<Rightarrow> bool" where
  "connection_state s up n t \<longleftrightarrow> mqtt_event_group s = Some up \<and> mqtt_connected s = up \<and> connection_generation s = n \<and>
     error_mutex (last_error s) \<and> cstr (error_text (last_error s)) = t"

lemma connection_step:
  "connection_state s up n t \<Longrightarrow>
   connection_state (mqtt_event_handler True e s) (up_after e up) (n + of_nat (connections [e])) (error_after e t)"
  by (cases e) (simp_all add: connection_state_def Let_def log_mqtt_error_def up_after_def error_after_def connections_def
      set_last_error_text error_message_fits)

lemma connections_Cons: "connections (e # es) = connections [e] + connections es"
  by (simp add: connections_def)

lemma connection_run:
  "connection_state s up n t \<Longrightarrow>
   connection_state (fold (mqtt_event_handler True) es s) (fold up_after es up) (n + of_nat (connections es)) (fold error_after es t)"
proof (induction es arbitrary: s up n t)
  case (Cons e es)
  from Cons.IH [OF connection_step [OF Cons.prems, of e]] show ?case
    by (simp add: connections_Cons [of e es] add.assoc)
qed (simp add: connections_def)

lemma init_connection:
  "mqtt_init x509 p (Some c) initial_mqtt = (ESP_OK, m, Some cfg) \<Longrightarrow> connection_state m False 0 []"
  by (elim mqtt_init_client) (auto simp: connection_state_def initial_mqtt_def MQTT_ERROR_STATE_INITIALIZER_def)

section \<open>Properties\<close>

text \<open>
  C25. Every client the firmware creates is authenticated and encrypted: \<^verbatim>\<open>mqtt_init\<close> hands
  ESP-MQTT only an \<^verbatim>\<open>mqtts\<close> address with a valid port, a broker certificate that parses, the
  host name check switched on, the device's own name as the user and a password, and a retained
  last will that says, untruncated, that this device is offline on its availability topic.
\<close>

theorem every_client_is_authenticated:
  assumes "config_layout c" and "mqtt_init x509 p (Some c) s = (r, s', Some cfg)"
  shows "mqtts_uri_spec (uri cfg) \<and> sublist ''-----BEGIN CERTIFICATE-----'' (certificate cfg) \<and>
    x509 (certificate cfg @ [NUL]) = 0 \<and> \<not> skip_cert_common_name_check cfg \<and>
    device_id_spec (username cfg) \<and> username cfg = cstr (device_id c) \<and> password cfg \<noteq> [] \<and>
    client_id_spec (client_id cfg) (username cfg) \<and>
    last_will_topic cfg = device_topic (cstr (device_id c)) ''availability'' \<and>
    last_will_msg cfg = offline_text (cstr (device_id c)) \<and> last_will_retain cfg"
proof -
  obtain st where st: "mqtt_configuration_is_valid x509 (Some c)"
      "cfg = mqtt_config_of c (mqtt_set_topics c (s\<lparr>last_error := st\<rparr>))"
    using mqtt_init_client [OF assms(2)] by metis
  then have spec: "config_spec x509 c" using valid_configuration [OF assms(1)] by blast
  then have "device_id_spec (cstr (device_id c))" by (simp add: config_spec_def)
  note topics = topics_set [OF this]
  show ?thesis using spec by (auto simp: st(2) mqtt_config_of_def topics config_spec_def)
qed

definition example_mqtt_platform :: mqtt_platform where
  "example_mqtt_platform = \<lparr>error_mutex_created = True, event_group_created = True, client_created = True,
     register_result = ESP_OK, start_result = ESP_OK\<rparr>"

lemma example_mqtt_init:
  "\<exists>s cfg. mqtt_init (\<lambda>_. 0) example_mqtt_platform (Some example_config) initial_mqtt = (ESP_OK, s, Some cfg)"
proof -
  have "mqtt_configuration_is_valid (\<lambda>_. 0) (Some example_config)"
    using valid_configuration [OF example_config_layout] example_config_spec by blast
  then show ?thesis
    by (simp add: mqtt_init_def Let_def initial_mqtt_def MQTT_ERROR_STATE_INITIALIZER_def mqtt_error_state_init_def
        example_mqtt_platform_def mqtt_set_topics_def)
qed

lemma example_device: "cstr (device_id example_config) = ''press-04''"
  by (simp add: example_config_def cstr_Cons)

theorem every_client_is_authenticated_witness:
  "\<exists>s cfg. mqtt_init (\<lambda>_. 0) example_mqtt_platform (Some example_config) initial_mqtt = (ESP_OK, s, Some cfg) \<and>
     username cfg = ''press-04'' \<and> last_will_topic cfg = ''industrial/devices/press-04/availability''"
proof -
  obtain s cfg where init: "mqtt_init (\<lambda>_. 0) example_mqtt_platform (Some example_config) initial_mqtt = (ESP_OK, s, Some cfg)"
    using example_mqtt_init by blast
  then show ?thesis
    using every_client_is_authenticated [OF example_config_layout init] by (simp add: device_topic_def example_device)
qed

text \<open>
  After a successful start, whatever events follow, a publication reaches the transport
  exactly while the client is connected, on the device's own topic for its kind, with the
  payload as given; health and availability are retained, telemetry is not.
\<close>

lemma publications_use_the_devices_topics:
  assumes "config_layout c" and "mqtt_init x509 p (Some c) s = (ESP_OK, s0, Some cfg)"
    and "s' = fold (mqtt_event_handler k) es s0"
  shows "snd (mqtt_publish_telemetry send (Some t) s') =
      (if mqtt_connected s' then Some (device_topic (cstr (device_id c)) ''telemetry'', t, CONFIG_MQTT_QOS, False) else None) \<and>
    snd (mqtt_publish_health send (Some t) s') =
      (if mqtt_connected s' then Some (device_topic (cstr (device_id c)) ''health'', t, CONFIG_MQTT_QOS, True) else None) \<and>
    snd (mqtt_publish_availability send (Some t) s') =
      (if mqtt_connected s' then Some (device_topic (cstr (device_id c)) ''availability'', t, CONFIG_MQTT_QOS, True) else None)"
proof -
  obtain st where st: "mqtt_configuration_is_valid x509 (Some c)" "mqtt_client s0"
      "telemetry_topic s0 = telemetry_topic (mqtt_set_topics c (s\<lparr>last_error := st\<rparr>))"
      "health_topic s0 = health_topic (mqtt_set_topics c (s\<lparr>last_error := st\<rparr>))"
      "availability_topic s0 = availability_topic (mqtt_set_topics c (s\<lparr>last_error := st\<rparr>))"
    using mqtt_init_client [OF assms(2)] by metis
  then have "device_id_spec (cstr (device_id c))"
    using valid_configuration [OF assms(1)] by (simp add: config_spec_def)
  note topics = topics_set [OF this]
  show ?thesis
    using events_unchanged [of k es s0] st topics
    by (simp add: assms(3) mqtt_publish_telemetry_def mqtt_publish_health_def mqtt_publish_availability_def
        mqtt_publish_def Let_def)
qed

lemma publications_use_the_devices_topics_witness:
  "\<exists>s. fst (snd (mqtt_init (\<lambda>_. 0) example_mqtt_platform (Some example_config) initial_mqtt)) = s \<and>
     snd (mqtt_publish_health (\<lambda>_. 7) (Some ''x'') (fold (mqtt_event_handler True) [MQTT_EVENT_CONNECTED] s)) =
       Some (''industrial/devices/press-04/health'', ''x'', 1, True)"
proof -
  obtain s cfg where init: "mqtt_init (\<lambda>_. 0) example_mqtt_platform (Some example_config) initial_mqtt = (ESP_OK, s, Some cfg)"
    using example_mqtt_init by blast
  then show ?thesis
    using publications_use_the_devices_topics [OF example_config_layout init, of _ True "[MQTT_EVENT_CONNECTED]" "\<lambda>_. 7" "''x''"]
    by (simp add: device_topic_def example_device CONFIG_MQTT_QOS_def Let_def)
qed

text \<open>
  After a successful first start, over any sequence of events: the connection flag and the
  answer of \<^verbatim>\<open>mqtt_wait_connected\<close> are those of the last connection or disconnection, the
  generation counts the connections, and the error reported is the last one since the last
  connection, whole, in a buffer of the capacity of the text.
\<close>

lemma connection_state_follows_the_events:
  assumes "mqtt_init x509 p (Some c) initial_mqtt = (ESP_OK, s0, Some cfg)"
    and "s = fold (mqtt_event_handler True) es s0"
  shows "mqtt_is_connected s = fold up_after es False \<and>
    mqtt_wait_connected s = (if fold up_after es False then ESP_OK else ESP_ERR_TIMEOUT) \<and>
    mqtt_connection_generation s = of_nat (connections es) \<and>
    (\<exists>b. mqtt_copy_last_error True (Some (zeros 96)) 96 s = (ESP_OK, Some b) \<and> cstr b = fold error_after es [])"
proof -
  have "connection_state s0 False 0 []" by (rule init_connection [OF assms(1)])
  from connection_run [OF this, of es] have run: "connection_state s (fold up_after es False) (of_nat (connections es)) (fold error_after es [])"
    by (simp add: assms(2))
  have "length (fold error_after es []) < 96 \<and> NUL \<notin> set (fold error_after es [])"
    by (induction es rule: rev_induct) (auto simp: error_message_fits error_after_def split: mqtt_event.splits)
  then show ?thesis
    using run
    by (simp add: connection_state_def mqtt_is_connected_def mqtt_wait_connected_def mqtt_connection_generation_def
        mqtt_copy_last_error_def mqtt_error_state_copy_def lock_error_def snprintf_s_def Let_def cstr_append_nul cstr_id)
qed

lemma connection_state_follows_the_events_witness:
  "\<exists>s. fst (snd (mqtt_init (\<lambda>_. 0) example_mqtt_platform (Some example_config) initial_mqtt)) = s \<and>
     mqtt_wait_connected (fold (mqtt_event_handler True)
       [MQTT_EVENT_CONNECTED, MQTT_EVENT_DISCONNECTED, MQTT_EVENT_ERROR None, MQTT_EVENT_CONNECTED] s) = ESP_OK"
proof -
  obtain s cfg where init: "mqtt_init (\<lambda>_. 0) example_mqtt_platform (Some example_config) initial_mqtt = (ESP_OK, s, Some cfg)"
    using example_mqtt_init by blast
  from connection_state_follows_the_events [OF init refl, of "[MQTT_EVENT_CONNECTED, MQTT_EVENT_DISCONNECTED,
       MQTT_EVENT_ERROR None, MQTT_EVENT_CONNECTED]"]
  show ?thesis by (simp add: init up_after_def)
qed

end
