(* ===== verification/Device_Health_Service.thy ===== *)
theory Device_Health_Service
  imports Mqtt_Client Device_Health "HOL-Library.Signed_Division"
begin

text \<open>
  The health task (\<^verbatim>\<open>device_health_service.c\<close>): each poll refreshes the registry and, while the
  client is connected, publishes the retained health snapshot when there is a reason to. Other
  tasks run between any two of its accesses to shared state.
\<close>

section \<open>State, environment and inputs\<close>

definition HEALTH_PAYLOAD_SIZE :: nat where [simp]: "HEALTH_PAYLOAD_SIZE = 1536"
definition AVAILABILITY_PAYLOAD_SIZE :: nat where [simp]: "AVAILABILITY_PAYLOAD_SIZE = 160"

text \<open>
  The components the task shares with others, its own statics, the locals that survive a turn
  of its loop, and the requests given to the transport so far.
\<close>

record health_service =
  sv_health :: health
  sv_time :: system_time
  sv_mqtt :: mqtt_client_app
  sv_device_id :: carray
  sv_task_handle :: bool
  mqtt_state_observed :: bool
  mqtt_was_connected :: bool
  last_heartbeat :: u32
  last_attempted_revision :: u32
  last_connection_generation :: u32
  health_retry_pending :: bool
  sv_requests :: "mqtt_request list"

text \<open>What other tasks do meanwhile: MQTT events, a clock synchronisation, health updates.\<close>

datatype sv_event =
    Sv_mqtt bool mqtt_event
  | Sv_time_sync
  | Sv_health health_call

fun sv_event_step :: "sv_event \<Rightarrow> health_service \<Rightarrow> health_service" where
  "sv_event_step (Sv_mqtt takes e) s = s\<lparr>sv_mqtt := mqtt_event_handler takes e (sv_mqtt s)\<rparr>"
| "sv_event_step Sv_time_sync s = s\<lparr>sv_time := time_sync_notification_cb (sv_time s)\<rparr>"
| "sv_event_step (Sv_health call) s = s\<lparr>sv_health := health_step call (sv_health s)\<rparr>"

text \<open>
  The inputs of a poll: the environment's events and the clock at each of its accesses, the
  answers of the SDK, the transport, and the content of an uninitialised snapshot.
\<close>

record poll_inputs =
  poll_events :: "nat \<Rightarrow> sv_event list"
  clock :: "nat \<Rightarrow> int"
  timer :: int
  free_heap :: u32
  minimum_free_heap :: u32
  access_point_rssi :: "int option"
  tick :: u32
  health_takes :: bool
  send :: "mqtt_request \<Rightarrow> int"
  indeterminate :: u32

definition sv_at :: "poll_inputs \<Rightarrow> nat \<Rightarrow> health_service \<Rightarrow> health_service" where
  "sv_at e i s = fold sv_event_step (poll_events e i) s"

definition on_health :: "(health \<Rightarrow> health) \<Rightarrow> health_service \<Rightarrow> health_service" where
  "on_health f s = s\<lparr>sv_health := f (sv_health s)\<rparr>"

definition set_component ::
  "poll_inputs \<Rightarrow> device_health_component \<Rightarrow> device_health_component_status \<Rightarrow> device_health_error
     \<Rightarrow> string option \<Rightarrow> health_service \<Rightarrow> health_service" where
  "set_component e c st err ts =
     on_health (\<lambda>h. snd (device_health_update_component (health_takes e) c st err ts h))"

section \<open>Serialisation\<close>

definition quoted :: "string \<Rightarrow> string" where
  "quoted t = ''\"'' @ t @ ''\"''"

text \<open>The C string that \<^verbatim>\<open>snprintf\<close> leaves in a buffer of \<open>n\<close> bytes on the stack.\<close>

definition local_text :: "nat \<Rightarrow> string \<Rightarrow> string" where
  "local_text n t = cstr (store_s (zeros n) n t)"

definition timestamp_or_null :: "device_health_component_snapshot \<Rightarrow> nat \<Rightarrow> string" where
  "timestamp_or_null component buffer_size =
     local_text buffer_size (if has_updated_at component then quoted (cstr (updated_at component)) else ''null'')"

definition component_text :: "string \<Rightarrow> device_health_component_snapshot \<Rightarrow> string" where
  "component_text name c =
     ''\"'' @ name @ ''\":{\"status\":\"'' @ device_health_component_status_to_string (comp_status c) @
     ''\",\"error_code\":\"'' @ device_health_error_to_string (comp_error c) @
     ''\",\"updated_at\":'' @ timestamp_or_null c (SYSTEM_TIME_TIMESTAMP_SIZE + 3) @ ''}''"

definition health_timestamp_json :: "int \<Rightarrow> system_time \<Rightarrow> string" where
  "health_timestamp_json now v =
     (let (result, timestamp) = system_time_get_timestamp now (Some (zeros 21)) SYSTEM_TIME_TIMESTAMP_SIZE v in
      local_text (SYSTEM_TIME_TIMESTAMP_SIZE + 3)
        (if result = ESP_OK then quoted (cstr (the timestamp)) else ''null''))"

definition health_text :: "int \<Rightarrow> system_time \<Rightarrow> string \<Rightarrow> device_health_snapshot \<Rightarrow> string" where
  "health_text now v dev s =
     (let wifi_rssi = local_text 16 (if has_wifi_rssi (metrics s) then int_string (sint (wifi_rssi_dbm (metrics s))) else ''null'');
          component = (\<lambda>c. health_components s ! nat c)
      in ''{\"schema_version\":1,\"device_id\":\"'' @ dev @ ''\",\"timestamp\":'' @ health_timestamp_json now v @
        '',\"status\":\"'' @ device_health_overall_status_to_string (overall_status s) @
        ''\",\"availability\":\"'' @ device_availability_to_string (availability s) @ ''\",\"components\":{'' @
        component_text ''sensor'' (component DEVICE_HEALTH_COMPONENT_SENSOR) @ '','' @
        component_text ''machine_status'' (component DEVICE_HEALTH_COMPONENT_MACHINE_STATUS) @ '','' @
        component_text ''system_time'' (component DEVICE_HEALTH_COMPONENT_SYSTEM_TIME) @ '','' @
        component_text ''mqtt'' (component DEVICE_HEALTH_COMPONENT_MQTT) @ ''},'' @
        ''\"counters\":{\"samples_ok\":'' @ dec_string (unat (samples_ok (counters s))) @
        '',\"samples_rejected\":'' @ dec_string (unat (samples_rejected (counters s))) @
        '',\"publish_ok\":'' @ dec_string (unat (publish_ok (counters s))) @
        '',\"publish_failed\":'' @ dec_string (unat (publish_failed (counters s))) @
        '',\"machine_status_errors\":'' @ dec_string (unat (machine_status_errors (counters s))) @ ''},'' @
        ''\"metrics\":{\"uptime_seconds\":'' @ dec_string (unat (uptime_seconds (metrics s))) @
        '',\"free_heap_bytes\":'' @ dec_string (unat (free_heap_bytes (metrics s))) @
        '',\"minimum_free_heap_bytes\":'' @ dec_string (unat (minimum_free_heap_bytes (metrics s))) @
        '',\"wifi_rssi_dbm\":'' @ wifi_rssi @ ''}}'')"

definition serialize_health ::
  "int \<Rightarrow> system_time \<Rightarrow> string \<Rightarrow> device_health_snapshot \<Rightarrow> carray \<Rightarrow> nat \<Rightarrow> carray \<times> nat" where
  "serialize_health now v dev s buffer buffer_size = snprintf_s buffer buffer_size (health_text now v dev s)"

section \<open>A poll\<close>

definition update_metrics :: "poll_inputs \<Rightarrow> health_service \<Rightarrow> health_service" where
  "update_metrics e s =
     (let m = \<lparr>uptime_seconds = word_of_int (timer e sdiv 1000000), free_heap_bytes = free_heap e,
            minimum_free_heap_bytes = minimum_free_heap e, has_wifi_rssi = False, wifi_rssi_dbm = 0\<rparr>;
          m = (case access_point_rssi e of None \<Rightarrow> m
               | Some rssi \<Rightarrow> m\<lparr>has_wifi_rssi := True, wifi_rssi_dbm := word_of_int rssi\<rparr>)
      in on_health (\<lambda>h. snd (device_health_set_metrics (health_takes e) (Some m) h)) s)"

definition current_timestamp :: "int \<Rightarrow> system_time \<Rightarrow> string option" where
  "current_timestamp now v =
     (let (result, b) = system_time_get_timestamp now (Some (zeros 21)) SYSTEM_TIME_TIMESTAMP_SIZE v in
      if result = ESP_OK then Some (cstr (the b)) else None)"

definition update_runtime_components :: "poll_inputs \<Rightarrow> health_service \<Rightarrow> health_service" where
  "update_runtime_components e s =
     (let s = sv_at e 0 s; timestamp_value = current_timestamp (clock e 0) (sv_time s);
          s = sv_at e 1 s;
          s = (if system_time_is_valid (sv_time s)
               then set_component e DEVICE_HEALTH_COMPONENT_SYSTEM_TIME DEVICE_HEALTH_COMPONENT_HEALTHY
                      DEVICE_HEALTH_ERROR_NONE timestamp_value s
               else set_component e DEVICE_HEALTH_COMPONENT_SYSTEM_TIME DEVICE_HEALTH_COMPONENT_DEGRADED
                      DEVICE_HEALTH_ERROR_TIME_NOT_SYNCHRONIZED None s);
          s = sv_at e 2 s; connected = mqtt_is_connected (sv_mqtt s);
          s = sv_at e 3 s;
          s = (if connected
               then let s = on_health (\<lambda>h. snd (device_health_set_availability (health_takes e) DEVICE_AVAILABILITY_ONLINE h)) s in
                 if \<not> mqtt_state_observed s \<or> \<not> mqtt_was_connected s
                 then set_component e DEVICE_HEALTH_COMPONENT_MQTT DEVICE_HEALTH_COMPONENT_HEALTHY
                        DEVICE_HEALTH_ERROR_NONE timestamp_value s
                 else s
               else let s = on_health (\<lambda>h. snd (device_health_set_availability (health_takes e) DEVICE_AVAILABILITY_OFFLINE h)) s in
                 set_component e DEVICE_HEALTH_COMPONENT_MQTT DEVICE_HEALTH_COMPONENT_DEGRADED
                   DEVICE_HEALTH_ERROR_MQTT_DISCONNECTED timestamp_value s)
      in s\<lparr>mqtt_state_observed := True, mqtt_was_connected := connected\<rparr>)"

definition request :: "mqtt_request option \<Rightarrow> health_service \<Rightarrow> health_service" where
  "request r s = (case r of None \<Rightarrow> s | Some q \<Rightarrow> s\<lparr>sv_requests := sv_requests s @ [q]\<rparr>)"

definition online_text :: "string \<Rightarrow> string" where
  "online_text dev = ''{\"schema_version\":1,\"device_id\":\"'' @ dev @ ''\",\"status\":\"online\"}''"

definition publish_online_availability :: "poll_inputs \<Rightarrow> health_service \<Rightarrow> esp_err \<times> health_service" where
  "publish_online_availability e s =
     (let (payload, written) = snprintf_s (zeros 160) AVAILABILITY_PAYLOAD_SIZE (online_text (cstr (sv_device_id s))) in
      if written \<ge> AVAILABILITY_PAYLOAD_SIZE then (ESP_ERR_INVALID_SIZE, s)
      else let s = sv_at e 8 s; (result, r) = mqtt_publish_availability (send e) (Some (cstr payload)) (sv_mqtt s)
        in (result, request r s))"

definition publish_health_snapshot :: "poll_inputs \<Rightarrow> health_service \<Rightarrow> esp_err \<times> health_service" where
  "publish_health_snapshot e s =
     (let s = sv_at e 9 s; (result, snapshot) = device_health_get_snapshot (health_takes e) True (sv_health s) in
      if result \<noteq> ESP_OK then (result, s)
      else let s = sv_at e 10 s;
          (payload, written) = serialize_health (clock e 10) (sv_time s) (cstr (sv_device_id s)) (the snapshot)
            (zeros 1536) HEALTH_PAYLOAD_SIZE
      in if written \<ge> HEALTH_PAYLOAD_SIZE then (ESP_ERR_INVALID_SIZE, s)
      else let s = sv_at e 11 s; (result, r) = mqtt_publish_health (send e) (Some (cstr payload)) (sv_mqtt s)
        in (result, request r s))"

definition record_health_publish_failure :: "poll_inputs \<Rightarrow> health_service \<Rightarrow> health_service" where
  "record_health_publish_failure e s =
     (let s = sv_at e 12 s; timestamp_value = current_timestamp (clock e 12) (sv_time s);
          s = sv_at e 13 s; s = on_health (device_health_increment_publish_failed (health_takes e)) s;
          s = sv_at e 14 s
      in set_component e DEVICE_HEALTH_COMPONENT_MQTT DEVICE_HEALTH_COMPONENT_FAULT
           DEVICE_HEALTH_ERROR_PUBLISH_FAILED timestamp_value s)"

definition record_health_publish_success :: "poll_inputs \<Rightarrow> health_service \<Rightarrow> health_service" where
  "record_health_publish_success e s =
     (let s = sv_at e 12 s in
      if \<not> mqtt_is_connected (sv_mqtt s) then s
      else let s = sv_at e 13 s; timestamp_value = current_timestamp (clock e 13) (sv_time s);
          s = sv_at e 14 s
        in set_component e DEVICE_HEALTH_COMPONENT_MQTT DEVICE_HEALTH_COMPONENT_HEALTHY
             DEVICE_HEALTH_ERROR_NONE timestamp_value s)"

text \<open>
  One turn of the loop of \<^verbatim>\<open>health_task\<close>; \<open>period\<close> is the heartbeat period in ticks. The second
  component holds the results of the two publications, where they were attempted, and whether
  the heartbeat was due.
\<close>

record poll_outcome =
  availability_result :: "esp_err option"
  health_result :: "esp_err option"
  heartbeat_was_due :: bool

definition attempt_health :: "poll_inputs \<Rightarrow> bool \<Rightarrow> u32 \<Rightarrow> health_service \<Rightarrow> esp_err \<times> health_service" where
  "attempt_health e retry_attempt snapshot_revision s =
     (let (result, s) = publish_health_snapshot e s;
          s = (if result \<noteq> ESP_OK
               then let s = record_health_publish_failure e s;
                   s = sv_at e 15 s;
                   s = (if \<not> retry_attempt \<and> mqtt_is_connected (sv_mqtt s) then s\<lparr>health_retry_pending := True\<rparr> else s);
                   s = sv_at e 16 s;
                   (failed_result, failed_snapshot) = device_health_get_snapshot (health_takes e) True (sv_health s)
                 in s\<lparr>last_attempted_revision :=
                      (if failed_result = ESP_OK then state_revision (the failed_snapshot) else snapshot_revision)\<rparr>
               else (record_health_publish_success e s)\<lparr>last_attempted_revision := snapshot_revision\<rparr>)
      in (result, s))"

definition health_task_poll :: "u32 \<Rightarrow> poll_inputs \<Rightarrow> health_service \<Rightarrow> health_service \<times> poll_outcome" where
  "health_task_poll period e s =
     (let s = update_runtime_components e s;
          s = sv_at e 4 s; s = update_metrics e s;
          s = sv_at e 5 s; (_, snapshot) = device_health_get_snapshot (health_takes e) True (sv_health s);
          snapshot_revision = (case snapshot of Some x \<Rightarrow> state_revision x | None \<Rightarrow> indeterminate e);
          now = tick e;
          s = sv_at e 6 s; generation = mqtt_connection_generation (sv_mqtt s);
          reconnected = (generation \<noteq> last_connection_generation s);
          heartbeat_due = (now - last_heartbeat s \<ge> period);
          state_changed = (snapshot_revision \<noteq> last_attempted_revision s);
          s = sv_at e 7 s;
          (s, availability, result) =
            (if mqtt_is_connected (sv_mqtt s) \<and> (reconnected \<or> heartbeat_due \<or> state_changed \<or> health_retry_pending s)
             then let retry_attempt = health_retry_pending s; s = s\<lparr>health_retry_pending := False\<rparr>;
                 (availability, s) = (if reconnected
                    then let (r, s) = publish_online_availability e s in (Some r, s) else (None, s));
                 (result, s) = attempt_health e retry_attempt snapshot_revision s
               in (s\<lparr>last_heartbeat := now\<rparr>, availability, Some result)
             else (s, None, None))
      in (s\<lparr>last_connection_generation := generation\<rparr>,
          \<lparr>availability_result = availability, health_result = result, heartbeat_was_due = heartbeat_due\<rparr>))"

fun health_task_run :: "u32 \<Rightarrow> poll_inputs list \<Rightarrow> health_service \<Rightarrow> health_service \<times> poll_outcome list" where
  "health_task_run period [] s = (s, [])"
| "health_task_run period (e # es) s =
     (let (s, outcome) = health_task_poll period e s; (s, outcomes) = health_task_run period es s
      in (s, outcome # outcomes))"

text \<open>\<open>created\<close>: \<^verbatim>\<open>xTaskCreate\<close> succeeds.\<close>

definition device_health_service_start :: "bool \<Rightarrow> carray option \<Rightarrow> health_service \<Rightarrow> esp_err \<times> health_service" where
  "device_health_service_start created dev_id s =
     (if sv_task_handle s then (ESP_OK, s)
      else case dev_id of None \<Rightarrow> (ESP_ERR_INVALID_ARG, s) | Some a \<Rightarrow>
        if cstr a = [] then (ESP_ERR_INVALID_ARG, s)
        else let (rt, written) = snprintf_s (sv_device_id s) 64 (cstr a); s = s\<lparr>sv_device_id := rt\<rparr> in
          if written \<ge> 64 then (ESP_ERR_INVALID_ARG, s)
          else if \<not> created then (ESP_ERR_NO_MEM, s\<lparr>sv_task_handle := False\<rparr>)
          else (ESP_OK, s\<lparr>sv_task_handle := True\<rparr>))"

section \<open>The payload fits\<close>

lemma local_text_length: "0 < n \<Longrightarrow> length (local_text n t) < n"
proof -
  assume "0 < n"
  then have "local_text n t = cstr (take (n - 1) t)" by (simp add: local_text_def cstr_store_s)
  then show "length (local_text n t) < n"
    using length_cstr_le [of "take (n - 1) t"] \<open>0 < n\<close> by auto
qed

lemma local_text_no_nul: "NUL \<notin> set (local_text n t)"
  by (simp add: local_text_def)

lemma unat_decimal_length:
  "length (dec_string (unat (a :: u64))) \<le> 20" "length (dec_string (unat (b :: u32))) \<le> 10"
proof -
  have "unat a < 2 ^ 64" by (rule order.strict_trans2 [OF unsigned_less]) simp
  then show "length (dec_string (unat a)) \<le> 20" by (intro dec_string_bound) simp_all
  have "unat b < 2 ^ 32" by (rule order.strict_trans2 [OF unsigned_less]) simp
  then show "length (dec_string (unat b)) \<le> 10" by (intro dec_string_bound) simp_all
qed

lemma names_length:
  "length (device_health_overall_status_to_string o1) \<le> 8" "length (device_availability_to_string a) \<le> 7"
  "length (device_health_component_status_to_string st) \<le> 8" "length (device_health_error_to_string err) \<le> 26"
  by (simp_all add: device_health_overall_status_to_string_def device_availability_to_string_def)
    ((cases st; simp), (cases err; simp))

lemma names_no_nul:
  "NUL \<notin> set (device_health_overall_status_to_string o1)" "NUL \<notin> set (device_availability_to_string a)"
  "NUL \<notin> set (device_health_component_status_to_string st)" "NUL \<notin> set (device_health_error_to_string err)"
  by (simp_all add: device_health_overall_status_to_string_def device_availability_to_string_def)
    ((cases st; simp), (cases err; simp))

lemma component_text_length: "length (component_text name c) \<le> length name + 110"
proof -
  have "length (timestamp_or_null c 24) < 24" unfolding timestamp_or_null_def by (rule local_text_length) simp
  then show ?thesis
    using names_length(3) [of "comp_status c"] names_length(4) [of "comp_error c"]
    by (simp add: component_text_def)
qed

lemma health_text_length:
  assumes "length dev \<le> 63"
  shows "length (health_text now v dev s) < 1536"
proof -
  have ts: "length (health_timestamp_json now v) < 24"
    unfolding health_timestamp_json_def by (auto simp: Let_def split: prod.splits intro!: local_text_length)
  note c = component_text_length [of "''sensor''"] component_text_length [of "''machine_status''"]
    component_text_length [of "''system_time''"] component_text_length [of "''mqtt''"]
  let ?r = "local_text 16 (if has_wifi_rssi (metrics s) then int_string (sint (wifi_rssi_dbm (metrics s))) else ''null'')"
  have rssi: "length ?r < 16" by (rule local_text_length) simp
  show ?thesis
    using assms ts rssi c [of "health_components s ! 0"] c(2) [of "health_components s ! 1"] c(3) [of "health_components s ! 2"]
      c(4) [of "health_components s ! 3"] names_length(1) [of "overall_status s"] names_length(2) [of "availability s"]
      unat_decimal_length(1) [of "samples_ok (counters s)"] unat_decimal_length(1) [of "samples_rejected (counters s)"]
      unat_decimal_length(1) [of "publish_ok (counters s)"] unat_decimal_length(1) [of "publish_failed (counters s)"]
      unat_decimal_length(1) [of "machine_status_errors (counters s)"] unat_decimal_length(1) [of "uptime_seconds (metrics s)"]
      unat_decimal_length(2) [of "free_heap_bytes (metrics s)"] unat_decimal_length(2) [of "minimum_free_heap_bytes (metrics s)"]
    by (simp add: health_text_def Let_def)
qed

lemma component_text_no_nul: "NUL \<notin> set name \<Longrightarrow> NUL \<notin> set (component_text name c)"
  by (simp add: component_text_def timestamp_or_null_def local_text_no_nul names_no_nul)

lemma health_text_no_nul: "NUL \<notin> set dev \<Longrightarrow> NUL \<notin> set (health_text now v dev s)"
  by (simp add: health_text_def Let_def health_timestamp_json_def local_text_no_nul names_no_nul component_text_no_nul
      dec_string_no_nul split: prod.splits)

section \<open>Polls without interference\<close>

text \<open>
  No other task runs between the accesses of the poll, and the mutex of the registry is granted.
\<close>

definition quiet :: "poll_inputs \<Rightarrow> bool" where
  "quiet e \<longleftrightarrow> poll_events e = (\<lambda>_. []) \<and> health_takes e"

lemma sv_at_quiet [simp]: "quiet e \<Longrightarrow> sv_at e i s = s"
  by (simp add: quiet_def sv_at_def)

lemma quiet_takes: "quiet e \<Longrightarrow> health_takes e"
  by (simp add: quiet_def)

definition registry_ok :: "health_service \<Rightarrow> bool" where
  "registry_ok s \<longleftrightarrow> health_inv (sv_health s) \<and> health_mutex (sv_health s)"

abbreviation component_state :: "health_service \<Rightarrow> (device_health_component_status \<times> device_health_error) list" where
  "component_state s \<equiv> component_view (sv_health s)"

abbreviation rev_of :: "health_service \<Rightarrow> u32" where
  "rev_of s \<equiv> state_revision (health_state (sv_health s))"

text \<open>A step of the registry: it stays well formed, and its revision tells a change of the component_state.\<close>

definition registry_step :: "health_service \<Rightarrow> health_service \<Rightarrow> bool" where
  "registry_step s s' \<longleftrightarrow> registry_ok s' \<and> rev_of s' = rev_of s + of_bool (component_state s' \<noteq> component_state s)"

lemma call_step:
  "registry_ok s \<Longrightarrow> sv_health s' = health_step call (sv_health s) \<Longrightarrow> registry_step s s'"
  using revision_step [of "sv_health s" call] health_step_inv [of "sv_health s" call]
  by (simp add: registry_step_def registry_ok_def)

lemma view_length: "registry_ok s \<Longrightarrow> length (component_state s) = 4"
  by (simp add: registry_ok_def health_inv_def snapshot_ok_def component_view_def)

lemma set_component_step:
  assumes "registry_ok s" and "health_takes e" and "0 \<le> c" and "c < 4"
  shows "registry_step s (set_component e c st err ts s)"
    and "component_state (set_component e c st err ts s) = (component_state s)[nat c := (st, err)]"
proof -
  show "registry_step s (set_component e c st err ts s)"
    by (rule call_step [where call = "Call_update True c st err ts"])
      (use assms in \<open>simp_all add: set_component_def on_health_def\<close>)
  show "component_state (set_component e c st err ts s) = (component_state s)[nat c := (st, err)]"
    using assms by (simp add: set_component_def on_health_def device_health_update_component_def lock_state_def
        registry_ok_def component_view_def Let_def map_update)
qed

lemma same_view_step:
  "registry_ok s \<Longrightarrow> sv_health s' = snd (device_health_set_availability k a (sv_health s)) \<Longrightarrow> registry_ok s' \<and> component_state s' = component_state s \<and> rev_of s' = rev_of s"
  "registry_ok s \<Longrightarrow> sv_health s' = snd (device_health_set_metrics k m (sv_health s)) \<Longrightarrow> registry_ok s' \<and> component_state s' = component_state s \<and> rev_of s' = rev_of s"
  "registry_ok s \<Longrightarrow> sv_health s' = device_health_increment_publish_failed k (sv_health s) \<Longrightarrow> registry_ok s' \<and> component_state s' = component_state s \<and> rev_of s' = rev_of s"
  by (auto simp: registry_ok_def health_inv_def snapshot_ok_def component_view_def health_ops split: option.splits)

lemma set_component_frame [simp]:
  "sv_mqtt (set_component e c st err ts s) = sv_mqtt s" "sv_time (set_component e c st err ts s) = sv_time s"
  "sv_device_id (set_component e c st err ts s) = sv_device_id s"
  "mqtt_state_observed (set_component e c st err ts s) = mqtt_state_observed s"
  "mqtt_was_connected (set_component e c st err ts s) = mqtt_was_connected s"
  "last_heartbeat (set_component e c st err ts s) = last_heartbeat s"
  "last_attempted_revision (set_component e c st err ts s) = last_attempted_revision s"
  "last_connection_generation (set_component e c st err ts s) = last_connection_generation s"
  "health_retry_pending (set_component e c st err ts s) = health_retry_pending s"
  "sv_requests (set_component e c st err ts s) = sv_requests s"
  by (simp_all add: set_component_def on_health_def)

lemma on_health_frame [simp]:
  "sv_mqtt (on_health f s) = sv_mqtt s" "sv_time (on_health f s) = sv_time s"
  "sv_device_id (on_health f s) = sv_device_id s"
  "mqtt_state_observed (on_health f s) = mqtt_state_observed s"
  "mqtt_was_connected (on_health f s) = mqtt_was_connected s"
  "last_heartbeat (on_health f s) = last_heartbeat s"
  "last_attempted_revision (on_health f s) = last_attempted_revision s"
  "last_connection_generation (on_health f s) = last_connection_generation s"
  "health_retry_pending (on_health f s) = health_retry_pending s"
  "sv_requests (on_health f s) = sv_requests s" "sv_health (on_health f s) = f (sv_health s)"
  by (simp_all add: on_health_def)

definition time_entry :: "system_time \<Rightarrow> device_health_component_status \<times> device_health_error" where
  "time_entry v = (if v then (DEVICE_HEALTH_COMPONENT_HEALTHY, DEVICE_HEALTH_ERROR_NONE)
     else (DEVICE_HEALTH_COMPONENT_DEGRADED, DEVICE_HEALTH_ERROR_TIME_NOT_SYNCHRONIZED))"

definition mqtt_entry :: "bool \<Rightarrow> device_health_component_status \<times> device_health_error" where
  "mqtt_entry accepted = (if accepted then (DEVICE_HEALTH_COMPONENT_HEALTHY, DEVICE_HEALTH_ERROR_NONE)
     else (DEVICE_HEALTH_COMPONENT_FAULT, DEVICE_HEALTH_ERROR_PUBLISH_FAILED))"

text \<open>The parts of the state that a poll on its own leaves alone until it publishes.\<close>

definition frame :: "health_service \<Rightarrow> health_service \<Rightarrow> bool" where
  "frame s s' \<longleftrightarrow> sv_mqtt s' = sv_mqtt s \<and> sv_time s' = sv_time s \<and> sv_device_id s' = sv_device_id s \<and>
     last_heartbeat s' = last_heartbeat s \<and> last_connection_generation s' = last_connection_generation s"

lemma frame_trans: "frame s t \<Longrightarrow> frame t u \<Longrightarrow> frame s u"
  by (simp add: frame_def)

text \<open>A connected task whose entries of the registry are up to date.\<close>

definition service_settled :: "health_service \<Rightarrow> bool" where
  "service_settled s \<longleftrightarrow> registry_ok s \<and> mqtt_connected (sv_mqtt s) \<and> mqtt_state_observed s \<and> mqtt_was_connected s \<and>
     component_state s ! 2 = time_entry (sv_time s) \<and> last_connection_generation s = connection_generation (sv_mqtt s)"

lemma runtime_effect:
  assumes "quiet e" and "registry_ok s" and "mqtt_connected (sv_mqtt s)"
  shows "registry_ok (update_runtime_components e s) \<and> frame s (update_runtime_components e s) \<and>
    mqtt_state_observed (update_runtime_components e s) \<and> mqtt_was_connected (update_runtime_components e s) \<and>
    component_state (update_runtime_components e s) ! 2 = time_entry (sv_time s) \<and>
    last_attempted_revision (update_runtime_components e s) = last_attempted_revision s \<and>
    health_retry_pending (update_runtime_components e s) = health_retry_pending s \<and>
    sv_requests (update_runtime_components e s) = sv_requests s \<and>
    (service_settled s \<longrightarrow> component_state (update_runtime_components e s) = component_state s \<and> rev_of (update_runtime_components e s) = rev_of s)"
proof -
  note k = quiet_takes [OF assms(1)]
  let ?ts = "current_timestamp (clock e 0) (sv_time s)"
  let ?t = "if sv_time s then set_component e 2 DEVICE_HEALTH_COMPONENT_HEALTHY DEVICE_HEALTH_ERROR_NONE ?ts s
    else set_component e 2 DEVICE_HEALTH_COMPONENT_DEGRADED DEVICE_HEALTH_ERROR_TIME_NOT_SYNCHRONIZED None s"
  have t: "registry_step s ?t" "component_state ?t = (component_state s)[2 := time_entry (sv_time s)]"
    using set_component_step [OF assms(2) k, of 2] by (simp_all add: time_entry_def)
  let ?u = "on_health (\<lambda>h. snd (device_health_set_availability (health_takes e) DEVICE_AVAILABILITY_ONLINE h)) ?t"
  have u: "registry_ok ?u" "component_state ?u = component_state ?t" "rev_of ?u = rev_of ?t"
    using same_view_step(1) [of ?t ?u] t(1) by (auto simp: registry_step_def)
  let ?v = "if \<not> mqtt_state_observed ?u \<or> \<not> mqtt_was_connected ?u
    then set_component e 3 DEVICE_HEALTH_COMPONENT_HEALTHY DEVICE_HEALTH_ERROR_NONE ?ts ?u else ?u"
  have v: "registry_ok ?v" "component_state ?v ! 2 = time_entry (sv_time s)"
    using set_component_step [OF u(1) k, of 3] u t(2) view_length [OF assms(2)] by (auto simp: registry_step_def)
  have result: "update_runtime_components e s = ?v\<lparr>mqtt_state_observed := True, mqtt_was_connected := True\<rparr>"
    using assms by (simp add: update_runtime_components_def Let_def system_time_is_valid_def mqtt_is_connected_def)
  have "service_settled s \<Longrightarrow> component_state ?v = component_state s \<and> rev_of ?v = rev_of s"
    using u t by (simp add: service_settled_def registry_step_def) (metis list_update_id)
  moreover have "frame s ?v" by (simp add: frame_def)
  ultimately show ?thesis
    using v by (simp add: result registry_ok_def frame_def)
qed

lemma metrics_effect:
  assumes "quiet e" and "registry_ok s"
  shows "registry_ok (update_metrics e s) \<and> frame s (update_metrics e s) \<and> component_state (update_metrics e s) = component_state s \<and>
    rev_of (update_metrics e s) = rev_of s \<and> mqtt_state_observed (update_metrics e s) = mqtt_state_observed s \<and>
    mqtt_was_connected (update_metrics e s) = mqtt_was_connected s \<and>
    last_attempted_revision (update_metrics e s) = last_attempted_revision s \<and>
    health_retry_pending (update_metrics e s) = health_retry_pending s \<and> sv_requests (update_metrics e s) = sv_requests s"
  using same_view_step(2) [OF assms(2), of "update_metrics e s"] by (simp add: update_metrics_def Let_def frame_def)

lemma publish_quiet:
  assumes "quiet e" and "registry_ok s" and "publish_health_snapshot e s = (r, s')"
  shows "\<exists>q. s' = s\<lparr>sv_requests := q\<rparr>"
proof -
  have "\<exists>q. request x s = s\<lparr>sv_requests := q\<rparr>" for x
    by (cases x) (auto simp: request_def intro: exI [of _ "sv_requests s"])
  moreover have "\<exists>q. s = s\<lparr>sv_requests := q\<rparr>" by (rule exI [of _ "sv_requests s"]) simp
  ultimately show ?thesis
    using assms(1,3) by (auto simp: publish_health_snapshot_def Let_def split: if_splits prod.splits)
qed

lemma attempt_effect:
  assumes "quiet e" and "registry_ok s" and "mqtt_connected (sv_mqtt s)" and "\<not> health_retry_pending s"
    and "attempt_health e retry_attempt rv s = (r, s')"
  shows "registry_step s s' \<and> frame s s' \<and> component_state s' = (component_state s)[3 := mqtt_entry (r = ESP_OK)] \<and>
    mqtt_state_observed s' = mqtt_state_observed s \<and> mqtt_was_connected s' = mqtt_was_connected s \<and>
    last_attempted_revision s' = (if r = ESP_OK then rv else rev_of s') \<and>
    health_retry_pending s' = (r \<noteq> ESP_OK \<and> \<not> retry_attempt) \<and>
    sv_requests s' = sv_requests (snd (publish_health_snapshot e s))"
proof -
  note k = quiet_takes [OF assms(1)]
  obtain q where pub: "publish_health_snapshot e s = (r, s\<lparr>sv_requests := q\<rparr>)"
    using publish_quiet [OF assms(1,2)] assms(5)
    by (cases "publish_health_snapshot e s") (auto simp: attempt_health_def Let_def split: prod.splits)
  let ?t = "s\<lparr>sv_requests := q\<rparr>"
  have ok: "registry_ok ?t" using assms(2) by (simp add: registry_ok_def)
  show ?thesis
  proof (cases "r = ESP_OK")
    case True
    let ?u = "set_component e 3 DEVICE_HEALTH_COMPONENT_HEALTHY DEVICE_HEALTH_ERROR_NONE (current_timestamp (clock e 13) (sv_time s)) ?t"
    have s': "s' = ?u\<lparr>last_attempted_revision := rv\<rparr>"
      using assms pub True by (simp add: attempt_health_def record_health_publish_success_def mqtt_is_connected_def Let_def)
    show ?thesis
      using set_component_step [OF ok k, of 3 DEVICE_HEALTH_COMPONENT_HEALTHY DEVICE_HEALTH_ERROR_NONE "current_timestamp (clock e 13) (sv_time s)"]
        True assms(4) pub
      by (simp add: s' registry_step_def registry_ok_def frame_def mqtt_entry_def)
  next
    case False
    let ?f = "on_health (\<lambda>h. device_health_increment_publish_failed (health_takes e) h) ?t"
    have f: "registry_ok ?f" "component_state ?f = component_state s" "rev_of ?f = rev_of s"
      using same_view_step(3) [OF ok, of ?f] by auto
    let ?u = "set_component e 3 DEVICE_HEALTH_COMPONENT_FAULT DEVICE_HEALTH_ERROR_PUBLISH_FAILED (current_timestamp (clock e 12) (sv_time s)) ?f"
    note u = set_component_step [OF f(1) k, of 3 DEVICE_HEALTH_COMPONENT_FAULT DEVICE_HEALTH_ERROR_PUBLISH_FAILED "current_timestamp (clock e 12) (sv_time s)"]
    have "device_health_get_snapshot True True (sv_health ?u) = (ESP_OK, Some (health_state (sv_health ?u)))"
      using u by (simp add: device_health_get_snapshot_def lock_state_def registry_step_def registry_ok_def)
    then have s': "s' = (if \<not> retry_attempt then ?u\<lparr>health_retry_pending := True\<rparr> else ?u)\<lparr>last_attempted_revision := rev_of ?u\<rparr>"
      using assms pub False k
      by (auto simp: attempt_health_def record_health_publish_failure_def mqtt_is_connected_def Let_def)
    show ?thesis
      using u f False assms(4) pub
      by (simp add: s' registry_step_def registry_ok_def frame_def mqtt_entry_def)
  qed
qed

text \<open>What a poll does once it publishes, from the state \<open>t\<close> before the publication.\<close>

definition published :: "health_service \<Rightarrow> bool \<Rightarrow> esp_err \<Rightarrow> health_service \<Rightarrow> bool" where
  "published t retry_attempt r s' \<longleftrightarrow> registry_step t s' \<and> component_state s' = (component_state t)[3 := mqtt_entry (r = ESP_OK)] \<and>
     last_attempted_revision s' = (if r = ESP_OK then rev_of t else rev_of s') \<and>
     health_retry_pending s' = (r \<noteq> ESP_OK \<and> \<not> retry_attempt)"

definition publication_due :: "u32 \<Rightarrow> poll_inputs \<Rightarrow> health_service \<Rightarrow> health_service \<Rightarrow> bool" where
  "publication_due period e s t \<longleftrightarrow> connection_generation (sv_mqtt s) \<noteq> last_connection_generation s \<or>
     tick e - last_heartbeat s \<ge> period \<or> rev_of t \<noteq> last_attempted_revision s \<or> health_retry_pending s"

lemma availability_quiet:
  "quiet e \<Longrightarrow> publish_online_availability e s = (r, s') \<Longrightarrow> \<exists>q. s' = s\<lparr>sv_requests := q\<rparr>"
  by (cases "snd (mqtt_publish_availability (send e) (Some (cstr (store_s (zeros 160) 160 (online_text (cstr (sv_device_id s)))))) (sv_mqtt s))")
    (auto simp: publish_online_availability_def Let_def snprintf_s_def request_def split: if_splits prod.splits
      intro: exI [of _ "sv_requests s"])

lemma poll_effect:
  assumes "quiet e" and "registry_ok s" and "mqtt_connected (sv_mqtt s)" and "health_task_poll period e s = (s', p)"
  obtains t u where "registry_ok t" "service_settled s \<Longrightarrow> component_state t = component_state s \<and> rev_of t = rev_of s" "component_state t ! 2 = time_entry (sv_time s)"
    "heartbeat_was_due p = (tick e - last_heartbeat s \<ge> period)"
    "sv_mqtt s' = sv_mqtt s" "sv_time s' = sv_time s" "sv_device_id s' = sv_device_id s"
    "mqtt_state_observed s'" "mqtt_was_connected s'" "last_connection_generation s' = connection_generation (sv_mqtt s)"
    "(availability_result p \<noteq> None) = (connection_generation (sv_mqtt s) \<noteq> last_connection_generation s)"
    "last_heartbeat s' = (if publication_due period e s t then tick e else last_heartbeat s)"
    "if publication_due period e s t then \<exists>r. health_result p = Some r \<and> published t (health_retry_pending s) r s' \<and>
        sv_requests s' = sv_requests (snd (publish_health_snapshot e u)) \<and> sv_health u = sv_health t \<and> sv_mqtt u = sv_mqtt s \<and>
        fst (publish_health_snapshot e u) = r \<and> sv_time u = sv_time s \<and> sv_device_id u = sv_device_id s
     else health_result p = None \<and> sv_health s' = sv_health t \<and> last_attempted_revision s' = last_attempted_revision s \<and>
        \<not> health_retry_pending s' \<and> sv_requests s' = sv_requests s"
proof -
  note k = quiet_takes [OF assms(1)]
  define t where "t = update_metrics e (update_runtime_components e s)"
  have t: "registry_ok t" "frame s t" "mqtt_state_observed t" "mqtt_was_connected t" "component_state t ! 2 = time_entry (sv_time s)"
      "last_attempted_revision t = last_attempted_revision s" "health_retry_pending t = health_retry_pending s"
      "sv_requests t = sv_requests s" "service_settled s \<Longrightarrow> component_state t = component_state s \<and> rev_of t = rev_of s"
    using runtime_effect [OF assms(1-3)] metrics_effect [OF assms(1), of "update_runtime_components e s"]
    by (simp_all add: t_def frame_def)
  have snapshot: "device_health_get_snapshot True True (sv_health t) = (ESP_OK, Some (health_state (sv_health t)))"
    using t(1) by (simp add: device_health_get_snapshot_def lock_state_def registry_ok_def)
  have fr: "sv_mqtt t = sv_mqtt s" "sv_time t = sv_time s" "sv_device_id t = sv_device_id s"
      "last_heartbeat t = last_heartbeat s" "last_connection_generation t = last_connection_generation s"
    using t(2) by (simp_all add: frame_def)
  let ?again = "connection_generation (sv_mqtt s) \<noteq> last_connection_generation s"
  have publication_due: "publication_due period e s t = (?again \<or> tick e - last_heartbeat s \<ge> period \<or> rev_of t \<noteq> last_attempted_revision s
      \<or> health_retry_pending s)" by (simp add: publication_due_def)
  show thesis
  proof (cases "publication_due period e s t")
    case False
    then have "\<not> ?again" by (simp add: publication_due)
    have eq: "health_task_poll period e s = (t\<lparr>last_connection_generation := connection_generation (sv_mqtt s)\<rparr>,
        \<lparr>availability_result = None, health_result = None, heartbeat_was_due = tick e - last_heartbeat s \<ge> period\<rparr>)"
      using False t fr k snapshot assms(1)
      by (simp add: health_task_poll_def publication_due Let_def t_def [symmetric] mqtt_connection_generation_def)
    have s': "s' = t\<lparr>last_connection_generation := connection_generation (sv_mqtt s)\<rparr>"
        "p = \<lparr>availability_result = None, health_result = None, heartbeat_was_due = tick e - last_heartbeat s \<ge> period\<rparr>"
      using assms(4) unfolding eq by simp_all
    show thesis
      by (rule that [of t s]) (use t fr False \<open>\<not> ?again\<close> in \<open>simp_all add: s' registry_ok_def publication_due\<close>)
  next
    case True
    let ?t = "t\<lparr>health_retry_pending := False\<rparr>"
    obtain a u where u: "(if ?again then let (r, s) = publish_online_availability e ?t in (Some r, s) else (None, ?t)) = (a, u)"
      by fastforce
    obtain q where q: "u = ?t\<lparr>sv_requests := q\<rparr>"
    proof (cases ?again)
      case True
      obtain r v where "publish_online_availability e ?t = (r, v)" by fastforce
      with availability_quiet [OF assms(1) this] u True that show thesis by auto
    next
      case False
      then have "u = ?t\<lparr>sv_requests := sv_requests t\<rparr>" using u by (cases t) auto
      then show thesis by (rule that)
    qed
    have a: "(a \<noteq> None) = ?again" using u by (auto split: if_splits prod.splits)
    obtain r v where v: "attempt_health e (health_retry_pending s) (rev_of t) u = (r, v)" by fastforce
    have "registry_ok u" "mqtt_connected (sv_mqtt u)" "\<not> health_retry_pending u"
      using t fr assms(3) by (simp_all add: q registry_ok_def)
    note eff = attempt_effect [OF assms(1) this v]
    have pub: "fst (publish_health_snapshot e u) = r"
      using v by (auto simp: attempt_health_def Let_def split: prod.splits)
    have eq: "health_task_poll period e s = (v\<lparr>last_heartbeat := tick e, last_connection_generation := connection_generation (sv_mqtt s)\<rparr>,
        \<lparr>availability_result = a, health_result = Some r, heartbeat_was_due = tick e - last_heartbeat s \<ge> period\<rparr>)"
      using True t fr k snapshot assms(1,3) u v
      by (simp add: health_task_poll_def publication_due Let_def t_def [symmetric] mqtt_connection_generation_def mqtt_is_connected_def)
    have s': "s' = v\<lparr>last_heartbeat := tick e, last_connection_generation := connection_generation (sv_mqtt s)\<rparr>"
        "p = \<lparr>availability_result = a, health_result = Some r, heartbeat_was_due = tick e - last_heartbeat s \<ge> period\<rparr>"
      using assms(4) unfolding eq by simp_all
    show thesis
      by (rule that [of t u])
        (use t fr eff a True pub in \<open>simp_all add: s' q registry_ok_def published_def registry_step_def frame_def\<close>)
  qed
qed

lemma poll_settled:
  assumes "quiet e" and "registry_ok s" and "mqtt_connected (sv_mqtt s)" and "health_task_poll period e s = (s', p)"
  shows "service_settled s'"
proof (rule poll_effect [OF assms], goal_cases)
  case (1 t u)
  have "registry_ok s' \<and> component_state s' ! 2 = component_state t ! 2"
    using 1 view_length [OF 1(1)] by (auto simp: published_def registry_step_def registry_ok_def split: if_splits)
  then show ?case using 1 assms(3) by (simp add: service_settled_def)
qed

text \<open>A settled task with nothing left to do, and its polls.\<close>

definition service_idle :: "health_service \<Rightarrow> bool" where
  "service_idle s \<longleftrightarrow> service_settled s \<and> last_attempted_revision s = rev_of s \<and> \<not> health_retry_pending s"

lemma settled_poll:
  assumes "quiet e" and "service_settled s" and "health_task_poll period e s = (s', p)" and "\<not> heartbeat_was_due p"
  shows "service_settled s' \<and> availability_result p = None \<and> sv_mqtt s' = sv_mqtt s \<and> sv_time s' = sv_time s \<and>
    sv_device_id s' = sv_device_id s \<and>
    (if last_attempted_revision s \<noteq> rev_of s \<or> health_retry_pending s
     then \<exists>r. health_result p = Some r \<and> health_retry_pending s' = (r \<noteq> ESP_OK \<and> \<not> health_retry_pending s) \<and>
       component_state s' = (component_state s)[3 := mqtt_entry (r = ESP_OK)] \<and>
       rev_of s' = rev_of s + of_bool (component_state s' \<noteq> component_state s) \<and>
       last_attempted_revision s' = (if r = ESP_OK then rev_of s else rev_of s')
     else health_result p = None \<and> service_idle s' \<and> component_state s' = component_state s \<and> sv_requests s' = sv_requests s)"
proof -
  have s: "registry_ok s" "mqtt_connected (sv_mqtt s)" "connection_generation (sv_mqtt s) = last_connection_generation s"
    using assms(2) by (simp_all add: service_settled_def)
  note state_settled = poll_settled [OF assms(1) s(1,2) assms(3)]
  show ?thesis
  proof (rule poll_effect [OF assms(1) s(1,2) assms(3)], goal_cases)
    case (1 t u)
    then have t: "component_state t = component_state s" "rev_of t = rev_of s" using assms(2) by auto
    have "publication_due period e s t = (last_attempted_revision s \<noteq> rev_of s \<or> health_retry_pending s)"
      using 1(4) assms(4) s(3) by (auto simp: publication_due_def t)
    then show ?case
      using 1(5-7) 1(11,13) state_settled s(3) t by (auto simp: published_def registry_step_def service_idle_def split: if_splits)
  qed
qed

lemma idle_run:
  assumes "service_idle s" and "list_all quiet es" and "health_task_run period es s = (s', ps)"
    and "list_all (\<lambda>p. \<not> heartbeat_was_due p) ps"
  shows "list_all (\<lambda>p. health_result p = None) ps \<and> component_state s' = component_state s \<and> sv_requests s' = sv_requests s \<and>
    sv_mqtt s' = sv_mqtt s \<and> sv_time s' = sv_time s \<and> sv_device_id s' = sv_device_id s \<and> service_idle s'"
  using assms
proof (induction es arbitrary: s ps)
  case (Cons e es)
  obtain t p where poll: "health_task_poll period e s = (t, p)" by fastforce
  obtain qs where run: "health_task_run period es t = (s', qs)" "ps = p # qs"
    using Cons.prems(3) by (auto simp: poll split: prod.splits)
  have "service_settled s" using Cons.prems(1) by (simp add: service_idle_def)
  from settled_poll [OF _ this poll] Cons.prems run
  have "service_idle t" "health_result p = None" "component_state t = component_state s" "sv_requests t = sv_requests s"
    "sv_mqtt t = sv_mqtt s" "sv_time t = sv_time s" "sv_device_id t = sv_device_id s" by (auto simp: service_idle_def)
  with Cons.IH [OF \<open>service_idle t\<close> _ run(1)] Cons.prems(2,4) run(2) show ?case by auto
qed simp

text \<open>The last request is a health snapshot with this component_state of the components.\<close>

definition retained_view :: "health_service \<Rightarrow> (device_health_component_status \<times> device_health_error) list \<Rightarrow> bool" where
  "retained_view s v \<longleftrightarrow> sv_requests s \<noteq> [] \<and>
     (\<exists>now snapshot. last (sv_requests s) = (cstr (health_topic (sv_mqtt s)),
          health_text now (sv_time s) (cstr (sv_device_id s)) snapshot, CONFIG_MQTT_QOS, True) \<and>
        map (\<lambda>c. (comp_status c, comp_error c)) (health_components snapshot) = v)"

lemma serialized:
  "length (cstr dev) \<le> 63 \<Longrightarrow>
   \<exists>b. serialize_health now v (cstr dev) s (zeros 1536) 1536 = (b, length (health_text now v (cstr dev) s)) \<and>
     cstr b = health_text now v (cstr dev) s"
  using health_text_length [of "cstr dev" now v s] health_text_no_nul [of "cstr dev" now v s]
  by (simp add: serialize_health_def snprintf_s_def Let_def cstr_append_nul cstr_id)

lemma accepted_request:
  assumes "quiet e" and "registry_ok u" and "length (cstr (sv_device_id u)) \<le> 63" and "fst (publish_health_snapshot e u) = ESP_OK"
  shows "retained_view (snd (publish_health_snapshot e u)) (component_state u)"
proof -
  let ?dev = "cstr (sv_device_id u)" let ?snap = "health_state (sv_health u)"
  have snapshot: "device_health_get_snapshot True True (sv_health u) = (ESP_OK, Some ?snap)"
    using assms(2) by (simp add: device_health_get_snapshot_def lock_state_def registry_ok_def)
  obtain b where b: "serialize_health (clock e 10) (sv_time u) ?dev ?snap (zeros 1536) 1536 =
      (b, length (health_text (clock e 10) (sv_time u) ?dev ?snap))" "cstr b = health_text (clock e 10) (sv_time u) ?dev ?snap"
    using serialized [OF assms(3)] by blast
  then show ?thesis
    using assms(1,4) snapshot quiet_takes [OF assms(1)] health_text_length [OF assms(3)]
    by (auto simp: publish_health_snapshot_def Let_def mqtt_publish_health_def mqtt_publish_def request_def retained_view_def
        component_view_def split: if_splits prod.splits)
qed

lemma rejected_poll:
  assumes "quiet e" and "registry_ok s" and "mqtt_connected (sv_mqtt s)" and "health_task_poll period e s = (s', p)"
    and "health_result p = Some r" and "r \<noteq> ESP_OK"
  shows "last_attempted_revision s' = rev_of s' \<and> health_retry_pending s' = (\<not> health_retry_pending s)"
proof (rule poll_effect [OF assms(1-4)], goal_cases)
  case (1 t u)
  then have "published t (health_retry_pending s) r s'" using assms(5) by (auto split: if_splits)
  then show ?case using assms(6) by (simp add: published_def)
qed

lemma accepted_poll:
  assumes "quiet e" and "registry_ok s" and "mqtt_connected (sv_mqtt s)" and "health_task_poll period e s = (s', p)"
    and "health_result p = Some ESP_OK" and "length (cstr (sv_device_id s)) \<le> 63"
  shows "retained_view s' (component_state s') \<and> service_idle s' \<or>
    service_settled s' \<and> \<not> health_retry_pending s' \<and> last_attempted_revision s' \<noteq> rev_of s' \<and> component_state s' ! 3 = mqtt_entry True \<and>
      sv_device_id s' = sv_device_id s \<and> (service_settled s \<longrightarrow> component_state s ! 3 \<noteq> mqtt_entry True)"
proof -
  note state_settled = poll_settled [OF assms(1-4)]
  show ?thesis
  proof (rule poll_effect [OF assms(1-4)], goal_cases)
    case (1 t u)
    then have pub: "published t (health_retry_pending s) ESP_OK s'" "sv_requests s' = sv_requests (snd (publish_health_snapshot e u))"
        "sv_health u = sv_health t" "sv_mqtt u = sv_mqtt s" "fst (publish_health_snapshot e u) = ESP_OK" "sv_time u = sv_time s"
        "sv_device_id u = sv_device_id s"
      using assms(5) by (auto split: if_splits)
    have u: "registry_ok u" "length (cstr (sv_device_id u)) \<le> 63" using 1(1) pub assms(6) by (simp_all add: registry_ok_def)
    obtain q where q: "snd (publish_health_snapshot e u) = u\<lparr>sv_requests := q\<rparr>"
      using publish_quiet [OF assms(1) u(1)] by (metis prod.collapse)
    have retained: "retained_view s' (component_state t)"
      using accepted_request [OF assms(1) u pub(5)] pub(2-7) 1(5-7) unfolding retained_view_def q by simp
    have component_state: "component_state s' = (component_state t)[3 := mqtt_entry True]" "rev_of s' = rev_of t + of_bool (component_state s' \<noteq> component_state t)"
        "last_attempted_revision s' = rev_of t" "\<not> health_retry_pending s'"
      using pub(1) by (simp_all add: published_def registry_step_def)
    show ?case
    proof (cases "component_state s' = component_state t")
      case True
      then show ?thesis using retained component_state state_settled by (simp add: service_idle_def)
    next
      case False
      then have "component_state t ! 3 \<noteq> mqtt_entry True" using component_state(1) by (metis list_update_id)
      then show ?thesis
        using False component_state state_settled 1(2,7) view_length [OF 1(1)] by auto
    qed
  qed
qed

lemma settled_announces_nothing:
  "service_settled s \<Longrightarrow> list_all quiet es \<Longrightarrow> health_task_run period es s = (s', ps) \<Longrightarrow>
   list_all (\<lambda>p. availability_result p = None) ps"
proof (induction es arbitrary: s ps)
  case (Cons e es)
  obtain t p where poll: "health_task_poll period e s = (t, p)" by fastforce
  obtain qs where run: "health_task_run period es t = (s', qs)" "ps = p # qs"
    using Cons.prems(3) by (auto simp: poll split: prod.splits)
  have s: "registry_ok s" "mqtt_connected (sv_mqtt s)" "connection_generation (sv_mqtt s) = last_connection_generation s"
    using Cons.prems(1) by (simp_all add: service_settled_def)
  have e: "quiet e" using Cons.prems(2) by simp
  have "availability_result p = None"
    by (rule poll_effect [OF e s(1,2) poll]) (use s(3) in simp)
  then show ?case
    using Cons.IH [OF poll_settled [OF e s(1,2) poll] _ run(1)] Cons.prems(2) run(2) by simp
qed simp

section \<open>Properties\<close>

text \<open>
  An example: a connected client whose connection has not been announced yet, and polls in
  which nothing else happens and the transport answers \<open>k\<close> to every request.
\<close>

definition example_poll :: "int \<Rightarrow> poll_inputs" where
  "example_poll k = \<lparr>poll_events = (\<lambda>_. []), clock = (\<lambda>_. 0), timer = 0, free_heap = 0, minimum_free_heap = 0,
     access_point_rssi = None, tick = 0, health_takes = True, send = (\<lambda>_. k), indeterminate = 0\<rparr>"

definition example_service :: health_service where
  "example_service = \<lparr>sv_health = \<lparr>health_state = zero_snapshot, health_mutex = True\<rparr>, sv_time = False,
     sv_mqtt = initial_mqtt\<lparr>mqtt_client := True, mqtt_connected := True, connection_generation := 1\<rparr>,
     sv_device_id = ''press-04'' @ zeros 56, sv_task_handle = True, mqtt_state_observed = False,
     mqtt_was_connected = False, last_heartbeat = 0, last_attempted_revision = 0, last_connection_generation = 0,
     health_retry_pending = False, sv_requests = []\<rparr>"

text \<open>The states such polls go through.\<close>

definition example_state :: "health_service \<Rightarrow> bool" where
  "example_state s \<longleftrightarrow> registry_ok s \<and> mqtt_client (sv_mqtt s) \<and> mqtt_connected (sv_mqtt s) \<and> last_heartbeat s = 0 \<and>
     length (cstr (sv_device_id s)) \<le> 63"

lemma example_service_state: "example_state example_service"
  using initial_inv
  by (simp add: example_state_def registry_ok_def example_service_def health_inv_def initial_health_def cstr_Cons)

lemma example_quiet: "quiet (example_poll k)"
  by (simp add: quiet_def example_poll_def)

lemma example_publish:
  assumes "registry_ok u" and "mqtt_client (sv_mqtt u)" and "mqtt_connected (sv_mqtt u)" and "length (cstr (sv_device_id u)) \<le> 63"
  shows "fst (publish_health_snapshot (example_poll k) u) = (if k < 0 then ESP_FAIL else ESP_OK)"
proof -
  have snapshot: "device_health_get_snapshot True True (sv_health u) = (ESP_OK, Some (health_state (sv_health u)))"
    using assms(1) by (simp add: device_health_get_snapshot_def lock_state_def registry_ok_def)
  have fits: "\<not> 1536 \<le> length (health_text now v (cstr (sv_device_id u)) x)" for now v x
    using health_text_length [OF assms(4)] by (simp add: not_le)
  show ?thesis
    using assms(2,3) snapshot fits example_quiet [of k]
    by (simp add: publish_health_snapshot_def serialize_health_def snprintf_s_def mqtt_publish_health_def mqtt_publish_def
        Let_def quiet_takes) (simp add: example_poll_def)
qed

lemma example_step:
  assumes "example_state s" and "health_task_poll 60 (example_poll k) s = (s', p)"
  shows "example_state s' \<and> \<not> heartbeat_was_due p \<and> health_result p \<in> {None, Some (if k < 0 then ESP_FAIL else ESP_OK)} \<and>
    (last_connection_generation s \<noteq> connection_generation (sv_mqtt s) \<longrightarrow> health_result p \<noteq> None)"
proof -
  have s: "registry_ok s" "mqtt_connected (sv_mqtt s)" using assms(1) by (simp_all add: example_state_def)
  note state_settled = poll_settled [OF example_quiet s assms(2)]
  show ?thesis
  proof (rule poll_effect [OF example_quiet s assms(2)], goal_cases)
    case (1 t u)
    have tick: "tick (example_poll k) = 0" by (simp add: example_poll_def)
    have "registry_ok u \<Longrightarrow> sv_mqtt u = sv_mqtt s \<Longrightarrow> sv_device_id u = sv_device_id s \<Longrightarrow>
        fst (publish_health_snapshot (example_poll k) u) = (if k < 0 then ESP_FAIL else ESP_OK)"
      using example_publish [of u k] assms(1) by (simp add: example_state_def)
    then show ?case
      using 1 assms(1) state_settled tick by (auto simp: example_state_def service_settled_def publication_due_def registry_ok_def split: if_splits)
  qed
qed

lemma example_run:
  assumes "example_state s" and "health_task_run 60 (replicate n (example_poll k)) s = (s', ps)"
  shows "length ps = n \<and> list_all (\<lambda>p. \<not> heartbeat_was_due p \<and> health_result p \<in> {None, Some (if k < 0 then ESP_FAIL else ESP_OK)}) ps"
  using assms
proof (induction n arbitrary: s ps)
  case (Suc n)
  obtain t p where poll: "health_task_poll 60 (example_poll k) s = (t, p)" by fastforce
  obtain qs where run: "health_task_run 60 (replicate n (example_poll k)) t = (s', qs)" "ps = p # qs"
    using Suc.prems(2) by (auto simp: poll split: prod.splits)
  show ?case
    using example_step [OF Suc.prems(1) poll] Suc.IH [OF _ run(1)] run(2) by simp
qed simp

lemma example_outcomes:
  assumes r: "r = (if k < 0 then ESP_FAIL else ESP_OK)"
  shows "\<exists>s' p q ps.
    health_task_run 60 (example_poll k # example_poll k # replicate n (example_poll k)) example_service = (s', p # q # ps) \<and>
    length ps = n \<and> health_result p = Some r \<and> health_result q \<in> {None, Some r} \<and>
    list_all (\<lambda>p. \<not> heartbeat_was_due p) (q # ps)"
proof -
  obtain s' xs where run: "health_task_run 60 (replicate (Suc (Suc n)) (example_poll k)) example_service = (s', xs)" by fastforce
  note all = example_run [OF example_service_state run]
  obtain p q ps where xs: "xs = p # q # ps" using all by (metis length_Suc_conv)
  have "health_result p \<noteq> None"
    using example_step [OF example_service_state, of k] run xs
    by (cases "health_task_poll 60 (example_poll k) example_service")
      (auto simp: example_service_def initial_mqtt_def split: prod.splits)
  then show ?thesis
    using run xs all r by (intro exI [of _ s'] exI [of _ p] exI [of _ q] exI [of _ ps]) (auto simp: list_all_iff)
qed

text \<open>
  The payload always fits: for a device identifier the configuration admits, the health
  snapshot is written whole into its buffer of 1536 bytes, whatever the registry holds.
\<close>

lemma health_payload_fits_its_buffer:
  assumes "length (cstr dev) \<le> 63"
  shows "case serialize_health now v (cstr dev) s (zeros HEALTH_PAYLOAD_SIZE) HEALTH_PAYLOAD_SIZE of
    (b, written) \<Rightarrow> written < HEALTH_PAYLOAD_SIZE \<and> cstr b = health_text now v (cstr dev) s"
  using serialized [OF assms, of now v s] health_text_length [OF assms, of now v s] by auto

lemma health_payload_fits_its_buffer_witness:
  "snd (serialize_health 0 False (cstr ''press-04'') zero_snapshot (zeros HEALTH_PAYLOAD_SIZE) HEALTH_PAYLOAD_SIZE) < 1536"
  using health_payload_fits_its_buffer [of "''press-04''" 0 False zero_snapshot] by (simp add: cstr_Cons split: prod.splits)

text \<open>
  C23. A rejected health publication is retried once: of two polls that follow each other with no
  event between and no heartbeat due in the second, if the first fails to publish then the
  second publishes exactly if the first was not the retry itself; and when that fails too,
  nothing is published until an event or the heartbeat. The revision that the failure itself
  adds to the registry does not count as a change.
\<close>

theorem failed_publication_is_retried_once:
  assumes "health_inv (sv_health s)" and "health_mutex (sv_health s)" and "mqtt_connected (sv_mqtt s)"
    and "list_all quiet (e # f # es)" and "health_task_run period (e # f # es) s = (s', p # q # ps)"
    and "health_result p = Some r" and "r \<noteq> ESP_OK" and "health_result q \<noteq> Some ESP_OK"
    and "list_all (\<lambda>p. \<not> heartbeat_was_due p) (q # ps)"
  shows "(health_result q \<noteq> None) = (\<not> health_retry_pending s) \<and> list_all (\<lambda>p. health_result p = None) ps"
proof -
  have quiet: "quiet e" "quiet f" "list_all quiet es" and s: "registry_ok s"
    using assms(1,2,4) by (simp_all add: registry_ok_def)
  obtain t u where poll: "health_task_poll period e s = (t, p)" "health_task_poll period f t = (u, q)"
      and run: "health_task_run period es u = (s', ps)"
    using assms(5) by (auto split: prod.splits)
  have t: "service_settled t" "last_attempted_revision t = rev_of t" "health_retry_pending t = (\<not> health_retry_pending s)"
    using poll_settled [OF quiet(1) s assms(3) poll(1)] rejected_poll [OF quiet(1) s assms(3) poll(1) assms(6,7)] by auto
  from settled_poll [OF quiet(2) t(1) poll(2)] assms(8,9) t
  have "(health_result q \<noteq> None) = (\<not> health_retry_pending s)" "service_idle u"
    by (auto simp: service_idle_def split: if_splits)
  then show ?thesis using idle_run [OF _ quiet(3) run] assms(9) by simp
qed

theorem failed_publication_is_retried_once_witness:
  "\<exists>s' p q a b. health_task_run 60 (replicate 4 (example_poll (- 1))) example_service = (s', [p, q, a, b]) \<and>
     health_result p = Some ESP_FAIL \<and> health_result q = Some ESP_FAIL \<and> health_result a = None \<and> health_result b = None"
proof -
  obtain s' p q ps where run: "health_task_run 60 (example_poll (- 1) # example_poll (- 1) # replicate 2 (example_poll (- 1)))
        example_service = (s', p # q # ps)" "length ps = 2" "health_result p = Some ESP_FAIL" "health_result q \<in> {None, Some ESP_FAIL}"
      "list_all (\<lambda>p. \<not> heartbeat_was_due p) (q # ps)"
    using example_outcomes [of ESP_FAIL "- 1" 2, OF sym [OF if_P]] by fastforce
  have ok: "health_inv (sv_health example_service)" "health_mutex (sv_health example_service)" "mqtt_connected (sv_mqtt example_service)"
    using example_service_state by (simp_all add: example_state_def registry_ok_def)
  have "list_all quiet (example_poll (- 1) # example_poll (- 1) # replicate 2 (example_poll (- 1)))"
    by (simp add: example_quiet numeral_2_eq_2)
  from failed_publication_is_retried_once [OF ok this run(1,3) _ _ run(5)] run(4)
  have "health_result q = Some ESP_FAIL" "list_all (\<lambda>p. health_result p = None) ps"
    by (auto simp: example_service_def)
  moreover obtain a b where "ps = [a, b]" using run(2) by (auto simp: length_Suc_conv numeral_2_eq_2)
  ultimately show ?thesis using run(1,3) by (auto simp: numeral_eq_Suc)
qed

text \<open>
  C24. What the broker retains becomes current: once a health publication is accepted and the
  next one, if any, too, then without further events the polls stop publishing, and the last
  request was a health snapshot showing exactly the present state of every component, also when
  the success itself changed the state of the MQTT component.
\<close>

theorem retained_health_becomes_current:
  assumes "health_inv (sv_health s)" and "health_mutex (sv_health s)" and "mqtt_connected (sv_mqtt s)"
    and "list_all quiet (e # f # es)" and "health_task_run period (e # f # es) s = (s', p # q # ps)"
    and "health_result p = Some ESP_OK" and "health_result q \<in> {None, Some ESP_OK}"
    and "list_all (\<lambda>p. \<not> heartbeat_was_due p) (q # ps)" and "length (cstr (sv_device_id s)) \<le> 63"
  shows "list_all (\<lambda>p. health_result p = None) ps \<and> retained_view s' (component_state s')"
proof -
  have quiet: "quiet e" "quiet f" "list_all quiet es" and s: "registry_ok s"
    using assms(1,2,4) by (simp_all add: registry_ok_def)
  obtain t u where poll: "health_task_poll period e s = (t, p)" "health_task_poll period f t = (u, q)"
      and run: "health_task_run period es u = (s', ps)"
    using assms(5) by (auto split: prod.splits)
  have t: "service_settled t" using poll_settled [OF quiet(1) s assms(3) poll(1)] .
  have "retained_view u (component_state u) \<and> service_idle u"
  proof (cases "retained_view t (component_state t) \<and> service_idle t")
    case True
    then show ?thesis
      using settled_poll [OF quiet(2) t poll(2)] assms(8) by (auto simp: service_idle_def retained_view_def)
  next
    case False
    then have changed: "\<not> health_retry_pending t" "last_attempted_revision t \<noteq> rev_of t" "component_state t ! 3 = mqtt_entry True"
        "sv_device_id t = sv_device_id s"
      using accepted_poll [OF quiet(1) s assms(3) poll(1) assms(6) assms(9)] by auto
    then have "health_result q = Some ESP_OK"
      using settled_poll [OF quiet(2) t poll(2)] assms(7,8) by auto
    then show ?thesis
      using accepted_poll [OF quiet(2) _ _ poll(2)] t changed assms(9) by (auto simp: service_settled_def)
  qed
  then show ?thesis using idle_run [OF _ quiet(3) run] assms(8) by (auto simp: retained_view_def)
qed

theorem retained_health_becomes_current_witness:
  "\<exists>s' p q a. health_task_run 60 (replicate 3 (example_poll 1)) example_service = (s', [p, q, a]) \<and>
     health_result p = Some ESP_OK \<and> health_result a = None \<and> retained_view s' (component_state s')"
proof -
  obtain s' p q ps where run: "health_task_run 60 (example_poll 1 # example_poll 1 # replicate 1 (example_poll 1))
        example_service = (s', p # q # ps)" "length ps = 1" "health_result p = Some ESP_OK" "health_result q \<in> {None, Some ESP_OK}"
      "list_all (\<lambda>p. \<not> heartbeat_was_due p) (q # ps)"
    using example_outcomes [of ESP_OK 1 1, OF sym [OF if_not_P]] by fastforce
  have ok: "health_inv (sv_health example_service)" "health_mutex (sv_health example_service)" "mqtt_connected (sv_mqtt example_service)"
      "length (cstr (sv_device_id example_service)) \<le> 63"
    using example_service_state by (simp_all add: example_state_def registry_ok_def)
  have "list_all quiet (example_poll 1 # example_poll 1 # replicate 1 (example_poll 1))"
    by (simp add: example_quiet)
  from retained_health_becomes_current [OF ok(1-3) this run(1,3,4,5) ok(4)]
  have "list_all (\<lambda>p. health_result p = None) ps" "retained_view s' (component_state s')" by auto
  moreover obtain a where "ps = [a]" using run(2) by (auto simp: length_Suc_conv)
  ultimately show ?thesis using run(1,3) by (auto simp: numeral_eq_Suc)
qed

text \<open>
  C33. The device announces itself once for each connection: a poll publishes the online
  availability exactly if the generation of the connection has changed, so on one connection
  only the first poll does, whatever comes of that publication.
\<close>

theorem online_is_announced_once_per_connection:
  assumes "health_inv (sv_health s)" and "health_mutex (sv_health s)" and "mqtt_connected (sv_mqtt s)"
    and "list_all quiet (e # es)" and "health_task_run period (e # es) s = (s', p # ps)"
  shows "(availability_result p \<noteq> None) = (mqtt_connection_generation (sv_mqtt s) \<noteq> last_connection_generation s) \<and>
    list_all (\<lambda>p. availability_result p = None) ps"
proof -
  have quiet: "quiet e" "list_all quiet es" and s: "registry_ok s"
    using assms(1,2,4) by (simp_all add: registry_ok_def)
  obtain t where poll: "health_task_poll period e s = (t, p)" and run: "health_task_run period es t = (s', ps)"
    using assms(5) by (auto split: prod.splits)
  have "(availability_result p \<noteq> None) = (connection_generation (sv_mqtt s) \<noteq> last_connection_generation s)"
    by (rule poll_effect [OF quiet(1) s assms(3) poll]) simp
  then show ?thesis
    using settled_announces_nothing [OF poll_settled [OF quiet(1) s assms(3) poll] quiet(2) run]
    by (simp add: mqtt_connection_generation_def)
qed

theorem online_is_announced_once_per_connection_witness:
  "\<exists>s' p q. health_task_run 60 (replicate 2 (example_poll (- 1))) example_service = (s', [p, q]) \<and>
     availability_result p \<noteq> None \<and> availability_result q = None"
proof -
  obtain s' p q ps where run: "health_task_run 60 (example_poll (- 1) # example_poll (- 1) # replicate 0 (example_poll (- 1)))
        example_service = (s', p # q # ps)" "length ps = 0"
    using example_outcomes [OF refl, of "- 1" 0] by blast
  have ok: "health_inv (sv_health example_service)" "health_mutex (sv_health example_service)" "mqtt_connected (sv_mqtt example_service)"
    using example_service_state by (simp_all add: example_state_def registry_ok_def)
  have "list_all quiet (example_poll (- 1) # example_poll (- 1) # replicate 0 (example_poll (- 1)))"
    by (simp add: example_quiet)
  from online_is_announced_once_per_connection [OF ok this run(1)] run show ?thesis
    by (auto simp: example_service_def initial_mqtt_def mqtt_connection_generation_def numeral_2_eq_2)
qed

end
