(* ===== verification/App_Main.thy ===== *)
theory App_Main
  imports Serial_Recovery Wifi Telemetry Device_Health_Service Provisioning_State Diagnostic_Log
begin

text \<open>
  The boot sequence (\<^verbatim>\<open>app_main.c\<close>): from the storage over the choice of the configuration
  to the operational tasks, with the checks a candidate has to pass, and the task that closes
  the maintenance window. The provisioning web service is represented by its results.
\<close>

section \<open>State and inputs\<close>

text \<open>What the sequence does to the outside, in order.\<close>

datatype app_event =
    Recovery_started
  | Setup_code_printed
  | Provisioning_started
  | Maintenance_started
  | Mqtt_created esp_mqtt_client_config
  | Rolled_back string esp_err
  | Activated esp_err
  | Provisioning_stopped esp_err
  | Softap_closed esp_err
  | Telemetry_started
  | Health_started

text \<open>How the sequence ends; \<open>Aborted\<close> is a failed \<^verbatim>\<open>ESP_ERROR_CHECK\<close>, which restarts the device.\<close>

datatype boot_outcome = Recovery_only | Unprovisioned | Restarted | Aborted | Degraded | Operational

text \<open>
  The components, each with its own state, and the statics of the file. The health service
  holds the registry, the clock and the MQTT client that it shares with the others.
\<close>

record ('s, 'd, 'v) app =
  app_device :: "'s device"
  app_configuration :: device_config
  app_machine :: "provisioning_state_machine option"
  app_secret :: carray
  app_recovery :: bool
  app_log :: "'v log_system"
  app_wifi :: wifi
  app_service :: health_service
  app_i2c :: bool
  app_sensor :: "'d sensor"
  app_input :: machine_status_module
  app_telemetry :: telemetry_task
  app_events :: "app_event list"

text \<open>The answers of the SDK, and what other tasks do to the store while the sequence waits.\<close>

record boot_inputs =
  recovery_created :: bool
  health_mutex_created :: bool
  state_mutex_created :: bool
  state_taken :: bool
  boot_ms :: u64
  wifi_answers :: wifi_platform
  provisioning_start_result :: esp_err
  maintenance_created :: bool
  station_events :: "wifi_event list"
  store_operations :: "operation list"
  sntp_init_result :: esp_err
  sntp_wait_result :: esp_err
  sntp_synced :: bool
  mqtt_answers :: mqtt_platform
  mqtt_events :: "mqtt_event list"
  provisioning_stop_result :: esp_err
  softap_mode_result :: esp_err
  i2c_result :: esp_err
  gpio_answer :: "gpio_configuration \<Rightarrow> esp_err"
  registry_taken :: bool
  telemetry_created :: bool
  health_created :: bool

definition emit :: "app_event \<Rightarrow> ('s, 'd, 'v) app \<Rightarrow> ('s, 'd, 'v) app" where
  "emit ev s = s\<lparr>app_events := app_events s @ [ev]\<rparr>"

definition esp_error_check ::
  "esp_err \<Rightarrow> (('s, 'd, 'v) app \<Rightarrow> boot_outcome \<times> ('s, 'd, 'v) app) \<Rightarrow> ('s, 'd, 'v) app
     \<Rightarrow> boot_outcome \<times> ('s, 'd, 'v) app" where
  "esp_error_check result continue s = (if result \<noteq> ESP_OK then (Aborted, s) else continue s)"

definition monotonic_ms :: "int \<Rightarrow> u64" where
  "monotonic_ms time_us = word_of_int (time_us sdiv 1000)"

section \<open>The sequence\<close>

definition restart_after_candidate_failure ::
  "'s platform \<Rightarrow> string \<Rightarrow> ('s, 'd, 'v) app \<Rightarrow> boot_outcome \<times> ('s, 'd, 'v) app" where
  "restart_after_candidate_failure P why s =
     (let (result, d) = device_config_rollback_candidate P (Some why) (app_device s)
      in (Restarted, emit (Rolled_back why result) (s\<lparr>app_device := power_cycle P d\<rparr>)))"

definition update_component ::
  "boot_inputs \<Rightarrow> device_health_component \<Rightarrow> device_health_component_status \<Rightarrow> device_health_error
     \<Rightarrow> ('s, 'd, 'v) app \<Rightarrow> ('s, 'd, 'v) app" where
  "update_component e c st err s =
     s\<lparr>app_service := on_health (\<lambda>h. snd (device_health_update_component (registry_taken e) c st err None h)) (app_service s)\<rparr>"

text \<open>\<open>None\<close>: the check of the bus failed.\<close>

definition start_operational_hardware ::
  "'d i2c_master \<Rightarrow> boot_inputs \<Rightarrow> ('s, 'd, 'v) app \<Rightarrow> ('s, 'd, 'v) app option" where
  "start_operational_hardware io e s =
     (let (bus_result, bus) = app_i2c_bus_init (i2c_result e) (app_i2c s); s = s\<lparr>app_i2c := bus\<rparr> in
      if bus_result \<noteq> ESP_OK then None
      else let (sensor_result, sensor) = sensor_init io (app_i2c_bus_get_handle bus) (app_sensor s);
          s = s\<lparr>app_sensor := sensor\<rparr>;
          s = (if sensor_result \<noteq> ESP_OK
               then update_component e DEVICE_HEALTH_COMPONENT_SENSOR DEVICE_HEALTH_COMPONENT_FAULT
                      DEVICE_HEALTH_ERROR_NOT_INITIALIZED s
               else update_component e DEVICE_HEALTH_COMPONENT_SENSOR DEVICE_HEALTH_COMPONENT_HEALTHY
                      DEVICE_HEALTH_ERROR_NONE s);
          (machine_result, input, _) = machine_status_init (gpio_answer e) (Some (app_configuration s)) (app_input s);
          s = s\<lparr>app_input := input\<rparr>
      in Some (if machine_result = ESP_OK
           then update_component e DEVICE_HEALTH_COMPONENT_MACHINE_STATUS
             (if machine_status_is_enabled input then DEVICE_HEALTH_COMPONENT_HEALTHY else DEVICE_HEALTH_COMPONENT_UNKNOWN)
             DEVICE_HEALTH_ERROR_NONE s
           else update_component e DEVICE_HEALTH_COMPONENT_MACHINE_STATUS DEVICE_HEALTH_COMPONENT_FAULT
             DEVICE_HEALTH_ERROR_MACHINE_STATUS_UNAVAILABLE s))"

text \<open>The end of the sequence: the hardware and the two tasks.\<close>

definition start_tasks ::
  "'d i2c_master \<Rightarrow> boot_inputs \<Rightarrow> ('s, 'd, 'v) app \<Rightarrow> boot_outcome \<times> ('s, 'd, 'v) app" where
  "start_tasks io e s =
     (case start_operational_hardware io e s of None \<Rightarrow> (Aborted, s) | Some s \<Rightarrow>
      let (result, t) = telemetry_start (telemetry_created e) (Some (device_id (app_configuration s)))
            (telemetry_interval_seconds (app_configuration s)) (app_telemetry s);
          s = s\<lparr>app_telemetry := t\<rparr>
      in esp_error_check result (\<lambda>s.
        let s = emit Telemetry_started s;
            (result, h) = device_health_service_start (health_created e) (Some (device_id (app_configuration s))) (app_service s);
            s = s\<lparr>app_service := h\<rparr>
        in esp_error_check result (\<lambda>s. (Operational, emit Health_started s)) s) s)"

text \<open>A candidate that passed its checks becomes active; then the setup network closes unless it is to stay.\<close>

definition activate ::
  "'s platform \<Rightarrow> boot_inputs \<Rightarrow> (('s, 'd, 'v) app \<Rightarrow> boot_outcome \<times> ('s, 'd, 'v) app)
     \<Rightarrow> ('s, 'd, 'v) app \<Rightarrow> boot_outcome \<times> ('s, 'd, 'v) app" where
  "activate P e continue s =
     (let (result, d) = device_config_activate_candidate P (Some (app_configuration s)) (app_device s);
          s = emit (Activated result) (s\<lparr>app_device := d\<rparr>)
      in esp_error_check result (\<lambda>s.
        if \<not> maintenance_on_boot (app_configuration s)
        then let s = emit (Provisioning_stopped (provisioning_stop_result e)) s;
            (result, w) = wifi_disable_softap (softap_mode_result e) (app_wifi s)
          in continue (emit (Softap_closed result) (s\<lparr>app_wifi := w\<rparr>))
        else continue s) s)"

text \<open>The MQTT client, for a candidate with the wait for its connection.\<close>

definition start_mqtt ::
  "'s platform \<Rightarrow> 'd i2c_master \<Rightarrow> boot_inputs \<Rightarrow> bool \<Rightarrow> ('s, 'd, 'v) app \<Rightarrow> boot_outcome \<times> ('s, 'd, 'v) app" where
  "start_mqtt P io e candidate s =
     (let (mqtt_result, m, cfg) = mqtt_init (p_x509 P) (mqtt_answers e) (Some (app_configuration s)) (sv_mqtt (app_service s));
          s = (case cfg of None \<Rightarrow> s | Some c \<Rightarrow> emit (Mqtt_created c) s);
          (mqtt_result, m) = (if mqtt_result = ESP_OK \<and> candidate
             then let m = fold (mqtt_event_handler True) (mqtt_events e) m in (mqtt_wait_connected m, m)
             else (mqtt_result, m));
          s = s\<lparr>app_service := (app_service s)\<lparr>sv_mqtt := m\<rparr>\<rparr>
      in if candidate \<and> mqtt_result \<noteq> ESP_OK
         then restart_after_candidate_failure P ''authenticated MQTT connection failed'' s
      else if mqtt_result \<noteq> ESP_OK then (Degraded, s)
      else if candidate then activate P e (start_tasks io e) s
      else start_tasks io e s)"

text \<open>The wait for the station and for the clock. Other tasks use the store meanwhile.\<close>

definition connect ::
  "'s platform \<Rightarrow> 'd i2c_master \<Rightarrow> boot_inputs \<Rightarrow> bool \<Rightarrow> ('s, 'd, 'v) app \<Rightarrow> boot_outcome \<times> ('s, 'd, 'v) app" where
  "connect P io e candidate s =
     (let s = s\<lparr>app_wifi := fst (wifi_events (station_events e) (app_wifi s)),
              app_device := fold (config_step P) (store_operations e) (app_device s)\<rparr>
      in if wifi_wait_for_station (app_wifi s) \<noteq> ESP_OK \<and> candidate
         then restart_after_candidate_failure P ''station connection timed out'' s
      else let (time_result, time) = system_time_init (sntp_init_result e) (sntp_wait_result e) (sntp_synced e)
            (sv_time (app_service s));
          s = s\<lparr>app_service := (app_service s)\<lparr>sv_time := time\<rparr>\<rparr>
      in if candidate \<and> (time_result \<noteq> ESP_OK \<or> \<not> system_time_is_valid (sv_time (app_service s)))
         then restart_after_candidate_failure P ''SNTP validation timed out'' s
      else start_mqtt P io e candidate s)"

text \<open>The provisioning service, and for a configured device the task that closes its window.\<close>

definition open_provisioning ::
  "boot_inputs \<Rightarrow> bool \<Rightarrow> bool \<Rightarrow> ('s, 'd, 'v) app \<Rightarrow> esp_err \<times> ('s, 'd, 'v) app" where
  "open_provisioning e expose_provisioning is_configured s =
     (if \<not> expose_provisioning then (ESP_OK, s)
      else if provisioning_start_result e \<noteq> ESP_OK then (provisioning_start_result e, s)
      else let s = emit Provisioning_started s in
        if \<not> is_configured then (ESP_OK, s)
        else if \<not> maintenance_created e then (ESP_ERR_NO_MEM, s)
        else (ESP_OK, emit Maintenance_started s))"

text \<open>The radio and the provisioning interface.\<close>

definition start_network ::
  "'s platform \<Rightarrow> 'd i2c_master \<Rightarrow> boot_inputs \<Rightarrow> bool \<Rightarrow> bool \<Rightarrow> ('s, 'd, 'v) app \<Rightarrow> boot_outcome \<times> ('s, 'd, 'v) app" where
  "start_network P io e is_configured candidate s =
     (let expose_provisioning = (\<not> is_configured \<or> candidate \<or> maintenance_on_boot (app_configuration s));
          machine = provisioning_state_configuration_loaded (state_taken e) is_configured expose_provisioning (boot_ms e)
            (if is_configured then maintenance_window_seconds (app_configuration s) else 0)
            (if is_configured then maintenance_max_session_seconds (app_configuration s) else 0) (app_machine s);
          s = s\<lparr>app_machine := machine\<rparr>;
          (result, w) = wifi_init_runtime (wifi_answers e) (if is_configured then Some (app_configuration s) else None)
            expose_provisioning (Some (app_secret s)) (app_wifi s);
          s = s\<lparr>app_wifi := w\<rparr>
      in esp_error_check result (\<lambda>s.
        let (result, s) = open_provisioning e expose_provisioning is_configured s in
        esp_error_check result (\<lambda>s.
          if \<not> is_configured then (Unprovisioned, s) else connect P io e candidate s) s) s)"

text \<open>The choice of the configuration, once the setup secret is known.\<close>

definition choose_configuration ::
  "'s platform \<Rightarrow> 'd i2c_master \<Rightarrow> boot_inputs \<Rightarrow> ('s, 'd, 'v) app \<Rightarrow> boot_outcome \<times> ('s, 'd, 'v) app" where
  "choose_configuration P io e s =
     (let (log_result, l) = diagnostic_log_init (app_log s); s = s\<lparr>app_log := l\<rparr> in
      esp_error_check log_result (\<lambda>s.
        let (health_result, h) = device_health_init (health_mutex_created e) (sv_health (app_service s));
            s = s\<lparr>app_service := (app_service s)\<lparr>sv_health := h\<rparr>\<rparr>
        in esp_error_check health_result (\<lambda>s.
          let s = s\<lparr>app_machine := provisioning_state_init (state_mutex_created e) (app_machine s)\<rparr>;
              (out, configuration_result, d) = device_config_load_for_boot P
                (Some (app_configuration s, False, zero_metadata)) (app_device s);
              b = the out;
              s = s\<lparr>app_device := d, app_configuration := boot_config b\<rparr>
          in start_network P io e (configuration_result = ESP_OK) (using_candidate b) s) s) s)"

definition app_main ::
  "'s platform \<Rightarrow> 'd i2c_master \<Rightarrow> boot_inputs \<Rightarrow> ('s, 'd, 'v) app \<Rightarrow> boot_outcome \<times> ('s, 'd, 'v) app" where
  "app_main P io e s =
     (let (storage_result, d) = device_config_storage_init P (app_device s); s = s\<lparr>app_device := d\<rparr> in
      if storage_result \<noteq> ESP_OK
      then let (log_result, l) = diagnostic_log_init (app_log s); s = s\<lparr>app_log := l\<rparr> in
        esp_error_check log_result (\<lambda>s.
          let (result, r) = serial_recovery_start (recovery_created e) (app_recovery s); s = s\<lparr>app_recovery := r\<rparr>
          in esp_error_check result (\<lambda>s. (Recovery_only, emit Recovery_started s)) s) s
      else let (result, r) = serial_recovery_start (recovery_created e) (app_recovery s); s = s\<lparr>app_recovery := r\<rparr>
      in esp_error_check result (\<lambda>s.
        let s = emit Recovery_started s;
            ((setup_secret_result, out), d) = device_config_get_or_create_setup_secret P (Some (app_secret s, False)) (app_device s);
            (secret, generated) = the out;
            s = s\<lparr>app_device := d, app_secret := secret\<rparr>
        in if setup_secret_result \<noteq> ESP_OK then (Recovery_only, s)
           else choose_configuration P io e (if generated then emit Setup_code_printed s else s)) s)"

section \<open>The maintenance window\<close>

text \<open>The outcome of taking the mutex and the time at each tick, and the results of the attempts to stop.\<close>

record maintenance_inputs =
  ticks :: "(bool \<times> u64) list"
  stop_results :: "esp_err list"
  close_result :: esp_err

text \<open>Whether the window has closed at one of the ticks.\<close>

fun maintenance_wait ::
  "(bool \<times> u64) list \<Rightarrow> provisioning_state_machine option \<Rightarrow> bool \<times> provisioning_state_machine option" where
  "maintenance_wait [] machine = (False, machine)"
| "maintenance_wait ((taken, now_ms) # ts) machine =
     (let (still_open, machine) = provisioning_state_tick taken now_ms machine in
      if still_open then maintenance_wait ts machine else (True, machine))"

text \<open>The attempts that follow a first one that timed out, up to the first that does not.\<close>

fun stop_again :: "esp_err list \<Rightarrow> esp_err list \<times> bool" where
  "stop_again [] = ([], False)"
| "stop_again (r # rs) =
     (if r = ESP_ERR_TIMEOUT then let (attempts, ended) = stop_again rs in (r # attempts, ended) else ([r], True))"

text \<open>The first component says whether the task has ended within the inputs.\<close>

definition maintenance_task :: "maintenance_inputs \<Rightarrow> ('s, 'd, 'v) app \<Rightarrow> bool \<times> ('s, 'd, 'v) app" where
  "maintenance_task e s =
     (let (closed, machine) = maintenance_wait (ticks e) (app_machine s); s = s\<lparr>app_machine := machine\<rparr> in
      if \<not> closed then (False, s)
      else case stop_results e of [] \<Rightarrow> (False, s) | r # rs \<Rightarrow>
        let s = emit (Provisioning_stopped r) s in
        if r = ESP_ERR_TIMEOUT
        then let (result, w) = wifi_disable_softap (close_result e) (app_wifi s);
            s = emit (Softap_closed result) (s\<lparr>app_wifi := w\<rparr>);
            (attempts, ended) = stop_again rs
          in (ended, fold (\<lambda>r. emit (Provisioning_stopped r)) attempts s)
        else let (result, w) = wifi_disable_softap (close_result e) (app_wifi s)
          in (True, emit (Softap_closed result) (s\<lparr>app_wifi := w\<rparr>)))"

end
