(* ===== verification/App_Effects.thy ===== *)
theory App_Effects
  imports App_Main Config_Progress
begin

text \<open>
  What the parts of the boot sequence of \<open>App_Main\<close> do: which events each can add, how a
  candidate is decided, which state a task runs on, and that a candidate for which everything
  works passes every step.
\<close>

section \<open>The events of each part\<close>

text \<open>Only events of \<open>A\<close> are added.\<close>

definition adds :: "app_event set \<Rightarrow> ('s, 'd, 'v) app \<Rightarrow> ('s, 'd, 'v) app \<Rightarrow> bool" where
  "adds A s s' \<longleftrightarrow> (\<exists>evs. app_events s' = app_events s @ evs \<and> set evs \<subseteq> A)"

lemma emit_fields [simp]:
  "app_events (emit ev s) = app_events s @ [ev]" "app_device (emit ev s) = app_device s"
  "app_configuration (emit ev s) = app_configuration s" "app_machine (emit ev s) = app_machine s"
  "app_wifi (emit ev s) = app_wifi s" "app_service (emit ev s) = app_service s" "app_telemetry (emit ev s) = app_telemetry s"
  "app_secret (emit ev s) = app_secret s" "app_sensor (emit ev s) = app_sensor s" "app_input (emit ev s) = app_input s"
  "app_i2c (emit ev s) = app_i2c s" "app_log (emit ev s) = app_log s" "app_recovery (emit ev s) = app_recovery s"
  by (simp_all add: emit_def)

lemma update_component_fields [simp]:
  "app_events (update_component e c st err s) = app_events s" "app_device (update_component e c st err s) = app_device s"
  "app_configuration (update_component e c st err s) = app_configuration s" "app_wifi (update_component e c st err s) = app_wifi s"
  by (simp_all add: update_component_def)

lemma hardware_fields:
  "start_operational_hardware io e s = Some t \<Longrightarrow>
   app_events t = app_events s \<and> app_configuration t = app_configuration s \<and> app_wifi t = app_wifi s \<and> app_device t = app_device s"
  by (auto simp: start_operational_hardware_def Let_def split: if_splits prod.splits)

lemma start_tasks_effect:
  assumes "start_tasks io e s = (outcome, s')"
  shows "app_configuration s' = app_configuration s \<and>
    (outcome = Operational \<and> app_events s' = app_events s @ [Telemetry_started, Health_started] \<or>
     outcome = Aborted \<and> (app_events s' = app_events s \<or> app_events s' = app_events s @ [Telemetry_started]))"
proof (cases "start_operational_hardware io e s")
  case None
  then show ?thesis using assms by (simp add: start_tasks_def)
next
  case (Some t)
  then show ?thesis
    using assms hardware_fields [OF Some]
    by (auto simp: start_tasks_def esp_error_check_def Let_def split: if_splits prod.splits)
qed

lemma activate_effect:
  assumes "activate P e (start_tasks io e) s = (outcome, s')"
  obtains r evs where "app_events s' = app_events s @ Activated r # evs" "r \<noteq> ESP_OK \<Longrightarrow> outcome = Aborted \<and> evs = []"
    "outcome = Operational \<or> outcome = Aborted" "\<forall>why q. Rolled_back why q \<notin> set evs" "\<forall>q. Activated q \<notin> set evs"
    "outcome = Operational \<Longrightarrow> \<exists>xs. evs = xs @ [Telemetry_started, Health_started]"
    "app_configuration s' = app_configuration s"
proof -
  obtain r d where act: "device_config_activate_candidate P (Some (app_configuration s)) (app_device s) = (r, d)" by fastforce
  let ?s = "emit (Activated r) (s\<lparr>app_device := d\<rparr>)"
  obtain q w where w: "wifi_disable_softap (softap_mode_result e) (app_wifi s) = (q, w)" by fastforce
  show thesis
  proof (cases "r = ESP_OK")
    case False
    then have "outcome = Aborted" "s' = ?s" using assms act by (simp_all add: activate_def esp_error_check_def)
    then show thesis using False by (intro that [of r "[]"]) simp_all
  next
    case True
    obtain t where t: "start_tasks io e t = (outcome, s')" "app_configuration t = app_configuration s"
        "app_events t = app_events s @ Activated r # (if maintenance_on_boot (app_configuration s) then []
           else [Provisioning_stopped (provisioning_stop_result e), Softap_closed q])"
      using assms act True w
      by (cases "maintenance_on_boot (app_configuration s)") (auto simp: activate_def esp_error_check_def Let_def)
    from start_tasks_effect [OF t(1)] show thesis
      using t(2,3) True
      by (elim conjE disjE; intro that [of r "drop (Suc (length (app_events s))) (app_events s')"]) (auto split: if_splits)
  qed
qed

lemma activate_events:
  assumes "activate P e (start_tasks io e) s = (outcome, s')"
  shows "\<exists>r evs. app_events s' = app_events s @ Activated r # evs \<and> (r \<noteq> ESP_OK \<longrightarrow> outcome = Aborted \<and> evs = []) \<and>
    (outcome = Operational \<or> outcome = Aborted) \<and> (\<forall>why q. Rolled_back why q \<notin> set evs) \<and>
    (outcome = Operational \<longrightarrow> (\<exists>xs. evs = xs @ [Telemetry_started, Health_started]))"
proof (rule activate_effect [OF assms], goal_cases)
  case (1 r evs)
  then show ?case by (intro exI [of _ r] exI [of _ evs]) simp
qed

section \<open>What a candidate has to pass\<close>

text \<open>The station is connected when the wait ends, the clock synchronised, the client connected.\<close>

definition station_works :: "boot_inputs \<Rightarrow> bool" where
  "station_works e \<longleftrightarrow> fold station_up (station_events e) False"

definition clock_works :: "boot_inputs \<Rightarrow> bool" where
  "clock_works e \<longleftrightarrow> sntp_init_result e = ESP_OK \<and> sntp_wait_result e = ESP_OK \<and> sntp_synced e"

definition broker_works :: "boot_inputs \<Rightarrow> bool" where
  "broker_works e \<longleftrightarrow> fold up_after (mqtt_events e) False"

text \<open>How a candidate's boot may go on: rolled back and restarted, or activated, after which it may abort.\<close>

definition candidate_ending :: "boot_inputs \<Rightarrow> boot_outcome \<Rightarrow> app_event list \<Rightarrow> bool" where
  "candidate_ending e outcome evs \<longleftrightarrow>
     (\<exists>xs why q. outcome = Restarted \<and> evs = xs @ [Rolled_back why q] \<and>
        (\<forall>r. Activated r \<notin> set xs) \<and> Telemetry_started \<notin> set xs \<and> Health_started \<notin> set xs) \<or>
     (\<exists>c r ys. station_works e \<and> clock_works e \<and> broker_works e \<and> evs = Mqtt_created c # Activated r # ys \<and>
        (\<forall>why q. Rolled_back why q \<notin> set ys) \<and>
        (r \<noteq> ESP_OK \<longrightarrow> outcome = Aborted \<and> ys = []) \<and> outcome \<in> {Operational, Aborted} \<and>
        (outcome = Operational \<longrightarrow> (\<exists>zs. ys = zs @ [Telemetry_started, Health_started])))"

lemma rollback_ending:
  assumes "restart_after_candidate_failure P why s = (outcome, s')"
  shows "outcome = Restarted \<and> (\<exists>q. app_events s' = app_events s @ [Rolled_back why q]) \<and> app_configuration s' = app_configuration s"
  using assms by (auto simp: restart_after_candidate_failure_def split: prod.splits)

lemma start_mqtt_candidate:
  assumes "start_mqtt P io e True s = (outcome, s')" and "sv_mqtt (app_service s) = initial_mqtt"
    and "station_works e" and "clock_works e"
  shows "\<exists>evs. app_events s' = app_events s @ evs \<and> candidate_ending e outcome evs"
proof -
  obtain r m cfg where init: "mqtt_init (p_x509 P) (mqtt_answers e) (Some (app_configuration s)) initial_mqtt = (r, m, cfg)"
    by (metis prod_cases3)
  let ?s = "case cfg of None \<Rightarrow> s | Some c \<Rightarrow> emit (Mqtt_created c) s"
  have ev: "app_events ?s = app_events s @ (case cfg of None \<Rightarrow> [] | Some c \<Rightarrow> [Mqtt_created c])"
    by (simp split: option.splits)
  let ?m = "if r = ESP_OK then fold (mqtt_event_handler True) (mqtt_events e) m else m"
  let ?r = "if r = ESP_OK then mqtt_wait_connected ?m else r"
  let ?t = "?s\<lparr>app_service := (app_service ?s)\<lparr>sv_mqtt := ?m\<rparr>\<rparr>"
  have eq: "start_mqtt P io e True s =
      (if ?r \<noteq> ESP_OK then restart_after_candidate_failure P ''authenticated MQTT connection failed'' ?t
       else activate P e (start_tasks io e) ?t)"
    using assms(2) init by (simp add: start_mqtt_def Let_def)
  show ?thesis
  proof (cases "?r = ESP_OK")
    case False
    then have "restart_after_candidate_failure P ''authenticated MQTT connection failed'' ?t = (outcome, s')"
      using assms(1) eq by argo
    from rollback_ending [OF this] ev show ?thesis
      by (auto simp: candidate_ending_def split: option.splits)
  next
    case True
    then have ok: "r = ESP_OK" by (auto split: if_splits)
    obtain c where c: "cfg = Some c"
      using init ok by (auto simp: mqtt_init_def Let_def split: if_splits prod.splits)
    have "connection_state m False 0 []" using init_connection init ok c by blast
    from connection_run [OF this, of "mqtt_events e"] True ok have "broker_works e"
      by (auto simp: connection_state_def broker_works_def mqtt_wait_connected_def split: if_splits)
    moreover have "activate P e (start_tasks io e) ?t = (outcome, s')" using assms(1) eq True by argo
    from activate_events [OF this] obtain q evs where "app_events s' = app_events ?t @ Activated q # evs"
        "q \<noteq> ESP_OK \<longrightarrow> outcome = Aborted \<and> evs = []" "outcome = Operational \<or> outcome = Aborted"
        "\<forall>why q. Rolled_back why q \<notin> set evs"
        "outcome = Operational \<longrightarrow> (\<exists>xs. evs = xs @ [Telemetry_started, Health_started])"
      by blast
    ultimately show ?thesis
      using assms(3,4) ev c by (auto simp: candidate_ending_def)
  qed
qed

lemma connect_candidate:
  assumes "connect P io e True s = (outcome, s')" and "sv_mqtt (app_service s) = initial_mqtt"
    and "wifi_inv (app_wifi s)" and "\<not> station_connected (app_wifi s)" and "\<not> sv_time (app_service s)"
  shows "\<exists>evs. app_events s' = app_events s @ evs \<and> candidate_ending e outcome evs"
proof -
  obtain w n where w: "wifi_events (station_events e) (app_wifi s) = (w, n)" by fastforce
  have "wifi_wait_for_station w = (if station_works e then ESP_OK else ESP_ERR_TIMEOUT)"
    using events_effect [OF assms(3) w] assms(4) by (auto simp: wifi_inv_def wifi_wait_for_station_def station_works_def)
  then have station: "(wifi_wait_for_station w = ESP_OK) = station_works e" by simp
  let ?s = "s\<lparr>app_wifi := w, app_device := fold (config_step P) (store_operations e) (app_device s)\<rparr>"
  obtain r v where v: "system_time_init (sntp_init_result e) (sntp_wait_result e) (sntp_synced e) (sv_time (app_service s)) = (r, v)"
    by fastforce
  have clock: "(r = ESP_OK \<and> system_time_is_valid v) = clock_works e"
    using v assms(5) by (auto simp: system_time_init_def clock_works_def system_time_is_valid_def time_sync_notification_cb_def
        split: if_splits)
  let ?t = "?s\<lparr>app_service := (app_service s)\<lparr>sv_time := v\<rparr>\<rparr>"
  have eq: "connect P io e True s =
      (if wifi_wait_for_station w \<noteq> ESP_OK then restart_after_candidate_failure P ''station connection timed out'' ?s
       else if \<not> (r = ESP_OK \<and> system_time_is_valid v) then restart_after_candidate_failure P ''SNTP validation timed out'' ?t
       else start_mqtt P io e True ?t)"
    using v w by (simp add: connect_def Let_def)
  have stop: ?thesis if "restart_after_candidate_failure P why u = (outcome, s')" "app_events u = app_events s" for why u
    using rollback_ending [OF that(1)] that(2) by (auto simp: candidate_ending_def)
  show ?thesis
  proof (cases "station_works e")
    case False
    then have "restart_after_candidate_failure P ''station connection timed out'' ?s = (outcome, s')"
      using assms(1) unfolding eq station [symmetric] by simp
    then show ?thesis by (rule stop) simp
  next
    case station_ok: True
    show ?thesis
    proof (cases "clock_works e")
      case False
      then have "restart_after_candidate_failure P ''SNTP validation timed out'' ?t = (outcome, s')"
        using assms(1) by (simp only: eq station clock station_ok False if_False if_True simp_thms)
      then show ?thesis by (rule stop) simp
    next
      case True
      then have "start_mqtt P io e True ?t = (outcome, s')"
        using assms(1) by (simp only: eq station clock station_ok True if_False if_True simp_thms)
      from start_mqtt_candidate [OF this _ station_ok True] assms(2) show ?thesis by simp
    qed
  qed
qed

section \<open>The whole sequence\<close>

text \<open>The state of the radio, the clock and the client at power-on, and no event yet.\<close>

definition fresh :: "('s, 'd, 'v) app \<Rightarrow> bool" where
  "fresh s \<longleftrightarrow> app_wifi s = initial_wifi \<and> sv_mqtt (app_service s) = initial_mqtt \<and> \<not> sv_time (app_service s)"

text \<open>Without a candidate nothing is activated or rolled back.\<close>

definition quiet_events :: "app_event set" where
  "quiet_events = {ev. (\<forall>r. ev \<noteq> Activated r) \<and> (\<forall>why q. ev \<noteq> Rolled_back why q)}"

lemma start_tasks_quiet: "start_tasks io e s = (outcome, s') \<Longrightarrow> adds quiet_events s s'"
  using start_tasks_effect [of io e s outcome s'] by (auto simp: adds_def quiet_events_def)

lemma start_mqtt_active: "start_mqtt P io e False s = (outcome, s') \<Longrightarrow> adds quiet_events s s'"
proof -
  assume "start_mqtt P io e False s = (outcome, s')"
  moreover obtain r m cfg where init: "mqtt_init (p_x509 P) (mqtt_answers e) (Some (app_configuration s)) (sv_mqtt (app_service s)) = (r, m, cfg)"
    by (metis prod_cases3)
  let ?s = "case cfg of None \<Rightarrow> s | Some c \<Rightarrow> emit (Mqtt_created c) s"
  have ev: "app_events ?s = app_events s @ (case cfg of None \<Rightarrow> [] | Some c \<Rightarrow> [Mqtt_created c])"
    by (simp split: option.splits)
  let ?t = "?s\<lparr>app_service := (app_service ?s)\<lparr>sv_mqtt := m\<rparr>\<rparr>"
  have eq: "start_mqtt P io e False s = (if r \<noteq> ESP_OK then (Degraded, ?t) else start_tasks io e ?t)"
    using init by (simp add: start_mqtt_def Let_def)
  ultimately consider "s' = ?t" | "start_tasks io e ?t = (outcome, s')" by (cases "r = ESP_OK") simp_all
  then show ?thesis
  proof cases
    case 1
    then show ?thesis using ev by (auto simp: adds_def quiet_events_def split: option.splits)
  next
    case 2
    from start_tasks_quiet [OF this] ev show ?thesis
      by (auto simp: adds_def quiet_events_def split: option.splits)
  qed
qed

lemma connect_active: "connect P io e False s = (outcome, s') \<Longrightarrow> adds quiet_events s s'"
  by (auto simp: connect_def Let_def adds_def dest!: start_mqtt_active split: prod.splits)

text \<open>The part before the connection: the network and the interface.\<close>

lemma open_provisioning_effect:
  "open_provisioning e expose is_configured s = (r, t) \<Longrightarrow>
   \<exists>pre. app_events t = app_events s @ pre \<and> set pre \<subseteq> {Provisioning_started, Maintenance_started} \<and>
     app_configuration t = app_configuration s \<and> app_service t = app_service s \<and> app_wifi t = app_wifi s"
  by (auto simp: open_provisioning_def Let_def split: if_splits)

lemma start_network_effect:
  assumes "start_network P io e is_configured candidate s = (outcome, s')"
  shows "\<exists>pre t. app_events t = app_events s @ pre \<and> set pre \<subseteq> {Provisioning_started, Maintenance_started} \<and>
    app_configuration t = app_configuration s \<and> app_service t = app_service s \<and>
    ((outcome = Aborted \<or> outcome = Unprovisioned \<and> \<not> is_configured) \<and> s' = t \<or>
     is_configured \<and> connect P io e candidate t = (outcome, s') \<and>
       (app_wifi s = initial_wifi \<longrightarrow> wifi_inv (app_wifi t) \<and> \<not> station_connected (app_wifi t)))"
proof -
  define expose where "expose = (\<not> is_configured \<or> candidate \<or> maintenance_on_boot (app_configuration s))"
  define machine where "machine = provisioning_state_configuration_loaded (state_taken e) is_configured expose (boot_ms e)
            (if is_configured then maintenance_window_seconds (app_configuration s) else 0)
            (if is_configured then maintenance_max_session_seconds (app_configuration s) else 0) (app_machine s)"
  let ?m = "s\<lparr>app_machine := machine\<rparr>"
  obtain r w where w: "wifi_init_runtime (wifi_answers e) (if is_configured then Some (app_configuration ?m) else None)
            expose (Some (app_secret ?m)) (app_wifi ?m) = (r, w)" by fastforce
  let ?s = "s\<lparr>app_machine := machine, app_wifi := w\<rparr>"
  obtain q t where t: "open_provisioning e expose is_configured ?s = (q, t)" by fastforce
  have eq: "start_network P io e is_configured candidate s =
      (if r \<noteq> ESP_OK then (Aborted, ?s) else if q \<noteq> ESP_OK then (Aborted, t)
       else if \<not> is_configured then (Unprovisioned, t) else connect P io e candidate t)"
    unfolding start_network_def Let_def expose_def [symmetric] machine_def [symmetric]
    by (simp only: w prod.case esp_error_check_def t)
  have inv: "wifi_inv w \<and> \<not> station_connected w" if "r = ESP_OK" "app_wifi s = initial_wifi"
    using started(1,3,4) [of "wifi_answers e" _ expose "Some (app_secret s)" initial_wifi w] w that
    by (simp add: wifi_inv_def initial_wifi_def CONFIG_WIFI_MAXIMUM_RETRY_def)
  note effect = open_provisioning_effect [OF t]
  show ?thesis
  proof (cases "r = ESP_OK")
    case False
    then show ?thesis using assms unfolding eq by (intro exI [of _ "[]"] exI [of _ ?s]) auto
  next
    case True
    then show ?thesis using assms effect inv unfolding eq by (auto split: if_splits)
  qed
qed

lemma choose_effect:
  assumes "choose_configuration P io e s = (outcome, s')"
  shows "outcome = Aborted \<and> app_events s' = app_events s \<or>
    (\<exists>is_configured candidate t. app_events t = app_events s \<and> app_wifi t = app_wifi s \<and>
       sv_mqtt (app_service t) = sv_mqtt (app_service s) \<and> sv_time (app_service t) = sv_time (app_service s) \<and>
       start_network P io e is_configured candidate t = (outcome, s'))"
proof -
  obtain a l where log: "diagnostic_log_init (app_log s) = (a, l)" by fastforce
  obtain b h where health: "device_health_init (health_mutex_created e) (sv_health (app_service s)) = (b, h)" by fastforce
  obtain out r d where load: "device_config_load_for_boot P (Some (app_configuration s, False, zero_metadata)) (app_device s) = (out, r, d)"
    by (metis prod_cases3)
  let ?t = "s\<lparr>app_log := l, app_service := (app_service s)\<lparr>sv_health := h\<rparr>,
    app_machine := provisioning_state_init (state_mutex_created e) (app_machine s), app_device := d,
    app_configuration := boot_config (the out)\<rparr>"
  have eq: "choose_configuration P io e s =
      (if a \<noteq> ESP_OK then (Aborted, s\<lparr>app_log := l\<rparr>)
       else if b \<noteq> ESP_OK then (Aborted, s\<lparr>app_log := l, app_service := (app_service s)\<lparr>sv_health := h\<rparr>\<rparr>)
       else start_network P io e (r = ESP_OK) (using_candidate (the out)) ?t)"
    by (simp add: choose_configuration_def log health load esp_error_check_def Let_def)
  show ?thesis
  proof (cases "a = ESP_OK \<and> b = ESP_OK")
    case True
    then have "start_network P io e (r = ESP_OK) (using_candidate (the out)) ?t = (outcome, s')" using assms unfolding eq by simp
    then show ?thesis
      by (intro disjI2 exI [of _ "r = ESP_OK"] exI [of _ "using_candidate (the out)"] exI [of _ ?t]) simp
  next
    case False
    then show ?thesis using assms unfolding eq by (auto split: if_splits)
  qed
qed

text \<open>How the sequence starts: recovery first; the configuration only once the secret is known.\<close>

lemma app_main_effect:
  assumes "app_main P io e s = (outcome, s')"
  shows "outcome = Aborted \<and> app_events s' = app_events s \<or>
    outcome = Recovery_only \<and> app_events s' = app_events s @ [Recovery_started] \<and> app_wifi s' = app_wifi s \<and> app_service s' = app_service s \<or>
    (\<exists>code t. app_events t = app_events s @ Recovery_started # code \<and> set code \<subseteq> {Setup_code_printed} \<and> app_wifi t = app_wifi s \<and>
       app_service t = app_service s \<and> choose_configuration P io e t = (outcome, s'))"
proof -
  obtain a d where init: "device_config_storage_init P (app_device s) = (a, d)" by fastforce
  obtain b l where log: "diagnostic_log_init (app_log s) = (b, l)" by fastforce
  obtain r h where rec: "serial_recovery_start (recovery_created e) (app_recovery s) = (r, h)" by fastforce
  obtain q out d' where secret: "device_config_get_or_create_setup_secret P (Some (app_secret s, False)) d = ((q, out), d')"
    by (metis prod.collapse)
  let ?r = "emit Recovery_started (s\<lparr>app_device := d, app_recovery := h\<rparr>)"
  let ?t = "?r\<lparr>app_device := d', app_secret := fst (the out)\<rparr>"
  let ?u = "if snd (the out) then emit Setup_code_printed ?t else ?t"
  have main: "app_main P io e s =
      (if a \<noteq> ESP_OK then
         if b \<noteq> ESP_OK then (Aborted, s\<lparr>app_device := d, app_log := l\<rparr>)
         else if r \<noteq> ESP_OK then (Aborted, s\<lparr>app_device := d, app_log := l, app_recovery := h\<rparr>)
         else (Recovery_only, emit Recovery_started (s\<lparr>app_device := d, app_log := l, app_recovery := h\<rparr>))
       else if r \<noteq> ESP_OK then (Aborted, s\<lparr>app_device := d, app_recovery := h\<rparr>)
       else if q \<noteq> ESP_OK then (Recovery_only, ?t)
       else choose_configuration P io e ?u)"
    by (simp add: app_main_def init log rec secret esp_error_check_def Let_def split_beta)
  have u: "app_events ?u = app_events s @ Recovery_started # (if snd (the out) then [Setup_code_printed] else [])"
      "app_wifi ?u = app_wifi s" "app_service ?u = app_service s" by simp_all
  show ?thesis
  proof (cases "a = ESP_OK \<and> r = ESP_OK \<and> q = ESP_OK")
    case True
    then have "choose_configuration P io e ?u = (outcome, s')" using assms unfolding main by simp
    then show ?thesis
      using u by (intro disjI2 exI [of _ "if snd (the out) then [Setup_code_printed] else []"] exI [of _ ?u]) auto
  next
    case False
    then show ?thesis using assms unfolding main by (auto split: if_splits)
  qed
qed

text \<open>From power-on, the network part is reached with only harmless events before it.\<close>

lemma app_main_network:
  assumes "app_main P io e s = (outcome, s')" and "fresh s"
  shows "(\<exists>evs. app_events s' = app_events s @ evs \<and> set evs \<subseteq> {Recovery_started, Setup_code_printed}) \<or>
    (\<exists>pre is_configured candidate t. app_events t = app_events s @ pre \<and> set pre \<subseteq> {Recovery_started, Setup_code_printed} \<and>
       fresh t \<and> start_network P io e is_configured candidate t = (outcome, s'))"
  using app_main_effect [OF assms(1)]
proof (elim disjE conjE exE)
  fix code t assume t: "app_events t = app_events s @ Recovery_started # code" "set code \<subseteq> {Setup_code_printed}"
    "app_wifi t = app_wifi s" "app_service t = app_service s" "choose_configuration P io e t = (outcome, s')"
  from choose_effect [OF t(5)] show ?thesis
  proof (elim disjE conjE exE)
    assume "app_events s' = app_events t"
    then show ?thesis using t by auto
  next
    fix is_configured candidate u
    assume "app_events u = app_events t" "app_wifi u = app_wifi t" "sv_mqtt (app_service u) = sv_mqtt (app_service t)"
      "sv_time (app_service u) = sv_time (app_service t)" "start_network P io e is_configured candidate u = (outcome, s')"
    then show ?thesis
      using t assms(2) by (intro disjI2 exI [of _ "Recovery_started # code"] exI [of _ is_configured] exI [of _ candidate] exI [of _ u])
        (auto simp: fresh_def)
  qed
qed auto

lemma candidate_network:
  assumes "start_network P io e True True s = (outcome, s')" and "fresh s"
  shows "\<exists>pre evs. app_events s' = app_events s @ pre @ evs \<and> set pre \<subseteq> {Provisioning_started, Maintenance_started} \<and>
    (outcome = Aborted \<and> evs = [] \<or> candidate_ending e outcome evs)"
proof -
  obtain pre t where pre: "app_events t = app_events s @ pre" "set pre \<subseteq> {Provisioning_started, Maintenance_started}"
      "app_service t = app_service s"
      "outcome = Aborted \<and> s' = t \<or> connect P io e True t = (outcome, s') \<and> wifi_inv (app_wifi t) \<and> \<not> station_connected (app_wifi t)"
    using start_network_effect [OF assms(1)] assms(2) by (auto simp: fresh_def)
  from pre(4) show ?thesis
  proof (elim disjE conjE)
    assume "outcome = Aborted" "s' = t"
    then show ?thesis using pre by auto
  next
    assume "connect P io e True t = (outcome, s')" "wifi_inv (app_wifi t)" "\<not> station_connected (app_wifi t)"
    from connect_candidate [OF this(1) _ this(2,3)] assms(2) pre(3)
    obtain evs where "app_events s' = app_events t @ evs" "candidate_ending e outcome evs" by (auto simp: fresh_def)
    then show ?thesis using pre by (intro exI [of _ pre] exI [of _ evs]) simp
  qed
qed

text \<open>An activation is preceded by every check.\<close>

lemma activated_works:
  assumes "app_main P io e s = (outcome, s')" and "fresh s" and "app_events s = []" and "Activated r \<in> set (app_events s')"
  shows "station_works e \<and> clock_works e \<and> broker_works e \<and> (\<exists>c. Mqtt_created c \<in> set (app_events s')) \<and>
    (\<forall>why q. Rolled_back why q \<notin> set (app_events s'))"
  using app_main_network [OF assms(1,2)]
proof (elim disjE conjE exE)
  fix evs assume "app_events s' = app_events s @ evs" "set evs \<subseteq> {Recovery_started, Setup_code_printed}"
  then show ?thesis using assms(3,4) by auto
next
  fix pre is_configured candidate t
  assume t: "app_events t = app_events s @ pre" "set pre \<subseteq> {Recovery_started, Setup_code_printed}" "fresh t"
    "start_network P io e is_configured candidate t = (outcome, s')"
  have none: False if "adds quiet_events u s'" "app_events u = app_events t @ xs" "set xs \<subseteq> {Provisioning_started, Maintenance_started}" for u xs
    using that t(1,2) assms(3,4) by (fastforce simp: adds_def quiet_events_def)
  consider (a) "is_configured" "candidate" | (b) "\<not> is_configured" | (c) "is_configured" "\<not> candidate" by blast
  then show ?thesis
  proof cases
    case a
    with t(4) have "start_network P io e True True t = (outcome, s')" by simp
    from candidate_network [OF this t(3)] obtain xs evs where evs: "app_events s' = app_events t @ xs @ evs" "set xs \<subseteq> {Provisioning_started, Maintenance_started}"
        "outcome = Aborted \<and> evs = [] \<or> candidate_ending e outcome evs"
      by blast
    then have "Activated r \<in> set evs" using assms(3,4) t(1,2) by auto
    then show ?thesis
      using evs t(1,2) assms(3) by (auto simp: candidate_ending_def)
  next
    case b
    then show ?thesis
      using start_network_effect [OF t(4)] t(1,2) assms(3,4) by auto
  next
    case c
    then obtain xs u where "app_events u = app_events t @ xs" "set xs \<subseteq> {Provisioning_started, Maintenance_started}"
        "s' = u \<or> connect P io e False u = (outcome, s')"
      using start_network_effect [OF t(4)] by auto
    moreover have "adds quiet_events u u" by (simp add: adds_def)
    ultimately show ?thesis using none connect_active by blast
  qed
qed

text \<open>Tasks run only behind a client made from a configuration that passes validation.\<close>

definition guarded :: "(string \<Rightarrow> int) \<Rightarrow> ('s, 'd, 'v) app \<Rightarrow> ('s, 'd, 'v) app \<Rightarrow> bool" where
  "guarded x509 s s' \<longleftrightarrow> (\<exists>evs. app_events s' = app_events s @ evs \<and>
     (Telemetry_started \<in> set evs \<or> Health_started \<in> set evs \<longrightarrow>
        validate_message x509 (Some (app_configuration s')) = None \<and> (\<exists>c. Mqtt_created c \<in> set evs)))"

lemma mqtt_ok_valid:
  assumes "mqtt_init x509 p (Some c) s = (ESP_OK, m, cfg)"
  shows "validate_message x509 (Some c) = None \<and> cfg \<noteq> None"
proof -
  have "mqtt_configuration_is_valid x509 (Some c)" "cfg \<noteq> None"
    using assms by (auto simp: mqtt_init_def Let_def split: if_splits prod.splits)
  then show ?thesis
    by (cases "validate_message x509 (Some c)") (simp_all add: mqtt_configuration_is_valid_def device_config_validate_def)
qed

lemma start_mqtt_guarded:
  assumes "start_mqtt P io e candidate s = (outcome, s')"
  shows "guarded (p_x509 P) s s'"
proof -
  obtain r m cfg where init: "mqtt_init (p_x509 P) (mqtt_answers e) (Some (app_configuration s)) (sv_mqtt (app_service s)) = (r, m, cfg)"
    by (metis prod_cases3)
  let ?s = "case cfg of None \<Rightarrow> s | Some c \<Rightarrow> emit (Mqtt_created c) s"
  have ev: "app_events ?s = app_events s @ (case cfg of None \<Rightarrow> [] | Some c \<Rightarrow> [Mqtt_created c])"
      "app_configuration ?s = app_configuration s"
    by (simp_all split: option.splits)
  let ?m = "if r = ESP_OK \<and> candidate then fold (mqtt_event_handler True) (mqtt_events e) m else m"
  let ?r = "if r = ESP_OK \<and> candidate then mqtt_wait_connected ?m else r"
  let ?t = "?s\<lparr>app_service := (app_service ?s)\<lparr>sv_mqtt := ?m\<rparr>\<rparr>"
  have eq: "start_mqtt P io e candidate s =
      (if candidate \<and> ?r \<noteq> ESP_OK then restart_after_candidate_failure P ''authenticated MQTT connection failed'' ?t
       else if ?r \<noteq> ESP_OK then (Degraded, ?t)
       else if candidate then activate P e (start_tasks io e) ?t else start_tasks io e ?t)"
    using init by (simp add: start_mqtt_def Let_def)
  consider (rolled) "restart_after_candidate_failure P ''authenticated MQTT connection failed'' ?t = (outcome, s')"
    | (degraded) "s' = ?t" | (go) "r = ESP_OK" "activate P e (start_tasks io e) ?t = (outcome, s') \<or> start_tasks io e ?t = (outcome, s')"
    using assms unfolding eq by (cases "?r = ESP_OK"; cases candidate) (auto split: if_splits)
  then show ?thesis
  proof cases
    case rolled
    from rollback_ending [OF this] show ?thesis using ev by (auto simp: guarded_def split: option.splits)
  next
    case degraded
    then show ?thesis using ev by (auto simp: guarded_def split: option.splits)
  next
    case go
    from mqtt_ok_valid [OF init [unfolded go(1)]] obtain c
      where valid: "validate_message (p_x509 P) (Some (app_configuration s)) = None" and c: "cfg = Some c" by auto
    have "\<exists>evs. app_events s' = app_events ?t @ evs \<and> app_configuration s' = app_configuration ?t"
      using go(2)
    proof
      assume "activate P e (start_tasks io e) ?t = (outcome, s')"
      then show ?thesis by (rule activate_effect) blast
    next
      assume "start_tasks io e ?t = (outcome, s')"
      from start_tasks_effect [OF this] show ?thesis by auto
    qed
    then show ?thesis using ev valid c by (auto simp: guarded_def)
  qed
qed

lemma connect_guarded:
  assumes "connect P io e candidate s = (outcome, s')"
  shows "guarded (p_x509 P) s s'"
proof -
  obtain w n where w: "wifi_events (station_events e) (app_wifi s) = (w, n)" by fastforce
  obtain r v where v: "system_time_init (sntp_init_result e) (sntp_wait_result e) (sntp_synced e) (sv_time (app_service s)) = (r, v)"
    by fastforce
  let ?s = "s\<lparr>app_wifi := w, app_device := fold (config_step P) (store_operations e) (app_device s)\<rparr>"
  let ?t = "?s\<lparr>app_service := (app_service s)\<lparr>sv_time := v\<rparr>\<rparr>"
  consider "restart_after_candidate_failure P ''station connection timed out'' ?s = (outcome, s')"
    | "restart_after_candidate_failure P ''SNTP validation timed out'' ?t = (outcome, s')" | "start_mqtt P io e candidate ?t = (outcome, s')"
    using assms v w by (auto simp: connect_def Let_def split: if_splits)
  then show ?thesis
  proof cases
    case 1
    from rollback_ending [OF this] show ?thesis by (auto simp: guarded_def)
  next
    case 2
    from rollback_ending [OF this] show ?thesis by (auto simp: guarded_def)
  next
    case 3
    from start_mqtt_guarded [OF this] show ?thesis by (simp add: guarded_def)
  qed
qed

lemma stop_again_result:
  "stop_again rs = (xs, ended) \<Longrightarrow>
   list_all (\<lambda>x. x = ESP_ERR_TIMEOUT) (butlast xs) \<and> ended = (xs \<noteq> [] \<and> last xs \<noteq> ESP_ERR_TIMEOUT)"
proof (induction rs arbitrary: xs ended)
  case (Cons r rs)
  obtain ys b where ys: "stop_again rs = (ys, b)" by fastforce
  then show ?case using Cons.prems Cons.IH [OF ys] by (auto split: if_splits)
qed simp

lemma emit_stops:
  "app_events (fold (\<lambda>r. emit (Provisioning_stopped r)) xs s) = app_events s @ map Provisioning_stopped xs \<and>
   app_wifi (fold (\<lambda>r. emit (Provisioning_stopped r)) xs s) = app_wifi s"
  by (induction xs arbitrary: s) simp_all

section \<open>The way of a working candidate\<close>

lemma hardware_starts: "i2c_result e = ESP_OK \<Longrightarrow> start_operational_hardware io e s \<noteq> None"
  unfolding start_operational_hardware_def app_i2c_bus_init_def
  by (simp add: Let_def case_prod_beta)

lemma hardware_keeps:
  "start_operational_hardware io e s = Some t \<Longrightarrow>
   app_telemetry t = app_telemetry s \<and> sv_task_handle (app_service t) = sv_task_handle (app_service s) \<and>
   app_configuration t = app_configuration s \<and> app_device t = app_device s \<and> app_events t = app_events s"
  by (auto simp: start_operational_hardware_def update_component_def on_health_def Let_def split: if_splits prod.splits)

lemma telemetry_starts:
  assumes "cstr d \<noteq> []" "length (cstr d) < 64" "1 \<le> n" "n \<le> 3600" "\<not> telemetry_task_handle s"
  shows "\<exists>x. telemetry_start True (Some d) n s = (ESP_OK, x)"
proof -
  have "n \<noteq> 0" using assms(3) by auto
  then show ?thesis
    using assms by (simp add: telemetry_start_def telemetry_model_configure_def snprintf_s_def Let_def not_less)
qed

lemma health_starts:
  assumes "cstr d \<noteq> []" "length (cstr d) < 64" "\<not> sv_task_handle s"
  shows "\<exists>x. device_health_service_start True (Some d) s = (ESP_OK, x)"
  using assms by (simp add: device_health_service_start_def snprintf_s_def Let_def)

lemma start_tasks_ok:
  assumes "config_spec x509 (app_configuration s)" and "config_layout (app_configuration s)"
    and "i2c_result e = ESP_OK" and "telemetry_created e" and "health_created e"
    and "\<not> telemetry_task_handle (app_telemetry s)" and "\<not> sv_task_handle (app_service s)"
  shows "\<exists>s'. start_tasks io e s = (Operational, s') \<and> app_device s' = app_device s \<and>
    app_events s' = app_events s @ [Telemetry_started, Health_started]"
proof -
  let ?c = "app_configuration s"
  have id: "cstr (device_id ?c) \<noteq> []" "length (cstr (device_id ?c)) < 64"
    using assms(1) by (auto simp: config_spec_def device_id_spec_def)
  have interval: "1 \<le> telemetry_interval_seconds ?c" "telemetry_interval_seconds ?c \<le> 3600"
    using assms(1) by (simp_all add: config_spec_def)
  obtain t where t: "start_operational_hardware io e s = Some t"
    using hardware_starts [OF assms(3)] by blast
  note fields = hardware_keeps [OF t]
  obtain x where x: "telemetry_start True (Some (device_id ?c)) (telemetry_interval_seconds ?c) (app_telemetry s) = (ESP_OK, x)"
    using telemetry_starts [OF id interval assms(6)] by blast
  obtain y where y: "device_health_service_start True (Some (device_id ?c)) (app_service t) = (ESP_OK, y)"
    using health_starts [OF id] assms(7) fields by blast
  show ?thesis
    using t fields x y assms(4,5) by (simp add: start_tasks_def esp_error_check_def)
qed

lemma connect_passes:
  assumes "wifi_inv (app_wifi s)" and "\<not> station_connected (app_wifi s)" and "\<not> sv_time (app_service s)"
    and "station_works e" and "clock_works e" and "store_operations e = []"
  shows "\<exists>w v. connect P io e True s = start_mqtt P io e True (s\<lparr>app_wifi := w, app_service := (app_service s)\<lparr>sv_time := v\<rparr>\<rparr>)"
proof -
  obtain w n where w: "wifi_events (station_events e) (app_wifi s) = (w, n)" by fastforce
  have "wifi_wait_for_station w = ESP_OK"
    using events_effect [OF assms(1) w] assms(2,4) by (auto simp: wifi_inv_def wifi_wait_for_station_def station_works_def)
  then show ?thesis
    using assms(3,5,6) w
    by (intro exI [of _ w] exI [of _ True])
      (simp add: connect_def system_time_init_def clock_works_def time_sync_notification_cb_def system_time_is_valid_def)
qed

lemma start_mqtt_passes:
  assumes "sv_mqtt (app_service s) = initial_mqtt"
    and "fst (mqtt_init (p_x509 P) (mqtt_answers e) (Some (app_configuration s)) initial_mqtt) = ESP_OK" and "broker_works e"
  shows "\<exists>c m. start_mqtt P io e True s = activate P e (start_tasks io e)
    ((emit (Mqtt_created c) s)\<lparr>app_service := (app_service s)\<lparr>sv_mqtt := m\<rparr>\<rparr>)"
proof -
  obtain m cfg where init: "mqtt_init (p_x509 P) (mqtt_answers e) (Some (app_configuration s)) initial_mqtt = (ESP_OK, m, cfg)"
    using assms(2) by (cases "mqtt_init (p_x509 P) (mqtt_answers e) (Some (app_configuration s)) initial_mqtt") simp
  then obtain c where c: "cfg = Some c" using mqtt_ok_valid by blast
  have "connection_state m False 0 []" using init_connection init c by blast
  from connection_run [OF this, of "mqtt_events e"] assms(3)
  have "mqtt_wait_connected (fold (mqtt_event_handler True) (mqtt_events e) m) = ESP_OK"
    by (simp add: connection_state_def broker_works_def mqtt_wait_connected_def)
  then show ?thesis
    using assms(1) init c
    by (intro exI [of _ c] exI [of _ "fold (mqtt_event_handler True) (mqtt_events e) m"]) (simp add: start_mqtt_def)
qed

text \<open>Every answer a candidate's boot needs, and no other task using the store during the wait.\<close>

definition all_answers_ok :: "(string \<Rightarrow> int) \<Rightarrow> boot_inputs \<Rightarrow> device_config \<Rightarrow> carray \<Rightarrow> bool" where
  "all_answers_ok x509 e c secret \<longleftrightarrow>
     fst (wifi_init_runtime (wifi_answers e) (Some c) True (Some secret) initial_wifi) = ESP_OK \<and>
     provisioning_start_result e = ESP_OK \<and> maintenance_created e \<and> station_works e \<and> clock_works e \<and>
     fst (mqtt_init x509 (mqtt_answers e) (Some c) initial_mqtt) = ESP_OK \<and> broker_works e \<and>
     i2c_result e = ESP_OK \<and> telemetry_created e \<and> health_created e \<and> store_operations e = []"

lemma working_candidate:
  assumes R: "reliable P contents work" and d: "runs_on contents V (Some (revision c)) (app_device s)"
    and m: "readable_metadata V m" "md_state m = DEVICE_CONFIG_STATE_PENDING" "candidate_revision m = revision c"
    and c: "V KEY_CANDIDATE = Some (Blob (blob_of_config c))" "valid_config (p_x509 P) c" "app_configuration s = c"
    and fresh: "fresh s" "\<not> telemetry_task_handle (app_telemetry s)" "\<not> sv_task_handle (app_service s)"
    and ok: "all_answers_ok (p_x509 P) e c (app_secret s)"
  shows "\<exists>s'. start_network P io e True True s = (Operational, s') \<and> Activated ESP_OK \<in> set (app_events s') \<and> Telemetry_started \<in> set (app_events s') \<and>
    contents (env (app_device s')) KEY_ACTIVE = Some (Blob (blob_of_config c)) \<and> contents (env (app_device s')) KEY_CANDIDATE = None"
proof -
  let ?s = "\<lambda>machine w. s\<lparr>app_machine := machine, app_wifi := w\<rparr>"
  obtain machine where machine: "machine = provisioning_state_configuration_loaded (state_taken e) True True (boot_ms e)
      (maintenance_window_seconds c) (maintenance_max_session_seconds c) (app_machine s)" by blast
  obtain w where w: "wifi_init_runtime (wifi_answers e) (Some c) True (Some (app_secret s)) initial_wifi = (ESP_OK, w)"
    using ok by (cases "wifi_init_runtime (wifi_answers e) (Some c) True (Some (app_secret s)) initial_wifi")
      (simp add: all_answers_ok_def)
  let ?t = "emit Maintenance_started (emit Provisioning_started (?s machine w))"
  have wifi: "wifi_inv w" "\<not> station_connected w"
    using started(1,3,4) [OF w] by (simp_all add: wifi_inv_def initial_wifi_def CONFIG_WIFI_MAXIMUM_RETRY_def)
  have "start_network P io e True True s = connect P io e True ?t"
    using c(3) fresh(1) ok machine w
    by (simp add: start_network_def open_provisioning_def esp_error_check_def fresh_def all_answers_ok_def Let_def)
  moreover obtain w' v where "connect P io e True ?t =
      start_mqtt P io e True (?t\<lparr>app_wifi := w', app_service := (app_service s)\<lparr>sv_time := v\<rparr>\<rparr>)"
    using connect_passes [of ?t e P io] wifi ok fresh(1) by (auto simp: fresh_def all_answers_ok_def)
  moreover let ?u = "?t\<lparr>app_wifi := w', app_service := (app_service s)\<lparr>sv_time := v\<rparr>\<rparr>"
  obtain q x where "start_mqtt P io e True ?u =
      activate P e (start_tasks io e) ((emit (Mqtt_created q) ?u)\<lparr>app_service := (app_service ?u)\<lparr>sv_mqtt := x\<rparr>\<rparr>)"
    using start_mqtt_passes [of ?u P e io] ok fresh(1) c(3) by (auto simp: fresh_def all_answers_ok_def)
  moreover let ?a = "(emit (Mqtt_created q) ?u)\<lparr>app_service := (app_service ?u)\<lparr>sv_mqtt := x\<rparr>\<rparr>"
  obtain d' where d': "device_config_activate_candidate P (Some c) (app_device s) = (ESP_OK, d')"
      "runs_on contents (V(KEY_ACTIVE \<mapsto> Blob (blob_of_config c),
        KEY_METADATA \<mapsto> Blob (blob_of_metadata (settled m)), KEY_CANDIDATE := None)) None d'"
    using activate_ok [OF R d m c(1,2) configurations_match_refl] by blast
  let ?b = "emit (Activated ESP_OK) (?a\<lparr>app_device := d'\<rparr>)"
  have "\<exists>b. activate P e (start_tasks io e) ?a = start_tasks io e b \<and> app_configuration b = c \<and> app_device b = d' \<and>
      app_telemetry b = app_telemetry s \<and> \<not> sv_task_handle (app_service b) \<and> Activated ESP_OK \<in> set (app_events b)"
    using d'(1) c(3) fresh
    by (cases "maintenance_on_boot c") (auto simp: activate_def esp_error_check_def Let_def split: prod.splits)
  then obtain b where b: "activate P e (start_tasks io e) ?a = start_tasks io e b" "app_configuration b = c" "app_device b = d'"
      "app_telemetry b = app_telemetry s" "\<not> sv_task_handle (app_service b)" "Activated ESP_OK \<in> set (app_events b)"
    by blast
  have spec: "config_spec (p_x509 P) c" "config_layout c"
    using valid_configD [OF c(2)] validate_message_iff [of c "p_x509 P"] by simp_all
  have "\<exists>s'. start_tasks io e b = (Operational, s') \<and> app_device s' = app_device b \<and>
      app_events s' = app_events b @ [Telemetry_started, Health_started]"
    using b ok fresh spec by (intro start_tasks_ok [of "p_x509 P"]) (simp_all add: all_answers_ok_def)
  ultimately show ?thesis
    using b d'(2) by (auto simp: runs_on_def)
qed

end
