(* ===== verification/App_Properties.thy ===== *)
theory App_Properties
  imports App_Effects
begin

text \<open>
  What the boot sequence promises, over the effects of its parts, with a boot in which everything
  works as the example.
\<close>

section \<open>An example\<close>

text \<open>
  A device on the ideal platform with a candidate in flash that waits for its first boot, and
  the inputs of a boot in which everything works.
\<close>

definition pending_metadata :: device_config_metadata where
  "pending_metadata = zero_metadata\<lparr>md_state := DEVICE_CONFIG_STATE_PENDING, candidate_revision := 7\<rparr>"

definition example_flash :: "string \<rightharpoonup> nvs_value" where
  "example_flash = [KEY_SETUP \<mapsto> Str (replicate 32 CHR ''a''),
     KEY_CANDIDATE \<mapsto> Blob (blob_of_config example_config),
     KEY_METADATA \<mapsto> Blob (blob_of_metadata pending_metadata)]"

definition example_app :: "ram device \<Rightarrow> (ram, nat, unit) app" where
  "example_app d = \<lparr>app_device = d, app_configuration = zero_config, app_machine = None, app_secret = zeros 33,
     app_recovery = False, app_log = initial_log (), app_wifi = initial_wifi,
     app_service = example_service\<lparr>sv_health := initial_health, sv_mqtt := initial_mqtt, sv_task_handle := False\<rparr>,
     app_i2c = False, app_sensor = initial_sensor 0, app_input = initial_machine_status,
     app_telemetry = \<lparr>telemetry_task_handle = False, telemetry_interval = 0, runtime_device_id = zeros 64\<rparr>,
     app_events = []\<rparr>"

definition example_device :: "ram device" where
  "example_device = \<lparr>configuration_mutex = False, candidate_validation_in_progress = False,
     candidate_validation_revision = 0, env = \<lparr>durable = example_flash, working = Map.empty, faults = []\<rparr>\<rparr>"

definition example_boot :: boot_inputs where
  "example_boot = \<lparr>recovery_created = True, health_mutex_created = True, state_mutex_created = True, state_taken = True,
     boot_ms = 500, wifi_answers = example_wifi_platform, provisioning_start_result = ESP_OK, maintenance_created = True,
     station_events = [WIFI_EVENT_STA_START, IP_EVENT_STA_GOT_IP], store_operations = [], sntp_init_result = ESP_OK,
     sntp_wait_result = ESP_OK, sntp_synced = True, mqtt_answers = example_mqtt_platform,
     mqtt_events = [MQTT_EVENT_CONNECTED], provisioning_stop_result = ESP_OK, softap_mode_result = ESP_OK,
     i2c_result = ESP_OK, gpio_answer = (\<lambda>_. ESP_OK), registry_taken = True, telemetry_created = True,
     health_created = True\<rparr>"

lemmas ram_defs = ideal_platform_def ram_services_def ram_call_def ram_read_def ram_try_def no_fault_def

lemma example_storage: "\<exists>d. device_config_storage_init ideal_platform example_device = (ESP_OK, d) \<and>
    configuration_mutex d \<and> \<not> candidate_validation_in_progress d \<and> durable (env d) = example_flash"
  by (simp add: device_config_storage_init_def example_device_def ram_defs)

lemma ideal_secret:
  assumes "configuration_mutex d" and "durable (env d) KEY_SETUP = Some (Str (replicate 32 CHR ''a''))"
  shows "\<exists>d'. device_config_get_or_create_setup_secret ideal_platform (Some out) d =
      ((ESP_OK, Some (replicate 32 CHR ''a'' @ [NUL], False)), d') \<and>
    configuration_mutex d' \<and> durable (env d') = durable (env d)"
proof -
  have digits: "list_all hexadecimal (replicate 32 CHR ''a'')"
    by (simp add: list_all_iff hexadecimal_def less_eq_char_def)
  have nth: "(replicate 32 CHR ''a'' @ [NUL]) ! 32 = NUL" by (simp add: nth_append)
  show ?thesis
    using assms digits nth
    by (simp add: device_config_get_or_create_setup_secret_def with_lock_def configuration_lock_def configuration_unlock_def
        setup_secret_locked_def open_namespace_def ram_defs DEVICE_CONFIG_SETUP_SECRET_LENGTH_def Let_def
       )
qed

text \<open>The boot of the example up to the network part.\<close>

lemma example_reaches_network:
  assumes "recovery_created e" and "health_mutex_created e"
  shows "\<exists>t. app_main ideal_platform example_bus e (example_app example_device) =
      start_network ideal_platform example_bus e True True t \<and> fresh t \<and> app_events t = [Recovery_started] \<and>
    app_configuration t = example_config \<and> app_secret t = replicate 32 CHR ''a'' @ [NUL] \<and>
    \<not> telemetry_task_handle (app_telemetry t) \<and> \<not> sv_task_handle (app_service t) \<and>
    runs_on durable (example_flash(KEY_METADATA \<mapsto> Blob (blob_of_metadata (tried pending_metadata)))) (Some 7) (app_device t)"
proof -
  obtain d where d: "device_config_storage_init ideal_platform example_device = (ESP_OK, d)" "configuration_mutex d"
      "durable (env d) = example_flash"
    using example_storage by blast
  have stored: "durable (env d) KEY_SETUP = Some (Str (replicate 32 CHR ''a''))"
    by (simp add: d(3) example_flash_def)
  obtain d' where d': "device_config_get_or_create_setup_secret ideal_platform (Some (zeros 33, False)) d =
      ((ESP_OK, Some (replicate 32 CHR ''a'' @ [NUL], False)), d')" "configuration_mutex d'" "durable (env d') = example_flash"
    using ideal_secret [OF d(2) stored] d(3) by metis
  have m: "readable_metadata example_flash pending_metadata" "md_state pending_metadata = DEVICE_CONFIG_STATE_PENDING"
      "boot_attempts pending_metadata < candidate_max_attempts ideal_platform" "candidate_revision pending_metadata = revision example_config"
      "example_flash KEY_CANDIDATE = Some (Blob (blob_of_config example_config))"
    by (simp_all add: readable_metadata_def example_flash_def pending_metadata_def zero_metadata_def metadata_storable_def metadata_layout_def
        example_config_def zeros_def)
  have valid: "valid_config (p_x509 ideal_platform) example_config" using example_config_valid_config by simp
  obtain d2 where d2: "device_config_load_for_boot ideal_platform (Some (zero_config, False, zero_metadata)) d' =
      (Some \<lparr>boot_err = ESP_OK, boot_config = example_config, using_candidate = True, boot_metadata = tried pending_metadata\<rparr>, ESP_OK, d2)"
      "runs_on durable (example_flash(KEY_METADATA \<mapsto> Blob (blob_of_metadata (tried pending_metadata)))) (Some (revision example_config)) d2"
    using boot_candidate_ok [OF ideal_platform_reliable d'(2,3) m(1-5) valid] by blast
  obtain l where l: "diagnostic_log_init (initial_log ()) = (ESP_OK, l)"
    by (auto simp: diagnostic_log_init_def initial_log_def Let_def)
  obtain h where h: "device_health_init True initial_health = (ESP_OK, h)"
    by (auto simp: device_health_init_def initial_health_def Let_def)
  have revision: "revision example_config = 7" by (simp add: example_config_def)
  show ?thesis
    using assms d(1) d'(1) d2 l h revision
    by (auto simp: app_main_def choose_configuration_def serial_recovery_start_def esp_error_check_def example_app_def fresh_def
        example_service_def Let_def)
qed

text \<open>The network part of the example succeeds.\<close>

lemma example_answers: "all_answers_ok (\<lambda>_. 0) example_boot example_config (replicate 32 CHR ''a'' @ [NUL])"
proof -
  have wifi: "fst (wifi_init_runtime example_wifi_platform (Some example_config) True
      (Some (replicate 32 CHR ''a'' @ [NUL])) initial_wifi) = ESP_OK"
    by (simp add: wifi_init_runtime_def configure_softap_def example_wifi_platform_def Let_def cstr_Cons eval_nat_numeral)
  have mqtt: "fst (mqtt_init (\<lambda>_. 0) example_mqtt_platform (Some example_config) initial_mqtt) = ESP_OK"
    using example_mqtt_init by auto
  show ?thesis
    using wifi mqtt
    by (simp add: all_answers_ok_def example_boot_def station_works_def clock_works_def broker_works_def station_up_def
        up_after_def)
qed

text \<open>The state in which the network part of the example starts.\<close>

definition example_start :: "(ram, nat, unit) app" where
  "example_start = (example_app \<lparr>configuration_mutex = True, candidate_validation_in_progress = True,
       candidate_validation_revision = 7, env = \<lparr>durable = example_flash, working = Map.empty, faults = []\<rparr>\<rparr>)
     \<lparr>app_configuration := example_config, app_secret := replicate 32 CHR ''a'' @ [NUL]\<rparr>"

lemma pending_readable:
  "readable_metadata (example_flash(KEY_METADATA \<mapsto> Blob (blob_of_metadata (tried pending_metadata)))) (tried pending_metadata)"
  "readable_metadata example_flash pending_metadata"
  "md_state (tried pending_metadata) = DEVICE_CONFIG_STATE_PENDING" "md_state pending_metadata = DEVICE_CONFIG_STATE_PENDING"
  "candidate_revision (tried pending_metadata) = 7" "candidate_revision pending_metadata = 7"
  by (simp_all add: readable_metadata_def example_flash_def pending_metadata_def tried_def zero_metadata_def
      metadata_storable_def metadata_layout_def zeros_def)

lemma example_candidate: "revision example_config = 7" "valid_config (p_x509 ideal_platform) example_config"
  "example_flash KEY_CANDIDATE = Some (Blob (blob_of_config example_config))"
  using example_config_valid_config by (simp_all add: example_config_def example_flash_def)

lemma example_start_facts:
  "app_configuration example_start = example_config" "fresh example_start"
  "\<not> telemetry_task_handle (app_telemetry example_start)" "\<not> sv_task_handle (app_service example_start)"
  "app_events example_start = []" "runs_on durable example_flash (Some (revision example_config)) (app_device example_start)"
  "all_answers_ok (p_x509 ideal_platform) example_boot example_config (app_secret example_start)"
  using example_answers
  by (simp_all add: example_start_def example_app_def fresh_def example_service_def runs_on_def example_candidate)

lemma example_boot_succeeds:
  "\<exists>s'. app_main ideal_platform example_bus example_boot (example_app example_device) = (Operational, s') \<and>
     Activated ESP_OK \<in> set (app_events s') \<and> Telemetry_started \<in> set (app_events s')"
proof -
  have e: "recovery_created example_boot" "health_mutex_created example_boot" by (simp_all add: example_boot_def)
  obtain t where t: "app_main ideal_platform example_bus example_boot (example_app example_device) =
      start_network ideal_platform example_bus example_boot True True t" "fresh t"
    "app_configuration t = example_config" "app_secret t = replicate 32 CHR ''a'' @ [NUL]"
    "\<not> telemetry_task_handle (app_telemetry t)" "\<not> sv_task_handle (app_service t)"
    "runs_on durable (example_flash(KEY_METADATA \<mapsto> Blob (blob_of_metadata (tried pending_metadata)))) (Some 7) (app_device t)"
    using example_reaches_network [OF e] by blast
  have "all_answers_ok (p_x509 ideal_platform) example_boot example_config (app_secret t)"
    using example_answers t(4) by simp
  from working_candidate [OF ideal_platform_reliable _ pending_readable(1,3) _ _ example_candidate(2) t(3) t(2,5,6) this]
  show ?thesis using t(1,7) example_candidate pending_readable(5) by auto
qed

section \<open>Properties\<close>

text \<open>
  C10. A candidate configuration is activated only when it works: in a boot from power-on,
  whatever the SDK answers and other tasks do to the store, an activation means that the
  station held an address when the wait ended, that SNTP synchronised the clock, that a client
  was created and was connected to the broker when its wait ended, and that nothing was rolled
  back.
\<close>

theorem candidate_is_activated_only_when_it_works:
  assumes "app_main P io e s = (outcome, s')" and "fresh s" and "app_events s = []" and "Activated r \<in> set (app_events s')"
  shows "fold station_up (station_events e) False \<and>
    sntp_init_result e = ESP_OK \<and> sntp_wait_result e = ESP_OK \<and> sntp_synced e \<and>
    fold up_after (mqtt_events e) False \<and> (\<exists>c. Mqtt_created c \<in> set (app_events s')) \<and>
    (\<forall>why q. Rolled_back why q \<notin> set (app_events s'))"
  using activated_works [OF assms] by (simp add: station_works_def clock_works_def broker_works_def)

theorem candidate_is_activated_only_when_it_works_witness:
  "\<exists>s'. app_main ideal_platform example_bus example_boot (example_app example_device) = (Operational, s') \<and>
     Activated ESP_OK \<in> set (app_events s') \<and> (\<exists>c. Mqtt_created c \<in> set (app_events s'))"
proof -
  obtain s' where s': "app_main ideal_platform example_bus example_boot (example_app example_device) = (Operational, s')"
      "Activated ESP_OK \<in> set (app_events s')"
    using example_boot_succeeds by blast
  have "fresh (example_app example_device)" "app_events (example_app example_device) = []"
    by (simp_all add: fresh_def example_app_def example_service_def)
  from candidate_is_activated_only_when_it_works [OF s'(1) this s'(2)] s' show ?thesis by blast
qed

text \<open>
  C11. The boot of a candidate never ends undecided: once it is loaded, the sequence either
  aborts, which restarts the device, or rolls the candidate back as its last act and restarts
  without having activated it or started a task, or activates it successfully and runs
  telemetry and health.
\<close>

theorem candidate_boot_is_decided:
  assumes "start_network P io e True True s = (outcome, s')" and "fresh s" and "app_events s = []"
  shows "outcome = Aborted \<or>
    outcome = Restarted \<and> (\<exists>xs why q. app_events s' = xs @ [Rolled_back why q] \<and> (\<forall>r. Activated r \<notin> set xs) \<and>
      Telemetry_started \<notin> set xs \<and> Health_started \<notin> set xs) \<or>
    outcome = Operational \<and> (\<exists>xs. app_events s' = xs @ [Telemetry_started, Health_started] \<and> Activated ESP_OK \<in> set xs)"
proof -
  obtain pre evs where evs: "app_events s' = pre @ evs" "set pre \<subseteq> {Provisioning_started, Maintenance_started}"
      "outcome = Aborted \<and> evs = [] \<or> candidate_ending e outcome evs"
    using candidate_network [OF assms(1,2)] assms(3) by auto
  from evs(3) show ?thesis
  proof (elim disjE conjE)
    assume "candidate_ending e outcome evs"
    then show ?thesis
      unfolding candidate_ending_def
    proof (elim disjE exE conjE)
      fix xs why q assume "outcome = Restarted" "evs = xs @ [Rolled_back why q]" "\<forall>r. Activated r \<notin> set xs"
        "Telemetry_started \<notin> set xs" "Health_started \<notin> set xs"
      then show ?thesis
        using evs(1,2) by (intro disjI2 disjI1 conjI exI [of _ "pre @ xs"] exI [of _ why] exI [of _ q]) auto
    next
      fix c r ys assume y: "evs = Mqtt_created c # Activated r # ys" "r \<noteq> ESP_OK \<longrightarrow> outcome = Aborted \<and> ys = []"
        "outcome = Operational \<longrightarrow> (\<exists>zs. ys = zs @ [Telemetry_started, Health_started])" "outcome \<in> {Operational, Aborted}"
      show ?thesis
      proof (cases "outcome = Operational")
        case True
        then obtain zs where "ys = zs @ [Telemetry_started, Health_started]" using y by blast
        then show ?thesis
          using True y evs(1) by (intro disjI2 conjI exI [of _ "pre @ Mqtt_created c # Activated r # zs"]) auto
      next
        case False
        then show ?thesis using y by simp
      qed
    qed
  qed simp
qed

theorem candidate_boot_is_decided_witness:
  "\<exists>s' xs. start_network ideal_platform example_bus example_boot True True example_start = (Operational, s') \<and>
     app_events s' = xs @ [Telemetry_started, Health_started] \<and> Activated ESP_OK \<in> set xs"
proof -
  from working_candidate [OF ideal_platform_reliable example_start_facts(6) pending_readable(2,4) _ example_candidate(3,2)
      example_start_facts(1-4,7)]
  obtain s' where s': "start_network ideal_platform example_bus example_boot True True example_start = (Operational, s')"
    using example_candidate(1) pending_readable(6) by auto
  from candidate_boot_is_decided [OF s' example_start_facts(2,5)] s' show ?thesis by auto
qed

text \<open>
  Telemetry and health run only behind an authenticated client: in a boot from power-on, a
  task that is started implies that the configuration in use passes validation and that an MQTT
  client was created from it.
\<close>

lemma tasks_run_behind_a_validated_client:
  assumes "app_main P io e s = (outcome, s')" and "fresh s" and "app_events s = []"
    and "Telemetry_started \<in> set (app_events s') \<or> Health_started \<in> set (app_events s')"
  shows "validate_message (p_x509 P) (Some (app_configuration s')) = None \<and> (\<exists>c. Mqtt_created c \<in> set (app_events s'))"
  using app_main_network [OF assms(1,2)]
proof (elim disjE conjE exE)
  fix evs assume "app_events s' = app_events s @ evs" "set evs \<subseteq> {Recovery_started, Setup_code_printed}"
  then show ?thesis using assms(3,4) by auto
next
  fix pre is_configured candidate t
  assume t: "app_events t = app_events s @ pre" "set pre \<subseteq> {Recovery_started, Setup_code_printed}" "fresh t"
    "start_network P io e is_configured candidate t = (outcome, s')"
  obtain xs u where u: "app_events u = app_events t @ xs" "set xs \<subseteq> {Provisioning_started, Maintenance_started}"
      "s' = u \<or> connect P io e candidate u = (outcome, s')"
    using start_network_effect [OF t(4)] by auto
  have none: "Telemetry_started \<notin> set (app_events u) \<and> Health_started \<notin> set (app_events u)"
    using t(1,2) u(1,2) assms(3) by auto
  have "guarded (p_x509 P) u s'" using u(3) none assms(4) connect_guarded by blast
  then show ?thesis using none assms(4) by (auto simp: guarded_def)
qed

lemma tasks_run_behind_a_validated_client_witness:
  "\<exists>s'. app_main ideal_platform example_bus example_boot (example_app example_device) = (Operational, s') \<and>
     Telemetry_started \<in> set (app_events s') \<and> validate_message (\<lambda>_. 0) (Some (app_configuration s')) = None"
proof -
  obtain s' where s': "app_main ideal_platform example_bus example_boot (example_app example_device) = (Operational, s')"
      "Telemetry_started \<in> set (app_events s')"
    using example_boot_succeeds by blast
  have "fresh (example_app example_device)" "app_events (example_app example_device) = []"
    by (simp_all add: fresh_def example_app_def example_service_def)
  from tasks_run_behind_a_validated_client [OF s'(1) this] s' show ?thesis by auto
qed

text \<open>
  C17. The device fails closed: when the storage cannot be initialised or the setup secret cannot
  be read, the sequence ends with the serial recovery task alone; the radio is not touched, no
  interface is opened, nothing is published, and nothing is activated or rolled back.
\<close>

theorem boot_fails_closed:
  assumes "app_main P io e s = (outcome, s')"
    and "device_config_storage_init P (app_device s) = (r, d)"
    and "r \<noteq> ESP_OK \<or> fst (fst (device_config_get_or_create_setup_secret P (Some (app_secret s, False)) d)) \<noteq> ESP_OK"
  shows "outcome \<in> {Recovery_only, Aborted} \<and> (outcome = Recovery_only \<longrightarrow> app_events s' = app_events s @ [Recovery_started]) \<and>
    (outcome = Aborted \<longrightarrow> app_events s' = app_events s) \<and> app_wifi s' = app_wifi s \<and> app_service s' = app_service s"
  using assms by (auto simp: app_main_def esp_error_check_def Let_def split: prod.splits if_splits)

theorem boot_fails_closed_witness:
  "\<exists>s'. app_main ram_platform example_bus example_boot (example_app (fresh_device [True])) = (Recovery_only, s') \<and>
     app_events s' = [Recovery_started] \<and> app_wifi s' = initial_wifi"
proof -
  let ?s = "example_app (fresh_device [True])"
  obtain d where d: "device_config_storage_init ram_platform (fresh_device [True]) = (ESP_FAIL, d)"
    by (simp add: device_config_storage_init_def fresh_device_def fresh_ram_def ram_platform_def ram_services_def ram_call_def
        next_fault_def)
  obtain outcome s' where s': "app_main ram_platform example_bus example_boot ?s = (outcome, s')" by fastforce
  have "outcome = Recovery_only"
    using s' d
    by (auto simp: app_main_def example_app_def serial_recovery_start_def example_boot_def esp_error_check_def
        diagnostic_log_init_def initial_log_def Let_def)
  moreover have "device_config_storage_init ram_platform (app_device ?s) = (ESP_FAIL, d)"
    using d by (simp add: example_app_def)
  ultimately show ?thesis
    using boot_fails_closed [OF s'] s' by (simp add: example_app_def)
qed

text \<open>
  The setup network closes with the maintenance window: when the window is over and the web
  service has been asked to stop, the access point is switched off exactly once, right after the
  first request, also when that request times out and has to be repeated until it succeeds.
\<close>

lemma maintenance_closes_the_setup_network:
  assumes "fst (maintenance_wait (ticks e) (app_machine s))" and "stop_results e = r # rs"
  shows "\<exists>q xs. app_events (snd (maintenance_task e s)) = app_events s @ Provisioning_stopped r # Softap_closed q # map Provisioning_stopped xs \<and>
    (xs \<noteq> [] \<longrightarrow> r = ESP_ERR_TIMEOUT) \<and> list_all (\<lambda>x. x = ESP_ERR_TIMEOUT) (butlast xs) \<and>
    (fst (maintenance_task e s) = (r \<noteq> ESP_ERR_TIMEOUT \<or> xs \<noteq> [] \<and> last xs \<noteq> ESP_ERR_TIMEOUT)) \<and>
    (softap_enabled (app_wifi s) \<and> close_result e = ESP_OK \<longrightarrow> driver_mode (app_wifi (snd (maintenance_task e s))) = Some WIFI_MODE_STA)"
proof -
  obtain machine where machine: "maintenance_wait (ticks e) (app_machine s) = (True, machine)"
    using assms(1) by (cases "maintenance_wait (ticks e) (app_machine s)") simp
  obtain q w where w: "wifi_disable_softap (close_result e) (app_wifi s) = (q, w)" by fastforce
  have mode: "softap_enabled (app_wifi s) \<and> close_result e = ESP_OK \<longrightarrow> driver_mode w = Some WIFI_MODE_STA"
    using w by (auto simp: wifi_disable_softap_def)
  show ?thesis
  proof (cases "r = ESP_ERR_TIMEOUT")
    case True
    obtain xs ended where xs: "stop_again rs = (xs, ended)" by fastforce
    have eq: "maintenance_task e s = (ended, fold (\<lambda>r. emit (Provisioning_stopped r)) xs
        (emit (Softap_closed q) ((emit (Provisioning_stopped r) (s\<lparr>app_machine := machine\<rparr>))\<lparr>app_wifi := w\<rparr>)))"
      by (simp add: maintenance_task_def machine w True xs assms(2))
    show ?thesis
      unfolding eq using True mode stop_again_result [OF xs]
      by (intro exI [of _ q] exI [of _ xs]) (simp add: emit_stops [THEN conjunct1] emit_stops [THEN conjunct2])
  next
    case False
    then have eq: "maintenance_task e s =
        (True, emit (Softap_closed q) ((emit (Provisioning_stopped r) (s\<lparr>app_machine := machine\<rparr>))\<lparr>app_wifi := w\<rparr>))"
      by (simp add: maintenance_task_def machine w assms(2))
    show ?thesis unfolding eq using False mode by (intro exI [of _ q] exI [of _ "[]"]) simp
  qed
qed

definition example_maintenance :: maintenance_inputs where
  "example_maintenance = \<lparr>ticks = [(True, 200000), (True, 305000)], stop_results = [ESP_ERR_TIMEOUT, ESP_ERR_TIMEOUT, ESP_OK],
     close_result = ESP_OK\<rparr>"

lemma maintenance_closes_the_setup_network_witness:
  "\<exists>q xs. app_events (snd (maintenance_task example_maintenance (example_start\<lparr>app_machine := Some example_window\<rparr>))) =
     Provisioning_stopped ESP_ERR_TIMEOUT # Softap_closed q # map Provisioning_stopped xs"
proof -
  let ?s = "example_start\<lparr>app_machine := Some example_window\<rparr>"
  have closed: "fst (maintenance_wait (ticks example_maintenance) (app_machine ?s))"
    by (simp add: example_maintenance_def tick_eq window_over_def state_lock_def example_window_facts)
  have "stop_results example_maintenance = ESP_ERR_TIMEOUT # [ESP_ERR_TIMEOUT, ESP_OK]"
    by (simp add: example_maintenance_def)
  from maintenance_closes_the_setup_network [OF closed this] show ?thesis
    by (auto simp: example_start_def example_app_def)
qed

text \<open>
  A candidate that works becomes active: when the boot has loaded a valid candidate, no call
  fails, and the station, the clock and the broker answer in time, the sequence ends operational
  with the candidate in flash as the active configuration and no candidate left.
\<close>

lemma working_candidate_becomes_active:
  assumes R: "reliable P contents work" and d: "runs_on contents V (Some (revision c)) (app_device s)"
    and m: "readable_metadata V m" "md_state m = DEVICE_CONFIG_STATE_PENDING" "candidate_revision m = revision c"
    and c: "V KEY_CANDIDATE = Some (Blob (blob_of_config c))" "valid_config (p_x509 P) c" "app_configuration s = c"
    and fresh: "fresh s" "\<not> telemetry_task_handle (app_telemetry s)" "\<not> sv_task_handle (app_service s)"
    and ok: "all_answers_ok (p_x509 P) e c (app_secret s)"
  shows "\<exists>s'. start_network P io e True True s = (Operational, s') \<and> Activated ESP_OK \<in> set (app_events s') \<and>
    contents (env (app_device s')) KEY_ACTIVE = Some (Blob (blob_of_config c)) \<and> contents (env (app_device s')) KEY_CANDIDATE = None"
  using working_candidate [OF assms] by auto

lemma working_candidate_becomes_active_witness:
  "\<exists>s'. start_network ideal_platform example_bus example_boot True True example_start = (Operational, s') \<and>
     durable (env (app_device s')) KEY_ACTIVE = Some (Blob (blob_of_config example_config))"
proof -
  from working_candidate_becomes_active [OF ideal_platform_reliable example_start_facts(6) pending_readable(2,4) _
      example_candidate(3,2) example_start_facts(1-4,7)]
  show ?thesis using example_candidate(1) pending_readable(6) by auto
qed

end
