(* ===== verification/Web_State.thy ===== *)
theory Web_State
  imports Config_Safety Provisioning_State Provisioning_Security Stream_Lifecycle
    Softap_Endpoint Diagnostic_Ring Device_Health Mqtt_Client Wifi Machine_Status
    "HOL-Library.Signed_Division" Complex_Main
begin

text \<open>
  The provisioning web service (\<^verbatim>\<open>provisioning_service.c\<close>): its state, its requests and the
  functions its handlers share, from the check of the access point and of the session to the
  JSON replies. The HTTP server and cJSON are parameters.
\<close>

section \<open>JSON documents\<close>

text \<open>
  cJSON as the service uses it: the parser and, for a parsed value, whether it is an object, its
  member of a name, and its content as a string, a number or a Boolean, if it is one. A double is
  a rational number or an infinity; the parser produces nothing else.
\<close>

datatype double = Double rat | Double_infinity bool

record 'j cjson =
  parse_json :: "string \<Rightarrow> 'j option"
  is_object :: "'j \<Rightarrow> bool"
  get_item :: "'j \<Rightarrow> string \<Rightarrow> 'j option"
  string_value :: "'j \<Rightarrow> string option"
  number_value :: "'j \<Rightarrow> double option"
  bool_value :: "'j \<Rightarrow> bool option"

text \<open>The accessors on a pointer: a null pointer has no members and no content.\<close>

definition json_item :: "'j cjson \<Rightarrow> 'j option \<Rightarrow> string \<Rightarrow> 'j option" where
  "json_item J object name = Option.bind object (\<lambda>x. get_item J x name)"

definition json_string :: "'j cjson \<Rightarrow> 'j option \<Rightarrow> string option" where
  "json_string J value = map_option cstr (Option.bind value (string_value J))"

definition json_is_object :: "'j cjson \<Rightarrow> 'j option \<Rightarrow> bool" where
  "json_is_object J value = (case value of None \<Rightarrow> False | Some x \<Rightarrow> is_object J x)"

text \<open>A document to be printed, by the calls that build it; integers become doubles.\<close>

datatype json_out =
    Out_null
  | Out_bool bool
  | Out_number int
  | Out_string string
  | Out_object "(string \<times> json_out) list"
  | Out_array "json_out list"

section \<open>Requests\<close>

text \<open>
  A request with the answers of the SDK while it is served: its socket and local address, the
  headers and query values that fit a buffer of the given size, the length and the portions of
  its body, the results of the replies in order, the clock in microseconds at each access, the
  random bytes, the mutexes, the allocations, the documents that can be printed, whether an
  asynchronous copy and a task can be made, and what other tasks do to the service and its
  components before each access to shared state.
\<close>

datatype web_event =
    Worker_done u64
  | Stop_started
  | Session_cleared
  | Session_made "byte list" "byte list" int
  | Store_used operation
  | Window_used window_event
  | Logged diagnostic_log_record
  | Health_used health_call
  | Wifi_used wifi_event
  | Mqtt_used bool mqtt_event
  | Time_synced

record request =
  rq_sockfd :: int
  rq_getsockname :: "int \<Rightarrow> (sockaddr \<times> nat) option"
  rq_sizes :: sockaddr_sizes
  rq_softap_info :: "esp_err \<times> u32 \<times> u32"
  rq_header :: "string \<Rightarrow> nat \<Rightarrow> string option"
  rq_content_len :: nat
  rq_portions :: "string list"
  rq_query_len :: nat
  rq_query :: "string \<Rightarrow> nat \<Rightarrow> string option"
  rq_send :: "nat \<Rightarrow> esp_err"
  rq_clock :: "nat \<Rightarrow> int"
  rq_random :: "nat \<Rightarrow> byte list"
  rq_stream_taken :: bool
  rq_state_taken :: bool
  rq_allocates :: "nat \<Rightarrow> bool"
  rq_prints :: "json_out \<Rightarrow> bool"
  rq_async :: esp_err
  rq_task :: bool
  rq_meanwhile :: "nat \<Rightarrow> web_event list"

section \<open>The service\<close>

datatype reply_body = Json_body json_out | Text_body string | Page_body | Empty_body

datatype web_effect =
    Cookie_set string
  | Socket_closed int
  | Device_restarted
  | Stream_started u64 u64
  | Stream_text string
  | Stream_document json_out
  | Stream_waits bool
  | Stream_end
  | Stream_request_completed

text \<open>
  The statics of the file; the components that the service shares with other tasks; the status
  line and the replies of the present request, and what else the service has done. The machine
  of \<^verbatim>\<open>app_main.c\<close> is \<open>web_machine\<close>, \<open>ws_machine\<close> whether the pointer to it is set.
\<close>

record 's web =
  ws_server :: bool
  ws_configuration :: "device_config option"
  ws_secret :: "carray option"
  ws_machine :: bool
  session_token :: carray
  csrf_token :: carray
  session_expires_ms :: int
  session_generation :: u64
  login_failures :: u32
  login_locked_until_ms :: int
  service_stop_in_progress :: bool
  stream_mutex :: bool
  stream_lifecycle :: provisioning_stream_lifecycle
  web_device :: "'s device"
  web_machine :: provisioning_state_machine
  web_ring :: diagnostic_ring
  web_health :: health
  web_wifi :: wifi
  web_input :: machine_status_module
  web_time :: system_time
  web_mqtt :: mqtt_client_app
  web_status :: string
  web_replies :: "(string \<times> reply_body) list"
  web_effects :: "web_effect list"

text \<open>The statics at power-on; the other components are in the given states.\<close>

definition initial_web :: "'s device \<Rightarrow> provisioning_state_machine \<Rightarrow> diagnostic_ring \<Rightarrow> health \<Rightarrow> wifi
    \<Rightarrow> machine_status_module \<Rightarrow> system_time \<Rightarrow> mqtt_client_app \<Rightarrow> 's web" where
  "initial_web d window ring registry station input synced client =
     \<lparr>ws_server = False, ws_configuration = None, ws_secret = None, ws_machine = False,
      session_token = zeros 33, csrf_token = zeros 33, session_expires_ms = 0, session_generation = 0,
      login_failures = 0, login_locked_until_ms = 0, service_stop_in_progress = False, stream_mutex = False,
      stream_lifecycle = empty_lifecycle\<lparr>active_socket := 0\<rparr>,
      web_device = d, web_machine = window, web_ring = ring, web_health = registry, web_wifi = station,
      web_input = input, web_time = synced, web_mqtt = client,
      web_status = [], web_replies = [], web_effects = []\<rparr>"

text \<open>The build options.\<close>

record web_options =
  max_body_bytes :: nat
  session_seconds :: int
  login_max_failures :: u32
  login_lockout_seconds :: int

section \<open>Clock, tokens and the session\<close>

definition web_now_ms :: "int \<Rightarrow> int" where
  "web_now_ms time_us = time_us sdiv 1000"

definition random_hex :: "byte list \<Rightarrow> carray" where
  "random_hex random = concat (map hex_byte random) @ [NUL]"

definition stream_lock :: "bool \<Rightarrow> 's web \<Rightarrow> bool" where
  "stream_lock taken w \<longleftrightarrow> stream_mutex w \<and> taken"

definition service_is_stopping :: "bool \<Rightarrow> 's web \<Rightarrow> bool" where
  "service_is_stopping taken w = (if \<not> stream_lock taken w then True else service_stopping (stream_lifecycle w))"

definition session_snapshot :: "'s web \<Rightarrow> carray \<times> carray \<times> int \<times> u64" where
  "session_snapshot w = (session_token w, csrf_token w, session_expires_ms w, session_generation w)"

definition next_session_generation :: "u64 \<Rightarrow> u64" where
  "next_session_generation g = (let g = g + 1 in if g = 0 then 1 else g)"

definition session_clear :: "'s web \<Rightarrow> 's web" where
  "session_clear w = w\<lparr>session_token := zeros 33, csrf_token := zeros 33, session_expires_ms := 0,
     session_generation := next_session_generation (session_generation w)\<rparr>"

text \<open>The critical section that makes a session.\<close>

definition session_begin :: "carray \<Rightarrow> carray \<Rightarrow> int \<Rightarrow> 's web \<Rightarrow> 's web" where
  "session_begin new_session new_csrf expires_ms w = w\<lparr>login_failures := 0,
     session_generation := next_session_generation (session_generation w), session_token := new_session,
     csrf_token := new_csrf, session_expires_ms := expires_ms\<rparr>"

definition request_stream_shutdown :: "bool \<Rightarrow> bool \<Rightarrow> 's web \<Rightarrow> u64 \<times> 's web" where
  "request_stream_shutdown taken stopping_service w =
     (if \<not> stream_lock taken w then (0, w)
      else let ((worker_generation, socket_fd), l) = provisioning_stream_request_shutdown stopping_service (stream_lifecycle w);
          w = w\<lparr>stream_lifecycle := l\<rparr>;
          w = (if ws_server w \<and> socket_fd \<ge> 0 then w\<lparr>web_effects := web_effects w @ [Socket_closed socket_fd]\<rparr> else w)
        in (worker_generation, w))"

fun web_event_step :: "'s platform \<Rightarrow> web_event \<Rightarrow> 's web \<Rightarrow> 's web" where
  "web_event_step P (Worker_done g) w = w\<lparr>stream_lifecycle := snd (provisioning_stream_complete g (stream_lifecycle w))\<rparr>"
| "web_event_step P Stop_started w = snd (request_stream_shutdown True True w)"
| "web_event_step P Session_cleared w = session_clear w"
| "web_event_step P (Session_made bs cs expires_ms) w = session_begin (random_hex bs) (random_hex cs) expires_ms w"
| "web_event_step P (Store_used op) w = w\<lparr>web_device := config_step P op (web_device w)\<rparr>"
| "web_event_step P (Window_used ev) w = w\<lparr>web_machine := window_step ev (web_machine w)\<rparr>"
| "web_event_step P (Logged r) w = w\<lparr>web_ring := snd (diagnostic_ring_push (Some r) (web_ring w))\<rparr>"
| "web_event_step P (Health_used c) w = w\<lparr>web_health := health_step c (web_health w)\<rparr>"
| "web_event_step P (Wifi_used ev) w = w\<lparr>web_wifi := fst (wifi_event_handler ev (web_wifi w))\<rparr>"
| "web_event_step P (Mqtt_used k ev) w = w\<lparr>web_mqtt := mqtt_event_handler k ev (web_mqtt w)\<rparr>"
| "web_event_step P Time_synced w = w\<lparr>web_time := time_sync_notification_cb (web_time w)\<rparr>"

definition web_at :: "'s platform \<Rightarrow> request \<Rightarrow> nat \<Rightarrow> 's web \<Rightarrow> 's web" where
  "web_at P rq k w = fold (web_event_step P) (rq_meanwhile rq k) w"

definition stream_session_is_valid :: "bool \<Rightarrow> int \<Rightarrow> u64 \<Rightarrow> u64 \<Rightarrow> 's web \<Rightarrow> bool" where
  "stream_session_is_valid taken time_us stream_generation worker_generation w =
     (if \<not> stream_lock taken w then False
      else provisioning_stream_worker_current worker_generation (stream_lifecycle w) \<and>
        provisioning_security_stream_session_valid stream_generation (session_generation w) (session_expires_ms w)
          (web_now_ms time_us) False False)"

section \<open>The access point\<close>

definition request_arrived_on_softap :: "request \<Rightarrow> 's web \<Rightarrow> bool" where
  "request_arrived_on_softap rq w =
     (let (info_result, info_ip, info_netmask) = rq_softap_info rq;
          (result, info) = wifi_get_softap_ipv4 info_result info_ip info_netmask True True (web_wifi w);
          netif_ready = (result = ESP_OK);
          (softap_ipv4, softap_netmask) = (case info of Some x \<Rightarrow> x | None \<Rightarrow> (0, 0));
          (classification, _) = provisioning_softap_authorize_socket (rq_sizes rq) (rq_getsockname rq) (rq_sockfd rq)
            netif_ready softap_ipv4 softap_netmask
      in provisioning_softap_endpoint_is_authorized classification)"

section \<open>Replies\<close>

text \<open>
  The result is the server's; the reply carries the status line that the request has by then.
  The content type and the cache header, which are the same for every reply of a kind, the log
  messages and the wiping of buffers that are freed next are not part of the model.
\<close>

definition reply :: "request \<Rightarrow> reply_body \<Rightarrow> 's web \<Rightarrow> esp_err \<times> 's web" where
  "reply rq b w = (rq_send rq (length (web_replies w)), w\<lparr>web_replies := web_replies w @ [(web_status w, b)]\<rparr>)"

definition error_document :: "string \<Rightarrow> json_out" where
  "error_document text_message = Out_object [(''ok'', Out_bool False), (''error'', Out_string text_message)]"

definition json_error :: "request \<Rightarrow> string \<Rightarrow> string \<Rightarrow> 's web \<Rightarrow> esp_err \<times> 's web" where
  "json_error rq status text_message w =
     (let w = w\<lparr>web_status := status\<rparr>; document = error_document text_message
      in reply rq (if rq_prints rq document then Json_body document else Text_body ''{\"ok\":false}'') w)"

definition send_json :: "request \<Rightarrow> json_out \<Rightarrow> 's web \<Rightarrow> esp_err \<times> 's web" where
  "send_json rq document w =
     (if \<not> rq_prints rq document
      then json_error rq ''500 Internal Server Error'' ''response allocation failed'' w
      else reply rq (Json_body document) w)"

definition send_json_text :: "request \<Rightarrow> string \<Rightarrow> 's web \<Rightarrow> esp_err \<times> 's web" where
  "send_json_text rq b w = reply rq (Text_body b) w"

section \<open>Bodies\<close>

text \<open>The loop over the portions; an empty or missing portion is an error or the end of the connection.\<close>

fun receive_loop :: "nat \<Rightarrow> string list \<Rightarrow> string option" where
  "receive_loop remaining [] = (if remaining = 0 then Some [] else None)"
| "receive_loop remaining (x # xs) =
     (if remaining = 0 then Some []
      else let received = take remaining x in
        if received = [] then None else map_option ((@) received) (receive_loop (remaining - length received) xs))"

definition receive_json ::
  "'j cjson \<Rightarrow> web_options \<Rightarrow> request \<Rightarrow> 's web \<Rightarrow> (esp_err \<times> 'j option) \<times> 's web" where
  "receive_json J opt rq w =
     (let failed = (\<lambda>status text_message. let (result, w) = json_error rq status text_message w in ((result, None), w));
          content_type = rq_header rq ''Content-Type'' 64
      in if content_type = None \<or> \<not> provisioning_security_json_body_allowed content_type 1 1
         then failed ''415 Unsupported Media Type'' ''Content-Type must be application/json''
      else if \<not> provisioning_security_json_body_allowed content_type (rq_content_len rq) (max_body_bytes opt)
         then failed ''413 Content Too Large'' ''request body size is invalid''
      else if \<not> rq_allocates rq 0
         then failed ''503 Service Unavailable'' ''request buffer unavailable''
      else case receive_loop (rq_content_len rq) (rq_portions rq) of
          None \<Rightarrow> ((ESP_FAIL, None), w)
        | Some received \<Rightarrow>
            let parsed = parse_json J received in
            if \<not> json_is_object J parsed
            then failed ''400 Bad Request'' ''request body is not a JSON object''
            else ((ESP_OK, parsed), w))"

section \<open>Authentication\<close>

definition cookie_token :: "request \<Rightarrow> string option" where
  "cookie_token rq =
     (case rq_header rq ''Cookie'' 160 of None \<Rightarrow> None | Some cookie \<Rightarrow>
        case strstr cookie ''IEM_SESSION='' of None \<Rightarrow> None | Some i \<Rightarrow>
          let token = takeWhile (\<lambda>c. c \<noteq> CHR '';'' \<and> c \<noteq> CHR '' '') (drop (i + length ''IEM_SESSION='') cookie)
          in if length token \<noteq> 32 then None else Some token)"

definition record_activity :: "request \<Rightarrow> int \<Rightarrow> 's web \<Rightarrow> 's web" where
  "record_activity rq time_us w =
     (if ws_machine w
      then w\<lparr>web_machine := the (provisioning_state_authenticated_activity (rq_state_taken rq)
             (word_of_int (web_now_ms time_us)) (Some (web_machine w)))\<rparr>
      else w)"

text \<open>The session's generation if the request is authenticated; \<open>modifying\<close> asks for the CSRF token.\<close>

definition authenticated :: "'s platform \<Rightarrow> request \<Rightarrow> bool \<Rightarrow> 's web \<Rightarrow> u64 option \<times> 's web" where
  "authenticated P rq modifying w =
     (let w = web_at P rq 0 w in
      if service_is_stopping (rq_stream_taken rq) w \<or> \<not> request_arrived_on_softap rq w then (None, w)
      else case cookie_token rq of None \<Rightarrow> (None, w) | Some cookie \<Rightarrow>
        if modifying \<and> rq_header rq ''X-CSRF-Token'' 40 = None then (None, w)
        else let csrf = (if modifying then rq_header rq ''X-CSRF-Token'' 40 else None);
            w = web_at P rq 1 w;
            (expected_token, expected_csrf, expires_ms, generation) = session_snapshot w;
            authorized = provisioning_security_session_authorized (Some (cstr expected_token)) (Some cookie)
              (Some (cstr expected_csrf)) csrf expires_ms (web_now_ms (rq_clock rq 0)) modifying
          in if \<not> authorized then (None, w)
             else (Some generation, record_activity rq (rq_clock rq 1) (web_at P rq 2 w)))"

definition require_auth :: "'s platform \<Rightarrow> request \<Rightarrow> bool \<Rightarrow> 's web \<Rightarrow> esp_err \<times> 's web" where
  "require_auth P rq modifying w =
     (let (generation, w) = authenticated P rq modifying w in
      if generation \<noteq> None then (ESP_OK, w)
      else json_error rq ''401 Unauthorized'' ''authentication or CSRF validation failed'' w)"

end
