(* ===== verification/Web_Session.thy ===== *)
theory Web_Session
  imports Web_State
begin

text \<open>
  The handlers of \<^verbatim>\<open>provisioning_service.c\<close> for the page, the login and the logout.
\<close>

definition root_handler :: "'s platform \<Rightarrow> request \<Rightarrow> 's web \<Rightarrow> esp_err \<times> 's web" where
  "root_handler P rq w =
     (let w = web_at P rq 10 w in
      if \<not> request_arrived_on_softap rq w
      then json_error rq ''403 Forbidden'' ''provisioning is available only through the SoftAP'' w
      else reply rq Page_body w)"

text \<open>A failed login: the counter, and the lock when it reaches its limit.\<close>

definition login_failed :: "web_options \<Rightarrow> int \<Rightarrow> 's web \<Rightarrow> 's web" where
  "login_failed opt time_us w =
     (let w = w\<lparr>login_failures := login_failures w + 1\<rparr> in
      if login_failures w \<ge> login_max_failures opt
      then w\<lparr>login_locked_until_ms := web_now_ms time_us + login_lockout_seconds opt * 1000, login_failures := 0\<rparr>
      else w)"

definition session_cookie :: "web_options \<Rightarrow> carray \<Rightarrow> string" where
  "session_cookie opt new_session = take 127
     (''IEM_SESSION='' @ cstr new_session @ ''; Path=/; HttpOnly; SameSite=Strict; Max-Age='' @ int_string (session_seconds opt))"

definition session_document :: "carray \<Rightarrow> u64 \<Rightarrow> json_out" where
  "session_document new_csrf new_generation = Out_object
     [(''ok'', Out_bool True), (''csrf_token'', Out_string (cstr new_csrf)),
      (''stream_generation'', Out_string (dec_string (unat new_generation)))]"

definition session_create_handler ::
  "'j cjson \<Rightarrow> 's platform \<Rightarrow> web_options \<Rightarrow> request \<Rightarrow> 's web \<Rightarrow> esp_err \<times> 's web" where
  "session_create_handler J P opt rq w =
     (let w = web_at P rq 10 w in
      if \<not> request_arrived_on_softap rq w
      then json_error rq ''403 Forbidden'' ''login is available only through the SoftAP'' w
      else if web_now_ms (rq_clock rq 2) < login_locked_until_ms w
      then json_error rq ''429 Too Many Requests'' ''login temporarily locked'' w
      else let ((received, body), w) = receive_json J opt rq w in
        if received \<noteq> ESP_OK then (ESP_OK, w)
        else let w = web_at P rq 11 w;
            secret = json_string J (json_item J body ''secret'');
            valid = provisioning_security_constant_time_equal secret (map_option cstr (ws_secret w))
          in if \<not> valid
             then json_error rq ''401 Unauthorized'' ''invalid credentials'' (login_failed opt (rq_clock rq 3) w)
          else let new_session = random_hex (rq_random rq 0); new_csrf = random_hex (rq_random rq 1);
              w = session_begin new_session new_csrf (web_now_ms (rq_clock rq 4) + session_seconds opt * 1000) w;
              new_generation = session_generation w;
              (_, w) = request_stream_shutdown (rq_stream_taken rq) False (web_at P rq 12 w);
              w = w\<lparr>web_effects := web_effects w @ [Cookie_set (session_cookie opt new_session)]\<rparr>;
              (result, w) = send_json rq (session_document new_csrf new_generation) w
            in (result, record_activity rq (rq_clock rq 5) (web_at P rq 13 w)))"

definition session_delete_handler :: "'s platform \<Rightarrow> request \<Rightarrow> 's web \<Rightarrow> esp_err \<times> 's web" where
  "session_delete_handler P rq w =
     (let (auth, w) = require_auth P rq True w in
      if auth \<noteq> ESP_OK then (ESP_OK, w)
      else let w = session_clear (web_at P rq 20 w);
          (_, w) = request_stream_shutdown (rq_stream_taken rq) False (web_at P rq 21 w);
          w = w\<lparr>web_effects := web_effects w @ [Cookie_set ''IEM_SESSION=; Path=/; HttpOnly; SameSite=Strict; Max-Age=0'']\<rparr>
        in send_json_text rq ''{\"ok\":true}'' w)"

end
