(* ===== verification/Web_Config.thy ===== *)
theory Web_Config
  imports Web_State
begin

text \<open>
  The handlers of \<^verbatim>\<open>provisioning_service.c\<close> for the status and the configuration: the documents
  they send, the parser of a candidate, staging, cancelling, applying and the resets.
\<close>

section \<open>Status and configuration\<close>

fun configuration_state_name :: "device_config_state \<Rightarrow> string" where
  "configuration_state_name DEVICE_CONFIG_STATE_ACTIVE = ''active''"
| "configuration_state_name DEVICE_CONFIG_STATE_PENDING = ''pending''"
| "configuration_state_name DEVICE_CONFIG_STATE_ROLLBACK = ''rollback''"
| "configuration_state_name _ = ''none''"

text \<open>What the SDK answers while the status is gathered.\<close>

record status_answers =
  health_taken :: bool
  station_ip_info :: "esp_err \<times> u32"
  station_ap_info :: "esp_err \<times> int"
  gpio_levels :: "i32 \<Rightarrow> int"
  firmware_version :: string
  uptime_us :: int
  reset_reason :: int
  heap_bytes :: u32
  minimum_heap_bytes :: u32
  error_taken :: bool

definition out_count :: "'a::len word \<Rightarrow> json_out" where
  "out_count n = Out_number (uint n)"

definition configured_string :: "'s web \<Rightarrow> (device_config \<Rightarrow> carray) \<Rightarrow> string \<Rightarrow> json_out" where
  "configured_string w field missing =
     Out_string (case ws_configuration w of Some c \<Rightarrow> cstr (field c) | None \<Rightarrow> missing)"

definition station_ip_text :: "status_answers \<Rightarrow> 's web \<Rightarrow> string" where
  "station_ip_text a w =
     (let station_ip = store_s (zeros 16) 16 ''unavailable'' in
      cstr (if wifi_station_is_connected (web_wifi w)
            then the (snd (wifi_get_station_ip (fst (station_ip_info a)) (snd (station_ip_info a))
                   (Some station_ip) 16 (web_wifi w)))
            else station_ip))"

definition station_rssi :: "status_answers \<Rightarrow> 's web \<Rightarrow> json_out" where
  "station_rssi a w =
     (let (result, rssi) = wifi_get_station_rssi (fst (station_ap_info a)) (snd (station_ap_info a)) True (web_wifi w)
      in if wifi_station_is_connected (web_wifi w) \<and> result = ESP_OK then Out_number (the rssi) else Out_null)"

text \<open>The members of the document, from the snapshots taken before it is built.\<close>

definition status_members ::
  "status_answers \<Rightarrow> device_config_metadata \<Rightarrow> device_health_snapshot \<Rightarrow> 's web \<Rightarrow> (string \<times> json_out) list" where
  "status_members a metadata health w =
     [(''device_id'', configured_string w device_id ''unprovisioned''),
      (''firmware_version'', Out_string (firmware_version a)),
      (''uptime_seconds'', Out_number (uptime_us a sdiv 1000000)),
      (''reset_reason'', Out_number (reset_reason a)),
      (''free_heap_bytes'', out_count (heap_bytes a)),
      (''minimum_free_heap_bytes'', out_count (minimum_heap_bytes a)),
      (''configuration_state'', Out_string (configuration_state_name (md_state metadata))),
      (''candidate_revision'', out_count (candidate_revision metadata)),
      (''boot_attempts'', out_count (boot_attempts metadata)),
      (''boot_count'', out_count (boot_count metadata)),
      (''station_ip'', Out_string (station_ip_text a w)),
      (''wifi_ssid'', configured_string w wifi_ssid ''''),
      (''wifi_rssi_dbm'', station_rssi a w),
      (''sntp_synchronized'', Out_bool (system_time_is_valid (web_time w))),
      (''mqtt_tls_connected'', Out_bool (mqtt_is_connected (web_mqtt w))),
      (''mqtt_last_error'', Out_string (cstr
         (the (snd (mqtt_copy_last_error (error_taken a) (Some (zeros 96)) 96 (web_mqtt w)))))),
      (''sensor_status'', Out_string (device_health_component_status_to_string
         (comp_status (health_components health ! nat DEVICE_HEALTH_COMPONENT_SENSOR)))),
      (''machine_status'', Out_string (machine_status_to_string
         (the (snd (machine_status_get (gpio_levels a) (Some MACHINE_STATUS_UNKNOWN) (web_input w)))))),
      (''device_health'', Out_string (device_health_overall_status_to_string (overall_status health))),
      (''telemetry_counters'', Out_object
         [(''samples_ok'', out_count (samples_ok (counters health))),
          (''samples_rejected'', out_count (samples_rejected (counters health))),
          (''publish_ok'', out_count (publish_ok (counters health))),
          (''publish_failed'', out_count (publish_failed (counters health)))]),
      (''last_rollback_reason'', Out_string (cstr (last_rollback_reason metadata)))]"

definition status_handler ::
  "'s platform \<Rightarrow> status_answers \<Rightarrow> request \<Rightarrow> 's web \<Rightarrow> esp_err \<times> 's web" where
  "status_handler P a rq w =
     (let (auth, w) = require_auth P rq False w in
      if auth \<noteq> ESP_OK then (ESP_OK, w)
      else let w = web_at P rq 20 w;
          ((metadata_result, metadata), d) = device_config_get_metadata P (Some zero_metadata) (web_device w);
          w = w\<lparr>web_device := d\<rparr>
        in if metadata_result \<noteq> ESP_OK
           then json_error rq ''503 Service Unavailable'' ''configuration metadata is unavailable'' w
        else let w = web_at P rq 21 w;
            health = (case snd (device_health_get_snapshot (health_taken a) True (web_health w)) of
                Some h \<Rightarrow> h | None \<Rightarrow> zero_snapshot);
            w = web_at P rq 22 w
          in send_json rq (Out_object (status_members a (the metadata) health w)) w)"

definition pull_name :: "device_config_pull \<Rightarrow> string" where
  "pull_name p = (if p = DEVICE_CONFIG_PULL_UP then ''up''
     else if p = DEVICE_CONFIG_PULL_DOWN then ''down'' else ''none'')"

definition config_members :: "device_config_redacted \<Rightarrow> (string \<times> json_out) list" where
  "config_members r =
     [(''schema_version'', out_count (red_schema_version r)),
      (''revision'', out_count (red_revision r)),
      (''device_id'', Out_string (cstr (red_device_id r))),
      (''wifi_ssid'', Out_string (cstr (red_wifi_ssid r))),
      (''wifi_password_configured'', Out_bool (red_wifi_password_configured r)),
      (''mqtt_broker_uri'', Out_string (cstr (red_mqtt_broker_uri r))),
      (''mqtt_username'', Out_string (cstr (red_mqtt_username r))),
      (''mqtt_password_configured'', Out_bool (red_mqtt_password_configured r)),
      (''mqtt_client_id'', Out_string (cstr (red_mqtt_client_id r))),
      (''mqtt_ca_certificate_configured'', Out_bool (red_mqtt_ca_certificate_configured r)),
      (''telemetry_interval_seconds'', out_count (red_telemetry_interval_seconds r)),
      (''machine_status_provider'', Out_string
         (if red_machine_status_provider r = DEVICE_CONFIG_MACHINE_GPIO then ''gpio'' else ''disabled'')),
      (''machine_status_gpio'', Out_number (sint (red_machine_status_gpio r))),
      (''machine_status_active_level'', Out_string (if red_machine_status_active_high r then ''high'' else ''low'')),
      (''machine_status_pull'', Out_string (pull_name (red_machine_status_pull r))),
      (''maintenance_on_boot'', Out_bool (red_maintenance_on_boot r)),
      (''maintenance_window_seconds'', out_count (red_maintenance_window_seconds r)),
      (''maintenance_max_session_seconds'', out_count (red_maintenance_max_session_seconds r))]"

definition config_document :: "device_config option \<Rightarrow> json_out" where
  "config_document configuration = Out_object
     (case configuration of None \<Rightarrow> [(''state'', Out_string ''unprovisioned'')]
      | Some c \<Rightarrow> config_members (the (snd (device_config_get_redacted_snapshot (Some c) (Some zero_redacted)))))"

definition config_handler :: "'s platform \<Rightarrow> request \<Rightarrow> 's web \<Rightarrow> esp_err \<times> 's web" where
  "config_handler P rq w =
     (let (auth, w) = require_auth P rq False w in
      if auth \<noteq> ESP_OK then (ESP_OK, w) else send_json rq (config_document (ws_configuration w)) w)"

section \<open>Parsing a candidate\<close>

text \<open>The outcome and the target array; the code's \<^verbatim>\<open>size\<close> is the capacity of the target.\<close>

definition copy_json_string ::
  "'j cjson \<Rightarrow> 'j option \<Rightarrow> string \<Rightarrow> nat \<Rightarrow> bool \<Rightarrow> carray \<Rightarrow> bool \<times> carray" where
  "copy_json_string J object name capacity required target =
     (let item = json_item J object name in
      if item = None \<and> \<not> required then (True, target)
      else case json_string J item of None \<Rightarrow> (False, target) | Some s \<Rightarrow>
        if s = [] then (False, target)
        else let (target, written) = snprintf_s target capacity s in (written < capacity, target))"

fun double_u32 :: "double \<Rightarrow> u32 option" where
  "double_u32 (Double_infinity _) = None"
| "double_u32 (Double x) =
     (if x < 0 \<or> x > 4294967295 \<or> x \<noteq> of_int \<lfloor>x\<rfloor> then None else Some (word_of_int \<lfloor>x\<rfloor>))"

definition json_uint :: "'j cjson \<Rightarrow> 'j option \<Rightarrow> string \<Rightarrow> bool \<Rightarrow> u32 \<Rightarrow> bool \<times> u32" where
  "json_uint J object name required target =
     (let item = json_item J object name in
      if item = None \<and> \<not> required then (True, target)
      else case Option.bind item (number_value J) of None \<Rightarrow> (False, target) | Some x \<Rightarrow>
        case double_u32 x of None \<Rightarrow> (False, target) | Some v \<Rightarrow> (True, v))"

text \<open>A conjunction of field copies, left to right up to the first that fails.\<close>

type_synonym field_copy = "device_config \<Rightarrow> bool \<times> device_config"

fun copy_fields :: "field_copy list \<Rightarrow> field_copy" where
  "copy_fields [] c = (True, c)"
| "copy_fields (f # fs) c = (let (ok, c) = f c in if ok then copy_fields fs c else (False, c))"

definition string_field :: "'j cjson \<Rightarrow> 'j option \<Rightarrow> string \<Rightarrow> nat \<Rightarrow> bool \<Rightarrow> (device_config \<Rightarrow> carray)
    \<Rightarrow> ((carray \<Rightarrow> carray) \<Rightarrow> device_config \<Rightarrow> device_config) \<Rightarrow> field_copy" where
  "string_field J object name capacity required field field_update c =
     (let (ok, a) = copy_json_string J object name capacity required (field c) in (ok, field_update (\<lambda>_. a) c))"

definition uint_field :: "'j cjson \<Rightarrow> 'j option \<Rightarrow> string \<Rightarrow> bool \<Rightarrow> (device_config \<Rightarrow> u32)
    \<Rightarrow> ((u32 \<Rightarrow> u32) \<Rightarrow> device_config \<Rightarrow> device_config) \<Rightarrow> field_copy" where
  "uint_field J object name required field field_update c =
     (let (ok, v) = json_uint J object name required (field c) in (ok, field_update (\<lambda>_. v) c))"

text \<open>The group's object and the member's name in it, or the root and the flat name.\<close>

definition group_of :: "'j cjson \<Rightarrow> 'j option \<Rightarrow> string \<Rightarrow> 'j option" where
  "group_of J doc name = (let x = json_item J doc name in if json_is_object J x then x else doc)"

definition name_in :: "'j cjson \<Rightarrow> 'j option \<Rightarrow> string \<Rightarrow> string \<Rightarrow> string \<Rightarrow> string" where
  "name_in J doc outer inner flat = (if json_is_object J (json_item J doc outer) then inner else flat)"

definition candidate_base :: "device_config option \<Rightarrow> device_config" where
  "candidate_base active =
     (case active of Some c \<Rightarrow> c\<lparr>revision := revision c + 1\<rparr>
      | None \<Rightarrow> zero_config\<lparr>revision := 1, machine_status_gpio := 27,
                  machine_status_pull := DEVICE_CONFIG_PULL_NONE\<rparr>)"

definition parse_fields :: "'j cjson \<Rightarrow> 'j option \<Rightarrow> bool \<Rightarrow> field_copy" where
  "parse_fields J doc has_active =
     (let mqtt = group_of J doc ''mqtt''; named = name_in J doc ''mqtt'' in
      copy_fields
       [string_field J doc ''device_id'' 64 True device_id device_id_update,
        string_field J doc ''wifi_ssid'' 33 True wifi_ssid wifi_ssid_update,
        string_field J doc ''wifi_password'' 64 (\<not> has_active) wifi_password wifi_password_update,
        string_field J mqtt (named ''broker_uri'' ''mqtt_broker_uri'') 256 True mqtt_broker_uri mqtt_broker_uri_update,
        string_field J mqtt (named ''username'' ''mqtt_username'') 64 True mqtt_username mqtt_username_update,
        string_field J mqtt (named ''password'' ''mqtt_password'') 128 (\<not> has_active) mqtt_password mqtt_password_update,
        string_field J mqtt (named ''client_id'' ''mqtt_client_id'') 128 True mqtt_client_id mqtt_client_id_update,
        string_field J mqtt (named ''ca_certificate'' ''mqtt_ca_certificate'') 4096 (\<not> has_active)
          mqtt_ca_certificate mqtt_ca_certificate_update,
        uint_field J doc ''telemetry_interval_seconds'' True
          telemetry_interval_seconds telemetry_interval_seconds_update])"

definition parse_timeouts :: "'j cjson \<Rightarrow> 'j option \<Rightarrow> field_copy" where
  "parse_timeouts J doc =
     (let maintenance = group_of J doc ''maintenance''; named = name_in J doc ''maintenance'' in
      copy_fields
       [uint_field J maintenance (named ''window_seconds'' ''maintenance_window_seconds'') True
          maintenance_window_seconds maintenance_window_seconds_update,
        uint_field J maintenance (named ''max_session_seconds'' ''maintenance_max_session_seconds'') True
          maintenance_max_session_seconds maintenance_max_session_seconds_update])"

definition parse_pull :: "'j cjson \<Rightarrow> 'j option \<Rightarrow> device_config_pull option" where
  "parse_pull J item =
     (if item = None \<or> json_string J item = Some ''none'' then Some DEVICE_CONFIG_PULL_NONE
      else if json_string J item = Some ''up'' then Some DEVICE_CONFIG_PULL_UP
      else if json_string J item = Some ''down'' then Some DEVICE_CONFIG_PULL_DOWN
      else None)"

text \<open>The machine input: the message of an error, if any, and the configuration so far.\<close>

definition parse_machine :: "'j cjson \<Rightarrow> 'j option \<Rightarrow> device_config \<Rightarrow> string option \<times> device_config" where
  "parse_machine J doc c =
     (let source = group_of J doc ''machine_status''; named = name_in J doc ''machine_status'';
          chosen = json_string J (json_item J source (named ''provider'' ''machine_status_provider''))
      in if chosen \<noteq> Some ''disabled'' \<and> chosen \<noteq> Some ''gpio''
         then (Some ''machine_status_provider must be disabled or gpio'', c)
      else let c = c\<lparr>machine_status_provider :=
              if chosen = Some ''gpio'' then DEVICE_CONFIG_MACHINE_GPIO else DEVICE_CONFIG_MACHINE_DISABLED\<rparr>;
            (ok, gpio) = json_uint J source (named ''gpio'' ''machine_status_gpio'')
              (machine_status_provider c = DEVICE_CONFIG_MACHINE_GPIO) (machine_status_gpio c)
        in if \<not> ok then (Some ''machine_status_gpio must be an integer'', c)
      else let c = c\<lparr>machine_status_gpio := gpio\<rparr>;
            active = json_item J source (named ''active_level'' ''machine_status_active_level'');
            active_level = json_string J active
        in if active \<noteq> None \<and> active_level \<noteq> Some ''high'' \<and> active_level \<noteq> Some ''low''
           then (Some ''machine_status_active_level must be high or low'', c)
      else let c = (if active \<noteq> None then c\<lparr>machine_status_active_high := (active_level = Some ''high'')\<rparr> else c)
        in case parse_pull J (json_item J source (named ''pull'' ''machine_status_pull'')) of
             None \<Rightarrow> (Some ''machine_status_pull is invalid'', c)
           | Some p \<Rightarrow> (None, c\<lparr>machine_status_pull := p\<rparr>))"

definition parse_configuration :: "(string \<Rightarrow> int) \<Rightarrow> 'j cjson \<Rightarrow> device_config option \<Rightarrow> 'j option \<Rightarrow> carray \<Rightarrow> nat
    \<Rightarrow> esp_err \<times> device_config \<times> carray" where
  "parse_configuration x509 J active doc err error_size =
     (let refused = (\<lambda>text_message c. (ESP_ERR_INVALID_ARG, c, store_s err error_size text_message));
          c = candidate_base active;
          (ok, version) = json_uint J doc ''schema_version'' True 0
      in if \<not> ok \<or> version \<noteq> DEVICE_CONFIG_SCHEMA_VERSION
         then refused ''schema_version is missing or unsupported'' c
      else let (ok, c) = parse_fields J doc (active \<noteq> None) (c\<lparr>schema_version := version\<rparr>)
        in if \<not> ok then refused ''one or more required fields have invalid type, value or length'' c
      else case Option.bind (json_item J (group_of J doc ''maintenance'')
                 (name_in J doc ''maintenance'' ''on_boot'' ''maintenance_on_boot'')) (bool_value J) of
          None \<Rightarrow> refused ''maintenance_on_boot must be boolean'' c
        | Some enabled \<Rightarrow>
      let (ok, c) = parse_timeouts J doc (c\<lparr>maintenance_on_boot := enabled\<rparr>)
        in if \<not> ok then refused ''maintenance timeouts must be integers'' c
      else let (problem, c) = parse_machine J doc c
        in case problem of Some text_message \<Rightarrow> refused text_message c
           | None \<Rightarrow> let (result, err) = device_config_validate x509 (Some c) err error_size in (result, c, err))"

section \<open>Staging, cancelling and the restarts\<close>

definition candidate_put_handler ::
  "'j cjson \<Rightarrow> 's platform \<Rightarrow> web_options \<Rightarrow> request \<Rightarrow> 's web \<Rightarrow> esp_err \<times> 's web" where
  "candidate_put_handler J P opt rq w =
     (let (auth, w) = require_auth P rq True w in
      if auth \<noteq> ESP_OK then (ESP_OK, w)
      else let ((received, body), w) = receive_json J opt rq w in
        if received \<noteq> ESP_OK then (ESP_OK, w)
      else if \<not> rq_allocates rq 1
        then json_error rq ''503 Service Unavailable'' ''candidate buffer unavailable'' w
      else let w = web_at P rq 20 w;
          (parse_result, candidate, err) = parse_configuration (p_x509 P) J (ws_configuration w) body (zeros 160) 160;
          (parse_result, d) = (if parse_result = ESP_OK
             then device_config_stage_candidate P (Some candidate) (web_device w) else (parse_result, web_device w));
          w = w\<lparr>web_device := d\<rparr>
        in if parse_result = ESP_ERR_INVALID_STATE
           then json_error rq ''409 Conflict'' ''candidate validation is already in progress'' w
        else if parse_result \<noteq> ESP_OK
           then json_error rq ''422 Unprocessable Content''
             (if err ! 0 \<noteq> NUL then cstr err else ''candidate persistence failed'') w
        else send_json_text rq ''{\"ok\":true,\"state\":\"pending\"}'' w)"

definition candidate_delete_handler :: "'s platform \<Rightarrow> request \<Rightarrow> 's web \<Rightarrow> esp_err \<times> 's web" where
  "candidate_delete_handler P rq w =
     (let (auth, w) = require_auth P rq True w in
      if auth \<noteq> ESP_OK then (ESP_OK, w)
      else let w = web_at P rq 20 w;
          (result, d) = device_config_cancel_candidate P (web_device w);
          w = w\<lparr>web_device := d\<rparr>
        in if result = ESP_ERR_INVALID_STATE
           then json_error rq ''409 Conflict'' ''candidate validation is already in progress'' w
        else if result \<noteq> ESP_OK
           then json_error rq ''500 Internal Server Error'' ''candidate cancellation failed'' w
        else send_json_text rq ''{\"ok\":true}'' w)"

text \<open>The last steps of a restart: the reply, the wait and the restart, from which nothing returns.\<close>

definition reply_and_restart :: "request \<Rightarrow> 's web \<Rightarrow> esp_err \<times> 's web" where
  "reply_and_restart rq w =
     (let (_, w) = send_json_text rq ''{\"ok\":true,\"rebooting\":true}'' w
      in (ESP_OK, w\<lparr>web_effects := web_effects w @ [Device_restarted]\<rparr>))"

definition delayed_restart_response :: "'s platform \<Rightarrow> request \<Rightarrow> bool \<Rightarrow> 's web \<Rightarrow> esp_err \<times> 's web" where
  "delayed_restart_response P rq factory_reset w =
     (let (auth, w) = require_auth P rq True w in
      if auth \<noteq> ESP_OK then (ESP_OK, w)
      else if \<not> factory_reset then reply_and_restart rq w
      else if \<not> provisioning_security_factory_confirmed (rq_header rq ''X-Confirm-Factory-Reset'' 64)
        then json_error rq ''409 Conflict'' ''strong factory-reset confirmation is required'' w
      else let w = web_at P rq 20 w;
          (result, d) = device_config_factory_reset P (web_device w);
          w = w\<lparr>web_device := d\<rparr>
        in if result \<noteq> ESP_OK then json_error rq ''500 Internal Server Error'' ''factory reset failed'' w
           else reply_and_restart rq w)"

definition apply_handler :: "'s platform \<Rightarrow> request \<Rightarrow> 's web \<Rightarrow> esp_err \<times> 's web" where
  "apply_handler P rq w =
     (let (auth, w) = require_auth P rq True w in
      if auth \<noteq> ESP_OK then (ESP_OK, w)
      else let w = web_at P rq 20 w;
          (validating, d) = device_config_candidate_validation_in_progress P (web_device w);
          w = w\<lparr>web_device := d\<rparr>
        in if validating
           then json_error rq ''409 Conflict'' ''candidate validation is already in progress'' w
        else let w = web_at P rq 21 w;
            ((result, metadata), d) = device_config_get_metadata P (Some zero_metadata) (web_device w);
            w = w\<lparr>web_device := d\<rparr>
          in if result \<noteq> ESP_OK \<or> md_state (the metadata) \<noteq> DEVICE_CONFIG_STATE_PENDING
             then json_error rq ''409 Conflict'' ''no validated candidate is pending'' w
          else reply_and_restart rq w)"

definition reboot_handler :: "'s platform \<Rightarrow> request \<Rightarrow> 's web \<Rightarrow> esp_err \<times> 's web" where
  "reboot_handler P rq w = delayed_restart_response P rq False w"

definition factory_reset_handler :: "'s platform \<Rightarrow> request \<Rightarrow> 's web \<Rightarrow> esp_err \<times> 's web" where
  "factory_reset_handler P rq w = delayed_restart_response P rq True w"

end
