(* ===== verification/Web_Stream.thy ===== *)
theory Web_Stream
  imports Web_Config
begin

text \<open>
  The diagnostic log over HTTP (\<^verbatim>\<open>provisioning_service.c\<close>): the cursor and the generation of a
  query, a batch as a document, the handler of a single batch, the handler that starts the stream
  worker, and the worker.
\<close>

section \<open>Queries\<close>

definition c_space :: "char \<Rightarrow> bool" where
  "c_space c \<longleftrightarrow> c = CHR '' '' \<or> (9 \<le> (of_char c :: nat) \<and> (of_char c :: nat) \<le> 13)"

text \<open>The value and the rest of the string; the whole string if there is no number.\<close>

definition strtoull :: "string \<Rightarrow> u64 \<times> string" where
  "strtoull s =
     (let t = dropWhile c_space s;
          negative = (t \<noteq> [] \<and> hd t = CHR ''-'');
          t = (if t \<noteq> [] \<and> (hd t = CHR ''-'' \<or> hd t = CHR ''+'') then tl t else t);
          digits = takeWhile is_digit t;
          value = dec_value digits
      in if digits = [] then (0, s)
         else (if value \<ge> 2 ^ 64 then - 1 else if negative then - of_nat value else of_nat value,
               dropWhile is_digit t))"

text \<open>The cursor, 0 without a query, \<open>None\<close> when the function returns false.\<close>

definition request_cursor :: "request \<Rightarrow> u64 option" where
  "request_cursor rq =
     (if rq_query_len rq = 0 then Some 0
      else if rq_query_len rq \<ge> 128 then None
      else case rq_query rq ''after'' 24 of None \<Rightarrow> None | Some value \<Rightarrow>
        let (parsed, rest) = strtoull value in
        if value = [] \<or> rest \<noteq> [] then None else Some parsed)"

definition request_stream_generation :: "request \<Rightarrow> string option" where
  "request_stream_generation rq =
     (if rq_query_len rq = 0 \<or> rq_query_len rq \<ge> 128 then None
      else case rq_query rq ''generation'' 21 of None \<Rightarrow> None | Some value \<Rightarrow>
        if provisioning_security_parse_stream_generation (Some value) = None then None else Some value)"

definition stream_no_content :: "request \<Rightarrow> 's web \<Rightarrow> esp_err \<times> 's web" where
  "stream_no_content rq w = reply rq Empty_body (w\<lparr>web_status := ''204 No Content''\<rparr>)"

section \<open>Batches\<close>

definition record_json :: "diagnostic_log_record \<Rightarrow> json_out" where
  "record_json r = Out_object
     [(''sequence'', out_count (seq_no r)), (''relative_ms'', out_count (relative_ms r)),
      (''level'', Out_string (cstr [level r, NUL])), (''component'', Out_string (cstr (log_component r))),
      (''message'', Out_string (cstr (message r)))]"

text \<open>The document, the new cursor and whether there is more; \<open>None\<close> without memory.\<close>

definition logs_json :: "bool \<Rightarrow> u64 \<Rightarrow> 's web \<Rightarrow> (json_out \<times> u64 \<times> bool) option" where
  "logs_json allocates after w =
     (if \<not> allocates then None
      else let b = diagnostic_ring_batch (web_ring w) after in
        Some (Out_object
          [(''cursor'', out_count (cursor b)),
           (''first_available_sequence'', out_count (first_available_sequence b)),
           (''next_sequence'', out_count (batch_next_sequence b)),
           (''overwritten'', out_count (batch_overwritten b)),
           (''lost_before_cursor'', out_count (lost_before_cursor b)),
           (''has_more'', Out_bool (has_more b)),
           (''records'', Out_array (map record_json (take (batch_count b) (batch_records b))))],
         cursor b, has_more b))"

definition logs_handler :: "'s platform \<Rightarrow> request \<Rightarrow> 's web \<Rightarrow> esp_err \<times> 's web" where
  "logs_handler P rq w =
     (let (auth, w) = require_auth P rq False w in
      if auth \<noteq> ESP_OK then (ESP_OK, w)
      else case request_cursor rq of
          None \<Rightarrow> json_error rq ''400 Bad Request'' ''after cursor is invalid'' w
        | Some after \<Rightarrow>
            let w = web_at P rq 20 w in
            case logs_json (rq_allocates rq 1) after w of
              None \<Rightarrow> json_error rq ''503 Service Unavailable'' ''diagnostic batch unavailable'' w
            | Some (document, _, _) \<Rightarrow> send_json rq document w)"

section \<open>The stream worker\<close>

record diagnostic_stream_context =
  sc_session_generation :: u64
  sc_worker_generation :: u64
  sc_lifecycle :: provisioning_async_lifecycle

definition stream_context :: "u64 \<Rightarrow> u64 \<Rightarrow> diagnostic_stream_context" where
  "stream_context session worker = \<lparr>sc_session_generation = session, sc_worker_generation = worker,
     sc_lifecycle = \<lparr>async_completed = False\<rparr>\<rparr>"

definition web_effect_add :: "web_effect \<Rightarrow> 's web \<Rightarrow> 's web" where
  "web_effect_add e w = w\<lparr>web_effects := web_effects w @ [e]\<rparr>"

definition complete_stream_context ::
  "diagnostic_stream_context \<Rightarrow> 's web \<Rightarrow> diagnostic_stream_context \<times> 's web" where
  "complete_stream_context context w =
     (let (first, l) = provisioning_async_mark_complete (Some (sc_lifecycle context))
      in (context\<lparr>sc_lifecycle := the l\<rparr>, if first then web_effect_add Stream_request_completed w else w))"

definition stream_release :: "bool \<Rightarrow> u64 \<Rightarrow> 's web \<Rightarrow> 's web" where
  "stream_release taken g w =
     (if stream_lock taken w
      then w\<lparr>stream_lifecycle := snd (provisioning_stream_complete g (stream_lifecycle w))\<rparr> else w)"

text \<open>
  What an iteration meets: the steps of other tasks before it checks the session and before it
  reads the log, the mutex, the clock, the memory for the batch and its text, and the results of
  the three chunks.
\<close>

record stream_round =
  rd_before_check :: "web_event list"
  rd_before_batch :: "web_event list"
  rd_taken :: bool
  rd_clock :: int
  rd_allocates :: bool
  rd_prints :: bool
  rd_sends :: "nat \<Rightarrow> esp_err"

text \<open>The three chunks of a document, up to the first that cannot be sent.\<close>

definition send_event :: "(nat \<Rightarrow> esp_err) \<Rightarrow> json_out \<Rightarrow> 's web \<Rightarrow> bool \<times> 's web" where
  "send_event sends document w =
     (let w = web_effect_add (Stream_text ''data: '') w in
      if sends 0 \<noteq> ESP_OK then (False, w)
      else let w = web_effect_add (Stream_document document) w in
        if sends 1 \<noteq> ESP_OK then (False, w)
      else (sends 2 = ESP_OK, web_effect_add (Stream_text [CHR 0x0A, CHR 0x0A]) w))"

fun stream_loop :: "'s platform \<Rightarrow> (nat \<Rightarrow> stream_round) \<Rightarrow> diagnostic_stream_context \<Rightarrow> nat \<Rightarrow> nat \<Rightarrow> u64
    \<Rightarrow> 's web \<Rightarrow> 's web" where
  "stream_loop P rounds context 0 iteration sequence w = w"
| "stream_loop P rounds context (Suc n) iteration sequence w =
     (let r = rounds iteration; w = fold (web_event_step P) (rd_before_check r) w in
      if \<not> stream_session_is_valid (rd_taken r) (rd_clock r) (sc_session_generation context)
             (sc_worker_generation context) w then w
      else let w = fold (web_event_step P) (rd_before_batch r) w in
        case logs_json (rd_allocates r) sequence w of None \<Rightarrow> w | Some (document, next_cursor, further) \<Rightarrow>
          if \<not> rd_prints r then w
          else let (sent, w) = send_event (rd_sends r) document w in
            if \<not> sent then w
            else stream_loop P rounds context n (Suc iteration) next_cursor (web_effect_add (Stream_waits further) w))"

definition logs_stream_worker ::
  "'s platform \<Rightarrow> (nat \<Rightarrow> stream_round) \<Rightarrow> request \<Rightarrow> diagnostic_stream_context \<Rightarrow> 's web \<Rightarrow> 's web" where
  "logs_stream_worker P rounds rq context w =
     (let sequence = (case request_cursor rq of Some c \<Rightarrow> c | None \<Rightarrow> 0);
          w = stream_loop P rounds context 30 0 sequence w;
          w = web_effect_add Stream_end w;
          (context, w) = complete_stream_context context w
      in stream_release (rq_stream_taken rq) (sc_worker_generation context) (web_at P rq 30 w))"

section \<open>Starting the worker\<close>

text \<open>The reply and the clean-up when the worker cannot be started after the request was taken over.\<close>

definition stream_refused :: "request \<Rightarrow> diagnostic_stream_context \<Rightarrow> string \<Rightarrow> 's web \<Rightarrow> esp_err \<times> 's web" where
  "stream_refused rq context text_message w =
     (let (_, w) = json_error rq ''503 Service Unavailable'' text_message w;
          (context, w) = complete_stream_context context w
      in (ESP_OK, stream_release (rq_stream_taken rq) (sc_worker_generation context) w))"

definition stream_start :: "'s platform \<Rightarrow> request \<Rightarrow> u64 \<Rightarrow> u64 \<Rightarrow> 's web \<Rightarrow> esp_err \<times> 's web" where
  "stream_start P rq authorized worker w =
     (if rq_async rq \<noteq> ESP_OK
      then json_error rq ''503 Service Unavailable'' ''asynchronous diagnostic stream unavailable''
             (stream_release (rq_stream_taken rq) worker w)
      else let context = stream_context authorized worker in
        if \<not> rq_allocates rq 1 then stream_refused rq context ''diagnostic stream context unavailable'' w
      else let w = web_at P rq 21 w;
          (attached, l) = (if stream_lock (rq_stream_taken rq) w
             then provisioning_stream_attach_socket worker (rq_sockfd rq) (stream_lifecycle w)
             else (False, stream_lifecycle w));
          w = w\<lparr>stream_lifecycle := l\<rparr>
        in if \<not> attached then stream_refused rq context ''diagnostic stream is stopping'' w
        else if \<not> rq_task rq then stream_refused rq context ''diagnostic worker unavailable'' w
        else (ESP_OK, web_effect_add (Stream_started worker authorized) w))"

definition logs_stream_handler :: "'s platform \<Rightarrow> request \<Rightarrow> 's web \<Rightarrow> esp_err \<times> 's web" where
  "logs_stream_handler P rq w =
     (let (authorized, w) = authenticated P rq False w in
      case (authorized, request_stream_generation rq) of
        (Some authorized_generation, Some requested_generation) \<Rightarrow>
          let w = web_at P rq 20 w in
          if \<not> stream_lock (rq_stream_taken rq) w then stream_no_content rq w
          else if \<not> (provisioning_security_stream_request_authorized (Some requested_generation) authorized_generation
                    (session_expires_ms w) (web_now_ms (rq_clock rq 2)) \<and> session_generation w = authorized_generation)
            then stream_no_content rq w
          else let (admission, l) = provisioning_stream_admit (stream_lifecycle w); w = w\<lparr>stream_lifecycle := l\<rparr>
            in (case admission of
                  None \<Rightarrow> json_error rq ''409 Conflict'' ''only one diagnostic stream is allowed'' w
                | Some worker \<Rightarrow> stream_start P rq authorized_generation worker w)
      | _ \<Rightarrow> stream_no_content rq w)"

end
