(* ===== verification/Web_Service.thy ===== *)
theory Web_Service
  imports Web_Session Web_Stream
begin

text \<open>
  The routes of \<^verbatim>\<open>provisioning_service.c\<close>, a request served over them, and starting and stopping
  the service.
\<close>

section \<open>Routes\<close>

datatype httpd_method = HTTP_GET | HTTP_POST | HTTP_PUT | HTTP_DELETE

datatype http_handler =
    Root
  | Session_create
  | Session_delete
  | Status
  | Config
  | Candidate_put
  | Candidate_delete
  | Apply_candidate
  | Logs
  | Logs_stream
  | Reboot
  | Reset_to_factory

definition handlers :: "(string \<times> httpd_method \<times> http_handler) list" where
  "handlers =
     [(''/'', HTTP_GET, Root),
      (''/api/session'', HTTP_POST, Session_create),
      (''/api/session'', HTTP_DELETE, Session_delete),
      (''/api/status'', HTTP_GET, Status),
      (''/api/config'', HTTP_GET, Config),
      (''/api/config/candidate'', HTTP_PUT, Candidate_put),
      (''/api/config/candidate'', HTTP_DELETE, Candidate_delete),
      (''/api/config/apply'', HTTP_POST, Apply_candidate),
      (''/api/logs'', HTTP_GET, Logs),
      (''/api/logs/stream'', HTTP_GET, Logs_stream),
      (''/api/reboot'', HTTP_POST, Reboot),
      (''/api/factory-reset'', HTTP_POST, Reset_to_factory)]"

fun run_handler :: "'j cjson \<Rightarrow> 's platform \<Rightarrow> web_options \<Rightarrow> status_answers \<Rightarrow> http_handler \<Rightarrow> request
    \<Rightarrow> 's web \<Rightarrow> esp_err \<times> 's web" where
  "run_handler J P opt a Root rq w = root_handler P rq w"
| "run_handler J P opt a Session_create rq w = session_create_handler J P opt rq w"
| "run_handler J P opt a Session_delete rq w = session_delete_handler P rq w"
| "run_handler J P opt a Status rq w = status_handler P a rq w"
| "run_handler J P opt a Config rq w = config_handler P rq w"
| "run_handler J P opt a Candidate_put rq w = candidate_put_handler J P opt rq w"
| "run_handler J P opt a Candidate_delete rq w = candidate_delete_handler P rq w"
| "run_handler J P opt a Apply_candidate rq w = apply_handler P rq w"
| "run_handler J P opt a Logs rq w = logs_handler P rq w"
| "run_handler J P opt a Logs_stream rq w = logs_stream_handler P rq w"
| "run_handler J P opt a Reboot rq w = reboot_handler P rq w"
| "run_handler J P opt a Reset_to_factory rq w = factory_reset_handler P rq w"

text \<open>
  The server calls the handler registered for the exact path and method, with the status line
  that a request has at first; it answers other requests itself.
\<close>

definition route_of :: "string \<Rightarrow> httpd_method \<Rightarrow> http_handler option" where
  "route_of path method = map_option (\<lambda>(_, _, h). h) (find (\<lambda>(u, m, _). u = path \<and> m = method) handlers)"

definition fresh_request :: "'s web \<Rightarrow> 's web" where
  "fresh_request w = w\<lparr>web_status := ''200 OK'', web_replies := []\<rparr>"

definition serve :: "'j cjson \<Rightarrow> 's platform \<Rightarrow> web_options \<Rightarrow> status_answers \<Rightarrow> string \<Rightarrow> httpd_method \<Rightarrow> request
    \<Rightarrow> 's web \<Rightarrow> 's web" where
  "serve J P opt a path method rq w =
     (if \<not> ws_server w then w
      else case route_of path method of None \<Rightarrow> w
      | Some h \<Rightarrow> snd (run_handler J P opt a h rq (fresh_request w)))"

section \<open>Starting\<close>

record httpd_config =
  max_uri_handlers :: nat
  max_open_sockets :: nat
  lru_purge_enable :: bool
  recv_wait_timeout :: nat
  send_wait_timeout :: nat
  stack_size :: nat

definition server_config :: "httpd_config \<Rightarrow> httpd_config" where
  "server_config base = base\<lparr>max_uri_handlers := 12, max_open_sockets := 4, lru_purge_enable := True,
     recv_wait_timeout := 5, send_wait_timeout := 2, stack_size := 8192\<rparr>"

text \<open>The registrations up to the first failure.\<close>

fun register_handlers :: "(string \<Rightarrow> httpd_method \<Rightarrow> esp_err) \<Rightarrow> (string \<times> httpd_method \<times> http_handler) list \<Rightarrow> esp_err" where
  "register_handlers register [] = ESP_OK"
| "register_handlers register ((path, method, h) # hs) =
     (let result = register path method in if result \<noteq> ESP_OK then result else register_handlers register hs)"

definition forget_parameters :: "'s web \<Rightarrow> 's web" where
  "forget_parameters w = w\<lparr>ws_configuration := None, ws_secret := None, ws_machine := False\<rparr>"

definition provisioning_service_start ::
  "bool \<Rightarrow> bool \<Rightarrow> (httpd_config \<Rightarrow> esp_err) \<Rightarrow> (string \<Rightarrow> httpd_method \<Rightarrow> esp_err) \<Rightarrow> httpd_config
     \<Rightarrow> device_config option \<Rightarrow> carray option \<Rightarrow> provisioning_state_machine option \<Rightarrow> 's web \<Rightarrow> esp_err \<times> 's web" where
  "provisioning_service_start created taken httpd_start register base runtime setup_secret state_machine w =
     (if ws_server w \<or> setup_secret = None \<or> state_machine = None then (ESP_ERR_INVALID_ARG, w)
      else let w = (if stream_mutex w then w else w\<lparr>stream_mutex := created\<rparr>) in
        if \<not> stream_mutex w then (ESP_ERR_NO_MEM, w)
      else if \<not> stream_lock taken w then (ESP_FAIL, w)
      else let w = w\<lparr>stream_lifecycle := the (provisioning_stream_lifecycle_init (Some (stream_lifecycle w))),
              ws_configuration := runtime, ws_secret := setup_secret, ws_machine := True, web_machine := the state_machine\<rparr>;
          result = httpd_start (server_config base)
        in if result \<noteq> ESP_OK then (result, forget_parameters w)
      else let result = register_handlers register handlers
        in if result \<noteq> ESP_OK then (result, forget_parameters (w\<lparr>ws_server := False\<rparr>))
      else (ESP_OK, w\<lparr>ws_server := True\<rparr>))"

section \<open>Stopping\<close>

text \<open>
  A poll of the loop: the steps of other tasks before it, whether the mutex could be taken, and
  the clock. Without a further poll the loop is still waiting: \<open>None\<close>.
\<close>

type_synonym stop_poll = "web_event list \<times> bool \<times> int"

fun stop_wait :: "'s platform \<Rightarrow> stop_poll list \<Rightarrow> u64 \<Rightarrow> int \<Rightarrow> 's web \<Rightarrow> (bool \<times> 's web) option" where
  "stop_wait P polls worker deadline_ms w =
     (if worker = 0 then Some (True, w)
      else case polls of [] \<Rightarrow> None | (events, taken, time_us) # polls \<Rightarrow>
        let w = fold (web_event_step P) events w;
            stopped = (stream_lock taken w \<and> provisioning_stream_stop_satisfied worker (stream_lifecycle w))
        in if stopped then Some (True, w)
           else if web_now_ms time_us \<ge> deadline_ms then Some (False, w)
           else stop_wait P polls worker deadline_ms w)"

declare stop_wait.simps [simp del]

lemma stop_wait_simps [simp]:
  "stop_wait P polls 0 deadline_ms w = Some (True, w)"
  "worker \<noteq> 0 \<Longrightarrow> stop_wait P [] worker deadline_ms w = None"
  "worker \<noteq> 0 \<Longrightarrow> stop_wait P ((events, taken, time_us) # polls) worker deadline_ms w =
     (let w = fold (web_event_step P) events w in
      if stream_lock taken w \<and> provisioning_stream_stop_satisfied worker (stream_lifecycle w) then Some (True, w)
      else if web_now_ms time_us \<ge> deadline_ms then Some (False, w)
      else stop_wait P polls worker deadline_ms w)"
  by (subst stop_wait.simps, simp)+

text \<open>What the stopping meets beside the polls.\<close>

record stop_answers =
  so_before :: "web_event list"
  so_taken :: bool
  so_clock :: int
  so_polls :: "stop_poll list"
  so_after :: "web_event list"
  so_httpd_stop :: esp_err
  so_meanwhile :: "web_event list"

definition service_cleared :: "bool \<Rightarrow> 's web \<Rightarrow> 's web" where
  "service_cleared taken w =
     (let w = (if stream_lock taken w
         then w\<lparr>stream_lifecycle := the (provisioning_stream_lifecycle_init (Some (stream_lifecycle w)))\<rparr> else w)
      in w\<lparr>ws_server := False, ws_configuration := None, ws_secret := None, ws_machine := False,
           login_failures := 0, login_locked_until_ms := 0\<rparr>)"

definition provisioning_service_stop :: "'s platform \<Rightarrow> stop_answers \<Rightarrow> 's web \<Rightarrow> (esp_err \<times> 's web) option" where
  "provisioning_service_stop P so w =
     (if service_stop_in_progress w then Some (ESP_ERR_TIMEOUT, w)
      else let w = w\<lparr>service_stop_in_progress := True\<rparr> in
        if \<not> ws_server w then Some (ESP_OK, w\<lparr>service_stop_in_progress := False\<rparr>)
      else let (worker_generation, w) = request_stream_shutdown (so_taken so) True (fold (web_event_step P) (so_before so) w);
          deadline_ms = web_now_ms (so_clock so) + 4000
        in case stop_wait P (so_polls so) worker_generation deadline_ms w of
             None \<Rightarrow> None
           | Some (stopped, w) \<Rightarrow>
               if \<not> stopped then Some (ESP_ERR_TIMEOUT, w\<lparr>service_stop_in_progress := False\<rparr>)
               else let w = session_clear (fold (web_event_step P) (so_after so) w);
                   result = so_httpd_stop so;
                   w = fold (web_event_step P) (so_meanwhile so) w;
                   w = (if result = ESP_OK then service_cleared (so_taken so) w else w)
                 in Some (result, w\<lparr>service_stop_in_progress := False\<rparr>))"

definition provisioning_service_is_running :: "'s web \<Rightarrow> bool" where
  "provisioning_service_is_running w \<longleftrightarrow> ws_server w"

end
