(* ===== verification/Web_Auth.thy ===== *)
theory Web_Auth
  imports Web_Service
begin

text \<open>
  What a request may do to the service: the effect of other tasks between its steps, the
  authentication as a condition on the request and the session, the well-formedness of the
  session over every request, and what follows from the result of the guard of the handlers.
\<close>

section \<open>What other tasks leave alone\<close>

lemma fold_frame:
  assumes "\<And>x w. f (g x w) = f w"
  shows "f (fold g xs w) = f w"
  by (induction xs arbitrary: w) (simp_all add: assms)

lemma session_clear_frame [simp]:
  "ws_server (session_clear w) = ws_server w" "ws_configuration (session_clear w) = ws_configuration w"
  "ws_secret (session_clear w) = ws_secret w" "ws_machine (session_clear w) = ws_machine w"
  "stream_mutex (session_clear w) = stream_mutex w" "web_status (session_clear w) = web_status w"
  "web_replies (session_clear w) = web_replies w" "web_effects (session_clear w) = web_effects w"
  "login_failures (session_clear w) = login_failures w" "login_locked_until_ms (session_clear w) = login_locked_until_ms w"
  "web_device (session_clear w) = web_device w" "web_machine (session_clear w) = web_machine w"
  "stream_lifecycle (session_clear w) = stream_lifecycle w"
  by (simp_all add: session_clear_def)

lemma session_begin_frame [simp]:
  "ws_server (session_begin t c e w) = ws_server w" "ws_configuration (session_begin t c e w) = ws_configuration w"
  "ws_secret (session_begin t c e w) = ws_secret w" "ws_machine (session_begin t c e w) = ws_machine w"
  "stream_mutex (session_begin t c e w) = stream_mutex w" "web_status (session_begin t c e w) = web_status w"
  "web_replies (session_begin t c e w) = web_replies w" "web_effects (session_begin t c e w) = web_effects w"
  "login_locked_until_ms (session_begin t c e w) = login_locked_until_ms w"
  "web_device (session_begin t c e w) = web_device w" "web_machine (session_begin t c e w) = web_machine w"
  "stream_lifecycle (session_begin t c e w) = stream_lifecycle w"
  by (simp_all add: session_begin_def)

lemma shutdown_frame [simp]:
  "ws_server (snd (request_stream_shutdown k b w)) = ws_server w"
  "ws_configuration (snd (request_stream_shutdown k b w)) = ws_configuration w"
  "ws_secret (snd (request_stream_shutdown k b w)) = ws_secret w"
  "ws_machine (snd (request_stream_shutdown k b w)) = ws_machine w"
  "stream_mutex (snd (request_stream_shutdown k b w)) = stream_mutex w"
  "web_status (snd (request_stream_shutdown k b w)) = web_status w"
  "web_replies (snd (request_stream_shutdown k b w)) = web_replies w"
  "login_failures (snd (request_stream_shutdown k b w)) = login_failures w"
  "login_locked_until_ms (snd (request_stream_shutdown k b w)) = login_locked_until_ms w"
  "session_token (snd (request_stream_shutdown k b w)) = session_token w"
  "csrf_token (snd (request_stream_shutdown k b w)) = csrf_token w"
  "session_expires_ms (snd (request_stream_shutdown k b w)) = session_expires_ms w"
  "session_generation (snd (request_stream_shutdown k b w)) = session_generation w"
  "web_device (snd (request_stream_shutdown k b w)) = web_device w"
  "web_machine (snd (request_stream_shutdown k b w)) = web_machine w"
  by (simp_all add: request_stream_shutdown_def Let_def split: prod.splits)

lemma web_event_frame:
  "ws_server (web_event_step P ev w) = ws_server w" "ws_configuration (web_event_step P ev w) = ws_configuration w"
  "ws_secret (web_event_step P ev w) = ws_secret w" "ws_machine (web_event_step P ev w) = ws_machine w"
  "stream_mutex (web_event_step P ev w) = stream_mutex w" "web_status (web_event_step P ev w) = web_status w"
  "web_replies (web_event_step P ev w) = web_replies w" "login_locked_until_ms (web_event_step P ev w) = login_locked_until_ms w"
  by (cases ev; simp)+

lemma web_events_frame [simp]:
  "ws_server (fold (web_event_step P) evs w) = ws_server w"
  "ws_configuration (fold (web_event_step P) evs w) = ws_configuration w"
  "ws_secret (fold (web_event_step P) evs w) = ws_secret w"
  "ws_machine (fold (web_event_step P) evs w) = ws_machine w"
  "stream_mutex (fold (web_event_step P) evs w) = stream_mutex w"
  "web_status (fold (web_event_step P) evs w) = web_status w"
  "web_replies (fold (web_event_step P) evs w) = web_replies w"
  "login_locked_until_ms (fold (web_event_step P) evs w) = login_locked_until_ms w"
  by (rule fold_frame, simp add: web_event_frame)+

lemma web_at_frame [simp]:
  "ws_server (web_at P rq k w) = ws_server w" "ws_configuration (web_at P rq k w) = ws_configuration w"
  "ws_secret (web_at P rq k w) = ws_secret w" "ws_machine (web_at P rq k w) = ws_machine w"
  "stream_mutex (web_at P rq k w) = stream_mutex w" "web_status (web_at P rq k w) = web_status w"
  "web_replies (web_at P rq k w) = web_replies w" "login_locked_until_ms (web_at P rq k w) = login_locked_until_ms w"
  by (simp_all add: web_at_def)

text \<open>The effects only grow.\<close>

definition effects_kept :: "'s web \<Rightarrow> 's web \<Rightarrow> bool" where
  "effects_kept w w' \<longleftrightarrow> prefix (web_effects w) (web_effects w')"

lemma effects_kept_refl [simp]: "effects_kept w w"
  by (simp add: effects_kept_def)

lemma effects_kept_trans: "effects_kept a b \<Longrightarrow> effects_kept b c \<Longrightarrow> effects_kept a c"
  unfolding effects_kept_def by (rule prefix_order.trans)

lemma shutdown_keeps_effects: "effects_kept w (snd (request_stream_shutdown k b w))"
  by (simp add: effects_kept_def request_stream_shutdown_def Let_def split: prod.splits)

lemma web_event_keeps_effects: "effects_kept w (web_event_step P ev w)"
  using shutdown_keeps_effects by (cases ev) (simp_all add: effects_kept_def session_clear_def session_begin_def)

lemma web_events_keep_effects: "effects_kept w (fold (web_event_step P) evs w)"
  by (induction evs arbitrary: w) (auto intro: effects_kept_trans web_event_keeps_effects)

lemma web_at_keeps_effects: "effects_kept w (web_at P rq k w)"
  unfolding web_at_def by (rule web_events_keep_effects)

section \<open>The guard of the handlers\<close>

definition error_reply :: "request \<Rightarrow> string \<Rightarrow> string \<Rightarrow> string \<times> reply_body" where
  "error_reply rq status text_message =
     (status, if rq_prints rq (error_document text_message) then Json_body (error_document text_message)
              else Text_body ''{\"ok\":false}'')"

lemma json_error_result:
  "json_error rq status text_message w =
     (rq_send rq (length (web_replies w)),
      w\<lparr>web_status := status, web_replies := web_replies w @ [error_reply rq status text_message]\<rparr>)"
  by (simp add: json_error_def reply_def error_reply_def Let_def)

lemma authenticated_frame:
  "ws_server (snd (authenticated P rq modifying w)) = ws_server w"
  "ws_configuration (snd (authenticated P rq modifying w)) = ws_configuration w"
  "ws_secret (snd (authenticated P rq modifying w)) = ws_secret w"
  "ws_machine (snd (authenticated P rq modifying w)) = ws_machine w"
  "stream_mutex (snd (authenticated P rq modifying w)) = stream_mutex w"
  "web_status (snd (authenticated P rq modifying w)) = web_status w"
  "web_replies (snd (authenticated P rq modifying w)) = web_replies w"
  "login_locked_until_ms (snd (authenticated P rq modifying w)) = login_locked_until_ms w"
  by (simp_all add: authenticated_def record_activity_def Let_def split: prod.split option.split)

lemma record_activity_effects [simp]: "web_effects (record_activity rq t w) = web_effects w"
  by (simp add: record_activity_def)

lemma authenticated_keeps_effects: "effects_kept w (snd (authenticated P rq modifying w))"
proof -
  have "effects_kept w (web_at P rq 2 (web_at P rq 1 (web_at P rq 0 w)))"
    "effects_kept w (web_at P rq 1 (web_at P rq 0 w))" "effects_kept w (web_at P rq 0 w)"
    by (meson web_at_keeps_effects effects_kept_trans)+
  then show ?thesis
    by (simp add: authenticated_def Let_def effects_kept_def split: prod.split option.split)
qed

text \<open>
  The guard's result is that of the reply once the request is not authenticated: the handler is
  left early only when the reply could not be sent.
\<close>

lemma require_auth_result:
  "fst (require_auth P rq modifying w) =
     (if fst (authenticated P rq modifying w) \<noteq> None then ESP_OK else rq_send rq (length (web_replies w)))"
  using authenticated_frame(7) [of P rq modifying w]
  by (cases "authenticated P rq modifying w") (simp add: require_auth_def json_error_result)

lemma require_auth_refused:
  assumes "fst (authenticated P rq modifying w) = None"
  shows "web_replies (snd (require_auth P rq modifying w)) =
      web_replies w @ [error_reply rq ''401 Unauthorized'' ''authentication or CSRF validation failed'']"
    and "web_status (snd (require_auth P rq modifying w)) = ''401 Unauthorized''"
    and "web_effects (snd (require_auth P rq modifying w)) = web_effects (snd (authenticated P rq modifying w))"
    and "web_device (snd (require_auth P rq modifying w)) = web_device (snd (authenticated P rq modifying w))"
    and "web_machine (snd (require_auth P rq modifying w)) = web_machine (snd (authenticated P rq modifying w))"
  using assms authenticated_frame [of P rq modifying w]
  by (cases "authenticated P rq modifying w"; simp add: require_auth_def json_error_result)+

text \<open>Without the authentication nothing is done but what other tasks do.\<close>

lemma authenticated_refused:
  assumes "fst (authenticated P rq modifying w) = None"
  shows "snd (authenticated P rq modifying w) \<in> {web_at P rq 0 w, web_at P rq 1 (web_at P rq 0 w)}"
  using assms by (auto simp: authenticated_def Let_def split: prod.splits option.splits if_splits)

section \<open>Well-formed sessions\<close>

text \<open>
  The tokens of a session are 32 hexadecimal digits and a NUL; without a session they are zeros
  and nothing is valid any more.
\<close>

definition token_text :: "carray \<Rightarrow> bool" where
  "token_text t \<longleftrightarrow> length t = 33 \<and> list_all hexadecimal (take 32 t) \<and> t ! 32 = NUL"

definition session_typed :: "'s web \<Rightarrow> bool" where
  "session_typed w \<longleftrightarrow>
     (session_token w = zeros 33 \<and> csrf_token w = zeros 33 \<and> session_expires_ms w = 0)
   \<or> (token_text (session_token w) \<and> token_text (csrf_token w) \<and> session_generation w \<noteq> 0)"

text \<open>What the SDK guarantees: 16 random bytes, and header values that fit their buffer as C strings.\<close>

fun legal_event :: "web_event \<Rightarrow> bool" where
  "legal_event (Session_made bs cs _) \<longleftrightarrow> length bs = 16 \<and> length cs = 16"
| "legal_event _ \<longleftrightarrow> True"

definition legal_request :: "request \<Rightarrow> bool" where
  "legal_request rq \<longleftrightarrow>
     (\<forall>name capacity h. rq_header rq name capacity = Some h \<longrightarrow> length h < capacity \<and> NUL \<notin> set h)
   \<and> (\<forall>k. length (rq_random rq k) = 16) \<and> (\<forall>k. list_all legal_event (rq_meanwhile rq k))"

lemma next_session_generation_nonzero [simp]: "next_session_generation g \<noteq> 0"
  by (simp add: next_session_generation_def Let_def)

lemma random_hex_token: "length bs = 16 \<Longrightarrow> token_text (random_hex bs)"
  using hex_bytes_facts [of bs] by (simp add: token_text_def random_hex_def nth_append del: length_concat)

lemma session_typed_clear [simp]: "session_typed (session_clear w)"
  by (simp add: session_typed_def session_clear_def)

lemma session_typed_begin: "token_text t \<Longrightarrow> token_text c \<Longrightarrow> session_typed (session_begin t c e w)"
  by (simp add: session_typed_def session_begin_def)

lemma session_typed_frame [simp]:
  "session_typed (w\<lparr>web_status := st\<rparr>) = session_typed w" "session_typed (w\<lparr>web_replies := rs\<rparr>) = session_typed w"
  "session_typed (w\<lparr>web_effects := es\<rparr>) = session_typed w" "session_typed (w\<lparr>web_device := d\<rparr>) = session_typed w"
  "session_typed (w\<lparr>web_machine := m\<rparr>) = session_typed w" "session_typed (w\<lparr>stream_lifecycle := l\<rparr>) = session_typed w"
  "session_typed (w\<lparr>web_ring := r\<rparr>) = session_typed w" "session_typed (w\<lparr>web_health := h\<rparr>) = session_typed w"
  "session_typed (w\<lparr>web_wifi := x\<rparr>) = session_typed w" "session_typed (w\<lparr>web_time := t\<rparr>) = session_typed w"
  "session_typed (w\<lparr>web_mqtt := c\<rparr>) = session_typed w" "session_typed (w\<lparr>login_failures := n\<rparr>) = session_typed w"
  "session_typed (w\<lparr>login_locked_until_ms := ms\<rparr>) = session_typed w" "session_typed (w\<lparr>stream_mutex := b\<rparr>) = session_typed w"
  "session_typed (w\<lparr>service_stop_in_progress := b\<rparr>) = session_typed w"
  "session_typed (w\<lparr>ws_server := b\<rparr>) = session_typed w" "session_typed (w\<lparr>ws_configuration := cf\<rparr>) = session_typed w"
  "session_typed (w\<lparr>ws_secret := sc\<rparr>) = session_typed w" "session_typed (w\<lparr>ws_machine := b\<rparr>) = session_typed w"
  "session_typed (snd (request_stream_shutdown k b w)) = session_typed w"
  by (simp_all add: session_typed_def)

lemma session_typed_event: "legal_event ev \<Longrightarrow> session_typed w \<Longrightarrow> session_typed (web_event_step P ev w)"
  by (cases ev) (simp_all add: session_typed_begin random_hex_token)

lemma session_typed_events: "list_all legal_event evs \<Longrightarrow> session_typed w \<Longrightarrow> session_typed (fold (web_event_step P) evs w)"
  by (induction evs arbitrary: w) (simp_all add: session_typed_event)

lemma session_typed_at: "legal_request rq \<Longrightarrow> session_typed w \<Longrightarrow> session_typed (web_at P rq k w)"
  by (simp add: web_at_def legal_request_def session_typed_events)

section \<open>Authentication\<close>

definition session_matches :: "request \<Rightarrow> bool \<Rightarrow> int \<Rightarrow> 's web \<Rightarrow> bool" where
  "session_matches rq modifying now w \<longleftrightarrow>
     cookie_token rq = Some (cstr (session_token w)) \<and> now < session_expires_ms w
   \<and> (modifying \<longrightarrow> rq_header rq ''X-CSRF-Token'' 40 = Some (cstr (csrf_token w)))"

lemma cookie_token_fits:
  assumes "legal_request rq" and "cookie_token rq = Some c"
  shows "length c = 32" "NUL \<notin> set c"
proof -
  obtain h n where h: "rq_header rq ''Cookie'' 160 = Some h" and
    c: "c = takeWhile (\<lambda>c. c \<noteq> CHR '';'' \<and> c \<noteq> CHR '' '') (drop n h)" and len: "length c = 32"
    using assms(2) by (auto simp: cookie_token_def Let_def split: option.splits if_splits)
  show "length c = 32" by (rule len)
  have "NUL \<notin> set h" using assms(1) h by (auto simp: legal_request_def)
  then show "NUL \<notin> set c" using c by (metis in_set_dropD set_takeWhileD)
qed

lemma token_fits: "session_typed w \<Longrightarrow> fits (Some (cstr (session_token w))) \<and> fits (Some (cstr (csrf_token w)))"
proof -
  have short: "fits (Some (cstr t))" if "length t = 33" for t
  proof -
    have "length (cstr t) \<le> 33" using length_takeWhile_le [of _ t] that by (simp add: cstr_def)
    then show ?thesis using set_takeWhileD [of NUL "\<lambda>c. c \<noteq> NUL" t] by (auto simp: fits_def cstr_def)
  qed
  show "session_typed w \<Longrightarrow> ?thesis"
    by (auto simp: session_typed_def token_text_def zeros_def intro!: short)
qed

lemma session_authorized_iff:
  assumes "legal_request rq" and "session_typed w" and c: "cookie_token rq = Some cookie"
    and "modifying \<Longrightarrow> csrf = rq_header rq ''X-CSRF-Token'' 40" and "\<not> modifying \<Longrightarrow> csrf = None"
  shows "provisioning_security_session_authorized (Some (cstr (session_token w))) (Some cookie)
      (Some (cstr (csrf_token w))) csrf (session_expires_ms w) now modifying \<longleftrightarrow> session_matches rq modifying now w"
proof -
  note ck = cookie_token_fits [OF assms(1) c]
  have "length h < 40 \<and> NUL \<notin> set h" if "rq_header rq ''X-CSRF-Token'' 40 = Some h" for h
    using assms(1) that by (auto simp: legal_request_def)
  then have "fits (rq_header rq ''X-CSRF-Token'' 40)" by (fastforce simp: fits_def split: option.split)
  then have "fits csrf" using assms(4,5) by (cases modifying) (simp_all add: fits_def)
  moreover have "fits (Some cookie)" using ck by (simp add: fits_def)
  moreover have "cookie \<noteq> []" using ck by auto
  ultimately show ?thesis
    using token_fits [OF assms(2)] c assms(4,5)
    by (subst session_authorized_exactly_for_the_session) (auto simp: session_matches_def)
qed

lemma authenticated_cases:
  fixes P :: "'s platform" and w :: "'s web" and rq :: request
  assumes "legal_request rq" and "session_typed w"
  defines "w0 \<equiv> web_at P rq 0 w"
  defines "w1 \<equiv> web_at P rq 1 w0"
  shows "authenticated P rq modifying w =
     (if service_is_stopping (rq_stream_taken rq) w0 \<or> \<not> request_arrived_on_softap rq w0 \<or> cookie_token rq = None
         \<or> (modifying \<and> rq_header rq ''X-CSRF-Token'' 40 = None) then (None, w0)
      else if session_matches rq modifying (web_now_ms (rq_clock rq 0)) w1
      then (Some (session_generation w1), record_activity rq (rq_clock rq 1) (web_at P rq 2 w1))
      else (None, w1))"
proof (cases "cookie_token rq")
  case (Some cookie)
  have typed: "session_typed w1" unfolding w1_def w0_def by (intro session_typed_at assms)
  note iff = session_authorized_iff [OF assms(1) typed Some]
  show ?thesis
    unfolding authenticated_def Let_def w0_def [symmetric] w1_def [symmetric] session_snapshot_def prod.case
    using iff [of True "rq_header rq ''X-CSRF-Token'' 40" "web_now_ms (rq_clock rq 0)"] iff [of False None]
    by (cases modifying) (auto simp: Some)
qed (auto simp: authenticated_def Let_def w0_def)

end
