(* ===== verification/Web_Invariant.thy ===== *)
theory Web_Invariant
  imports Web_Auth
begin

text \<open>
  Invariants of the service over its handlers, its worker, its start and its stop: the interface
  of an invariant is that the few primitive steps keep it, and then every request does. The
  service's own invariant is an instance, and so is the session, which lasts over every request that
  neither ends it nor makes another.
\<close>

section \<open>The interface of an invariant\<close>

text \<open>
  An invariant with the events of other tasks that it admits while a request is served: what the
  requests keep that neither make nor end a session.
\<close>

definition meanwhile :: "(web_event \<Rightarrow> bool) \<Rightarrow> request \<Rightarrow> bool" where
  "meanwhile permitted rq \<longleftrightarrow> (\<forall>k. list_all permitted (rq_meanwhile rq k))"

definition worker_meets :: "(web_event \<Rightarrow> bool) \<Rightarrow> (nat \<Rightarrow> stream_round) \<Rightarrow> bool" where
  "worker_meets permitted rounds \<longleftrightarrow>
     (\<forall>k. list_all permitted (rd_before_check (rounds k)) \<and> list_all permitted (rd_before_batch (rounds k)))"

lemma legal_meanwhile: "legal_request rq \<Longrightarrow> meanwhile legal_event rq"
  by (simp add: legal_request_def meanwhile_def)

text \<open>Whether the body of a login has the given setup secret.\<close>

definition brings_secret :: "'j cjson \<Rightarrow> request \<Rightarrow> carray option \<Rightarrow> bool" where
  "brings_secret J rq secret \<longleftrightarrow>
     (case receive_loop (rq_content_len rq) (rq_portions rq) of None \<Rightarrow> False
      | Some received \<Rightarrow> provisioning_security_constant_time_equal
          (json_string J (json_item J (parse_json J received) ''secret'')) (map_option cstr secret))"

lemma no_body_no_secret: "\<not> provisioning_security_constant_time_equal (json_string J (json_item J None name)) secret"
  by (simp add: json_item_def json_string_def)

lemma receive_json_secret:
  assumes "receive_json J opt rq w = ((r, body), w')" and "\<not> brings_secret J rq secret"
  shows "\<not> provisioning_security_constant_time_equal (json_string J (json_item J body ''secret'')) (map_option cstr secret)"
  using assms no_body_no_secret [of J]
  by (auto simp: receive_json_def brings_secret_def Let_def split: if_splits option.splits prod.splits)

lemma receive_json_secret_frame: "ws_secret (snd (receive_json J opt rq w)) = ws_secret w"
  by (simp add: receive_json_def json_error_result Let_def case_prod_beta split: option.split)

locale request_invariant =
  fixes I :: "'s web \<Rightarrow> bool" and P :: "'s platform" and opt :: web_options and permitted :: "web_event \<Rightarrow> bool"
  assumes status: "I w \<Longrightarrow> I (w\<lparr>web_status := st\<rparr>)"
    and replies: "I w \<Longrightarrow> I (w\<lparr>web_replies := rs\<rparr>)"
    and effects: "I w \<Longrightarrow> I (w\<lparr>web_effects := es\<rparr>)"
    and device: "I w \<Longrightarrow> I (w\<lparr>web_device := d\<rparr>)"
    and window: "I w \<Longrightarrow> I (w\<lparr>web_machine := m\<rparr>)"
    and lifecycle: "I w \<Longrightarrow> I (w\<lparr>stream_lifecycle := l\<rparr>)"
    and event: "permitted ev \<Longrightarrow> I w \<Longrightarrow> I (web_event_step P ev w)"
    and failed: "I w \<Longrightarrow> I (login_failed opt time_us w)"
begin

lemmas primitive = status replies effects device window lifecycle

lemma events: "list_all permitted evs \<Longrightarrow> I w \<Longrightarrow> I (fold (web_event_step P) evs w)"
  by (induction evs arbitrary: w) (simp_all add: event)

lemma at: "meanwhile permitted rq \<Longrightarrow> I w \<Longrightarrow> I (web_at P rq k w)"
  by (simp add: web_at_def meanwhile_def events)

lemma replying: "I w \<Longrightarrow> I (snd (reply rq b w))"
  by (simp add: reply_def primitive)

lemma refusing: "I w \<Longrightarrow> I (snd (json_error rq st text_message w))"
  by (simp add: json_error_result primitive)

lemma answering: "I w \<Longrightarrow> I (snd (send_json rq document w))" "I w \<Longrightarrow> I (snd (send_json_text rq b w))"
  by (simp_all add: send_json_def send_json_text_def refusing replying)

lemma shutting: "I w \<Longrightarrow> I (snd (request_stream_shutdown k b w))"
  by (simp add: request_stream_shutdown_def Let_def primitive split: prod.split)

lemma receiving: "I w \<Longrightarrow> I (snd (receive_json J opt rq w))"
  by (simp add: receive_json_def Let_def case_prod_beta refusing split: option.split)

lemma active: "I w \<Longrightarrow> I (record_activity rq t w)"
  by (simp add: record_activity_def primitive)

lemma guarded: "meanwhile permitted rq \<Longrightarrow> I w \<Longrightarrow> I (snd (authenticated P rq modifying w))"
  by (simp add: authenticated_def session_snapshot_def Let_def at active split: option.split)

lemma required: "meanwhile permitted rq \<Longrightarrow> I w \<Longrightarrow> I (snd (require_auth P rq modifying w))"
  by (simp add: require_auth_def case_prod_beta guarded refusing)

lemma effected: "I w \<Longrightarrow> I (web_effect_add e w)"
  by (simp add: web_effect_add_def primitive)

lemma released: "I w \<Longrightarrow> I (stream_release taken g w)"
  by (simp add: stream_release_def primitive)

lemma completed: "I w \<Longrightarrow> I (snd (complete_stream_context context w))"
  by (simp add: complete_stream_context_def case_prod_beta effected)

lemmas steps = primitive at replying refusing answering shutting receiving active guarded required effected released
  completed failed

lemma page: "meanwhile permitted rq \<Longrightarrow> I w \<Longrightarrow> I (snd (root_handler P rq w))"
  by (simp add: root_handler_def Let_def steps)

lemma guessing:
  assumes "meanwhile permitted rq" and "\<not> brings_secret J rq (ws_secret w)" and "I w"
  shows "I (snd (session_create_handler J P opt rq w))"
proof -
  let ?w = "web_at P rq 10 w"
  obtain r body w1 where rj: "receive_json J opt rq ?w = ((r, body), w1)" by (metis surj_pair)
  have i: "I ?w" "I w1" using assms receiving [of ?w J rq] by (simp_all add: at rj)
  have "ws_secret (web_at P rq 11 w1) = ws_secret w" using receive_json_secret_frame [of J opt rq ?w] by (simp add: rj)
  then show ?thesis
    using assms(1) i receive_json_secret [OF rj assms(2)]
    by (simp add: session_create_handler_def Let_def rj steps)
qed

lemma reading_status: "meanwhile permitted rq \<Longrightarrow> I w \<Longrightarrow> I (snd (status_handler P a rq w))"
  by (simp add: status_handler_def Let_def case_prod_beta steps)

lemma reading_config: "meanwhile permitted rq \<Longrightarrow> I w \<Longrightarrow> I (snd (config_handler P rq w))"
  by (simp add: config_handler_def Let_def case_prod_beta steps)

lemma staging: "meanwhile permitted rq \<Longrightarrow> I w \<Longrightarrow> I (snd (candidate_put_handler J P opt rq w))"
  by (simp add: candidate_put_handler_def Let_def case_prod_beta steps)

lemma cancelling: "meanwhile permitted rq \<Longrightarrow> I w \<Longrightarrow> I (snd (candidate_delete_handler P rq w))"
  by (simp add: candidate_delete_handler_def Let_def case_prod_beta steps)

lemma restarting: "I w \<Longrightarrow> I (snd (reply_and_restart rq w))"
  by (simp add: reply_and_restart_def Let_def case_prod_beta steps)

lemma restart: "meanwhile permitted rq \<Longrightarrow> I w \<Longrightarrow> I (snd (delayed_restart_response P rq b w))"
  by (simp add: delayed_restart_response_def Let_def case_prod_beta steps restarting)

lemma applying: "meanwhile permitted rq \<Longrightarrow> I w \<Longrightarrow> I (snd (apply_handler P rq w))"
  by (simp add: apply_handler_def Let_def case_prod_beta steps restarting)

lemma reading_logs: "meanwhile permitted rq \<Longrightarrow> I w \<Longrightarrow> I (snd (logs_handler P rq w))"
  by (simp add: logs_handler_def Let_def case_prod_beta steps split: option.split)

lemma refused_stream: "I w \<Longrightarrow> I (snd (stream_refused rq context text_message w))"
  by (simp add: stream_refused_def Let_def case_prod_beta steps)

lemma starting_stream: "meanwhile permitted rq \<Longrightarrow> I w \<Longrightarrow> I (snd (stream_start P rq authorized worker w))"
  by (simp add: stream_start_def Let_def case_prod_beta steps refused_stream)

lemma streaming: "meanwhile permitted rq \<Longrightarrow> I w \<Longrightarrow> I (snd (logs_stream_handler P rq w))"
  by (simp add: logs_stream_handler_def stream_no_content_def Let_def case_prod_beta steps starting_stream split: option.split)

lemma handling:
  "meanwhile permitted rq \<Longrightarrow> h \<notin> {Session_create, Session_delete} \<Longrightarrow> I w \<Longrightarrow> I (snd (run_handler J P opt a h rq w))"
  by (cases h) (simp_all add: page reading_status reading_config staging cancelling applying
      reading_logs streaming reboot_handler_def factory_reset_handler_def restart)

lemma beginning: "I w \<Longrightarrow> I (fresh_request w)"
  by (simp add: fresh_request_def primitive)

lemma serving:
  assumes "meanwhile permitted rq" and "route_of path method \<noteq> Some Session_delete"
    and "route_of path method = Some Session_create \<Longrightarrow> \<not> brings_secret J rq (ws_secret w)" and "I w"
  shows "I (serve J P opt a path method rq w)"
proof -
  have "ws_secret (fresh_request w) = ws_secret w" by (simp add: fresh_request_def)
  then have "I (snd (run_handler J P opt a h rq (fresh_request w)))" if "route_of path method = Some h" for h
    using assms that handling [of rq h "fresh_request w" J a] guessing [of rq J "fresh_request w"] by (cases "h = Session_create") (auto simp: beginning)
  then show ?thesis using assms(4) by (simp add: serve_def split: option.split)
qed

lemma sending: "I w \<Longrightarrow> I (snd (send_event sends document w))"
  by (simp add: send_event_def Let_def effected)

lemma looping:
  assumes "worker_meets permitted rounds"
  shows "I w \<Longrightarrow> I (stream_loop P rounds context n iteration sequence w)"
proof (induction n arbitrary: iteration sequence w)
  case (Suc n)
  let ?w1 = "fold (web_event_step P) (rd_before_check (rounds iteration)) w"
  have "I ?w1" "I (fold (web_event_step P) (rd_before_batch (rounds iteration)) ?w1)"
    using assms Suc.prems by (simp_all add: events worker_meets_def)
  then show ?case by (simp add: Let_def case_prod_beta Suc.IH effected sending split: option.split)
qed simp

lemma working:
  "meanwhile permitted rq \<Longrightarrow> worker_meets permitted rounds \<Longrightarrow> I w \<Longrightarrow> I (logs_stream_worker P rounds rq context w)"
  by (simp add: logs_stream_worker_def Let_def case_prod_beta steps looping)

end

text \<open>An invariant that making and ending a session keep too is kept by every request.\<close>

locale session_invariant = request_invariant I P opt legal_event
  for I :: "'s web \<Rightarrow> bool" and P :: "'s platform" and opt :: web_options +
  assumes clear: "I w \<Longrightarrow> I (session_clear w)"
    and begins: "token_text t \<Longrightarrow> token_text c \<Longrightarrow> I w \<Longrightarrow> I (session_begin t c e w)"
begin

lemma login: "legal_request rq \<Longrightarrow> I w \<Longrightarrow> I (snd (session_create_handler J P opt rq w))"
  using legal_meanwhile [of rq]
  by (simp add: session_create_handler_def Let_def case_prod_beta steps begins random_hex_token legal_request_def)

lemma logout: "legal_request rq \<Longrightarrow> I w \<Longrightarrow> I (snd (session_delete_handler P rq w))"
  using legal_meanwhile [of rq] by (simp add: session_delete_handler_def Let_def case_prod_beta steps clear)

lemma serving_all: "legal_request rq \<Longrightarrow> I w \<Longrightarrow> I (serve J P opt a path method rq w)"
proof -
  assume rq: "legal_request rq" and i: "I w"
  have "I (snd (run_handler J P opt a h rq (fresh_request w)))" for h
    using rq i handling [OF legal_meanwhile [OF rq], of h "fresh_request w" J a] login [of rq "fresh_request w" J] logout [of rq "fresh_request w"]
    by (cases "h \<in> {Session_create, Session_delete}") (auto simp: beginning)
  then show ?thesis using i by (simp add: serve_def split: option.split)
qed

end

section \<open>The service's state\<close>

text \<open>The ranges of the build options (\<^verbatim>\<open>config/Kconfig\<close>).\<close>

definition build_options :: "web_options \<Rightarrow> bool" where
  "build_options opt \<longleftrightarrow> 4096 \<le> max_body_bytes opt \<and> max_body_bytes opt \<le> 12288
   \<and> 300 \<le> session_seconds opt \<and> session_seconds opt \<le> 3600
   \<and> 3 \<le> login_max_failures opt \<and> login_max_failures opt \<le> 10
   \<and> 30 \<le> login_lockout_seconds opt \<and> login_lockout_seconds opt \<le> 600"

text \<open>
  The session is well formed, the failures stay below their limit, and the service has its
  parameters and its mutex exactly while the server runs.
\<close>

definition web_inv :: "web_options \<Rightarrow> 's web \<Rightarrow> bool" where
  "web_inv opt w \<longleftrightarrow> session_typed w
   \<and> (build_options opt \<longrightarrow> login_failures w < login_max_failures opt)
   \<and> (if ws_server w then stream_mutex w \<and> ws_secret w \<noteq> None \<and> ws_machine w
      else ws_secret w = None \<and> ws_configuration w = None \<and> \<not> ws_machine w)"

lemma login_failed_below:
  "build_options opt \<Longrightarrow> login_failures (login_failed opt t w) < login_max_failures opt"
proof -
  assume "build_options opt"
  then have "3 \<le> login_max_failures opt" by (simp add: build_options_def)
  then have "0 < login_max_failures opt" by (simp add: word_le_nat_alt word_less_nat_alt)
  then show ?thesis by (auto simp: login_failed_def Let_def not_le)
qed

lemma begin_below: "build_options opt \<Longrightarrow> 0 < login_max_failures opt"
  by (simp add: build_options_def word_le_nat_alt word_less_nat_alt)

lemma login_failures_begin [simp]: "login_failures (session_begin t c e w) = 0"
  by (simp add: session_begin_def)

lemma web_inv_event: "legal_event ev \<Longrightarrow> web_inv opt w \<Longrightarrow> web_inv opt (web_event_step P ev w)"
  using begin_below [of opt]
  by (cases ev) (auto simp: web_inv_def session_typed_begin random_hex_token login_failures_begin)

interpretation service: session_invariant "web_inv opt" P opt for opt :: web_options and P :: "'s platform"
proof unfold_locales
  show "legal_event ev \<Longrightarrow> web_inv opt w \<Longrightarrow> web_inv opt (web_event_step P ev w)" for ev and w :: "'s web"
    by (rule web_inv_event)
  show "web_inv opt w \<Longrightarrow> web_inv opt (login_failed opt t w)" for t and w :: "'s web"
    using login_failed_below [of opt t w] by (auto simp: web_inv_def login_failed_def Let_def)
  show "token_text t \<Longrightarrow> token_text c \<Longrightarrow> web_inv opt w \<Longrightarrow> web_inv opt (session_begin t c e w)" for t c e and w :: "'s web"
    using begin_below [of opt] by (auto simp: web_inv_def session_typed_begin login_failures_begin)
qed (simp_all add: web_inv_def)

section \<open>Everything that happens to the service\<close>

text \<open>
  A request, a step of another task, the worker, a start and a stop that returns; a stop that is
  still waiting has done no more than the step \<open>Stop_started\<close>.
\<close>

datatype web_action =
    Serve string httpd_method status_answers request
  | Meanwhile web_event
  | Worker "nat \<Rightarrow> stream_round" request diagnostic_stream_context
  | Start bool bool "httpd_config \<Rightarrow> esp_err" "string \<Rightarrow> httpd_method \<Rightarrow> esp_err" httpd_config
      "device_config option" "carray option" "provisioning_state_machine option"
  | Stop stop_answers

fun web_step :: "'j cjson \<Rightarrow> 's platform \<Rightarrow> web_options \<Rightarrow> web_action \<Rightarrow> 's web \<Rightarrow> 's web" where
  "web_step J P opt (Serve path method a rq) w = serve J P opt a path method rq w"
| "web_step J P opt (Meanwhile ev) w = web_event_step P ev w"
| "web_step J P opt (Worker rounds rq context) w = logs_stream_worker P rounds rq context w"
| "web_step J P opt (Start created taken httpd_start register base runtime secret window) w =
     snd (provisioning_service_start created taken httpd_start register base runtime secret window w)"
| "web_step J P opt (Stop so) w = (case provisioning_service_stop P so w of None \<Rightarrow> w | Some (_, w) \<Rightarrow> w)"

fun legal_action :: "web_action \<Rightarrow> bool" where
  "legal_action (Serve path method a rq) \<longleftrightarrow> legal_request rq"
| "legal_action (Meanwhile ev) \<longleftrightarrow> legal_event ev"
| "legal_action (Worker rounds rq context) \<longleftrightarrow> legal_request rq
     \<and> (\<forall>k. list_all legal_event (rd_before_check (rounds k)) \<and> list_all legal_event (rd_before_batch (rounds k)))"
| "legal_action (Start created taken httpd_start register base runtime secret window) \<longleftrightarrow> True"
| "legal_action (Stop so) \<longleftrightarrow> list_all legal_event (so_before so) \<and> list_all legal_event (so_after so)
     \<and> list_all legal_event (so_meanwhile so) \<and> (\<forall>(events, _) \<in> set (so_polls so). list_all legal_event events)"

lemma web_inv_start:
  "web_inv opt w \<Longrightarrow> web_inv opt (snd (provisioning_service_start created taken httpd_start register base runtime secret window w))"
  by (auto simp: provisioning_service_start_def Let_def web_inv_def forget_parameters_def stream_lock_def)

lemma web_inv_wait:
  assumes "\<forall>(events, _) \<in> set polls. list_all legal_event events" and "web_inv opt w"
    and "stop_wait P polls worker deadline_ms w = Some (stopped, w')"
  shows "web_inv opt w'"
proof (cases "worker = 0")
  case False
  then show ?thesis using assms
  proof (induction polls arbitrary: w)
    case (Cons poll polls)
    obtain events taken time_us where poll: "poll = (events, taken, time_us)" by (cases poll)
    let ?w = "fold (web_event_step P) events w"
    have i: "web_inv opt ?w" using Cons.prems poll by (auto intro: service.events)
    show ?case using Cons.prems Cons.IH [OF _ _ i] i poll by (auto simp: Let_def split: if_splits)
  qed simp
qed (use assms in simp)

lemma web_inv_cleared: "web_inv opt w \<Longrightarrow> web_inv opt (service_cleared taken w)"
  using begin_below [of opt] by (auto simp: service_cleared_def Let_def web_inv_def)

text \<open>The state in which a stop begins to wait, with the worker to wait for.\<close>

definition stop_begun :: "'s platform \<Rightarrow> stop_answers \<Rightarrow> 's web \<Rightarrow> u64 \<times> 's web" where
  "stop_begun P so w = request_stream_shutdown (so_taken so) True
     (fold (web_event_step P) (so_before so) (w\<lparr>service_stop_in_progress := True\<rparr>))"

text \<open>The service when the worker is gone: without its session, and empty if the server stops.\<close>

definition stop_ended :: "'s platform \<Rightarrow> stop_answers \<Rightarrow> 's web \<Rightarrow> 's web" where
  "stop_ended P so w =
     (let w = fold (web_event_step P) (so_meanwhile so) (session_clear (fold (web_event_step P) (so_after so) w))
      in (if so_httpd_stop so = ESP_OK then service_cleared (so_taken so) w else w)\<lparr>service_stop_in_progress := False\<rparr>)"

lemma provisioning_service_stop_eq:
  "provisioning_service_stop P so w =
     (if service_stop_in_progress w then Some (ESP_ERR_TIMEOUT, w)
      else if \<not> ws_server w then Some (ESP_OK, w\<lparr>service_stop_in_progress := False\<rparr>)
      else case stop_wait P (so_polls so) (fst (stop_begun P so w)) (web_now_ms (so_clock so) + 4000) (snd (stop_begun P so w)) of
          None \<Rightarrow> None
        | Some (stopped, w) \<Rightarrow>
            if stopped then Some (so_httpd_stop so, stop_ended P so w)
            else Some (ESP_ERR_TIMEOUT, w\<lparr>service_stop_in_progress := False\<rparr>))"
  by (simp add: provisioning_service_stop_def stop_begun_def stop_ended_def Let_def split: prod.split option.split)

lemma web_inv_flag: "web_inv opt (w\<lparr>service_stop_in_progress := b\<rparr>) = web_inv opt w"
  by (simp add: web_inv_def)

lemma web_inv_stop:
  assumes l: "legal_action (Stop so)" and i: "web_inv opt w" and s: "provisioning_service_stop P so w = Some (r, w')"
  shows "web_inv opt w'"
proof -
  have b: "web_inv opt (snd (stop_begun P so w))"
    using l i by (simp add: stop_begun_def service.shutting service.events web_inv_flag)
  have e: "web_inv opt (stop_ended P so x)" if "web_inv opt x" for x
    using l that by (simp add: stop_ended_def Let_def web_inv_flag web_inv_cleared service.events service.clear)
  have p: "\<forall>(events, _) \<in> set (so_polls so). list_all legal_event events" using l by simp
  show ?thesis
    using s i e web_inv_wait [OF p b]
    by (auto simp: provisioning_service_stop_eq web_inv_flag split: if_splits option.splits)
qed

lemma web_inv_step:
  assumes "legal_action act" and "web_inv opt w"
  shows "web_inv opt (web_step J P opt act w)"
proof (cases act)
  case (Worker rounds rq ctx)
  then show ?thesis using assms by (simp add: service.working legal_meanwhile worker_meets_def)
next
  case (Stop so)
  then show ?thesis using assms web_inv_stop [of so opt w P] by (auto split: option.split)
qed (use assms in \<open>simp_all add: service.serving_all web_inv_event web_inv_start\<close>)

lemma web_inv_initial: "web_inv opt (initial_web d window ring registry station input synced client)"
  using begin_below [of opt] by (auto simp: web_inv_def initial_web_def session_typed_def)

lemma web_inv_run: "list_all legal_action acts \<Longrightarrow> web_inv opt w \<Longrightarrow> web_inv opt (fold (web_step J P opt) acts w)"
  by (induction acts arbitrary: w) (simp_all add: web_inv_step)

section \<open>What leaves the session alone\<close>

text \<open>
  A session lasts over everything but a logout, a login with the setup secret, a stop of the
  service and a restart of the device.
\<close>

fun keeps_session :: "web_event \<Rightarrow> bool" where
  "keeps_session Session_cleared = False"
| "keeps_session (Session_made bs cs expires_ms) = False"
| "keeps_session ev = True"

definition session_view :: "'s web \<Rightarrow> carray \<times> carray \<times> int \<times> u64 \<times> carray option \<times> bool" where
  "session_view w = (session_token w, csrf_token w, session_expires_ms w, session_generation w, ws_secret w, ws_server w)"

interpretation kept_session: request_invariant "\<lambda>w. session_view w = v" P opt keeps_session for v :: "carray \<times> carray \<times> int \<times> u64 \<times> carray option \<times> bool"
  and P :: "'s platform" and opt :: web_options
proof unfold_locales
  have "keeps_session ev \<Longrightarrow> session_view (web_event_step P ev w) = session_view w" for ev and w :: "'s web"
    by (cases ev) (simp_all add: session_view_def request_stream_shutdown_def Let_def case_prod_beta)
  then show "keeps_session ev \<Longrightarrow> session_view w = v \<Longrightarrow> session_view (web_event_step P ev w) = v" for ev and w :: "'s web"
    by simp
qed (simp_all add: session_view_def login_failed_def Let_def)

fun spares_session :: "'j cjson \<Rightarrow> carray option \<Rightarrow> web_action \<Rightarrow> bool" where
  "spares_session J secret (Serve path method a rq) \<longleftrightarrow> meanwhile keeps_session rq
     \<and> route_of path method \<notin> {Some Session_delete, Some Apply_candidate, Some Reboot, Some Reset_to_factory}
     \<and> (route_of path method = Some Session_create \<longrightarrow> \<not> brings_secret J rq secret)"
| "spares_session J secret (Meanwhile ev) \<longleftrightarrow> keeps_session ev"
| "spares_session J secret (Worker rounds rq context) \<longleftrightarrow> meanwhile keeps_session rq \<and> worker_meets keeps_session rounds"
| "spares_session J secret (Start created taken httpd_start register base runtime setup window) \<longleftrightarrow> True"
| "spares_session J secret (Stop so) \<longleftrightarrow> False"

lemma spared_step:
  assumes "spares_session J (ws_secret w) act" and "ws_server w"
  shows "session_view (web_step J P opt act w) = session_view w"
proof (cases act)
  case (Serve path verb a rq)
  then show ?thesis
    using assms kept_session.serving [OF _ _ _ refl, of rq path verb J w P opt a] by auto
next
  case (Worker rounds rq ctx)
  then show ?thesis using assms kept_session.working [of rq rounds w "session_view w" P ctx] by simp
next
  case (Meanwhile ev)
  then show ?thesis using assms kept_session.event [of ev w "session_view w" P] by simp
qed (use assms in \<open>simp_all add: provisioning_service_start_def\<close>)

lemma spared_run:
  "list_all (spares_session J (ws_secret w)) acts \<Longrightarrow> ws_server w \<Longrightarrow>
     session_view (fold (web_step J P opt) acts w) = session_view w"
proof (induction acts arbitrary: w)
  case (Cons act acts)
  have v: "session_view (web_step J P opt act w) = session_view w" using spared_step [of J w act P opt] Cons.prems by simp
  then have "ws_secret (web_step J P opt act w) = ws_secret w" "ws_server (web_step J P opt act w)"
    using Cons.prems(2) by (simp_all add: session_view_def)
  then show ?case using Cons.IH [of "web_step J P opt act w"] Cons.prems(1) v by simp
qed simp

end
