(* ===== verification/Web_Candidate.thy ===== *)
theory Web_Candidate
  imports Web_Invariant Config_Progress
begin

text \<open>
  The parser of a candidate as a relation between the document and the configuration, and what
  staging it over HTTP leaves in the flash.
\<close>

section \<open>What a document says\<close>

definition says_string :: "'j cjson \<Rightarrow> 'j option \<Rightarrow> string \<Rightarrow> carray \<Rightarrow> bool" where
  "says_string J object name a \<longleftrightarrow> json_string J (json_item J object name) = Some (cstr a)"

text \<open>A secret may be missing; it is then the one of the active configuration.\<close>

definition says_secret :: "'j cjson \<Rightarrow> 'j option \<Rightarrow> string \<Rightarrow> carray option \<Rightarrow> carray \<Rightarrow> bool" where
  "says_secret J object name active a \<longleftrightarrow>
     (if json_item J object name = None then active = Some a else says_string J object name a)"

definition says_count :: "'j cjson \<Rightarrow> 'j option \<Rightarrow> string \<Rightarrow> u32 \<Rightarrow> bool" where
  "says_count J object name v \<longleftrightarrow>
     Option.bind (json_item J object name) (number_value J) = Some (Double (of_int (uint v)))"

definition says_machine :: "'j cjson \<Rightarrow> 'j option \<Rightarrow> device_config \<Rightarrow> device_config \<Rightarrow> bool" where
  "says_machine J doc base c \<longleftrightarrow>
     (let source = group_of J doc ''machine_status''; named = name_in J doc ''machine_status'';
          active = json_item J source (named ''active_level'' ''machine_status_active_level'');
          p = json_item J source (named ''pull'' ''machine_status_pull'')
      in json_string J (json_item J source (named ''provider'' ''machine_status_provider'')) =
           Some (if machine_status_provider c = DEVICE_CONFIG_MACHINE_GPIO then ''gpio'' else ''disabled'')
       \<and> machine_status_provider c \<in> {DEVICE_CONFIG_MACHINE_GPIO, DEVICE_CONFIG_MACHINE_DISABLED}
       \<and> (says_count J source (named ''gpio'' ''machine_status_gpio'') (machine_status_gpio c)
          \<or> (json_item J source (named ''gpio'' ''machine_status_gpio'') = None
             \<and> machine_status_provider c = DEVICE_CONFIG_MACHINE_DISABLED \<and> machine_status_gpio c = machine_status_gpio base))
       \<and> (if active = None then machine_status_active_high c = machine_status_active_high base
          else json_string J active = Some (if machine_status_active_high c then ''high'' else ''low''))
       \<and> (if p = None then machine_status_pull c = DEVICE_CONFIG_PULL_NONE
          else json_string J p = Some (pull_name (machine_status_pull c)))
       \<and> machine_status_pull c \<in> {DEVICE_CONFIG_PULL_NONE, DEVICE_CONFIG_PULL_UP, DEVICE_CONFIG_PULL_DOWN})"

text \<open>
  The document and the active configuration, if any, determine the candidate: each value comes
  from its group's object or from the root, under the name it has there.
\<close>

definition document_says :: "'j cjson \<Rightarrow> 'j option \<Rightarrow> device_config option \<Rightarrow> device_config \<Rightarrow> bool" where
  "document_says J doc active c \<longleftrightarrow>
     (let mqtt = group_of J doc ''mqtt''; mqtt_name = name_in J doc ''mqtt'';
          maintenance = group_of J doc ''maintenance''; maintenance_name = name_in J doc ''maintenance''
      in says_count J doc ''schema_version'' (schema_version c)
       \<and> revision c = (case active of Some a \<Rightarrow> revision a + 1 | None \<Rightarrow> 1)
       \<and> says_string J doc ''device_id'' (device_id c)
       \<and> says_string J doc ''wifi_ssid'' (wifi_ssid c)
       \<and> says_secret J doc ''wifi_password'' (map_option wifi_password active) (wifi_password c)
       \<and> says_string J mqtt (mqtt_name ''broker_uri'' ''mqtt_broker_uri'') (mqtt_broker_uri c)
       \<and> says_string J mqtt (mqtt_name ''username'' ''mqtt_username'') (mqtt_username c)
       \<and> says_secret J mqtt (mqtt_name ''password'' ''mqtt_password'') (map_option mqtt_password active) (mqtt_password c)
       \<and> says_string J mqtt (mqtt_name ''client_id'' ''mqtt_client_id'') (mqtt_client_id c)
       \<and> says_secret J mqtt (mqtt_name ''ca_certificate'' ''mqtt_ca_certificate'')
            (map_option mqtt_ca_certificate active) (mqtt_ca_certificate c)
       \<and> says_count J doc ''telemetry_interval_seconds'' (telemetry_interval_seconds c)
       \<and> Option.bind (json_item J maintenance (maintenance_name ''on_boot'' ''maintenance_on_boot'')) (bool_value J) =
            Some (maintenance_on_boot c)
       \<and> says_count J maintenance (maintenance_name ''window_seconds'' ''maintenance_window_seconds'') (maintenance_window_seconds c)
       \<and> says_count J maintenance (maintenance_name ''max_session_seconds'' ''maintenance_max_session_seconds'')
            (maintenance_max_session_seconds c)
       \<and> says_machine J doc (candidate_base active) c)"

section \<open>The copies\<close>

lemma copied_string:
  assumes "copy_json_string J object name capacity required t = (True, a)" and "length t = capacity" and "0 < capacity"
  shows "length a = capacity" and "if json_item J object name = None then \<not> required \<and> a = t else says_string J object name a"
proof -
  have none: "json_string J None = None" by (simp add: json_string_def)
  have "length a = capacity \<and> (if json_item J object name = None then \<not> required \<and> a = t else says_string J object name a)"
  proof (cases "json_string J (json_item J object name)")
    case None
    then show ?thesis using assms(1,2) by (auto simp: copy_json_string_def Let_def split: if_splits)
  next
    case (Some s)
    obtain raw where raw: "s = cstr raw" using Some by (auto simp: json_string_def)
    have "json_item J object name \<noteq> None" using Some none by (metis option.distinct(1))
    moreover have "a = store_s t capacity s" "length s < capacity"
      using assms(1) Some \<open>json_item J object name \<noteq> None\<close>
      by (auto simp: copy_json_string_def Let_def case_prod_beta split: if_splits)
    ultimately show ?thesis using assms(2) Some raw by (auto simp: says_string_def store_s_fits)
  qed
  then show "length a = capacity" and "if json_item J object name = None then \<not> required \<and> a = t else says_string J object name a"
    by auto
qed

lemma double_u32_iff: "double_u32 x = Some v \<longleftrightarrow> x = Double (of_int (uint v))"
proof
  assume "double_u32 x = Some v"
  then obtain r where r: "x = Double r" "0 \<le> r" "r \<le> 4294967295" "r = of_int \<lfloor>r\<rfloor>" "v = word_of_int \<lfloor>r\<rfloor>"
    by (cases x) (auto split: if_splits)
  have "0 \<le> \<lfloor>r\<rfloor>" "\<lfloor>r\<rfloor> \<le> 4294967295" using r(2,3) by linarith+
  then have "uint v = \<lfloor>r\<rfloor>" unfolding r(5) by (simp add: uint_word_of_int_eq take_bit_int_eq_self)
  then show "x = Double (of_int (uint v))" using r(1,4) by simp
next
  assume x: "x = Double (of_int (uint v))"
  have int: "double_u32 (Double (of_int i)) = Some (word_of_int i)" if "0 \<le> i" "i < 4294967296" for i
    using that by simp
  have "double_u32 (Double (of_int (uint v))) = Some (word_of_int (uint v))"
    using uint_range_size [of v] by (intro int) (simp_all add: word_size)
  then show "double_u32 x = Some v" unfolding x word_of_int_uint .
qed

lemma read_count:
  assumes "json_uint J object name required t = (True, v)"
  shows "if json_item J object name = None then \<not> required \<and> v = t else says_count J object name v"
  using assms by (auto simp: json_uint_def says_count_def Let_def double_u32_iff split: option.splits if_splits)

section \<open>The parser's result\<close>

text \<open>What the copies make of the fields of a group of strings.\<close>

definition says_field :: "'j cjson \<Rightarrow> 'j option \<Rightarrow> string \<Rightarrow> bool \<Rightarrow> carray \<Rightarrow> carray \<Rightarrow> bool" where
  "says_field J object name required old a \<longleftrightarrow> length a = length old \<and>
     (if json_item J object name = None then \<not> required \<and> a = old else says_string J object name a)"

definition says_uint :: "'j cjson \<Rightarrow> 'j option \<Rightarrow> string \<Rightarrow> bool \<Rightarrow> u32 \<Rightarrow> u32 \<Rightarrow> bool" where
  "says_uint J object name required old v \<longleftrightarrow>
     (if json_item J object name = None then \<not> required \<and> v = old else says_count J object name v)"

lemma string_field_ok:
  assumes "string_field J object name capacity required field field_update c = (True, c')"
    and "length (field c) = capacity" and "0 < capacity"
  shows "\<exists>a. says_field J object name required (field c) a \<and> c' = field_update (\<lambda>_. a) c"
  using assms copied_string [of J object name capacity required "field c"]
  by (auto simp: string_field_def says_field_def split: prod.splits)

lemma uint_field_ok:
  assumes "uint_field J object name required field field_update c = (True, c')"
  shows "\<exists>v. says_uint J object name required (field c) v \<and> c' = field_update (\<lambda>_. v) c"
  using assms read_count [of J object name required "field c"]
  by (auto simp: uint_field_def says_uint_def split: prod.splits)

lemma copy_fields_ok: "copy_fields (f # fs) c = (True, c') \<Longrightarrow> \<exists>c1. f c = (True, c1) \<and> copy_fields fs c1 = (True, c')"
  by (auto split: prod.splits if_splits)

lemma parse_fields_ok:
  assumes "parse_fields J doc has_active c = (True, c')" and l: "config_layout c"
  shows "\<exists>id ssid pw uri user mpw client ca t. c' = c\<lparr>device_id := id, wifi_ssid := ssid, wifi_password := pw,
        mqtt_broker_uri := uri, mqtt_username := user, mqtt_password := mpw, mqtt_client_id := client,
        mqtt_ca_certificate := ca, telemetry_interval_seconds := t\<rparr>
    \<and> says_field J doc ''device_id'' True (device_id c) id
    \<and> says_field J doc ''wifi_ssid'' True (wifi_ssid c) ssid
    \<and> says_field J doc ''wifi_password'' (\<not> has_active) (wifi_password c) pw
    \<and> says_field J (group_of J doc ''mqtt'') (name_in J doc ''mqtt'' ''broker_uri'' ''mqtt_broker_uri'') True (mqtt_broker_uri c) uri
    \<and> says_field J (group_of J doc ''mqtt'') (name_in J doc ''mqtt'' ''username'' ''mqtt_username'') True (mqtt_username c) user
    \<and> says_field J (group_of J doc ''mqtt'') (name_in J doc ''mqtt'' ''password'' ''mqtt_password'') (\<not> has_active) (mqtt_password c) mpw
    \<and> says_field J (group_of J doc ''mqtt'') (name_in J doc ''mqtt'' ''client_id'' ''mqtt_client_id'') True (mqtt_client_id c) client
    \<and> says_field J (group_of J doc ''mqtt'') (name_in J doc ''mqtt'' ''ca_certificate'' ''mqtt_ca_certificate'') (\<not> has_active)
        (mqtt_ca_certificate c) ca
    \<and> says_uint J doc ''telemetry_interval_seconds'' True (telemetry_interval_seconds c) t"
proof -
  note L = l [unfolded config_layout_def, simplified]
  obtain c1 c2 c3 c4 c5 c6 c7 c8 where
    "string_field J doc ''device_id'' 64 True device_id device_id_update c = (True, c1)"
    "string_field J doc ''wifi_ssid'' 33 True wifi_ssid wifi_ssid_update c1 = (True, c2)"
    "string_field J doc ''wifi_password'' 64 (\<not> has_active) wifi_password wifi_password_update c2 = (True, c3)"
    "string_field J (group_of J doc ''mqtt'') (name_in J doc ''mqtt'' ''broker_uri'' ''mqtt_broker_uri'') 256 True
       mqtt_broker_uri mqtt_broker_uri_update c3 = (True, c4)"
    "string_field J (group_of J doc ''mqtt'') (name_in J doc ''mqtt'' ''username'' ''mqtt_username'') 64 True
       mqtt_username mqtt_username_update c4 = (True, c5)"
    "string_field J (group_of J doc ''mqtt'') (name_in J doc ''mqtt'' ''password'' ''mqtt_password'') 128 (\<not> has_active)
       mqtt_password mqtt_password_update c5 = (True, c6)"
    "string_field J (group_of J doc ''mqtt'') (name_in J doc ''mqtt'' ''client_id'' ''mqtt_client_id'') 128 True
       mqtt_client_id mqtt_client_id_update c6 = (True, c7)"
    "string_field J (group_of J doc ''mqtt'') (name_in J doc ''mqtt'' ''ca_certificate'' ''mqtt_ca_certificate'') 4096 (\<not> has_active)
       mqtt_ca_certificate mqtt_ca_certificate_update c7 = (True, c8)"
    "uint_field J doc ''telemetry_interval_seconds'' True telemetry_interval_seconds telemetry_interval_seconds_update c8 = (True, c')"
    using assms(1) by (auto simp: parse_fields_def Let_def split: prod.splits if_splits)
  note st = this
  obtain id where 1: "says_field J doc ''device_id'' True (device_id c) id" "c1 = c\<lparr>device_id := id\<rparr>"
    using string_field_ok [OF st(1)] L by auto
  obtain ssid where 2: "says_field J doc ''wifi_ssid'' True (wifi_ssid c1) ssid" "c2 = c1\<lparr>wifi_ssid := ssid\<rparr>"
    using string_field_ok [OF st(2)] L 1 by auto
  obtain pw where 3: "says_field J doc ''wifi_password'' (\<not> has_active) (wifi_password c2) pw" "c3 = c2\<lparr>wifi_password := pw\<rparr>"
    using string_field_ok [OF st(3)] L 1 2 by auto
  obtain uri where 4: "says_field J (group_of J doc ''mqtt'') (name_in J doc ''mqtt'' ''broker_uri'' ''mqtt_broker_uri'') True
      (mqtt_broker_uri c3) uri" "c4 = c3\<lparr>mqtt_broker_uri := uri\<rparr>"
    using string_field_ok [OF st(4)] L 1 2 3 by auto
  obtain user where 5: "says_field J (group_of J doc ''mqtt'') (name_in J doc ''mqtt'' ''username'' ''mqtt_username'') True
      (mqtt_username c4) user" "c5 = c4\<lparr>mqtt_username := user\<rparr>"
    using string_field_ok [OF st(5)] L 1 2 3 4 by auto
  obtain mpw where 6: "says_field J (group_of J doc ''mqtt'') (name_in J doc ''mqtt'' ''password'' ''mqtt_password'') (\<not> has_active)
      (mqtt_password c5) mpw" "c6 = c5\<lparr>mqtt_password := mpw\<rparr>"
    using string_field_ok [OF st(6)] L 1 2 3 4 5 by auto
  obtain client where 7: "says_field J (group_of J doc ''mqtt'') (name_in J doc ''mqtt'' ''client_id'' ''mqtt_client_id'') True
      (mqtt_client_id c6) client" "c7 = c6\<lparr>mqtt_client_id := client\<rparr>"
    using string_field_ok [OF st(7)] L 1 2 3 4 5 6 by auto
  obtain ca where 8: "says_field J (group_of J doc ''mqtt'') (name_in J doc ''mqtt'' ''ca_certificate'' ''mqtt_ca_certificate'') (\<not> has_active)
      (mqtt_ca_certificate c7) ca" "c8 = c7\<lparr>mqtt_ca_certificate := ca\<rparr>"
    using string_field_ok [OF st(8)] L 1 2 3 4 5 6 7 by auto
  obtain t where 9: "says_uint J doc ''telemetry_interval_seconds'' True (telemetry_interval_seconds c8) t"
      "c' = c8\<lparr>telemetry_interval_seconds := t\<rparr>"
    using uint_field_ok [OF st(9)] by auto
  show ?thesis
    by (rule exI [of _ id], rule exI [of _ ssid], rule exI [of _ pw], rule exI [of _ uri], rule exI [of _ user],
        rule exI [of _ mpw], rule exI [of _ client], rule exI [of _ ca], rule exI [of _ t])
       (use 1 2 3 4 5 6 7 8 9 in simp)
qed

lemma parse_timeouts_ok:
  assumes "parse_timeouts J doc c = (True, c')"
  shows "\<exists>a b. c' = c\<lparr>maintenance_window_seconds := a, maintenance_max_session_seconds := b\<rparr>
    \<and> says_uint J (group_of J doc ''maintenance'') (name_in J doc ''maintenance'' ''window_seconds'' ''maintenance_window_seconds'')
        True (maintenance_window_seconds c) a
    \<and> says_uint J (group_of J doc ''maintenance'') (name_in J doc ''maintenance'' ''max_session_seconds'' ''maintenance_max_session_seconds'')
        True (maintenance_max_session_seconds c) b"
proof -
  let ?source = "group_of J doc ''maintenance''" and ?named = "name_in J doc ''maintenance''"
  obtain c1 where
    1: "uint_field J ?source (?named ''window_seconds'' ''maintenance_window_seconds'') True maintenance_window_seconds
          maintenance_window_seconds_update c = (True, c1)" and
    2: "uint_field J ?source (?named ''max_session_seconds'' ''maintenance_max_session_seconds'') True maintenance_max_session_seconds
          maintenance_max_session_seconds_update c1 = (True, c')"
    using assms by (auto simp: parse_timeouts_def Let_def split: prod.splits if_splits)
  obtain a b where "says_uint J ?source (?named ''window_seconds'' ''maintenance_window_seconds'') True (maintenance_window_seconds c) a"
      "c1 = c\<lparr>maintenance_window_seconds := a\<rparr>"
      "says_uint J ?source (?named ''max_session_seconds'' ''maintenance_max_session_seconds'') True (maintenance_max_session_seconds c1) b"
      "c' = c1\<lparr>maintenance_max_session_seconds := b\<rparr>"
    using uint_field_ok [OF 1] uint_field_ok [OF 2] by blast
  then show ?thesis by (intro exI [of _ a] exI [of _ b]) simp
qed

lemma pull_name_read:
  assumes "parse_pull J item = Some p"
  shows "p \<in> {DEVICE_CONFIG_PULL_NONE, DEVICE_CONFIG_PULL_UP, DEVICE_CONFIG_PULL_DOWN}"
    and "if item = None then p = DEVICE_CONFIG_PULL_NONE else json_string J item = Some (pull_name p)"
  using assms by (auto simp: parse_pull_def pull_name_def split: if_splits)

lemma parse_machine_ok:
  assumes "parse_machine J doc c = (None, c')"
  shows "says_machine J doc c c'
    \<and> c' = c\<lparr>machine_status_provider := machine_status_provider c', machine_status_gpio := machine_status_gpio c',
        machine_status_active_high := machine_status_active_high c', machine_status_pull := machine_status_pull c'\<rparr>"
proof -
  let ?source = "group_of J doc ''machine_status''" and ?named = "name_in J doc ''machine_status''"
  define chosen where "chosen = json_string J (json_item J ?source (?named ''provider'' ''machine_status_provider''))"
  define active where "active = json_item J ?source (?named ''active_level'' ''machine_status_active_level'')"
  define item where "item = json_item J ?source (?named ''pull'' ''machine_status_pull'')"
  define provider where "provider = (if chosen = Some ''gpio'' then DEVICE_CONFIG_MACHINE_GPIO else DEVICE_CONFIG_MACHINE_DISABLED)"
  have sel: "machine_status_provider (c\<lparr>machine_status_provider := x\<rparr>) = x"
    "machine_status_gpio (c\<lparr>machine_status_provider := x\<rparr>) = machine_status_gpio c" for x by simp_all
  note P = assms [unfolded parse_machine_def Let_def sel chosen_def [symmetric] active_def [symmetric] item_def [symmetric]
      provider_def [symmetric]]
  have ch: "chosen = Some ''disabled'' \<or> chosen = Some ''gpio''"
    using P by (auto split: if_splits)
  then have guard: "\<not> (chosen \<noteq> Some ''disabled'' \<and> chosen \<noteq> Some ''gpio'')" by blast
  obtain gpio where g: "json_uint J ?source (?named ''gpio'' ''machine_status_gpio'') (provider = DEVICE_CONFIG_MACHINE_GPIO)
      (machine_status_gpio c) = (True, gpio)"
    using P unfolding if_not_P [OF guard]
    by (cases "json_uint J ?source (?named ''gpio'' ''machine_status_gpio'') (provider = DEVICE_CONFIG_MACHINE_GPIO)
      (machine_status_gpio c)") (auto split: if_splits)
  note P1 = P [unfolded if_not_P [OF guard] g prod.case not_True_eq_False if_False]
  have a: "active = None \<or> json_string J active = Some ''high'' \<or> json_string J active = Some ''low''"
    using P1 by (auto split: if_splits)
  obtain p where p: "parse_pull J item = Some p"
    using P1 by (cases "parse_pull J item") (auto split: if_splits)
  have c': "c' = (let c = c\<lparr>machine_status_provider := provider, machine_status_gpio := gpio\<rparr>;
        c = (if active \<noteq> None then c\<lparr>machine_status_active_high := (json_string J active = Some ''high'')\<rparr> else c)
      in c\<lparr>machine_status_pull := p\<rparr>)"
    using P1 a p by (auto simp: Let_def)
  have pr: "chosen = Some (if provider = DEVICE_CONFIG_MACHINE_GPIO then ''gpio'' else ''disabled'')"
    "provider \<in> {DEVICE_CONFIG_MACHINE_GPIO, DEVICE_CONFIG_MACHINE_DISABLED}"
    using ch by (auto simp: provider_def)
  show ?thesis
    using pr a pull_name_read [OF p] read_count [OF g]
    by (cases "active = None")
       (auto simp: c' says_machine_def Let_def chosen_def [symmetric] active_def [symmetric] item_def [symmetric] split: if_splits)
qed

text \<open>The steps of a parse that ends with a valid configuration.\<close>

lemma parse_configuration_steps:
  assumes "parse_configuration x509 J active doc err n = (ESP_OK, c, e)"
  shows "\<exists>c1 c2 enabled. json_uint J doc ''schema_version'' True 0 = (True, DEVICE_CONFIG_SCHEMA_VERSION)
    \<and> parse_fields J doc (active \<noteq> None) ((candidate_base active)\<lparr>schema_version := DEVICE_CONFIG_SCHEMA_VERSION\<rparr>) = (True, c1)
    \<and> Option.bind (json_item J (group_of J doc ''maintenance'') (name_in J doc ''maintenance'' ''on_boot'' ''maintenance_on_boot''))
        (bool_value J) = Some enabled
    \<and> parse_timeouts J doc (c1\<lparr>maintenance_on_boot := enabled\<rparr>) = (True, c2)
    \<and> parse_machine J doc c2 = (None, c) \<and> validate_quiet x509 c = ESP_OK"
proof -
  note P = assms [unfolded parse_configuration_def Let_def]
  obtain ok version where j: "json_uint J doc ''schema_version'' True 0 = (ok, version)" by fastforce
  have v: "ok" "version = DEVICE_CONFIG_SCHEMA_VERSION" using P unfolding j by (auto split: if_splits)
  let ?c0 = "(candidate_base active)\<lparr>schema_version := DEVICE_CONFIG_SCHEMA_VERSION\<rparr>"
  obtain ok c1 where f: "parse_fields J doc (active \<noteq> None) ?c0 = (ok, c1)" by fastforce
  note P1 = P [unfolded j v(2) prod.case f]
  have ok using P1 v by (auto split: if_splits)
  note f = f [simplified this]
  let ?bool = "Option.bind (json_item J (group_of J doc ''maintenance'')
      (name_in J doc ''maintenance'' ''on_boot'' ''maintenance_on_boot'')) (bool_value J)"
  obtain enabled where b: "?bool = Some enabled" using P1 v \<open>ok\<close> by (cases ?bool) auto
  obtain ok2 c2 where t: "parse_timeouts J doc (c1\<lparr>maintenance_on_boot := enabled\<rparr>) = (ok2, c2)" by fastforce
  note P2 = P1 [unfolded b option.case t prod.case]
  have ok2 using P2 v \<open>ok\<close> by (auto split: if_splits)
  note t = t [simplified this]
  obtain problem c3 where m: "parse_machine J doc c2 = (problem, c3)" by fastforce
  have "problem = None \<and> device_config_validate x509 (Some c3) err n = (ESP_OK, e) \<and> c3 = c"
    using P2 v \<open>ok\<close> \<open>ok2\<close> unfolding m by (auto split: option.splits prod.splits)
  then show ?thesis using j v f b t m
    by (auto simp: device_config_validate_def split: option.splits)
qed

lemma says_required: "says_field J object name True old a \<Longrightarrow> says_string J object name a"
  "says_uint J object name True k v \<Longrightarrow> says_count J object name v"
  by (auto simp: says_field_def says_uint_def split: if_splits)

lemma says_optional:
  assumes "says_field J object name (\<not> active \<noteq> None) old a" and "\<And>x. active = Some x \<Longrightarrow> old = field x"
  shows "says_secret J object name (map_option field active) a"
  using assms by (cases active) (auto simp: says_field_def says_secret_def split: if_splits)

lemma parsed_document:
  assumes R: "parse_configuration x509 J active doc err n = (ESP_OK, c, e)"
    and l: "\<And>a. active = Some a \<Longrightarrow> config_layout a"
  shows "valid_config x509 c \<and> document_says J doc active c"
proof -
  let ?c0 = "(candidate_base active)\<lparr>schema_version := DEVICE_CONFIG_SCHEMA_VERSION\<rparr>"
  obtain c1 c2 enabled where j: "json_uint J doc ''schema_version'' True 0 = (True, DEVICE_CONFIG_SCHEMA_VERSION)"
    and f: "parse_fields J doc (active \<noteq> None) ?c0 = (True, c1)"
    and b: "Option.bind (json_item J (group_of J doc ''maintenance'') (name_in J doc ''maintenance'' ''on_boot'' ''maintenance_on_boot''))
        (bool_value J) = Some enabled"
    and t: "parse_timeouts J doc (c1\<lparr>maintenance_on_boot := enabled\<rparr>) = (True, c2)"
    and m: "parse_machine J doc c2 = (None, c)" and v: "validate_quiet x509 c = ESP_OK"
    using parse_configuration_steps [OF R] by (elim exE conjE) (rule that; assumption)
  have l0: "config_layout ?c0"
    using l by (cases active) (auto simp: candidate_base_def config_layout_def zero_config_def zeros_def)
  obtain id ssid pw uri user mpw client ca tel where c1: "c1 = ?c0\<lparr>device_id := id, wifi_ssid := ssid, wifi_password := pw,
        mqtt_broker_uri := uri, mqtt_username := user, mqtt_password := mpw, mqtt_client_id := client,
        mqtt_ca_certificate := ca, telemetry_interval_seconds := tel\<rparr>"
    and s: "says_field J doc ''device_id'' True (device_id ?c0) id" "says_field J doc ''wifi_ssid'' True (wifi_ssid ?c0) ssid"
      "says_field J doc ''wifi_password'' (\<not> active \<noteq> None) (wifi_password ?c0) pw"
      "says_field J (group_of J doc ''mqtt'') (name_in J doc ''mqtt'' ''broker_uri'' ''mqtt_broker_uri'') True (mqtt_broker_uri ?c0) uri"
      "says_field J (group_of J doc ''mqtt'') (name_in J doc ''mqtt'' ''username'' ''mqtt_username'') True (mqtt_username ?c0) user"
      "says_field J (group_of J doc ''mqtt'') (name_in J doc ''mqtt'' ''password'' ''mqtt_password'') (\<not> active \<noteq> None) (mqtt_password ?c0) mpw"
      "says_field J (group_of J doc ''mqtt'') (name_in J doc ''mqtt'' ''client_id'' ''mqtt_client_id'') True (mqtt_client_id ?c0) client"
      "says_field J (group_of J doc ''mqtt'') (name_in J doc ''mqtt'' ''ca_certificate'' ''mqtt_ca_certificate'') (\<not> active \<noteq> None)
        (mqtt_ca_certificate ?c0) ca"
      "says_uint J doc ''telemetry_interval_seconds'' True (telemetry_interval_seconds ?c0) tel"
    using parse_fields_ok [OF f l0] by (elim exE conjE) (rule that; assumption)
  obtain w x where c2: "c2 = c1\<lparr>maintenance_on_boot := enabled, maintenance_window_seconds := w, maintenance_max_session_seconds := x\<rparr>"
    and u: "says_uint J (group_of J doc ''maintenance'') (name_in J doc ''maintenance'' ''window_seconds'' ''maintenance_window_seconds'')
        True (maintenance_window_seconds (c1\<lparr>maintenance_on_boot := enabled\<rparr>)) w"
      "says_uint J (group_of J doc ''maintenance'') (name_in J doc ''maintenance'' ''max_session_seconds'' ''maintenance_max_session_seconds'')
        True (maintenance_max_session_seconds (c1\<lparr>maintenance_on_boot := enabled\<rparr>)) x"
    using parse_timeouts_ok [OF t] by auto
  note mo = parse_machine_ok [OF m]
  have c: "schema_version c = DEVICE_CONFIG_SCHEMA_VERSION" "revision c = revision (candidate_base active)"
    "device_id c = id" "wifi_ssid c = ssid" "wifi_password c = pw" "mqtt_broker_uri c = uri" "mqtt_username c = user"
    "mqtt_password c = mpw" "mqtt_client_id c = client" "mqtt_ca_certificate c = ca" "telemetry_interval_seconds c = tel"
    "maintenance_on_boot c = enabled" "maintenance_window_seconds c = w" "maintenance_max_session_seconds c = x"
    by (subst conjunct2 [OF mo]; simp add: c1 c2)+
  have base: "machine_status_gpio c2 = machine_status_gpio (candidate_base active)"
    "machine_status_active_high c2 = machine_status_active_high (candidate_base active)" by (simp_all add: c1 c2)
  have lc: "config_layout c" using l0 s unfolding config_layout_def c says_field_def by simp
  have sec: "says_secret J doc ''wifi_password'' (map_option wifi_password active) pw"
    "says_secret J (group_of J doc ''mqtt'') (name_in J doc ''mqtt'' ''password'' ''mqtt_password'') (map_option mqtt_password active) mpw"
    "says_secret J (group_of J doc ''mqtt'') (name_in J doc ''mqtt'' ''ca_certificate'' ''mqtt_ca_certificate'')
       (map_option mqtt_ca_certificate active) ca"
    by (rule says_optional [OF s(3)], simp add: candidate_base_def)
       (rule says_optional [OF s(6)], simp add: candidate_base_def, rule says_optional [OF s(8)], simp add: candidate_base_def)
  have "says_count J doc ''schema_version'' (schema_version c)" using read_count [OF j] by (simp add: c split: if_splits)
  moreover have "revision c = (case active of Some a \<Rightarrow> revision a + 1 | None \<Rightarrow> 1)"
    by (simp add: c candidate_base_def split: option.split)
  moreover have "says_machine J doc (candidate_base active) c"
    using conjunct1 [OF mo] unfolding says_machine_def base .
  ultimately have "document_says J doc active c"
    using says_required(1) [OF s(1)] says_required(1) [OF s(2)] sec says_required(1) [OF s(4)] says_required(1) [OF s(5)]
      says_required(1) [OF s(7)] says_required(2) [OF s(9)] b says_required(2) [OF u(1)] says_required(2) [OF u(2)]
    unfolding document_says_def Let_def c by blast
  then show ?thesis using validate_config_storable [OF lc v] by blast
qed

end
