(* ===== verification/Web_Properties.thy ===== *)
theory Web_Properties
  imports Web_Candidate
begin

text \<open>
  What the provisioning web service promises, and where its guard does not keep what the
  documentation says of it.
\<close>

section \<open>An example\<close>

text \<open>
  A service that runs on the ideal platform with a session, and a request over the access point
  with the given headers and body, served without other tasks.
\<close>

definition example_request :: "(string \<times> string) list \<Rightarrow> string \<Rightarrow> request" where
  "example_request headers b =
     \<lparr>rq_sockfd = 5, rq_getsockname = (\<lambda>_. Some (Sockaddr_in 7, 16)),
      rq_sizes = \<lparr>size_family = 2, size_in = 16, size_in6 = 28, size_storage = 28\<rparr>,
      rq_softap_info = (ESP_OK, 7, 255),
      rq_header = (\<lambda>name capacity. case map_of headers name of None \<Rightarrow> None
         | Some h \<Rightarrow> if length h < capacity \<and> list_all (\<lambda>c. c \<noteq> NUL) h then Some h else None),
      rq_content_len = length b, rq_portions = [b], rq_query_len = 0, rq_query = (\<lambda>_ _. None),
      rq_send = (\<lambda>_. ESP_OK), rq_clock = (\<lambda>k. 1000000 + int k), rq_random = (\<lambda>k. replicate 16 (of_nat k + 1)),
      rq_stream_taken = True, rq_state_taken = True, rq_allocates = (\<lambda>_. True), rq_prints = (\<lambda>_. True),
      rq_async = ESP_OK, rq_task = True, rq_meanwhile = (\<lambda>_. [])\<rparr>"

definition example_web :: "ram web" where
  "example_web = (initial_web (fresh_device []) zero_machine initial_ring initial_health
       (initial_wifi\<lparr>access_point_netif := True\<rparr>) initial_machine_status False initial_mqtt)
     \<lparr>ws_server := True, ws_secret := Some (replicate 32 CHR ''a'' @ [NUL]), ws_machine := True,
      session_token := random_hex (replicate 16 1), csrf_token := random_hex (replicate 16 2),
      session_expires_ms := 900000, session_generation := 3, stream_mutex := True, stream_lifecycle := empty_lifecycle\<rparr>"

definition example_options :: web_options where
  "example_options = \<lparr>max_body_bytes = 8192, session_seconds = 900, login_max_failures = 5, login_lockout_seconds = 60\<rparr>"

lemma example_request_legal: "legal_request (example_request hs b)"
  by (auto simp: legal_request_def example_request_def list_all_iff split: option.splits if_splits)

lemma web_at_quiet [simp]: "rq_meanwhile rq = (\<lambda>_. []) \<Longrightarrow> web_at P rq k w = w"
  by (simp add: web_at_def)

lemma example_web_quiet [simp]: "rq_meanwhile (example_request hs b) = (\<lambda>_. [])"
  by (simp add: example_request_def)

lemma hexadecimal_chars: "hexadecimal c \<Longrightarrow> c \<noteq> NUL \<and> c \<noteq> CHR '';'' \<and> c \<noteq> CHR '' ''"
  by (auto simp: hexadecimal_def less_eq_char_def)

lemma cstr_random_hex: "cstr (random_hex bs) = concat (map hex_byte bs)"
proof -
  have "list_all hexadecimal (concat (map hex_byte bs))" by (rule hex_bytes_facts)
  then have "\<And>c. c \<in> set (concat (map hex_byte bs)) \<Longrightarrow> c \<noteq> NUL" using hexadecimal_chars by (auto simp: list_all_iff)
  then show ?thesis unfolding cstr_def random_hex_def by (subst takeWhile_append2) simp_all
qed

lemma replicate_16: "replicate 16 x = [x, x, x, x, x, x, x, x, x, x, x, x, x, x, x, x]"
  by (simp add: numeral_eq_Suc)

lemma example_bytes: "hex_byte 1 = ''01''" "hex_byte 2 = ''02''"
  by (simp_all add: hex_byte_def hex_digit_def)

lemma example_tokens:
  "cstr (random_hex (replicate 16 1)) = ''01010101010101010101010101010101''"
  "cstr (random_hex (replicate 16 2)) = ''02020202020202020202020202020202''"
  unfolding cstr_random_hex replicate_16 by (simp_all add: example_bytes)

lemma example_inv: "web_inv opt example_web"
  using begin_below [of opt] random_hex_token [of "replicate 16 1"] random_hex_token [of "replicate 16 2"]
  by (auto simp: web_inv_def example_web_def initial_web_def session_typed_def)

lemma example_arrives: "request_arrived_on_softap (example_request hs b) example_web"
  by (simp add: request_arrived_on_softap_def example_request_def example_web_def initial_web_def Let_def
      wifi_get_softap_ipv4_def provisioning_softap_authorize_socket_def provisioning_softap_classify_local_endpoint_def
      provisioning_softap_endpoint_is_authorized_def)

section \<open>The state of the service\<close>

text \<open>
  C14. Whatever is requested, in any order and with any interference by other tasks, starts,
  stops and streams, the session is empty or has two tokens of 32 hexadecimal digits and a
  generation other than 0, fewer login failures are counted than lock the login, and the service
  has its secret, its window and its mutex exactly while its server runs.
\<close>
theorem service_state_stays_well_typed:
  assumes "list_all legal_action acts"
  shows "web_inv opt (fold (web_step J P opt) acts (initial_web d window ring registry station input synced client))"
  using web_inv_run [OF assms web_inv_initial] .

theorem service_state_stays_well_typed_witness:
  "\<forall>(J :: unit cjson) a. web_inv example_options (fold (web_step J ideal_platform example_options)
     [Start True True (\<lambda>_. ESP_OK) (\<lambda>_ _. ESP_OK) \<lparr>max_uri_handlers = 8, max_open_sockets = 7,
          lru_purge_enable = False, recv_wait_timeout = 5, send_wait_timeout = 5, stack_size = 4096\<rparr> None
          (Some (replicate 32 CHR ''a'' @ [NUL])) (Some zero_machine),
      Serve ''/api/reboot'' HTTP_POST a (example_request [] []), Meanwhile Session_cleared]
     (initial_web (fresh_device []) zero_machine initial_ring initial_health initial_wifi initial_machine_status False initial_mqtt))"
  by (intro allI service_state_stays_well_typed) (simp add: example_request_legal)

section \<open>Authentication\<close>

text \<open>
  C5. A request is authenticated exactly when the service is not stopping, the request came in
  over the access point, its cookie is the token of the session, which has not expired, and, if it
  modifies, it carries the session's CSRF token; the generation it is given is the session's.
\<close>
theorem requests_are_authenticated_exactly_for_the_session:
  assumes "legal_request rq" and "session_typed w"
  shows "fst (authenticated P rq modifying w) =
     (let w0 = web_at P rq 0 w; w1 = web_at P rq 1 w0 in
      if \<not> service_is_stopping (rq_stream_taken rq) w0 \<and> request_arrived_on_softap rq w0
         \<and> session_matches rq modifying (web_now_ms (rq_clock rq 0)) w1
      then Some (session_generation w1) else None)"
  unfolding authenticated_cases [OF assms] Let_def by (auto simp: session_matches_def)

theorem requests_are_authenticated_exactly_for_the_session_witness:
  "fst (authenticated ideal_platform (example_request [(''Cookie'', ''IEM_SESSION='' @ ''01010101010101010101010101010101'')] [])
       False example_web) = Some 3
   \<and> fst (authenticated ideal_platform (example_request [(''Cookie'', ''IEM_SESSION='' @ ''01010101010101010101010101010101'')] [])
       True example_web) = None"
proof -
  let ?rq = "example_request [(''Cookie'', ''IEM_SESSION='' @ ''01010101010101010101010101010101'')] []"
  have typed: "session_typed example_web" using example_inv by (simp add: web_inv_def)
  have ok: "\<not> service_is_stopping (rq_stream_taken ?rq) example_web"
    by (simp add: service_is_stopping_def stream_lock_def example_request_def example_web_def initial_web_def empty_lifecycle_def)
  have m: "session_matches ?rq False (web_now_ms (rq_clock ?rq 0)) example_web"
    "\<not> session_matches ?rq True (web_now_ms (rq_clock ?rq 0)) example_web"
    by (simp_all add: session_matches_def cookie_token_def example_request_def example_web_def initial_web_def
        example_tokens web_now_ms_def signed_divide_int_def Let_def)
  show ?thesis
    using requests_are_authenticated_exactly_for_the_session [OF example_request_legal typed, of ideal_platform _ _ False]
      requests_are_authenticated_exactly_for_the_session [OF example_request_legal typed, of ideal_platform _ _ True]
      ok m example_arrives
    by (simp add: example_web_def initial_web_def)
qed

section \<open>Handlers that go on without a session\<close>

text \<open>
  The handlers are left when the guard's result is not \<open>ESP_OK\<close>; it is \<open>ESP_OK\<close> when the 401 reply
  was sent.
\<close>

lemma guard_is_passed:
  assumes "fst (authenticated P rq modifying w) \<noteq> None \<or> rq_send rq (length (web_replies w)) = ESP_OK"
  shows "\<exists>w1. require_auth P rq modifying w = (ESP_OK, w1)"
  using assms require_auth_result [of P rq modifying w] by (cases "require_auth P rq modifying w") (auto split: if_splits)

text \<open>
  C12. A restart needs no session: a client that is not authenticated is told so by the reply 401,
  and, that reply sent, the handler goes on, sends its own reply, under the same status line, and
  restarts the device.
\<close>
theorem reboot_needs_no_session:
  assumes "fst (authenticated P rq True w) = None" and "rq_send rq (length (web_replies w)) = ESP_OK"
  shows "\<exists>w'. reboot_handler P rq w = (ESP_OK, w') \<and> last (web_effects w') = Device_restarted
    \<and> web_replies w' = web_replies w @
        [error_reply rq ''401 Unauthorized'' ''authentication or CSRF validation failed'',
         (''401 Unauthorized'', Text_body ''{\"ok\":true,\"rebooting\":true}'')]"
proof -
  obtain w1 where w1: "require_auth P rq True w = (ESP_OK, w1)" using guard_is_passed assms(2) by blast
  show ?thesis using require_auth_refused(1,2) [OF assms(1)]
    by (simp add: reboot_handler_def delayed_restart_response_def w1 reply_and_restart_def send_json_text_def reply_def)
qed

lemma example_without_cookie: "fst (authenticated P (example_request hs b) modifying w) = None"
  if "map_of hs ''Cookie'' = None"
  using that by (simp add: authenticated_def cookie_token_def example_request_def web_at_def)

lemma example_send [simp]: "rq_send (example_request hs b) k = ESP_OK"
  by (simp add: example_request_def)

theorem reboot_needs_no_session_witness:
  "\<exists>w'. reboot_handler ideal_platform (example_request [] []) example_web = (ESP_OK, w') \<and> last (web_effects w') = Device_restarted"
  using reboot_needs_no_session [of ideal_platform "example_request [] []" example_web]
  by (auto simp: example_without_cookie)

section \<open>Candidates\<close>

text \<open>
  The example's JSON values are the documents themselves; the document gives every field of the
  example configuration, the broker's and the machine's in objects of their own.
\<close>

definition example_json :: "json_out \<Rightarrow> json_out cjson" where
  "example_json document =
     \<lparr>parse_json = (\<lambda>_. Some document),
      is_object = (\<lambda>x. case x of Out_object _ \<Rightarrow> True | _ \<Rightarrow> False),
      get_item = (\<lambda>x name. case x of Out_object ms \<Rightarrow> map_of ms name | _ \<Rightarrow> None),
      string_value = (\<lambda>x. case x of Out_string t \<Rightarrow> Some t | _ \<Rightarrow> None),
      number_value = (\<lambda>x. case x of Out_number n \<Rightarrow> Some (Double (of_int n)) | _ \<Rightarrow> None),
      bool_value = (\<lambda>x. case x of Out_bool b \<Rightarrow> Some b | _ \<Rightarrow> None)\<rparr>"

definition example_document :: json_out where
  "example_document = Out_object
     [(''schema_version'', Out_number 1), (''device_id'', Out_string ''press-04''), (''wifi_ssid'', Out_string ''plant''),
      (''wifi_password'', Out_string ''correct-horse''),
      (''mqtt'', Out_object
         [(''broker_uri'', Out_string ''mqtts://broker.plant:8883''), (''username'', Out_string ''press-04''),
          (''password'', Out_string ''secret''), (''client_id'', Out_string ''press-04-a''),
          (''ca_certificate'', Out_string ''-----BEGIN CERTIFICATE-----'')]),
      (''telemetry_interval_seconds'', Out_number 10),
      (''maintenance_on_boot'', Out_bool True), (''maintenance_window_seconds'', Out_number 300),
      (''maintenance_max_session_seconds'', Out_number 900),
      (''machine_status'', Out_object
         [(''provider'', Out_string ''gpio''), (''gpio'', Out_number 27), (''active_level'', Out_string ''high''),
          (''pull'', Out_string ''up'')])]"

definition example_candidate_config :: device_config where
  "example_candidate_config = example_config\<lparr>revision := 1\<rparr>"

lemma snprintf_zeros: "length s < n \<Longrightarrow> snprintf_s (zeros n) n s = (text_array n s, length s)"
  by (simp add: snprintf_s_def text_array_def zeros_def drop_replicate Suc_diff_Suc flip: replicate_Suc)

lemma example_json_simps [simp]:
  "is_object (example_json z) (Out_object ms)" "\<not> is_object (example_json z) (Out_string t)"
  "get_item (example_json z) (Out_object ms) name = map_of ms name"
  "string_value (example_json z) (Out_string t) = Some t"
  "number_value (example_json z) (Out_number n) = Some (Double (of_int n))"
  "bool_value (example_json z) (Out_bool b) = Some b" "parse_json (example_json z) x = Some z"
  by (simp_all add: example_json_def)

lemma example_copy:
  assumes "map_of ms name = Some (Out_string t)" and "t \<noteq> []" and "length t < n" and "cstr t = t"
  shows "copy_json_string (example_json z) (Some (Out_object ms)) name n required (zeros n) = (True, text_array n t)"
  using assms by (simp add: copy_json_string_def json_item_def json_string_def Let_def snprintf_zeros)

lemma example_count:
  assumes "map_of ms name = Some (Out_number k)" and "0 \<le> k" and "k < 2 ^ 32"
  shows "json_uint (example_json z) (Some (Out_object ms)) name required t = (True, word_of_int k)"
  using assms by (simp add: json_uint_def json_item_def Let_def)

lemma example_groups:
  "group_of (example_json z) (Some example_document) ''mqtt'' = json_item (example_json z) (Some example_document) ''mqtt''"
  "group_of (example_json z) (Some example_document) ''machine_status'' =
     json_item (example_json z) (Some example_document) ''machine_status''"
  "group_of (example_json z) (Some example_document) ''maintenance'' = Some example_document"
  "name_in (example_json z) (Some example_document) ''mqtt'' a b = a"
  "name_in (example_json z) (Some example_document) ''machine_status'' a b = a"
  "name_in (example_json z) (Some example_document) ''maintenance'' a b = b"
  by (simp_all add: group_of_def name_in_def json_is_object_def json_item_def example_document_def)

lemma example_mqtt: "json_item (example_json z) (Some example_document) ''mqtt'' = Some (Out_object
    [(''broker_uri'', Out_string ''mqtts://broker.plant:8883''), (''username'', Out_string ''press-04''),
     (''password'', Out_string ''secret''), (''client_id'', Out_string ''press-04-a''),
     (''ca_certificate'', Out_string ''-----BEGIN CERTIFICATE-----'')])"
  by (simp add: json_item_def example_document_def)

definition example_parsed :: device_config where
  "example_parsed = zero_config\<lparr>schema_version := 1, revision := 1, device_id := text_array 64 ''press-04'',
      wifi_ssid := text_array 33 ''plant'', wifi_password := text_array 64 ''correct-horse'',
      mqtt_broker_uri := text_array 256 ''mqtts://broker.plant:8883'',
      mqtt_username := text_array 64 ''press-04'', mqtt_password := text_array 128 ''secret'',
      mqtt_client_id := text_array 128 ''press-04-a'',
      mqtt_ca_certificate := text_array 4096 ''-----BEGIN CERTIFICATE-----'', telemetry_interval_seconds := 10,
      machine_status_gpio := 27\<rparr>"

lemma example_fields:
  "parse_fields (example_json z) (Some example_document) False
     ((candidate_base None)\<lparr>schema_version := DEVICE_CONFIG_SCHEMA_VERSION\<rparr>) = (True, example_parsed)"
  unfolding parse_fields_def Let_def example_groups example_mqtt
  by (simp add: string_field_def uint_field_def candidate_base_def zero_config_def example_document_def example_copy cstr_Cons
      example_count example_parsed_def)

lemma example_machine:
  "parse_machine (example_json z) (Some example_document) (example_parsed\<lparr>maintenance_on_boot := True,
     maintenance_window_seconds := 300, maintenance_max_session_seconds := 900\<rparr>) = (None, example_candidate_config)"
  unfolding parse_machine_def Let_def example_groups
  by (simp add: json_item_def example_document_def json_string_def cstr_Cons json_uint_def parse_pull_def
      example_parsed_def example_candidate_config_def example_config_def zero_config_def)

lemma example_timeouts:
  "parse_timeouts (example_json z) (Some example_document) (example_parsed\<lparr>maintenance_on_boot := True\<rparr>) =
     (True, example_parsed\<lparr>maintenance_on_boot := True, maintenance_window_seconds := 300, maintenance_max_session_seconds := 900\<rparr>)"
  unfolding parse_timeouts_def Let_def example_groups
  by (simp add: uint_field_def example_document_def example_count)

lemma example_candidate_valid: "validate_quiet (\<lambda>_. 0) example_candidate_config = ESP_OK"
proof -
  have "config_spec (\<lambda>_. 0) example_candidate_config"
    using example_config_spec
    unfolding example_candidate_config_def config_spec_def config_strings_terminated_def gpio_spec_def
    by (elim conjE, intro conjI) simp_all
  moreover have "config_layout example_candidate_config"
    using example_config_layout by (simp add: example_candidate_config_def config_layout_def)
  ultimately show ?thesis by (simp add: validate_message_iff)
qed

lemma example_parse:
  "\<exists>e. parse_configuration (\<lambda>_. 0) (example_json z) None (Some example_document) (zeros 160) 160 =
     (ESP_OK, example_candidate_config, e)"
proof -
  have v: "json_uint (example_json z) (Some example_document) ''schema_version'' True 0 = (True, 1)"
    by (simp add: example_document_def example_count)
  have b: "Option.bind (json_item (example_json z) (Some example_document) ''maintenance_on_boot'') (bool_value (example_json z)) = Some True"
    by (simp add: json_item_def example_document_def)
  have d: "\<exists>e. device_config_validate (\<lambda>_. 0) (Some example_candidate_config) (zeros 160) 160 = (ESP_OK, e)"
    using example_candidate_valid by (simp add: device_config_validate_def)
  show ?thesis
    unfolding parse_configuration_def Let_def v prod.case example_groups b option.case
    using example_fields [of z] example_timeouts [of z] example_machine [of z] d by (auto split: prod.split)
qed

text \<open>
  C13. A document that the parser accepts determines the candidate: each string, number and switch
  is the document's, from its group's object or from the root, a secret that is left out is the
  active configuration's, the revision is the next one, and the result passes validation.
\<close>
theorem parsed_candidate_is_the_document:
  assumes "parse_configuration x509 J active doc err n = (ESP_OK, c, e)"
    and "\<And>a. active = Some a \<Longrightarrow> config_layout a"
  shows "valid_config x509 c \<and> document_says J doc active c"
  using parsed_document [OF assms] .

theorem parsed_candidate_is_the_document_witness:
  "valid_config (\<lambda>_. 0) example_candidate_config
   \<and> document_says (example_json example_document) (Some example_document) None example_candidate_config"
proof -
  obtain e where "parse_configuration (\<lambda>_. 0) (example_json example_document) None (Some example_document) (zeros 160) 160 =
     (ESP_OK, example_candidate_config, e)" using example_parse by blast
  from parsed_candidate_is_the_document [OF this] show ?thesis by simp
qed

text \<open>What a quiet request leaves alone before its handler acts.\<close>

lemma authenticated_quiet:
  assumes "rq_meanwhile rq = (\<lambda>_. [])"
  shows "web_device (snd (authenticated P rq modifying w)) = web_device w"
  using assms by (simp add: authenticated_def record_activity_def Let_def split: prod.split option.split)

lemma require_auth_quiet:
  assumes "rq_meanwhile rq = (\<lambda>_. [])" and "require_auth P rq modifying w = (r, w1)"
  shows "web_device w1 = web_device w" "ws_configuration w1 = ws_configuration w"
    "web_replies w1 = web_replies w @ (if fst (authenticated P rq modifying w) = None
       then [error_reply rq ''401 Unauthorized'' ''authentication or CSRF validation failed''] else [])"
  using assms(2) authenticated_quiet [OF assms(1), of P modifying w] authenticated_frame [of P rq modifying w]
  by (cases "authenticated P rq modifying w"; auto simp: require_auth_def json_error_result split: if_splits)+

definition body_received :: "'j cjson \<Rightarrow> web_options \<Rightarrow> request \<Rightarrow> 'j \<Rightarrow> bool" where
  "body_received J opt rq doc \<longleftrightarrow>
     (\<exists>b. rq_header rq ''Content-Type'' 64 = Some ''application/json'' \<and> 0 < rq_content_len rq
        \<and> rq_content_len rq \<le> max_body_bytes opt \<and> rq_allocates rq 0
        \<and> receive_loop (rq_content_len rq) (rq_portions rq) = Some b \<and> parse_json J b = Some doc \<and> is_object J doc)"

lemma receive_json_ok: "body_received J opt rq doc \<Longrightarrow> receive_json J opt rq w = ((ESP_OK, Some doc), w)"
  by (auto simp: body_received_def receive_json_def Let_def provisioning_security_json_body_allowed_def json_is_object_def char_at_def)

lemma candidate_put_stages:
  assumes R: "reliable P view work" and quiet: "rq_meanwhile rq = (\<lambda>_. [])"
    and sent: "fst (authenticated P rq True w) \<noteq> None \<or> rq_send rq (length (web_replies w)) = ESP_OK"
    and body: "body_received J opt rq doc" and "rq_allocates rq 1"
    and parse: "parse_configuration (p_x509 P) J (ws_configuration w) (Some doc) (zeros 160) 160 = (ESP_OK, c, e)"
    and l: "\<And>a. ws_configuration w = Some a \<Longrightarrow> config_layout a"
    and d: "runs_on view V None (web_device w)" and m: "readable_metadata V m"
  shows "\<exists>w' st. snd (candidate_put_handler J P opt rq w) = w'
    \<and> last (web_replies w') = (st, Text_body ''{\"ok\":true,\"state\":\"pending\"}'')
    \<and> runs_on view (V(KEY_CANDIDATE \<mapsto> Blob (blob_of_config c),
          KEY_METADATA \<mapsto> Blob (blob_of_metadata (staged c m)))) None (web_device w')
    \<and> length (web_replies w') = length (web_replies w) + (if fst (authenticated P rq True w) = None then 2 else 1)"
proof -
  obtain w1 where w1: "require_auth P rq True w = (ESP_OK, w1)" using guard_is_passed sent by blast
  note q = require_auth_quiet [OF quiet w1]
  have "valid_config (p_x509 P) c" using parsed_document [OF parse l] by blast
  then obtain d' where s: "device_config_stage_candidate P (Some c) (web_device w) = (ESP_OK, d')"
    and v: "runs_on view (V(KEY_CANDIDATE \<mapsto> Blob (blob_of_config c),
        KEY_METADATA \<mapsto> Blob (blob_of_metadata (staged c m)))) None d'"
    using stage_ok [OF R d _ m] by blast
  have "snd (candidate_put_handler J P opt rq w) =
      snd (send_json_text rq ''{\"ok\":true,\"state\":\"pending\"}'' (w1\<lparr>web_device := d'\<rparr>))"
    by (simp add: candidate_put_handler_def w1 receive_json_ok [OF body] assms(5) [simplified] quiet q parse s)
  then show ?thesis using v q(3) by (auto simp: send_json_text_def reply_def)
qed

text \<open>
  C6. A candidate needs no session: when nothing fails in the flash, the configuration that the
  document determines is stored as the candidate, to be tried on the next boot, whether the client
  is authenticated or is told by the reply 401 that it is not; it reads the same success message in
  both cases.
\<close>
theorem candidate_is_staged_with_or_without_a_session:
  assumes R: "reliable P view work" and quiet: "rq_meanwhile rq = (\<lambda>_. [])"
    and sent: "fst (authenticated P rq True w) \<noteq> None \<or> rq_send rq (length (web_replies w)) = ESP_OK"
    and body: "body_received J opt rq doc" and "rq_allocates rq 1"
    and parse: "parse_configuration (p_x509 P) J (ws_configuration w) (Some doc) (zeros 160) 160 = (ESP_OK, c, e)"
    and l: "\<And>a. ws_configuration w = Some a \<Longrightarrow> config_layout a"
    and d: "runs_on view V None (web_device w)" and m: "readable_metadata V m"
  shows "\<exists>w' st. snd (candidate_put_handler J P opt rq w) = w'
    \<and> last (web_replies w') = (st, Text_body ''{\"ok\":true,\"state\":\"pending\"}'')
    \<and> view (env (web_device w')) =
        V(KEY_CANDIDATE \<mapsto> Blob (blob_of_config c), KEY_METADATA \<mapsto> Blob (blob_of_metadata (staged c m)))
    \<and> length (web_replies w') = length (web_replies w) + (if fst (authenticated P rq True w) = None then 2 else 1)"
  using candidate_put_stages [OF assms] unfolding runs_on_def by blast

text \<open>The request of the example, which has no cookie.\<close>

definition example_put :: request where
  "example_put = example_request [(''Content-Type'', ''application/json'')] ''{}''"

lemma example_put_body: "body_received (example_json example_document) example_options example_put example_document"
  by (auto simp: body_received_def example_put_def example_request_def example_options_def)
     (simp add: example_document_def)

lemma example_put_parse: "\<exists>e. parse_configuration (p_x509 ideal_platform) (example_json example_document) (ws_configuration example_web)
    (Some example_document) (zeros 160) 160 = (ESP_OK, example_candidate_config, e)"
  using example_parse [of example_document] by (auto simp: ideal_platform_def ram_services_def example_web_def initial_web_def)

lemma example_put_facts:
  "rq_meanwhile example_put = (\<lambda>_. [])" "rq_allocates example_put 1" "fst (authenticated ideal_platform example_put True example_web) = None"
  "fst (authenticated ideal_platform example_put True example_web) \<noteq> None \<or> rq_send example_put (length (web_replies example_web)) = ESP_OK"
  "runs_on durable Map.empty None (web_device example_web)" "readable_metadata Map.empty zero_metadata"
  "ws_configuration example_web = Some a \<Longrightarrow> config_layout a"
  by (simp_all add: example_put_def example_without_cookie runs_on_def readable_metadata_def example_web_def initial_web_def
      fresh_device_def fresh_ram_def) (simp add: example_request_def)

theorem candidate_is_staged_with_or_without_a_session_witness:
  "\<exists>w'. snd (candidate_put_handler (example_json example_document) ideal_platform example_options example_put example_web) = w'
    \<and> durable (env (web_device w')) KEY_CANDIDATE = Some (Blob (blob_of_config example_candidate_config))
    \<and> length (web_replies w') = 2"
proof -
  note f = example_put_facts
  obtain e where parse: "parse_configuration (p_x509 ideal_platform) (example_json example_document) (ws_configuration example_web)
      (Some example_document) (zeros 160) 160 = (ESP_OK, example_candidate_config, e)"
    using example_put_parse by blast
  show ?thesis
    using candidate_is_staged_with_or_without_a_session
      [OF ideal_platform_reliable f(1,4) example_put_body f(2) parse f(7,5,6)] f(3)
    by (auto simp: example_web_def initial_web_def)
qed

end
