(* ===== verification/Web_Login.thy ===== *)
theory Web_Login
  imports Web_Properties
begin

text \<open>
  The login and what follows from it: when a session is made, what its cookie is good for, how
  failures lock the login, and that a refused body counts as a failure.
\<close>

section \<open>The branches of a login\<close>

text \<open>The service after the secret was right, before the replies.\<close>

definition logged_in :: "web_options \<Rightarrow> request \<Rightarrow> 's web \<Rightarrow> 's web" where
  "logged_in opt rq w = session_begin (random_hex (rq_random rq 0)) (random_hex (rq_random rq 1))
     (web_now_ms (rq_clock rq 4) + session_seconds opt * 1000) w"

text \<open>Whether the body's secret is the setup secret.\<close>

definition secret_matches :: "'j cjson \<Rightarrow> 'j option \<Rightarrow> 's web \<Rightarrow> bool" where
  "secret_matches J body w \<longleftrightarrow>
     provisioning_security_constant_time_equal (json_string J (json_item J body ''secret'')) (map_option cstr (ws_secret w))"

lemma session_create_eq:
  assumes "rq_meanwhile rq = (\<lambda>_. [])"
  shows "session_create_handler J P opt rq w =
     (if \<not> request_arrived_on_softap rq w
      then json_error rq ''403 Forbidden'' ''login is available only through the SoftAP'' w
      else if web_now_ms (rq_clock rq 2) < login_locked_until_ms w
      then json_error rq ''429 Too Many Requests'' ''login temporarily locked'' w
      else let ((received, body), w) = receive_json J opt rq w in
        if received \<noteq> ESP_OK then (ESP_OK, w)
        else if \<not> secret_matches J body w
        then json_error rq ''401 Unauthorized'' ''invalid credentials'' (login_failed opt (rq_clock rq 3) w)
        else let w = snd (request_stream_shutdown (rq_stream_taken rq) False (logged_in opt rq w));
            w = w\<lparr>web_effects := web_effects w @ [Cookie_set (session_cookie opt (random_hex (rq_random rq 0)))]\<rparr>;
            (result, w) = send_json rq (session_document (random_hex (rq_random rq 1)) (session_generation w)) w
          in (result, record_activity rq (rq_clock rq 5) w))"
  using assms
  by (simp add: session_create_handler_def secret_matches_def logged_in_def Let_def split: prod.split)

lemma send_json_frame:
  "session_token (snd (send_json rq document w)) = session_token w" "csrf_token (snd (send_json rq document w)) = csrf_token w"
  "session_expires_ms (snd (send_json rq document w)) = session_expires_ms w"
  "session_generation (snd (send_json rq document w)) = session_generation w"
  "stream_lifecycle (snd (send_json rq document w)) = stream_lifecycle w"
  "stream_mutex (snd (send_json rq document w)) = stream_mutex w" "web_wifi (snd (send_json rq document w)) = web_wifi w"
  "web_effects (snd (send_json rq document w)) = web_effects w"
  "login_failures (snd (send_json rq document w)) = login_failures w"
  "login_locked_until_ms (snd (send_json rq document w)) = login_locked_until_ms w"
  "web_machine (snd (send_json rq document w)) = web_machine w" "web_device (snd (send_json rq document w)) = web_device w"
  by (simp_all add: send_json_def json_error_result reply_def)

lemma record_activity_frame:
  "session_token (record_activity rq t w) = session_token w" "csrf_token (record_activity rq t w) = csrf_token w"
  "session_expires_ms (record_activity rq t w) = session_expires_ms w"
  "session_generation (record_activity rq t w) = session_generation w"
  "stream_lifecycle (record_activity rq t w) = stream_lifecycle w" "stream_mutex (record_activity rq t w) = stream_mutex w"
  "web_wifi (record_activity rq t w) = web_wifi w" "login_failures (record_activity rq t w) = login_failures w"
  "login_locked_until_ms (record_activity rq t w) = login_locked_until_ms w" "web_replies (record_activity rq t w) = web_replies w"
  by (simp_all add: record_activity_def)

text \<open>A body that could not be received leaves the service as it is, or with the reply that says so.\<close>

lemma receive_json_frame:
  assumes "receive_json J opt rq w = ((r, body), w')"
  shows "w' = w \<or> (\<exists>st text_message. w' = snd (json_error rq st text_message w))"
  using assms by (auto simp: receive_json_def Let_def split: if_splits option.splits prod.splits) (metis snd_conv)+

lemma receive_json_ok_same:
  assumes "receive_json J opt rq w = ((ESP_OK, Some body), w')"
  shows "w' = w"
  using assms by (auto simp: receive_json_def Let_def split: if_splits option.splits prod.splits)

lemma receive_json_keeps:
  assumes "receive_json J opt rq w = ((r, body), w')"
  shows "web_effects w' = web_effects w" "login_failures w' = login_failures w" "ws_secret w' = ws_secret w"
    "login_locked_until_ms w' = login_locked_until_ms w" "session_token w' = session_token w"
    "session_generation w' = session_generation w" "stream_mutex w' = stream_mutex w"
    "web_wifi w' = web_wifi w" "stream_lifecycle w' = stream_lifecycle w"
  using receive_json_frame [OF assms] by (auto simp: json_error_result)

section \<open>The session that a login makes\<close>

lemma session_cookie_value:
  assumes "length bs = 16"
  shows "takeWhile (\<lambda>c. c \<noteq> CHR '';'') (session_cookie opt (random_hex bs)) = ''IEM_SESSION='' @ cstr (random_hex bs)"
proof -
  let ?h = "cstr (random_hex bs)" and ?r = "''; Path=/; HttpOnly; SameSite=Strict; Max-Age='' @ int_string (session_seconds opt)"
  have h: "length ?h = 32" "list_all hexadecimal ?h" unfolding cstr_random_hex using hex_bytes_facts [of bs] assms
    by (simp_all del: length_concat)
  have "\<forall>c \<in> set (''IEM_SESSION='' @ ?h). c \<noteq> CHR '';''" using h(2) hexadecimal_chars by (auto simp: list_all_iff)
  moreover have "session_cookie opt (random_hex bs) = (''IEM_SESSION='' @ ?h) @ take 83 ?r"
    unfolding session_cookie_def using h(1) by simp
  moreover have "take 83 ?r = CHR '';'' # take 82 (tl ?r)" by simp
  ultimately show ?thesis using takeWhile_append2 [of "''IEM_SESSION='' @ ?h" "\<lambda>c. c \<noteq> CHR '';''" "take 83 ?r"] by simp
qed

lemma cookie_token_read:
  assumes "rq_header rq ''Cookie'' 160 = Some (''IEM_SESSION='' @ cstr (random_hex bs))" and "length bs = 16"
  shows "cookie_token rq = Some (cstr (random_hex bs))"
proof -
  have h: "length (cstr (random_hex bs)) = 32" "list_all hexadecimal (cstr (random_hex bs))"
    unfolding cstr_random_hex using hex_bytes_facts [of bs] assms(2) by (simp_all del: length_concat)
  have "\<And>c. c \<in> set (cstr (random_hex bs)) \<Longrightarrow> c \<noteq> CHR '';'' \<and> c \<noteq> CHR '' ''"
    using h(2) hexadecimal_chars by (auto simp: list_all_iff)
  then have "takeWhile (\<lambda>c. c \<noteq> CHR '';'' \<and> c \<noteq> CHR '' '') (cstr (random_hex bs)) = cstr (random_hex bs)"
    by (subst takeWhile_eq_all_conv) blast
  then have "length (takeWhile (\<lambda>c. c \<noteq> CHR '';'' \<and> c \<noteq> CHR '' '') (cstr (random_hex bs))) = 32" using h(1) by (simp only:)
  then show ?thesis unfolding cookie_token_def assms(1)
    using \<open>takeWhile _ (cstr (random_hex bs)) = cstr (random_hex bs)\<close> h(1) by (simp add: Let_def del: takeWhile_eq_all_conv)
qed

lemma shutdown_keeps_stopping:
  "service_stopping (stream_lifecycle (snd (request_stream_shutdown k False w))) = service_stopping (stream_lifecycle w)"
  "web_wifi (snd (request_stream_shutdown k b w)) = web_wifi w"
  by (simp_all add: request_stream_shutdown_def provisioning_stream_request_shutdown_def Let_def split: prod.splits)

text \<open>The service after a successful login.\<close>

lemma login_success:
  fixes P :: "'s platform" and w :: "'s web"
  assumes quiet: "rq_meanwhile rq = (\<lambda>_. [])" and "request_arrived_on_softap rq w"
    and "\<not> web_now_ms (rq_clock rq 2) < login_locked_until_ms w"
    and rj: "receive_json J opt rq w = ((ESP_OK, Some body), w1)" and "secret_matches J (Some body) w1"
  defines "w' \<equiv> snd (session_create_handler J P opt rq w)"
  shows "session_token w' = random_hex (rq_random rq 0)" "csrf_token w' = random_hex (rq_random rq 1)"
    "session_expires_ms w' = web_now_ms (rq_clock rq 4) + session_seconds opt * 1000"
    "session_generation w' = next_session_generation (session_generation w)" "login_failures w' = 0"
    "last (web_effects w') = Cookie_set (session_cookie opt (random_hex (rq_random rq 0)))"
    "web_wifi w' = web_wifi w" "stream_mutex w' = stream_mutex w"
    "service_stopping (stream_lifecycle w') = service_stopping (stream_lifecycle w)"
    "ws_secret w' = ws_secret w" "ws_server w' = ws_server w"
    "rq_prints rq (session_document (random_hex (rq_random rq 1)) (session_generation w')) \<Longrightarrow>
       last (web_replies w') = (web_status w, Json_body (session_document (random_hex (rq_random rq 1)) (session_generation w')))"
proof -
  define w2 where "w2 = snd (request_stream_shutdown (rq_stream_taken rq) False (logged_in opt rq w1))"
  define w3 where "w3 = w2\<lparr>web_effects := web_effects w2 @ [Cookie_set (session_cookie opt (random_hex (rq_random rq 0)))]\<rparr>"
  have w': "w' = record_activity rq (rq_clock rq 5)
      (snd (send_json rq (session_document (random_hex (rq_random rq 1)) (session_generation w3)) w3))"
    unfolding w'_def session_create_eq [OF quiet] rj Let_def prod.case using assms(2,3,5)
    by (simp add: w3_def w2_def split: prod.split)
  have w1: "session_generation w1 = session_generation w" "web_status w1 = web_status w"
    using receive_json_keeps(6) [OF rj] receive_json_ok_same [OF rj] by simp_all
  show "session_token w' = random_hex (rq_random rq 0)" "csrf_token w' = random_hex (rq_random rq 1)"
    "session_expires_ms w' = web_now_ms (rq_clock rq 4) + session_seconds opt * 1000"
    "session_generation w' = next_session_generation (session_generation w)" "login_failures w' = 0"
    "last (web_effects w') = Cookie_set (session_cookie opt (random_hex (rq_random rq 0)))"
    using w1 by (simp_all add: w' record_activity_frame send_json_frame w3_def w2_def logged_in_def)
       (simp_all add: session_begin_def)
  show "web_wifi w' = web_wifi w" "stream_mutex w' = stream_mutex w"
    "service_stopping (stream_lifecycle w') = service_stopping (stream_lifecycle w)"
    using receive_json_keeps(7,8,9) [OF rj]
    by (simp_all add: w' record_activity_frame send_json_frame w3_def w2_def shutdown_keeps_stopping)
       (simp_all add: logged_in_def session_begin_def)
  show "ws_secret w' = ws_secret w" "ws_server w' = ws_server w"
    using receive_json_ok_same [OF rj]
    by (simp_all add: w' record_activity_def send_json_def json_error_result reply_def w3_def w2_def logged_in_def)
  show "last (web_replies w') = (web_status w, Json_body (session_document (random_hex (rq_random rq 1)) (session_generation w')))"
    if "rq_prints rq (session_document (random_hex (rq_random rq 1)) (session_generation w'))"
    using that w1 by (simp add: w' record_activity_frame send_json_frame)
      (simp add: send_json_def reply_def w3_def w2_def logged_in_def)
qed

lemma arrived_cong: "web_wifi w = web_wifi w' \<Longrightarrow> request_arrived_on_softap rq w = request_arrived_on_softap rq w'"
  by (simp add: request_arrived_on_softap_def)

lemma example_runs: "stream_mutex example_web" "\<not> service_stopping (stream_lifecycle example_web)"
  "rq_stream_taken (example_request hs b)"
  by (simp_all add: example_web_def initial_web_def empty_lifecycle_def example_request_def)

lemma example_header: "rq_header (example_request hs b) name capacity = (case map_of hs name of None \<Rightarrow> None
    | Some h \<Rightarrow> if length h < capacity \<and> list_all (\<lambda>c. c \<noteq> NUL) h then Some h else None)"
  by (simp add: example_request_def)

lemma example_received:
  "receive_json (example_json z) example_options (example_request [(''Content-Type'', ''application/json'')] (x # xs)) w =
     ((ESP_OK, Some z), w)" if "is_object (example_json z) z" "length (x # xs) \<le> 8192"
  by (rule receive_json_ok) (use that in \<open>auto simp: body_received_def example_request_def example_options_def\<close>)

lemma example_unlocked: "\<not> web_now_ms (rq_clock (example_request hs b) k) < login_locked_until_ms example_web"
  by (simp add: example_request_def example_web_def initial_web_def web_now_ms_def signed_divide_int_def)

text \<open>
  C15. Who logs in stays authenticated: after a login with the setup secret, and after whatever
  requests of any clients, streams and steps of other tasks follow, every request over the access
  point that returns the value of the cookie that was set, and, if it modifies, the CSRF token of
  the reply, is authenticated as the new session until that expires. Excepted are only a request to
  log out, a login with the setup secret, a stop of the service and the routes that restart the
  device.
\<close>
theorem logged_in_client_is_authenticated:
  fixes P :: "'s platform" and w :: "'s web"
  assumes rq: "legal_request rq" "rq_meanwhile rq = (\<lambda>_. [])" "request_arrived_on_softap rq w"
      "\<not> web_now_ms (rq_clock rq 2) < login_locked_until_ms w" and runs: "ws_server w"
    and secret: "receive_json J opt rq w = ((ESP_OK, Some body), w1)" "secret_matches J (Some body) w1"
    and prints: "\<And>document. rq_prints rq document"
  defines "w' \<equiv> snd (session_create_handler J P opt rq w)"
  assumes reply: "last (web_effects w') = Cookie_set ck" "last (web_replies w') = (st, Json_body (session_document cs g))"
    and later: "list_all (spares_session J (ws_secret w)) acts"
  defines "w'' \<equiv> fold (web_step J P opt) acts w'"
  assumes rq': "legal_request rq'" "meanwhile keeps_session rq'" "request_arrived_on_softap rq' (web_at P rq' 0 w'')"
      "\<not> service_is_stopping (rq_stream_taken rq') (web_at P rq' 0 w'')"
    and carries: "rq_header rq' ''Cookie'' 160 = Some (takeWhile (\<lambda>c. c \<noteq> CHR '';'') ck)"
      "modifying \<Longrightarrow> rq_header rq' ''X-CSRF-Token'' 40 = Some (cstr cs)"
    and time: "web_now_ms (rq_clock rq' 0) < web_now_ms (rq_clock rq 4) + session_seconds opt * 1000"
  shows "fst (authenticated P rq' modifying w'') = Some (session_generation w')"
proof -
  note S = login_success [OF rq(2,3,4) secret, of P, folded w'_def]
  have len: "length (rq_random rq 0) = 16" "length (rq_random rq 1) = 16" using rq(1) by (simp_all add: legal_request_def)
  have kept: "session_view w'' = session_view w'"
    unfolding w''_def by (rule spared_run) (use later runs S(10,11) in simp_all)
  let ?w1 = "web_at P rq' 1 (web_at P rq' 0 w'')"
  have "session_view ?w1 = session_view w'" using rq'(2) kept by (simp add: kept_session.at)
  then have v: "session_token ?w1 = session_token w'" "csrf_token ?w1 = csrf_token w'" "session_expires_ms ?w1 = session_expires_ms w'"
    "session_generation ?w1 = session_generation w'" by (simp_all add: session_view_def)
  have typed: "session_typed w''" using S(1,2,4) len kept by (simp add: session_typed_def random_hex_token session_view_def)
  have "ck = session_cookie opt (random_hex (rq_random rq 0))" using S(6) reply(1) by simp
  then have "cookie_token rq' = Some (cstr (session_token w'))"
    using cookie_token_read [OF _ len(1), of rq'] carries(1) session_cookie_value [OF len(1), of opt] S(1) by simp
  moreover have "cstr cs = cstr (csrf_token w')" using S(12) prints reply(2) S(2) by (simp add: session_document_def)
  ultimately have "session_matches rq' modifying (web_now_ms (rq_clock rq' 0)) ?w1"
    using carries(2) time S(3) v by (simp add: session_matches_def)
  then show ?thesis unfolding authenticated_cases [OF rq'(1) typed] using rq'(3,4) v(4) by (auto simp: session_matches_def)
qed

lemma example_secret: "secret_matches (example_json z) (Some (Out_object [(''secret'', Out_string (replicate 32 CHR ''a''))])) example_web"
proof -
  have "cstr (replicate 32 CHR ''a'') = replicate 32 CHR ''a''" by (simp add: cstr_def)
  moreover have "cstr (replicate 32 CHR ''a'' @ [NUL]) = cstr (replicate 32 CHR ''a'')" by (rule cstr_append_nul)
  ultimately show ?thesis
    by (simp add: secret_matches_def json_item_def json_string_def example_web_def initial_web_def constant_time_equal_iff)
qed

text \<open>Reading the configuration leaves alone what the check of a request looks at.\<close>

lemma config_handler_frame:
  assumes "rq_meanwhile rq = (\<lambda>_. [])"
  shows "web_wifi (snd (config_handler P rq w)) = web_wifi w" "stream_lifecycle (snd (config_handler P rq w)) = stream_lifecycle w"
    "stream_mutex (snd (config_handler P rq w)) = stream_mutex w"
  using assms by (simp_all add: config_handler_def require_auth_def authenticated_def record_activity_def json_error_result
      send_json_frame Let_def case_prod_beta split: option.split)

lemma serve_config: "serve J P opt a ''/api/config'' HTTP_GET rq w =
    (if ws_server w then snd (config_handler P rq (fresh_request w)) else w)"
  by (simp add: serve_def route_of_def handlers_def)

text \<open>The client has read the configuration, and the clock has been synchronised, before the request that modifies.\<close>

theorem logged_in_client_is_authenticated_witness:
  "\<forall>a. \<exists>ck cs st g. let J = example_json (Out_object [(''secret'', Out_string (replicate 32 CHR ''a''))]);
        w' = snd (session_create_handler J ideal_platform example_options
          (example_request [(''Content-Type'', ''application/json'')] ''{}'') example_web);
        rq' = example_request [(''Cookie'', takeWhile (\<lambda>c. c \<noteq> CHR '';'') ck), (''X-CSRF-Token'', cstr cs)] [] in
      last (web_effects w') = Cookie_set ck \<and> last (web_replies w') = (st, Json_body (session_document cs g))
    \<and> fst (authenticated ideal_platform rq' True
        (fold (web_step J ideal_platform example_options) [Serve ''/api/config'' HTTP_GET a rq', Meanwhile Time_synced] w')) =
        Some (session_generation w')" (is "\<forall>a. ?goal a")
proof
  fix a
  let ?d = "Out_object [(''secret'', Out_string (replicate 32 CHR ''a''))]"
  let ?rq = "example_request [(''Content-Type'', ''application/json'')] ''{}''"
  let ?w' = "snd (session_create_handler (example_json ?d) ideal_platform example_options ?rq example_web)"
  define ck where "ck = session_cookie example_options (random_hex (rq_random ?rq 0))"
  define cs where "cs = random_hex (rq_random ?rq 1)"
  let ?rq' = "example_request [(''Cookie'', takeWhile (\<lambda>c. c \<noteq> CHR '';'') ck), (''X-CSRF-Token'', cstr cs)] []"
  have r: "receive_json (example_json ?d) example_options ?rq example_web = ((ESP_OK, Some ?d), example_web)"
    by (rule example_received) simp_all
  note S = login_success [OF example_web_quiet example_arrives example_unlocked r example_secret, of ideal_platform]
  let ?acts = "[Serve ''/api/config'' HTTP_GET a ?rq', Meanwhile Time_synced]"
  let ?w'' = "fold (web_step (example_json ?d) ideal_platform example_options) ?acts ?w'"
  have later: "list_all (spares_session (example_json ?d) (ws_secret example_web)) ?acts"
    by (simp add: meanwhile_def route_of_def handlers_def)
  have runs: "ws_server example_web" by (simp add: example_web_def initial_web_def)
  have v: "web_wifi ?w'' = web_wifi ?w'" "stream_lifecycle ?w'' = stream_lifecycle ?w'" "stream_mutex ?w'' = stream_mutex ?w'"
    by (simp_all add: serve_config config_handler_frame fresh_request_def)
  have q: "request_arrived_on_softap ?rq' (web_at ideal_platform ?rq' 0 ?w'')"
    "\<not> service_is_stopping (rq_stream_taken ?rq') (web_at ideal_platform ?rq' 0 ?w'')"
    unfolding web_at_quiet [OF example_web_quiet] arrived_cong [OF v(1)] arrived_cong [OF S(7)]
      service_is_stopping_def stream_lock_def v(2,3) S(8,9) using example_arrives
    by (simp_all add: example_runs)
  have m: "meanwhile keeps_session ?rq'" by (simp add: meanwhile_def)
  have p: "rq_prints ?rq document" for document by (simp add: example_request_def)
  have len: "length (rq_random ?rq k) = 16" for k by (simp add: example_request_def)
  have fits32: "length (cstr (random_hex (rq_random ?rq k))) = 32 \<and> NUL \<notin> set (cstr (random_hex (rq_random ?rq k)))" for k
    using random_hex_token [OF len, of k] hex_bytes_facts [of "rq_random ?rq k"] len [of k] hexadecimal_chars
    unfolding cstr_random_hex by (auto simp: list_all_iff simp del: length_concat)
  have h: "rq_header ?rq' ''Cookie'' 160 = Some (takeWhile (\<lambda>c. c \<noteq> CHR '';'') ck)"
    "rq_header ?rq' ''X-CSRF-Token'' 40 = Some (cstr cs)"
    using fits32 [of 0] fits32 [of 1] session_cookie_value [OF len [of 0], of example_options]
    by (auto simp: ck_def cs_def example_header list_all_iff)
  have t: "web_now_ms (rq_clock ?rq' 0) < web_now_ms (rq_clock ?rq 4) + session_seconds example_options * 1000"
    by (simp add: example_request_def example_options_def web_now_ms_def signed_divide_int_def)
  have "fst (authenticated ideal_platform ?rq' True ?w'') = Some (session_generation ?w')"
    by (rule logged_in_client_is_authenticated [OF example_request_legal example_web_quiet example_arrives example_unlocked runs r
        example_secret p S(6) [folded ck_def] S(12) [OF p, folded cs_def] later example_request_legal m q h t])
  then show "?goal a" using S(6) [folded ck_def] S(12) [OF p, folded cs_def] unfolding Let_def by blast
qed

section \<open>The lock\<close>

text \<open>A login whose body arrives and does not have the setup secret.\<close>

definition wrong_login :: "'j cjson \<Rightarrow> web_options \<Rightarrow> 's web \<Rightarrow> request \<Rightarrow> bool" where
  "wrong_login J opt w rq \<longleftrightarrow> rq_meanwhile rq = (\<lambda>_. []) \<and> request_arrived_on_softap rq w
     \<and> \<not> web_now_ms (rq_clock rq 2) < login_locked_until_ms w
     \<and> (\<exists>doc. body_received J opt rq doc \<and> \<not> secret_matches J (Some doc) w)"

lemma wrong_login_step:
  assumes "wrong_login J opt w rq"
  shows "session_create_handler J P opt rq w =
     json_error rq ''401 Unauthorized'' ''invalid credentials'' (login_failed opt (rq_clock rq 3) w)"
proof -
  obtain doc where d: "body_received J opt rq doc" "\<not> secret_matches J (Some doc) w"
    and "rq_meanwhile rq = (\<lambda>_. [])" using assms by (auto simp: wrong_login_def)
  then show ?thesis using assms unfolding session_create_eq [OF \<open>rq_meanwhile rq = (\<lambda>_. [])\<close>]
    by (simp add: wrong_login_def receive_json_ok [OF d(1)] Let_def)
qed

definition serve_logins :: "'j cjson \<Rightarrow> 's platform \<Rightarrow> web_options \<Rightarrow> request list \<Rightarrow> 's web \<Rightarrow> 's web" where
  "serve_logins J P opt rqs w = fold (\<lambda>rq w. snd (session_create_handler J P opt rq (fresh_request w))) rqs w"

text \<open>What the wrong logins do not change, and what a wrong login depends on.\<close>

definition login_view :: "'s web \<Rightarrow> wifi \<times> carray option \<times> carray \<times> carray \<times> int \<times> u64" where
  "login_view w = (web_wifi w, ws_secret w, session_token w, csrf_token w, session_expires_ms w, session_generation w)"

lemma wrong_login_cong:
  "login_view w = login_view w' \<Longrightarrow> login_locked_until_ms w = login_locked_until_ms w' \<Longrightarrow> wrong_login J opt w rq = wrong_login J opt w' rq"
  by (simp add: wrong_login_def login_view_def secret_matches_def arrived_cong [of w w'])

lemma login_failed_view [simp]: "login_view (login_failed opt t w) = login_view w"
  by (simp add: login_failed_def login_view_def Let_def)

lemma wrong_logins_below:
  fixes P :: "'s platform" and w :: "'s web"
  assumes "unat (login_failures w) + length rqs < unat (login_max_failures opt)" and "\<forall>rq \<in> set rqs. wrong_login J opt w rq"
  defines "w' \<equiv> serve_logins J P opt rqs w"
  shows "unat (login_failures w') = unat (login_failures w) + length rqs
    \<and> login_view w' = login_view w \<and> login_locked_until_ms w' = login_locked_until_ms w"
  unfolding w'_def using assms(1,2)
proof (induction rqs arbitrary: w)
  case (Cons rq rqs)
  let ?w = "fresh_request w"
  have f: "login_view ?w = login_view w" "login_locked_until_ms ?w = login_locked_until_ms w" "login_failures ?w = login_failures w"
    by (simp_all add: fresh_request_def login_view_def)
  have "wrong_login J opt ?w rq" using wrong_login_cong [OF f(1,2)] Cons.prems(2) by auto
  note st = wrong_login_step [OF this, of P]
  define w1 where "w1 = snd (session_create_handler J P opt rq ?w)"
  have "unat (login_failures w) + 1 < unat (login_max_failures opt)" using Cons.prems(1) by simp
  then have "unat (login_failures w + 1) = unat (login_failures w) + 1" "login_failures w + 1 < login_max_failures opt"
    using unsigned_less [of "login_max_failures opt", where ?'a = nat] by (auto simp: unat_word_ariths word_less_nat_alt)
  then have w1: "unat (login_failures w1) = unat (login_failures w) + 1" "login_view w1 = login_view w"
    "login_locked_until_ms w1 = login_locked_until_ms w"
    using f unfolding w1_def st by (auto simp: json_error_result login_failed_def Let_def login_view_def)
  have "\<forall>rq \<in> set rqs. wrong_login J opt w1 rq" using Cons.prems(2) wrong_login_cong [OF w1(2,3)] by auto
  then show ?case using Cons.IH [of w1] Cons.prems(1) w1
    by (simp add: serve_logins_def w1_def)
qed (simp add: serve_logins_def)

text \<open>
  C19. Guessing is bounded: as many wrong secrets as the limit allows, sent in any way over
  the access point, leave the session as it was and lock the login; until the lock ends every
  login, the right secret included, is answered with 429 before its body is read.
\<close>
theorem wrong_secrets_lock_the_login:
  fixes P :: "'s platform" and w :: "'s web"
  assumes "login_failures w = 0" and "length rqs + 1 = unat (login_max_failures opt)"
    and "\<forall>rq \<in> set (rqs @ [rq]). wrong_login J opt w rq"
  defines "w' \<equiv> serve_logins J P opt (rqs @ [rq]) w"
  defines "until \<equiv> web_now_ms (rq_clock rq 3) + login_lockout_seconds opt * 1000"
  shows "login_view w' = login_view w \<and> login_failures w' = 0 \<and> login_locked_until_ms w' = until
    \<and> (\<forall>rq'. rq_meanwhile rq' = (\<lambda>_. []) \<and> request_arrived_on_softap rq' w \<and> web_now_ms (rq_clock rq' 2) < until \<longrightarrow>
         session_create_handler J P opt rq' w' = json_error rq' ''429 Too Many Requests'' ''login temporarily locked'' w')"
proof -
  define w1 where "w1 = serve_logins J P opt rqs w"
  have b: "unat (login_failures w1) = length rqs" "login_view w1 = login_view w" "login_locked_until_ms w1 = login_locked_until_ms w"
    using wrong_logins_below [of w rqs opt J P] assms(1,2,3) by (simp_all add: w1_def)
  have w'_eq: "w' = snd (session_create_handler J P opt rq (fresh_request w1))"
    by (simp add: w'_def w1_def serve_logins_def)
  let ?w = "fresh_request w1"
  have f: "login_view ?w = login_view w" "login_locked_until_ms ?w = login_locked_until_ms w" "login_failures ?w = login_failures w1"
    using b by (simp_all add: fresh_request_def login_view_def)
  have "wrong_login J opt ?w rq" using wrong_login_cong [OF f(1,2)] assms(3) by auto
  note st = wrong_login_step [OF this, of P]
  have "unat (login_failures w1 + 1) = length rqs + 1"
    using b(1) assms(2) unsigned_less [of "login_max_failures opt", where ?'a = nat] by (simp add: unat_word_ariths)
  then have "login_failures w1 + 1 \<ge> login_max_failures opt" using assms(2) by (simp add: word_le_nat_alt)
  then have w': "login_view w' = login_view w" "login_failures w' = 0" "login_locked_until_ms w' = until"
    using f by (simp_all add: w'_eq until_def st json_error_result login_failed_def Let_def login_view_def)
  moreover have "request_arrived_on_softap rq' w' = request_arrived_on_softap rq' w" for rq'
    by (rule arrived_cong) (use w'(1) in \<open>simp add: login_view_def\<close>)
  ultimately show ?thesis by (simp add: session_create_eq)
qed

theorem wrong_secrets_lock_the_login_witness:
  "let rq = example_request [(''Content-Type'', ''application/json'')] ''{}'';
       w' = serve_logins (example_json (Out_object [])) ideal_platform example_options [rq, rq, rq, rq, rq] example_web
   in session_create_handler (example_json (Out_object [])) ideal_platform example_options rq w' =
        json_error rq ''429 Too Many Requests'' ''login temporarily locked'' w'"
proof -
  let ?rq = "example_request [(''Content-Type'', ''application/json'')] ''{}''" and ?J = "example_json (Out_object [])"
  have "body_received ?J example_options ?rq (Out_object [])"
    by (auto simp: body_received_def example_request_def example_options_def)
  moreover have "\<not> secret_matches ?J (Some (Out_object [])) example_web"
    by (simp add: secret_matches_def json_item_def json_string_def)
  ultimately have w: "\<forall>rq \<in> set ([?rq, ?rq, ?rq, ?rq] @ [?rq]). wrong_login ?J example_options example_web rq"
    unfolding wrong_login_def using example_arrives example_unlocked by auto
  have z: "login_failures example_web = 0" "length [?rq, ?rq, ?rq, ?rq] + 1 = unat (login_max_failures example_options)"
    by (simp_all add: example_web_def initial_web_def example_options_def)
  have t: "web_now_ms (rq_clock ?rq 2) < web_now_ms (rq_clock ?rq 3) + login_lockout_seconds example_options * 1000"
    by (simp add: example_request_def example_options_def web_now_ms_def signed_divide_int_def)
  show ?thesis
    using wrong_secrets_lock_the_login [OF z w, of ideal_platform] t example_arrives example_web_quiet unfolding Let_def append.simps by blast
qed

text \<open>
  C28. A refused body counts as a wrong secret: a login whose content type is missing or is not the
  one of JSON is answered with 415, and, that reply sent, goes on without a body, counts a failure, which may lock the
  login, and sends a second reply.
\<close>
theorem refused_body_counts_as_wrong_secret:
  fixes opt :: web_options and P :: "'s platform" and w :: "'s web" and J :: "'j cjson"
  assumes "rq_meanwhile rq = (\<lambda>_. [])" and "request_arrived_on_softap rq w"
    and "\<not> web_now_ms (rq_clock rq 2) < login_locked_until_ms w"
    and "\<not> provisioning_security_json_body_allowed (rq_header rq ''Content-Type'' 64) 1 1" and "rq_send rq (length (web_replies w)) = ESP_OK"
  defines "w' \<equiv> snd (session_create_handler J P opt rq w)"
  shows "login_failures w' = login_failures (login_failed opt (rq_clock rq 3) w)
    \<and> login_locked_until_ms w' = login_locked_until_ms (login_failed opt (rq_clock rq 3) w)
    \<and> web_replies w' = web_replies w @
        [error_reply rq ''415 Unsupported Media Type'' ''Content-Type must be application/json'',
         error_reply rq ''401 Unauthorized'' ''invalid credentials'']"
proof -
  have "\<not> secret_matches J None v" for v :: "'s web" by (simp add: secret_matches_def json_item_def json_string_def)
  then show ?thesis
    unfolding w'_def session_create_eq [OF assms(1)]
    using assms(2,3,4,5) by (simp add: receive_json_def json_error_result Let_def login_failed_def)
qed

theorem refused_body_counts_as_wrong_secret_witness:
  "login_failures (snd (session_create_handler (example_json (Out_object [])) ideal_platform example_options (example_request [(''Content-Type'', ''text/plain'')] ''{}'') example_web)) = 1"
proof -
  let ?rq = "example_request [(''Content-Type'', ''text/plain'')] ''{}''"
  have h: "\<not> provisioning_security_json_body_allowed (rq_header ?rq ''Content-Type'' 64) 1 1"
    by (simp add: example_header provisioning_security_json_body_allowed_def)
  have f: "login_failures (login_failed example_options t example_web) = 1" for t
    by (simp add: login_failed_def example_options_def example_web_def initial_web_def Let_def word_le_nat_alt)
  show ?thesis
    using refused_body_counts_as_wrong_secret [OF example_web_quiet example_arrives example_unlocked h example_send,
        where J = "example_json (Out_object [])" and P = ideal_platform and opt = example_options] f by simp
qed

end
