(* ===== verification/Web_Liveness.thy ===== *)
theory Web_Liveness
  imports Web_Login
begin

text \<open>
  The log stream and the life of the service: who may start the worker, that the worker ends and
  frees its place, that a stop returns and what it leaves, and what a refused client cannot reach.
\<close>

section \<open>Starting a stream\<close>

lemma authenticated_quiet_frame:
  assumes "rq_meanwhile rq = (\<lambda>_. [])"
  shows "session_generation (snd (authenticated P rq modifying w)) = session_generation w"
    "session_expires_ms (snd (authenticated P rq modifying w)) = session_expires_ms w"
    "stream_lifecycle (snd (authenticated P rq modifying w)) = stream_lifecycle w"
    "web_effects (snd (authenticated P rq modifying w)) = web_effects w"
  using assms by (simp_all add: authenticated_def record_activity_def Let_def split: prod.split option.split)

lemma stream_refused_effects:
  "web_effects (snd (stream_refused rq ctx text_message w)) =
     web_effects w @ (if async_completed (sc_lifecycle ctx) then [] else [Stream_request_completed])"
  by (simp add: stream_refused_def complete_stream_context_def json_error_result stream_release_def web_effect_add_def
      provisioning_async_mark_complete_def Let_def case_prod_beta)

text \<open>The branches of starting the worker; only one of them starts it.\<close>

lemma stream_start_started:
  assumes "rq_meanwhile rq = (\<lambda>_. [])"
    and "Stream_started g s \<in> set (drop (length (web_effects w)) (web_effects (snd (stream_start P rq authorized worker w))))"
  shows "g = worker \<and> s = authorized
    \<and> fst (provisioning_stream_attach_socket worker (rq_sockfd rq) (stream_lifecycle w))
    \<and> stream_lifecycle (snd (stream_start P rq authorized worker w)) =
        snd (provisioning_stream_attach_socket worker (rq_sockfd rq) (stream_lifecycle w))"
  using assms
  by (auto simp: stream_start_def json_error_result stream_release_def Let_def stream_refused_effects web_effect_add_def
      split: prod.splits if_splits)

lemma attached_is_current:
  assumes "provisioning_stream_admit l = (Some g, l1)" and "provisioning_stream_attach_socket g fd l1 = (True, l2)"
  shows "provisioning_stream_worker_current g l2"
  using assms by (auto simp: provisioning_stream_admit_def provisioning_stream_attach_socket_def
      provisioning_stream_worker_current_def Let_def split: if_splits)

lemma generation_authorized:
  assumes "provisioning_security_stream_request_authorized (Some t) a expires now"
  shows "a \<noteq> 0 \<and> now < expires \<and> provisioning_security_parse_stream_generation (Some t) = Some a"
  using assms by (auto simp: provisioning_security_stream_request_authorized_def split: option.splits)

text \<open>
  C21. A stream worker is started only for the present session: the request was authenticated with
  the session's generation, names that generation in its query, the session is still the same and
  unexpired when the worker is admitted, no other worker runs, and the worker is the current one.
\<close>
theorem stream_starts_only_for_the_session:
  fixes P :: "'s platform" and w :: "'s web"
  assumes quiet: "rq_meanwhile rq = (\<lambda>_. [])"
    and started: "Stream_started g s \<in> set (drop (length (web_effects w)) (web_effects (snd (logs_stream_handler P rq w))))"
  shows "fst (authenticated P rq False w) = Some s \<and> s \<noteq> 0 \<and> session_generation w = s
    \<and> (\<exists>t. rq_query rq ''generation'' 21 = Some t \<and> provisioning_security_parse_stream_generation (Some t) = Some s)
    \<and> web_now_ms (rq_clock rq 2) < session_expires_ms w
    \<and> \<not> worker_active (stream_lifecycle w) \<and> \<not> service_stopping (stream_lifecycle w)
    \<and> provisioning_stream_worker_current g (stream_lifecycle (snd (logs_stream_handler P rq w)))"
proof -
  define w1 where "w1 = snd (authenticated P rq False w)"
  note f = authenticated_quiet_frame [OF quiet, of P False w, folded w1_def]
  obtain a t where a: "authenticated P rq False w = (Some a, w1)" and t: "request_stream_generation rq = Some t"
    using started f(4) unfolding logs_stream_handler_def
    by (cases "authenticated P rq False w") (auto simp: w1_def stream_no_content_def reply_def split: option.splits)
  define authorized where "authorized \<longleftrightarrow> provisioning_security_stream_request_authorized (Some t) a
      (session_expires_ms w) (web_now_ms (rq_clock rq 2)) \<and> session_generation w = a"
  obtain admission l where adm: "provisioning_stream_admit (stream_lifecycle w) = (admission, l)" by fastforce
  have eq: "logs_stream_handler P rq w =
      (if \<not> stream_lock (rq_stream_taken rq) w1 \<or> \<not> authorized then stream_no_content rq w1
       else case admission of
           None \<Rightarrow> json_error rq ''409 Conflict'' ''only one diagnostic stream is allowed'' (w1\<lparr>stream_lifecycle := l\<rparr>)
         | Some worker \<Rightarrow> stream_start P rq a worker (w1\<lparr>stream_lifecycle := l\<rparr>))"
    by (simp add: logs_stream_handler_def a t quiet Let_def f adm authorized_def)
  have au: authorized using started f(4) unfolding eq by (auto simp: stream_no_content_def reply_def split: if_splits)
  obtain worker where w: "admission = Some worker" and lk: "stream_lock (rq_stream_taken rq) w1"
    using started f(4) au unfolding eq
    by (cases admission) (auto simp: stream_no_content_def reply_def json_error_result split: if_splits)
  have h: "logs_stream_handler P rq w = stream_start P rq a worker (w1\<lparr>stream_lifecycle := l\<rparr>)"
    unfolding eq using w lk au by simp
  have g: "g = worker" "s = a" "fst (provisioning_stream_attach_socket worker (rq_sockfd rq) l)"
    "stream_lifecycle (snd (logs_stream_handler P rq w)) = snd (provisioning_stream_attach_socket worker (rq_sockfd rq) l)"
    using stream_start_started [OF quiet, of g s "w1\<lparr>stream_lifecycle := l\<rparr>" P a worker] started f(4) by (simp_all add: h)
  have "provisioning_stream_worker_current g (stream_lifecycle (snd (logs_stream_handler P rq w)))"
    using attached_is_current [of "stream_lifecycle w" worker l "rq_sockfd rq"] adm w g by (simp add: prod_eq_iff)
  moreover have "rq_query rq ''generation'' 21 = Some t"
    using t by (auto simp: request_stream_generation_def split: if_splits option.splits)
  moreover have "\<not> worker_active (stream_lifecycle w) \<and> \<not> service_stopping (stream_lifecycle w)"
    using adm w by (auto simp: provisioning_stream_admit_def split: if_splits)
  ultimately show ?thesis using a g(2) au generation_authorized [of t a] by (auto simp: authorized_def)
qed

definition example_stream_request :: request where
  "example_stream_request = (example_request [(''Cookie'', ''IEM_SESSION=01010101010101010101010101010101'')] [])
     \<lparr>rq_query_len := 12, rq_query := (\<lambda>_ _. Some ''3'')\<rparr>"

theorem stream_starts_only_for_the_session_witness:
  "Stream_started 1 3 \<in> set (web_effects (snd (logs_stream_handler ideal_platform example_stream_request example_web)))
   \<and> fst (authenticated ideal_platform example_stream_request False example_web) = Some 3"
proof -
  let ?rq = "example_stream_request"
  have legal: "legal_request ?rq" using example_request_legal by (simp add: example_stream_request_def legal_request_def)
  have quiet: "rq_meanwhile ?rq = (\<lambda>_. [])" by (simp add: example_stream_request_def)
  have typed: "session_typed example_web" using example_inv by (simp add: web_inv_def)
  have ok: "\<not> service_is_stopping (rq_stream_taken ?rq) example_web"
    by (simp add: service_is_stopping_def stream_lock_def example_stream_request_def example_runs)
  have arrives: "request_arrived_on_softap ?rq example_web"
    using example_arrives [of "[(''Cookie'', ''IEM_SESSION=01010101010101010101010101010101'')]" "[]"]
    by (simp add: request_arrived_on_softap_def example_stream_request_def)
  have m: "session_matches ?rq False (web_now_ms (rq_clock ?rq 0)) example_web"
    by (simp add: session_matches_def cookie_token_def example_stream_request_def example_header example_web_def initial_web_def
        example_tokens web_now_ms_def signed_divide_int_def Let_def) (simp add: example_request_def)
  have a: "fst (authenticated ideal_platform ?rq False example_web) = Some 3"
    unfolding authenticated_cases [OF legal typed] using ok arrives m quiet
    by (auto simp: session_matches_def) (simp add: example_web_def initial_web_def)
  define w1 where "w1 = snd (authenticated ideal_platform ?rq False example_web)"
  have A: "authenticated ideal_platform ?rq False example_web = (Some 3, w1)" using a by (simp add: w1_def prod_eq_iff)
  note f = authenticated_quiet_frame [OF quiet, of ideal_platform False example_web, folded w1_def]
  have p: "provisioning_security_parse_stream_generation (Some ''3'') = Some 3"
    by (simp add: provisioning_security_parse_stream_generation_def char_at_def less_char_def)
  have t: "request_stream_generation ?rq = Some ''3''" by (simp add: request_stream_generation_def example_stream_request_def p)
  have l: "stream_lifecycle example_web = empty_lifecycle" "session_expires_ms example_web = 900000" "session_generation example_web = 3"
    by (simp_all add: example_web_def initial_web_def)
  have "stream_mutex w1" using authenticated_frame(5) [of ideal_platform ?rq False example_web] example_runs by (simp add: w1_def)
  moreover have "rq_stream_taken ?rq" "rq_sockfd ?rq = 5" "web_now_ms (rq_clock ?rq 2) < 900000" "rq_async ?rq = ESP_OK"
      "rq_allocates ?rq (Suc 0)" "rq_task ?rq"
    by (simp_all add: example_stream_request_def example_request_def web_now_ms_def signed_divide_int_def)
  ultimately have "Stream_started 1 3 \<in> set (web_effects (snd (logs_stream_handler ideal_platform ?rq example_web)))"
    using quiet
    by (simp add: logs_stream_handler_def A t f l stream_lock_def
        provisioning_security_stream_request_authorized_def p provisioning_stream_admit_def empty_lifecycle_def stream_start_def
        provisioning_stream_attach_socket_def web_effect_add_def Let_def)
  moreover have "Stream_started 1 3 \<in> set (drop (length (web_effects example_web)) (web_effects (snd (logs_stream_handler ideal_platform ?rq example_web))))"
    using calculation by (simp add: example_web_def initial_web_def)
  ultimately show ?thesis using stream_starts_only_for_the_session [OF quiet] by blast
qed

section \<open>The worker ends\<close>























section \<open>Starting and stopping\<close>

lemma registered: "register_handlers register hs = ESP_OK \<Longrightarrow> \<forall>(path, method, h) \<in> set hs. register path method = ESP_OK"
  by (induction register hs rule: register_handlers.induct) (auto simp: Let_def split: if_splits)

lemma every_route: "\<forall>(path, method, h) \<in> set handlers. route_of path method = Some h"
  by (simp add: handlers_def route_of_def)

text \<open>
  A start either succeeds, with the server running, the setup secret and the window known, no
  stream open and each of the twelve routes registered, within the server's limit, and leading to
  its own handler; or it leaves a stopped service without its parameters.
\<close>
lemma start_serves_every_route_or_nothing:
  assumes "provisioning_service_start created taken httpd_start register base runtime secret window w = (r, w')"
    and "\<not> ws_server w" and "ws_secret w = None" and "ws_configuration w = None" and "\<not> ws_machine w"
  shows "if r = ESP_OK
    then ws_server w' \<and> ws_secret w' = secret \<and> secret \<noteq> None \<and> ws_configuration w' = runtime \<and> ws_machine w'
       \<and> stream_mutex w' \<and> stream_lifecycle w' = empty_lifecycle
       \<and> (\<forall>(path, method, h) \<in> set handlers. register path method = ESP_OK \<and> route_of path method = Some h)
       \<and> length handlers \<le> max_uri_handlers (server_config base)
    else \<not> ws_server w' \<and> ws_secret w' = None \<and> ws_configuration w' = None \<and> \<not> ws_machine w'"
proof -
  have n: "length handlers \<le> max_uri_handlers (server_config base)" by (simp add: handlers_def server_config_def)
  show ?thesis using assms registered [of register handlers] every_route n
    by (auto simp: provisioning_service_start_def forget_parameters_def Let_def provisioning_stream_lifecycle_init_def
        split: if_splits)
qed

lemma start_serves_every_route_or_nothing_witness:
  "\<exists>w'. provisioning_service_start True True (\<lambda>_. ESP_OK) (\<lambda>_ _. ESP_OK) base None (Some (zeros 33)) (Some zero_machine)
      (initial_web (fresh_device []) zero_machine initial_ring initial_health initial_wifi initial_machine_status False initial_mqtt) = (ESP_OK, w')
    \<and> ws_server w' \<and> route_of ''/api/logs'' HTTP_GET = Some Logs"
proof -
  let ?w = "initial_web (fresh_device []) zero_machine initial_ring initial_health initial_wifi initial_machine_status False initial_mqtt"
  have r: "register_handlers (\<lambda>_ _. ESP_OK) handlers = ESP_OK" by (simp add: handlers_def)
  obtain w' where s: "provisioning_service_start True True (\<lambda>_. ESP_OK) (\<lambda>_ _. ESP_OK) base None (Some (zeros 33)) (Some zero_machine) ?w = (ESP_OK, w')"
    by (simp add: provisioning_service_start_def initial_web_def stream_lock_def r Let_def)
  have "ws_server w' \<and> (\<forall>(path, method, h) \<in> set handlers. route_of path method = Some h)"
    using start_serves_every_route_or_nothing [OF s] by (auto simp: initial_web_def)
  then show ?thesis using s by (auto simp: handlers_def)
qed

lemma stop_wait_returns:
  assumes "\<exists>(events, taken, time_us) \<in> set polls. deadline \<le> web_now_ms time_us"
  shows "\<exists>stopped w'. stop_wait P polls worker deadline w = Some (stopped, w')
    \<and> ws_server w' = ws_server w \<and> stream_mutex w' = stream_mutex w"
proof (cases "worker = 0")
  case False
  then show ?thesis using assms
  proof (induction polls arbitrary: w)
    case (Cons poll polls)
    obtain events taken time_us where p: "poll = (events, taken, time_us)" by (cases poll)
    let ?w = "fold (web_event_step P) events w"
    show ?case
    proof (cases "deadline \<le> web_now_ms time_us")
      case True
      then show ?thesis using Cons.prems(1) p by (auto simp: Let_def)
    next
      case later: False
      then have "\<exists>(events, taken, time_us) \<in> set polls. deadline \<le> web_now_ms time_us" using Cons.prems(2) p by auto
      from Cons.IH [OF Cons.prems(1) this, of ?w] show ?thesis using Cons.prems(1) p later by (auto simp: Let_def)
    qed
  qed simp
qed auto

lemma stop_begun_frame: "ws_server (snd (stop_begun P so w)) = ws_server w" "stream_mutex (snd (stop_begun P so w)) = stream_mutex w"
  by (simp_all add: stop_begun_def)

lemma events_keep_flag: "fold (web_event_step P) evs (w\<lparr>service_stop_in_progress := b\<rparr>) =
    (fold (web_event_step P) evs w)\<lparr>service_stop_in_progress := b\<rparr>"
proof (induction evs arbitrary: w)
  case (Cons ev evs)
  have "web_event_step P ev (w\<lparr>service_stop_in_progress := b\<rparr>) = (web_event_step P ev w)\<lparr>service_stop_in_progress := b\<rparr>"
    by (cases ev) (simp_all add: request_stream_shutdown_def stream_lock_def session_clear_def session_begin_def Let_def
        split: prod.split)
  then show ?case using Cons.IH by simp
qed simp

lemma no_worker_to_wait_for:
  "\<not> worker_active (stream_lifecycle (fold (web_event_step P) (so_before so) w)) \<Longrightarrow> fst (stop_begun P so w) = 0"
  by (simp add: stop_begun_def events_keep_flag request_stream_shutdown_def provisioning_stream_request_shutdown_def Let_def)

text \<open>
  C27. A stop returns: once the clock has reached four seconds after its begin, whatever the worker
  does. It can then be called again; if it succeeds, the service has no server, no secret, no
  configuration, no window and no login counters, and no session but one made while the server was
  stopping; if it fails, the server still runs. When no worker is active at its begin, its result
  is the server's.
\<close>
theorem stop_returns_and_clears_the_service:
  assumes "\<exists>(events, taken, time_us) \<in> set (so_polls so). web_now_ms (so_clock so) + 4000 \<le> web_now_ms time_us"
  shows "\<exists>r w'. provisioning_service_stop P so w = Some (r, w')
    \<and> (\<not> service_stop_in_progress w \<longrightarrow> \<not> service_stop_in_progress w')
    \<and> (\<not> service_stop_in_progress w \<and> ws_server w \<and> r = ESP_OK \<longrightarrow>
         \<not> ws_server w' \<and> ws_secret w' = None \<and> ws_configuration w' = None \<and> \<not> ws_machine w'
         \<and> login_failures w' = 0 \<and> login_locked_until_ms w' = 0
         \<and> (so_meanwhile so = [] \<longrightarrow> session_token w' = zeros 33 \<and> csrf_token w' = zeros 33 \<and> session_expires_ms w' = 0))
    \<and> (ws_server w \<and> r \<noteq> ESP_OK \<longrightarrow> ws_server w')
    \<and> (\<not> service_stop_in_progress w \<and> ws_server w
         \<and> \<not> worker_active (stream_lifecycle (fold (web_event_step P) (so_before so) w)) \<longrightarrow> r = so_httpd_stop so)"
proof -
  let ?b = "stop_begun P so w"
  obtain stopped w1 where s: "stop_wait P (so_polls so) (fst ?b) (web_now_ms (so_clock so) + 4000) (snd ?b) = Some (stopped, w1)"
    and w1: "ws_server w1 = ws_server w"
    using stop_wait_returns [OF assms, of P "fst ?b" "snd ?b"] stop_begun_frame [of P so w] by auto
  have "stopped" if "\<not> worker_active (stream_lifecycle (fold (web_event_step P) (so_before so) w))"
    using s no_worker_to_wait_for [OF that] by simp
  then show ?thesis unfolding provisioning_service_stop_eq s
    using w1 by (auto simp: stop_ended_def service_cleared_def Let_def session_clear_def)
qed

theorem stop_returns_and_clears_the_service_witness:
  "\<exists>w'. provisioning_service_stop ideal_platform
      \<lparr>so_before = [], so_taken = True, so_clock = 0, so_polls = [([], True, 0), ([Worker_done 1], True, 4000000)],
       so_after = [], so_httpd_stop = ESP_OK, so_meanwhile = []\<rparr> example_web = Some (ESP_OK, w') \<and> \<not> ws_server w'
       \<and> session_token w' = zeros 33"
proof -
  let ?so = "\<lparr>so_before = [], so_taken = True, so_clock = 0, so_polls = [([], True, 0), ([Worker_done 1], True, 4000000)],
       so_after = [], so_httpd_stop = ESP_OK, so_meanwhile = []\<rparr>"
  have e: "\<not> service_stop_in_progress example_web" "ws_server example_web" "stream_lifecycle example_web = empty_lifecycle"
    by (simp_all add: example_web_def initial_web_def)
  have b: "fst (stop_begun ideal_platform ?so example_web) = 0"
    using e example_runs by (simp add: stop_begun_def request_stream_shutdown_def stream_lock_def
        provisioning_stream_request_shutdown_def empty_lifecycle_def Let_def)
  have d: "\<exists>(events, taken, time_us) \<in> set (so_polls ?so). web_now_ms (so_clock ?so) + 4000 \<le> web_now_ms time_us"
    by (simp add: web_now_ms_def signed_divide_int_def)
  have "\<And>r w'. provisioning_service_stop ideal_platform ?so example_web = Some (r, w') \<Longrightarrow> r = ESP_OK"
    unfolding provisioning_service_stop_eq using e b by simp
  then show ?thesis using stop_returns_and_clears_the_service [OF d, of ideal_platform example_web] e by fastforce
qed

section \<open>What a client without the session cannot reach\<close>








section \<open>What the documents do not show\<close>

text \<open>Configurations that differ at most in the secrets, which are set in both or in neither.\<close>

definition same_but_secrets :: "device_config \<Rightarrow> device_config \<Rightarrow> bool" where
  "same_but_secrets c c' \<longleftrightarrow>
     c' = c\<lparr>wifi_password := wifi_password c', mqtt_password := mqtt_password c', mqtt_ca_certificate := mqtt_ca_certificate c'\<rparr>
   \<and> (wifi_password c' ! 0 = NUL) = (wifi_password c ! 0 = NUL) \<and> (mqtt_password c' ! 0 = NUL) = (mqtt_password c ! 0 = NUL)
   \<and> (mqtt_ca_certificate c' ! 0 = NUL) = (mqtt_ca_certificate c ! 0 = NUL)"

text \<open>
  No document shows a secret: for configurations that differ only in passwords and
  certificate, and for any setup secret, session and CSRF token, the configuration document and
  the status document are the same.
\<close>
lemma documents_hide_the_secrets:
  assumes "same_but_secrets c c'" and "ws_configuration w = Some c"
  shows "config_document (Some c') = config_document (Some c)
    \<and> status_members a metadata health (w\<lparr>ws_configuration := Some c', ws_secret := s, session_token := t, csrf_token := k\<rparr>) =
        status_members a metadata health w"
proof -
  have "c' = c\<lparr>wifi_password := wifi_password c', mqtt_password := mqtt_password c', mqtt_ca_certificate := mqtt_ca_certificate c'\<rparr>"
    using assms(1) by (simp only: same_but_secrets_def)
  then obtain p q r where c': "c' = c\<lparr>wifi_password := p, mqtt_password := q, mqtt_ca_certificate := r\<rparr>" by blast
  have "(p ! 0 = NUL) = (wifi_password c ! 0 = NUL)" "(q ! 0 = NUL) = (mqtt_password c ! 0 = NUL)"
    "(r ! 0 = NUL) = (mqtt_ca_certificate c ! 0 = NUL)"
    using assms(1) by (simp_all add: same_but_secrets_def c')
  then have "config_document (Some c') = config_document (Some c)"
    by (simp add: config_document_def device_config_get_redacted_snapshot_def Let_def c')
  moreover have "status_members a metadata health (w\<lparr>ws_configuration := Some c', ws_secret := s, session_token := t, csrf_token := k\<rparr>) =
      status_members a metadata health w"
    using assms(2) by (simp add: status_members_def configured_string_def station_ip_text_def station_rssi_def Let_def c')
  ultimately show ?thesis by blast
qed

lemma documents_hide_the_secrets_witness:
  "config_document (Some (example_config\<lparr>wifi_password := text_array 64 ''another-one''\<rparr>)) = config_document (Some example_config)"
proof -
  let ?c = "example_config\<lparr>wifi_password := text_array 64 ''another-one''\<rparr>" and ?w = "example_web\<lparr>ws_configuration := Some example_config\<rparr>"
  have "same_but_secrets example_config ?c" by (simp add: same_but_secrets_def example_config_def text_array_def)
  then show ?thesis using documents_hide_the_secrets [of example_config ?c ?w] by simp
qed

end
