(* ===== verification/System_Properties.thy ===== *)
theory System_Properties
  imports App_Properties Web_Liveness
begin

text \<open>
  What the components promise together: a configuration sent to the web service over the restart
  to the active configuration, and the maintenance task with the service that it stops.
\<close>

section \<open>From a request to the active configuration\<close>

text \<open>The boot sequence from the choice of the configuration, when a valid candidate waits and nothing fails.\<close>

lemma waiting_candidate_becomes_active:
  assumes R: "reliable P contents work" and limit: "boot_attempts m < candidate_max_attempts P"
    and d: "configuration_mutex (app_device s)" "contents (env (app_device s)) = V"
    and m: "readable_metadata V m" "md_state m = DEVICE_CONFIG_STATE_PENDING" "candidate_revision m = revision c"
    and c: "V KEY_CANDIDATE = Some (Blob (blob_of_config c))" "valid_config (p_x509 P) c"
    and fresh: "fresh s" "\<not> telemetry_task_handle (app_telemetry s)" "\<not> sv_task_handle (app_service s)"
      "app_log s = initial_log v" "sv_health (app_service s) = initial_health" "health_mutex_created e"
    and ok: "all_answers_ok (p_x509 P) e c (app_secret s)"
  shows "\<exists>s'. choose_configuration P io e s = (Operational, s')
    \<and> contents (env (app_device s')) KEY_ACTIVE = Some (Blob (blob_of_config c)) \<and> contents (env (app_device s')) KEY_CANDIDATE = None"
proof -
  obtain d' where d': "device_config_load_for_boot P (Some (app_configuration s, False, zero_metadata)) (app_device s) =
      (Some \<lparr>boot_err = ESP_OK, boot_config = c, using_candidate = True, boot_metadata = tried m\<rparr>, ESP_OK, d')"
      "runs_on contents (V(KEY_METADATA \<mapsto> Blob (blob_of_metadata (tried m)))) (Some (revision c)) d'"
    using boot_candidate_ok [OF R d m(1,2) limit m(3) c] by blast
  obtain l where l: "diagnostic_log_init (initial_log v) = (ESP_OK, l)"
    by (auto simp: diagnostic_log_init_def initial_log_def Let_def)
  obtain h where h: "device_health_init True initial_health = (ESP_OK, h)"
    by (auto simp: device_health_init_def initial_health_def Let_def)
  define t where "t = s\<lparr>app_log := l, app_service := (app_service s)\<lparr>sv_health := h\<rparr>,
      app_machine := provisioning_state_init (state_mutex_created e) (app_machine s), app_device := d', app_configuration := c\<rparr>"
  have "choose_configuration P io e s = start_network P io e True True t"
    by (simp add: choose_configuration_def fresh(4,5,6) l h d'(1) esp_error_check_def t_def Let_def)
  moreover have "readable_metadata (V(KEY_METADATA \<mapsto> Blob (blob_of_metadata (tried m)))) (tried m)"
    using readable_stored [OF m(1)] by (simp add: readable_metadata_def)
  moreover have "fresh t" "\<not> telemetry_task_handle (app_telemetry t)" "\<not> sv_task_handle (app_service t)"
    "app_secret t = app_secret s" "app_configuration t = c" "app_device t = d'"
    using fresh by (simp_all add: t_def fresh_def)
  ultimately show ?thesis
    using working_candidate [OF R, of "V(KEY_METADATA \<mapsto> Blob (blob_of_metadata (tried m)))" c t "tried m" e io] d'(2) m(2,3) c ok
    by (auto simp: tried_def)
qed

text \<open>
  C16. A configuration sent to the device becomes the active one: when nothing fails and the
  document of a request determines a configuration, the boot that finds the flash as the request
  left it tries that configuration, and if the station, the clock and the broker answer in time,
  the sequence ends operational with it as the active configuration. This holds for clients with a
  session, and for clients without one that were told so by the reply 401.
\<close>
theorem sent_configuration_becomes_active:
  assumes R: "reliable P contents work" and quiet: "rq_meanwhile rq = (\<lambda>_. [])"
    and sent: "fst (authenticated P rq True w) \<noteq> None \<or> rq_send rq (length (web_replies w)) = ESP_OK"
    and body: "body_received J opt rq doc" "rq_allocates rq 1"
    and parse: "parse_configuration (p_x509 P) J (ws_configuration w) (Some doc) (zeros 160) 160 = (ESP_OK, c, e)"
    and l: "\<And>a. ws_configuration w = Some a \<Longrightarrow> config_layout a"
    and d: "runs_on contents V None (web_device w)" and m: "readable_metadata V m" and limit: "0 < candidate_max_attempts P"
    and boot: "configuration_mutex (app_device s)"
      "\<forall>key \<in> {KEY_CANDIDATE, KEY_METADATA}. contents (env (app_device s)) key =
         contents (env (web_device (snd (candidate_put_handler J P opt rq w)))) key"
    and fresh: "fresh s" "\<not> telemetry_task_handle (app_telemetry s)" "\<not> sv_task_handle (app_service s)"
      "app_log s = initial_log v" "sv_health (app_service s) = initial_health" "health_mutex_created b"
    and ok: "all_answers_ok (p_x509 P) b c (app_secret s)"
  shows "\<exists>s'. choose_configuration P io b s = (Operational, s')
    \<and> contents (env (app_device s')) KEY_ACTIVE = Some (Blob (blob_of_config c)) \<and> contents (env (app_device s')) KEY_CANDIDATE = None"
proof -
  let ?V = "contents (env (app_device s))"
  have "?V KEY_CANDIDATE = Some (Blob (blob_of_config c))" "?V KEY_METADATA = Some (Blob (blob_of_metadata (staged c m)))"
    using candidate_put_stages [OF R quiet sent body parse l d m] boot(2) by (auto simp: runs_on_def)
  moreover from this readable_stored [OF m] have "readable_metadata ?V (staged c m)"
    by (simp add: readable_metadata_def staged_def)
  moreover have "valid_config (p_x509 P) c" using parsed_document [OF parse l] by blast
  ultimately show ?thesis
    using waiting_candidate_becomes_active [OF R, of "staged c m" s ?V c v b io] limit boot(1) fresh ok
    by (simp add: staged_def)
qed

text \<open>The device of the example after the request and a restart.\<close>

definition example_restarted :: "(ram, nat, unit) app" where
  "example_restarted = (example_app \<lparr>configuration_mutex = True, candidate_validation_in_progress = False,
       candidate_validation_revision = 0, env = env (web_device (snd (candidate_put_handler (example_json example_document)
         ideal_platform example_options example_put example_web)))\<rparr>)\<lparr>app_secret := replicate 32 CHR ''a'' @ [NUL]\<rparr>"

lemma example_restarted_facts:
  "configuration_mutex (app_device example_restarted)" "fresh example_restarted"
  "\<not> telemetry_task_handle (app_telemetry example_restarted)" "\<not> sv_task_handle (app_service example_restarted)"
  "app_log example_restarted = initial_log ()" "sv_health (app_service example_restarted) = initial_health"
  "env (app_device example_restarted) = env (web_device (snd (candidate_put_handler (example_json example_document)
     ideal_platform example_options example_put example_web)))" "app_secret example_restarted = replicate 32 CHR ''a'' @ [NUL]"
  by (simp_all add: example_restarted_def example_app_def fresh_def example_service_def)

lemma example_candidate_answers:
  "all_answers_ok (p_x509 ideal_platform) example_boot example_candidate_config (replicate 32 CHR ''a'' @ [NUL])"
proof -
  have wifi: "fst (wifi_init_runtime example_wifi_platform (Some example_candidate_config) True
      (Some (replicate 32 CHR ''a'' @ [NUL])) initial_wifi) = ESP_OK"
    by (simp add: wifi_init_runtime_def configure_softap_def example_wifi_platform_def Let_def cstr_Cons eval_nat_numeral)
  have "mqtt_configuration_is_valid (\<lambda>_. 0) (Some example_candidate_config)"
    using example_candidate_valid by (simp add: mqtt_configuration_is_valid_def validate_quiet_def device_config_validate_def)
  then have mqtt: "fst (mqtt_init (\<lambda>_. 0) example_mqtt_platform (Some example_candidate_config) initial_mqtt) = ESP_OK"
    by (simp add: mqtt_init_def Let_def initial_mqtt_def MQTT_ERROR_STATE_INITIALIZER_def mqtt_error_state_init_def
        example_mqtt_platform_def mqtt_set_topics_def)
  show ?thesis
    using wifi mqtt
    by (simp add: all_answers_ok_def example_boot_def station_works_def clock_works_def broker_works_def station_up_def
        up_after_def ideal_platform_def ram_services_def)
qed

theorem sent_configuration_becomes_active_witness:
  "\<exists>s'. choose_configuration ideal_platform example_bus example_boot example_restarted = (Operational, s')
    \<and> durable (env (app_device s')) KEY_ACTIVE = Some (Blob (blob_of_config example_candidate_config))"
proof -
  note f = example_put_facts and s = example_restarted_facts
  obtain e where parse: "parse_configuration (p_x509 ideal_platform) (example_json example_document) (ws_configuration example_web)
      (Some example_document) (zeros 160) 160 = (ESP_OK, example_candidate_config, e)"
    using example_put_parse by blast
  have limit: "0 < candidate_max_attempts ideal_platform" by simp
  have h: "health_mutex_created example_boot" by (simp add: example_boot_def)
  have flash: "\<forall>key \<in> {KEY_CANDIDATE, KEY_METADATA}. durable (env (app_device example_restarted)) key =
      durable (env (web_device (snd (candidate_put_handler (example_json example_document) ideal_platform example_options
        example_put example_web)))) key"
    by (simp add: s)
  show ?thesis
    using sent_configuration_becomes_active [OF ideal_platform_reliable f(1,4) example_put_body f(2) parse f(7,5,6) limit
        s(1) flash s(2-6) h] example_candidate_answers s(8)
    by auto
qed

section \<open>The maintenance task and the service\<close>

text \<open>The calls of the maintenance task to the service, one after the other, up to the first that does not time out.\<close>

fun stop_attempts :: "'s platform \<Rightarrow> stop_answers list \<Rightarrow> 's web \<Rightarrow> esp_err list \<times> 's web" where
  "stop_attempts P [] w = ([], w)"
| "stop_attempts P (so # sos) w =
     (case provisioning_service_stop P so w of
        None \<Rightarrow> ([], w)
      | Some (r, w) \<Rightarrow> if r = ESP_ERR_TIMEOUT then let (rs, w) = stop_attempts P sos w in (r # rs, w) else ([r], w))"

definition stop_returns :: "stop_answers \<Rightarrow> bool" where
  "stop_returns so \<longleftrightarrow> (\<exists>(events, taken, time_us) \<in> set (so_polls so). web_now_ms (so_clock so) + 4000 \<le> web_now_ms time_us)"

definition service_gone :: "'s web \<Rightarrow> bool" where
  "service_gone w \<longleftrightarrow> \<not> ws_server w \<and> ws_secret w = None \<and> ws_configuration w = None \<and> \<not> ws_machine w"

lemma stop_once:
  assumes "stop_returns so" and "ws_server w" and "\<not> service_stop_in_progress w"
  shows "\<exists>r w'. provisioning_service_stop P so w = Some (r, w') \<and> \<not> service_stop_in_progress w'
    \<and> (if r = ESP_OK then service_gone w' else ws_server w')"
proof -
  let ?b = "stop_begun P so w"
  obtain stopped w1 where s: "stop_wait P (so_polls so) (fst ?b) (web_now_ms (so_clock so) + 4000) (snd ?b) = Some (stopped, w1)"
    and w1: "ws_server w1 = ws_server w"
    using stop_wait_returns [of "so_polls so" _ P "fst ?b" "snd ?b"] assms(1) stop_begun_frame [of P so w]
    unfolding stop_returns_def by metis
  show ?thesis unfolding provisioning_service_stop_eq s
    using w1 assms(2,3) by (auto simp: stop_ended_def service_cleared_def service_gone_def Let_def session_clear_def)
qed

lemma stop_attempts_result:
  assumes "list_all stop_returns sos" and "ws_server w" and "\<not> service_stop_in_progress w"
    and "stop_attempts P sos w = (rs, w')"
  shows "list_all (\<lambda>r. r = ESP_ERR_TIMEOUT) (butlast rs)
    \<and> (if rs \<noteq> [] \<and> last rs = ESP_OK then service_gone w' else ws_server w')
    \<and> (length rs = length sos \<or> rs \<noteq> [] \<and> last rs \<noteq> ESP_ERR_TIMEOUT) \<and> (sos \<noteq> [] \<longrightarrow> rs \<noteq> [])"
  using assms
proof (induction sos arbitrary: w rs w')
  case (Cons so sos)
  obtain r w1 where s: "provisioning_service_stop P so w = Some (r, w1)" "\<not> service_stop_in_progress w1"
      "if r = ESP_OK then service_gone w1 else ws_server w1"
    using stop_once [of so w P] Cons.prems(1,2,3) by auto
  show ?case
  proof (cases "r = ESP_ERR_TIMEOUT")
    case True
    obtain rs1 w2 where a: "stop_attempts P sos w1 = (rs1, w2)" by fastforce
    have eq: "rs = r # rs1" "w' = w2" using Cons.prems(4) True a by (simp_all add: s(1))
    have "ws_server w1" using s(3) True by simp
    from Cons.IH [OF _ this s(2) a] Cons.prems(1) True show ?thesis by (auto simp: eq)
  next
    case False
    then show ?thesis using Cons.prems(4) s by auto
  qed
qed simp

lemma stop_again_all:
  "list_all (\<lambda>r. r = ESP_ERR_TIMEOUT) (butlast rs) \<Longrightarrow> stop_again rs = (rs, rs \<noteq> [] \<and> last rs \<noteq> ESP_ERR_TIMEOUT)"
  by (induction rs) (auto split: if_splits)

text \<open>
  C18. The setup network and the web service close with the maintenance window: when the window is
  over, the access point is switched off exactly once, right after the first call that stops the
  service, also when that call times out; the call is repeated until it does not time out, and the
  task ends then. If the last call succeeds, the service has no server, no secret, no configuration
  and no window; otherwise its server still runs.
\<close>
theorem maintenance_closes_network_and_service:
  assumes closed: "fst (maintenance_wait (ticks e) (app_machine s))"
    and attempts: "stop_attempts P sos w = (stop_results e, w')" "sos \<noteq> []" "list_all stop_returns sos"
    and running: "ws_server w" "\<not> service_stop_in_progress w"
  shows "\<exists>r rs q. stop_results e = r # rs
    \<and> app_events (snd (maintenance_task e s)) = app_events s @ Provisioning_stopped r # Softap_closed q # map Provisioning_stopped rs
    \<and> list_all (\<lambda>x. x = ESP_ERR_TIMEOUT) (butlast (r # rs)) \<and> (fst (maintenance_task e s) \<or> length (r # rs) = length sos)
    \<and> fst (maintenance_task e s) = (last (r # rs) \<noteq> ESP_ERR_TIMEOUT)
    \<and> (softap_enabled (app_wifi s) \<and> close_result e = ESP_OK \<longrightarrow> driver_mode (app_wifi (snd (maintenance_task e s))) = Some WIFI_MODE_STA)
    \<and> (if last (r # rs) = ESP_OK then service_gone w' else ws_server w')"
proof -
  note A = stop_attempts_result [OF attempts(3) running attempts(1)]
  obtain r rs where rs: "stop_results e = r # rs" using A attempts(2) by (cases "stop_results e") auto
  obtain machine where machine: "maintenance_wait (ticks e) (app_machine s) = (True, machine)"
    using closed by (cases "maintenance_wait (ticks e) (app_machine s)") simp
  obtain q v where w: "wifi_disable_softap (close_result e) (app_wifi s) = (q, v)" by fastforce
  have mode: "softap_enabled (app_wifi s) \<and> close_result e = ESP_OK \<longrightarrow> driver_mode v = Some WIFI_MODE_STA"
    using w by (auto simp: wifi_disable_softap_def)
  let ?s = "emit (Softap_closed q) ((emit (Provisioning_stopped r) (s\<lparr>app_machine := machine\<rparr>))\<lparr>app_wifi := v\<rparr>)"
  have "list_all (\<lambda>x. x = ESP_ERR_TIMEOUT) (butlast rs)" using A rs by (cases "rs = []") simp_all
  note again = stop_again_all [OF this]
  have "rs = []" if "r \<noteq> ESP_ERR_TIMEOUT" using A rs that by (cases rs) auto
  then have eq: "maintenance_task e s = (last (r # rs) \<noteq> ESP_ERR_TIMEOUT, fold (\<lambda>r. emit (Provisioning_stopped r)) rs ?s)"
    by (cases "r = ESP_ERR_TIMEOUT") (auto simp: maintenance_task_def machine w rs again Let_def)
  show ?thesis unfolding eq
    using A rs mode by (intro exI [of _ r] exI [of _ rs] exI [of _ q])
      (auto simp: emit_stops [THEN conjunct1] emit_stops [THEN conjunct2])
qed

text \<open>A worker that ends only after the first call has timed out.\<close>

definition example_stops :: "stop_answers list" where
  "example_stops =
     [\<lparr>so_before = [], so_taken = True, so_clock = 0, so_polls = [([], True, 4000000)], so_after = [],
        so_httpd_stop = ESP_OK, so_meanwhile = []\<rparr>,
      \<lparr>so_before = [Worker_done 1], so_taken = True, so_clock = 5000000, so_polls = [([], True, 9000000)], so_after = [],
        so_httpd_stop = ESP_OK, so_meanwhile = []\<rparr>]"

definition example_streaming_web :: "ram web" where
  "example_streaming_web = example_web\<lparr>stream_lifecycle := snd (provisioning_stream_admit empty_lifecycle)\<rparr>"

lemma example_stop_attempts:
  "fst (stop_attempts ideal_platform example_stops example_streaming_web) = [ESP_ERR_TIMEOUT, ESP_OK]"
  by (simp add: example_stops_def example_streaming_web_def example_web_def initial_web_def provisioning_stream_admit_def
      empty_lifecycle_def provisioning_service_stop_def request_stream_shutdown_def stream_lock_def Let_def
      provisioning_stream_request_shutdown_def provisioning_stream_complete_def provisioning_stream_stop_satisfied_def
      web_now_ms_def signed_divide_int_def)

theorem maintenance_closes_network_and_service_witness:
  "\<exists>w' q. app_events (snd (maintenance_task (example_maintenance\<lparr>stop_results := [ESP_ERR_TIMEOUT, ESP_OK]\<rparr>)
       (example_start\<lparr>app_machine := Some example_window\<rparr>))) =
     [Provisioning_stopped ESP_ERR_TIMEOUT, Softap_closed q, Provisioning_stopped ESP_OK]
   \<and> snd (stop_attempts ideal_platform example_stops example_streaming_web) = w' \<and> service_gone w'"
proof -
  let ?s = "example_start\<lparr>app_machine := Some example_window\<rparr>" and ?e = "example_maintenance\<lparr>stop_results := [ESP_ERR_TIMEOUT, ESP_OK]\<rparr>"
  have closed: "fst (maintenance_wait (ticks ?e) (app_machine ?s))"
    by (simp add: example_maintenance_def tick_eq window_over_def state_lock_def example_window_facts)
  have a: "stop_attempts ideal_platform example_stops example_streaming_web =
      (stop_results ?e, snd (stop_attempts ideal_platform example_stops example_streaming_web))"
    using example_stop_attempts by (simp add: prod_eq_iff)
  have l: "example_stops \<noteq> []" "list_all stop_returns example_stops"
    by (simp_all add: example_stops_def stop_returns_def web_now_ms_def signed_divide_int_def)
  have r: "ws_server example_streaming_web" "\<not> service_stop_in_progress example_streaming_web"
    by (simp_all add: example_streaming_web_def example_web_def initial_web_def)
  show ?thesis using maintenance_closes_network_and_service [OF closed a l r]
    by (auto simp: example_start_def example_app_def)
qed

end
