(* ===== verification/Spec2Isabelle.thy ===== *)
theory Spec2Isabelle
  imports
    Config_Properties
    Provisioning_State
    Provisioning_Security
    Stream_Lifecycle
    Softap_Endpoint
    Diagnostic_Reader
    Diagnostic_Log
    System_Properties
begin

text \<open>
  Verification library of the firmware of the industrial edge monitor
  (\<^verbatim>\<open>src/firmware\<close>): a device that measures temperature and humidity, reports them over
  MQTT with TLS, and is configured over a web service on its own access point.

  \<^bold>\<open>The program.\<close> \<^verbatim>\<open>main/app_main.c\<close> starts everything: the storage of \<^verbatim>\<open>device_config\<close>, the
  recovery over the serial console, the choice between the active configuration and a staged
  candidate, the radio (\<^verbatim>\<open>wifi\<close>), the provisioning web service with its maintenance window
  (\<^verbatim>\<open>provisioning_service\<close>, \<^verbatim>\<open>provisioning_state\<close>), the clock (\<^verbatim>\<open>system_time\<close>), the MQTT client
  (\<^verbatim>\<open>mqtt_client_app\<close>), the sensor (\<^verbatim>\<open>i2c_bus\<close>, \<^verbatim>\<open>bme280\<close>, \<^verbatim>\<open>sensor\<close>), and the two periodic tasks
  \<^verbatim>\<open>telemetry\<close> and \<^verbatim>\<open>device_health_service\<close>. A candidate is tried on boots of a bounded number; it
  becomes active only after station, clock and broker have answered, and is rolled back otherwise.
  \<^verbatim>\<open>device_health\<close> is the registry that the tasks share, \<^verbatim>\<open>diagnostic_log\<close> the ring of log records
  that the web service streams.

  \<^bold>\<open>How the code is modelled.\<close> The statics of a file are a record, a function of the file is a
  definition of its name that takes the state and returns it with the result, a C integer is a
  word of its width, a character array is a list of characters with its terminator, an
  \<^verbatim>\<open>esp_err_t\<close> is a value of \<open>esp_err\<close>, a null pointer is \<open>None\<close>. What is not part of the sources
  is a parameter: the NVS, heap and mutex functions are the record \<open>platform\<close>, whose documented
  behaviour is \<open>nvs_contract\<close> and, without faults, \<open>reliable\<close>; the I2C master is \<open>i2c_master\<close>;
  cJSON is \<open>cjson\<close>; the answers of the Wi-Fi driver, the MQTT client, the HTTP server and FreeRTOS
  are records of inputs. \<open>Ram_Platform\<close> instantiates the platform for the examples, with and
  without faults. Other tasks appear as lists of events between two accesses to shared state, so
  that a statement over all lists covers every interleaving at that grain.

  \<^bold>\<open>Theories and sources.\<close>
  \<^item> \<open>Prelude\<close>: widths, character arrays and the string functions of the C library, error codes,
    the interfaces \<open>invariant_system\<close>, \<open>absorbing_system\<close> and \<open>codec\<close>.
  \<^item> \<^verbatim>\<open>device_config.h\<close>, \<^verbatim>\<open>device_config.c\<close>: \<open>Config_Model\<close> (data, validation, redaction),
    \<open>Config_Store\<close> (operations). \<open>Config_Nvs\<close> states what the blob readers and writers achieve under
    the contract, \<open>Config_Steps\<close> the abstract store and its atomic steps, \<open>Config_Ops\<close> that every
    operation, whatever calls fail in it, is a sequence of such steps, \<open>Config_Safety\<close> what holds
    over sequences of operations and restarts, \<open>Config_Progress\<close> what succeeds when nothing fails,
    \<open>Config_Properties\<close> the properties.
  \<^item> \<^verbatim>\<open>device_config_storage.c\<close>: \<open>Config_Storage\<close> (the binary format, as a \<open>codec\<close>).
  \<^item> \<^verbatim>\<open>provisioning_state.c\<close>: \<open>Provisioning_State\<close>. \<^verbatim>\<open>provisioning_security.c\<close>:
    \<open>Provisioning_Security\<close> (comparisons, parsing, authorisation) and \<open>Stream_Lifecycle\<close> (the one
    stream worker). \<^verbatim>\<open>provisioning_softap_endpoint.c\<close>: \<open>Softap_Endpoint\<close>.
  \<^item> \<^verbatim>\<open>provisioning_service.c\<close>: \<open>Web_State\<close> (statics, requests, replies, authentication),
    \<open>Web_Session\<close> (page, login, logout), \<open>Web_Config\<close> (status, configuration, the candidate, the
    restarts), \<open>Web_Stream\<close> (logs and their stream), \<open>Web_Service\<close> (routes, start, stop). \<open>Web_Auth\<close>
    and \<open>Web_Invariant\<close> hold the invariants of the session over every handler (interfaces
    \<open>request_invariant\<close> and, extending it, \<open>session_invariant\<close>), \<open>Web_Candidate\<close> the parser as a relation between a document and a
    configuration, \<open>Web_Properties\<close>, \<open>Web_Login\<close> and \<open>Web_Liveness\<close> the properties.
  \<^item> \<^verbatim>\<open>diagnostic_ring.c\<close>: \<open>Diagnostic_Ring\<close>, with a reader that follows it in \<open>Diagnostic_Reader\<close>
    (interface \<open>log_source\<close>). \<^verbatim>\<open>diagnostic_log.c\<close>: \<open>Diagnostic_Log\<close>.
  \<^item> \<^verbatim>\<open>device_health.c\<close>: \<open>Device_Health\<close>. \<^verbatim>\<open>device_health_service.c\<close>: \<open>Device_Health_Service\<close>.
  \<^item> \<^verbatim>\<open>i2c_bus.c\<close>, \<^verbatim>\<open>bme280.c\<close>: \<open>Bme280\<close>, with the formulas in \<open>Bme280_Compensation\<close> and C's
    single-precision numbers in \<open>Float32\<close>. \<^verbatim>\<open>sensor.c\<close>: \<open>Sensor\<close>. \<^verbatim>\<open>machine_status.c\<close>:
    \<open>Machine_Status\<close>. \<^verbatim>\<open>system_time.c\<close>: \<open>System_Time\<close>.
  \<^item> \<^verbatim>\<open>telemetry_model.c\<close>, \<^verbatim>\<open>telemetry_json.c\<close>: \<open>Telemetry_Model\<close>. \<^verbatim>\<open>telemetry.c\<close>: \<open>Telemetry\<close>.
  \<^item> \<^verbatim>\<open>mqtt_client_app.c\<close>, \<^verbatim>\<open>mqtt_error_state.c\<close>: \<open>Mqtt_Client\<close>. \<^verbatim>\<open>wifi.c\<close>: \<open>Wifi\<close>.
    \<^verbatim>\<open>serial_recovery.c\<close>: \<open>Serial_Recovery\<close>.
  \<^item> \<^verbatim>\<open>app_main.c\<close>: \<open>App_Main\<close>, the effects of its parts in \<open>App_Effects\<close>, its properties in
    \<open>App_Properties\<close>. There the web service is represented by its results; \<open>System_Properties\<close>
    connects the two: a request's configuration over the next boot to the active one, and the
    maintenance task with the calls that stop the service.

  \<^bold>\<open>What is shown.\<close> Safety of the stored configuration under any faults and restarts; the round
  trips of the binary format; validation and the parser of candidates against declarative
  specifications; the rules by which a candidate is tried, activated and rolled back; who is
  authenticated and for how long, when the login locks, when a stream starts, that it ends and that a stop returns;
  typing of the service's state; the maintenance window; the log ring as the newest records and its
  lossless reader; soundness of published samples and the exact temperature; authenticated MQTT
  clients; retry and convergence of the health reports; reconnection of the station; the serial
  recovery. Each property has an instance on concrete inputs beside it.

  \<^bold>\<open>What modelling showed.\<close> The guard of the routes, \<open>require_auth\<close>, returns the result of
  sending the 401 reply, which is \<open>ESP_OK\<close>: the handlers go on for clients without a session
  (\<open>candidate_is_staged_with_or_without_a_session\<close>, \<open>reboot_needs_no_session\<close>), and in the same way a
  login goes on without a body (\<open>refused_body_counts_as_wrong_secret\<close>). The level letter of a
  standard log line is never found (\<open>standard_lines_lose_their_level\<close>). A rejected online
  announcement is not repeated (\<open>online_is_announced_once_per_connection\<close>). The driver of the sensor
  accepts calibrations for which its signed arithmetic overflows
  (\<open>temperature_overflows_outside_the_range\<close>). A broker URI may have a
  path (\<open>broker_uri_path_is_accepted\<close>).

  \<^bold>\<open>Bounds.\<close> The only numeric bounds are the code's: 64 records and 8 of them in a batch, 30
  rounds of a stream worker, the sizes of the buffers, the widths of the words. Loops without a
  bound in the code (the polls of a stop, the ticks of a window, the attempts to stop, the cycles of
  a task) run over a list of what they meet, of any length; a loop that is still waiting at the end
  of the list says so, by \<open>None\<close> or a Boolean, and that the loop ends is stated as such
  (\<open>stop_returns_and_clears_the_service\<close>, \<open>maintenance_closes_network_and_service\<close>). The generations of
  streams are distinct for fewer than \<open>2 ^ 64\<close> admissions, those of sessions for fewer than
  \<open>2 ^ 64 - 1\<close> sessions.

  \<^bold>\<open>Not modelled.\<close> The embedded page and the content type and cache headers of the replies,
  constant text; log messages; the wiping of buffers, which no function reads afterwards
  (\<^verbatim>\<open>secure_clear\<close>, \<^verbatim>\<open>clear_candidate_json_secrets\<close>); the sources of the SDK. Of the options of the build
  (\<^verbatim>\<open>components/config\<close>) those of the web service and the number of boot attempts are parameters,
  while the Wi-Fi retries, the topic prefix and the MQTT quality of service are fixed at their
  defaults. Stack and memory safety of C are not
  part of the model, except where a buffer's size decides a result. The Python backend, the web
  frontend, their tests and the deployment scripts are other programs that talk to the firmware
  over MQTT and are outside this development.
\<close>

end
